(* ===== verification/Prelude.thy ===== *)
theory Prelude
  imports Main "HOL-Library.Word"
begin

text \<open>
  What every component of the model shares: Rust's \<open>Result\<close> with panics, Rust's
  fixed-width integers with their checked and saturating operations, and actions on an
  external world (an RPC server, a clock, a file system) as explicit state passing.

  A panic (an \<open>unwrap\<close> of \<open>None\<close>, an \<open>expect\<close>, an overflow of a plain \<open>+\<close> in a
  debug build) is the value \<open>Panic\<close>, so that no branch of the source disappears.
\<close>

section \<open>Results\<close>

datatype ('a, 'e) result = Ok 'a | Err 'e | Panic

named_theorems model_defs \<open>unfolding of the small operations of the model\<close>

fun rbind :: "('a, 'e) result \<Rightarrow> ('a \<Rightarrow> ('b, 'e) result) \<Rightarrow> ('b, 'e) result" where
  "rbind (Ok a) f = f a"
| "rbind (Err e) f = Err e"
| "rbind Panic f = Panic"

fun map_err :: "('e \<Rightarrow> 'f) \<Rightarrow> ('a, 'e) result \<Rightarrow> ('a, 'f) result" where
  "map_err f (Ok a) = Ok a"
| "map_err f (Err e) = Err (f e)"
| "map_err f Panic = Panic"

fun ok_or :: "'e \<Rightarrow> 'a option \<Rightarrow> ('a, 'e) result" where
  "ok_or e (Some a) = Ok a"
| "ok_or e None = Err e"

fun unwrap :: "'a option \<Rightarrow> ('a, 'e) result" where
  "unwrap (Some a) = Ok a"
| "unwrap None = Panic"

fun is_ok :: "('a, 'e) result \<Rightarrow> bool" where
  "is_ok (Ok a) = True"
| "is_ok (Err e) = False"
| "is_ok Panic = False"

fun ok_opt :: "('a, 'e) result \<Rightarrow> 'a option" where
  "ok_opt (Ok a) = Some a"
| "ok_opt (Err e) = None"
| "ok_opt Panic = None"

lemma rbind_eq_Ok [simp]: "rbind r f = Ok b \<longleftrightarrow> (\<exists>a. r = Ok a \<and> f a = Ok b)"
  by (cases r) auto

lemma ok_or_eq_Ok [simp]: "ok_or e x = Ok a \<longleftrightarrow> x = Some a"
  by (cases x) auto

lemma ok_or_eq_Err [simp]: "ok_or e x = Err e' \<longleftrightarrow> x = None \<and> e' = e"
  by (cases x) auto

lemma ok_or_not_Panic [simp]: "ok_or e x \<noteq> Panic"
  by (cases x) auto

lemma map_err_eq_Ok [simp]: "map_err f r = Ok a \<longleftrightarrow> r = Ok a"
  by (cases r) auto

lemma map_err_eq_Panic [simp]: "map_err f r = Panic \<longleftrightarrow> r = Panic"
  by (cases r) auto

lemma is_ok_iff: "is_ok r \<longleftrightarrow> (\<exists>a. r = Ok a)"
  by (cases r) auto

lemma ok_opt_eq_Some [simp]: "ok_opt r = Some a \<longleftrightarrow> r = Ok a"
  by (cases r) auto

text \<open>Rust's \<open>iter.collect::<Result<Vec<_>, _>>()\<close>: the first error wins.\<close>

fun collect :: "('a, 'e) result list \<Rightarrow> ('a list, 'e) result" where
  "collect [] = Ok []"
| "collect (r # rs) = rbind r (\<lambda>a. rbind (collect rs) (\<lambda>as. Ok (a # as)))"

lemma collect_eq_Ok: "collect rs = Ok xs \<longleftrightarrow> rs = map Ok xs"
  by (induction rs arbitrary: xs) auto

lemma collect_Ok_map [simp]: "collect (map (\<lambda>x. Ok (f x)) xs) = Ok (map f xs)"
  by (induction xs) auto

lemma option_eqI: "(\<And>a. x = Some a \<longleftrightarrow> y = Some a) \<Longrightarrow> x = y"
  by (cases x; cases y) auto

lemma option_in_pairI: "(\<And>b. x = Some b \<Longrightarrow> b = a) \<Longrightarrow> x \<in> {None, Some a}"
  by (cases x) simp_all

section \<open>Iterators\<close>

text \<open>Rust's \<open>find_map\<close>: the first element with a value. \<open>List.map_filter\<close> is \<open>filter_map\<close>.\<close>

fun find_map :: "('a \<Rightarrow> 'b option) \<Rightarrow> 'a list \<Rightarrow> 'b option" where
  "find_map f [] = None"
| "find_map f (x # xs) = (case f x of Some y \<Rightarrow> Some y | None \<Rightarrow> find_map f xs)"

lemma find_map_Some: "find_map f xs = Some y \<Longrightarrow> \<exists>x\<in>set xs. f x = Some y"
  by (induction xs) (auto split: option.splits)

lemma find_map_None: "find_map f xs = None \<longleftrightarrow> (\<forall>x\<in>set xs. f x = None)"
  by (induction xs) (auto split: option.splits)

lemma find_map_append:
  "find_map f (xs @ ys) = (case find_map f xs of Some y \<Rightarrow> Some y | None \<Rightarrow> find_map f ys)"
  by (induction xs) (auto split: option.splits)

fun filter_map :: "('a \<Rightarrow> 'b option) \<Rightarrow> 'a list \<Rightarrow> 'b list" where
  "filter_map f [] = []"
| "filter_map f (x # xs) = (case f x of Some y \<Rightarrow> y # filter_map f xs | None \<Rightarrow> filter_map f xs)"

lemma set_filter_map: "y \<in> set (filter_map f xs) \<longleftrightarrow> (\<exists>x\<in>set xs. f x = Some y)"
  by (induction xs) (auto split: option.splits)

lemma filter_map_append [simp]: "filter_map f (xs @ ys) = filter_map f xs @ filter_map f ys"
  by (induction xs) (auto split: option.splits)

section \<open>Ordered maps\<close>

text \<open>Insertion into a \<open>BTreeMap\<close>, its entries being listed in the order \<open>le\<close> of the keys.\<close>

fun btree_insert :: "('k \<Rightarrow> 'k \<Rightarrow> bool) \<Rightarrow> 'k \<Rightarrow> 'v \<Rightarrow> ('k \<times> 'v) list \<Rightarrow> ('k \<times> 'v) list" where
  "btree_insert le k v [] = [(k, v)]"
| "btree_insert le k v ((k', v') # rest) =
     (if k = k' then (k, v) # rest
      else if le k k' then (k, v) # (k', v') # rest
      else (k', v') # btree_insert le k v rest)"

lemma map_of_btree_insert: "map_of (btree_insert le k v kvs) = (map_of kvs)(k \<mapsto> v)"
  by (induction kvs) auto

lemma keys_btree_insert: "set (map fst (btree_insert le k v kvs)) = insert k (set (map fst kvs))"
proof (induction kvs)
  case (Cons x kvs)
  obtain k' v' where "x = (k', v')" by fastforce
  with Cons show ?case by (cases "k = k'"; cases "le k k'") (simp_all add: insert_commute)
qed simp

lemma btree_insert_sorted:
  fixes k :: "'k::linorder"
  assumes "sorted_wrt (<) (map fst kvs)"
  shows "sorted_wrt (<) (map fst (btree_insert (\<le>) k v kvs))"
  using assms
proof (induction kvs)
  case (Cons x kvs)
  obtain k' v' where x: "x = (k', v')" by fastforce
  from Cons.prems have below: "k'' \<in> set (map fst kvs) \<Longrightarrow> k' < k''" for k'' by (auto simp: x)
  show ?case
  proof (cases "k \<le> k'")
    case True
    with Cons.prems below show ?thesis by (fastforce simp: x)
  next
    case False
    with Cons.prems have "sorted_wrt (<) (map fst (btree_insert (\<le>) k v kvs))" by (intro Cons.IH) simp
    moreover have "k' < k''" if "k'' \<in> set (map fst (btree_insert (\<le>) k v kvs))" for k''
      using that False below unfolding keys_btree_insert by auto
    ultimately show ?thesis using False Cons.prems by (auto simp: x)
  qed
qed simp

section \<open>Machine integers\<close>

type_synonym u8 = "8 word"
type_synonym u16 = "16 word"
type_synonym u32 = "32 word"
type_synonym u64 = "64 word"
type_synonym u128 = "128 word"

definition checked_add :: "'a::len word \<Rightarrow> 'a word \<Rightarrow> 'a word option" where
  "checked_add a b = (if unat a + unat b < 2 ^ LENGTH('a) then Some (a + b) else None)"

definition checked_sub :: "'a::len word \<Rightarrow> 'a word \<Rightarrow> 'a word option" where
  "checked_sub a b = (if b \<le> a then Some (a - b) else None)"

definition checked_mul :: "'a::len word \<Rightarrow> 'a word \<Rightarrow> 'a word option" where
  "checked_mul a b = (if unat a * unat b < 2 ^ LENGTH('a) then Some (a * b) else None)"

definition checked_div :: "'a::len word \<Rightarrow> 'a word \<Rightarrow> 'a word option" where
  "checked_div a b = (if b = 0 then None else Some (a div b))"

definition saturating_add :: "'a::len word \<Rightarrow> 'a word \<Rightarrow> 'a word" where
  "saturating_add a b = (if unat a + unat b < 2 ^ LENGTH('a) then a + b else - 1)"

definition saturating_sub :: "'a::len word \<Rightarrow> 'a word \<Rightarrow> 'a word" where
  "saturating_sub a b = (if b \<le> a then a - b else 0)"

definition saturating_mul :: "'a::len word \<Rightarrow> 'a word \<Rightarrow> 'a word" where
  "saturating_mul a b = (if unat a * unat b < 2 ^ LENGTH('a) then a * b else - 1)"

text \<open>\<open>try_into\<close> between unsigned widths: \<open>None\<close> when the value does not fit.\<close>

definition try_ucast :: "'a::len word \<Rightarrow> 'b::len word option" where
  "try_ucast a = (if unat a < 2 ^ LENGTH('b) then Some (ucast a) else None)"

lemma unat_max_word: "unat (- 1 :: 'a::len word) = 2 ^ LENGTH('a) - 1"
  by (simp add: unsigned_minus_1_eq_mask mask_eq_exp_minus_1)

lemma unat_eq_bound: "unat (c::'a::len word) = n \<Longrightarrow> n < 2 ^ LENGTH('a)"
  by (metis unsigned_less)

lemma min_pred_less: "(n::nat) < m \<Longrightarrow> min n (m - 1) = n"
  by simp

lemma min_pred_ge: "\<not> (n::nat) < m \<Longrightarrow> min n (m - 1) = m - 1"
  by simp

lemma checked_add_Some:
  "checked_add a b = Some c \<longleftrightarrow> unat c = unat a + unat b"
  by (auto simp: checked_add_def unat_word_ariths word_unat_eq_iff dest: unat_eq_bound)

lemma checked_add_None:
  "checked_add (a::'a::len word) b = None \<longleftrightarrow> 2 ^ LENGTH('a) \<le> unat a + unat b"
  by (auto simp: checked_add_def)

lemma unat_sub_le: "b \<le> a \<Longrightarrow> unat (a - b) = unat a - unat (b::'a::len word)"
  by (simp add: unat_sub)

lemma checked_sub_Some:
  "checked_sub a b = Some c \<longleftrightarrow> unat a = unat c + unat b"
proof
  assume "checked_sub a b = Some c"
  then show "unat a = unat c + unat b"
    by (auto simp: checked_sub_def unat_sub word_le_nat_alt split: if_splits)
next
  assume h: "unat a = unat c + unat b"
  then have "b \<le> a" by (simp add: word_le_nat_alt)
  moreover from this h have "unat (a - b) = unat c" by (simp add: unat_sub)
  ultimately show "checked_sub a b = Some c"
    by (simp add: checked_sub_def word_unat_eq_iff)
qed

lemma checked_sub_None: "checked_sub a b = None \<longleftrightarrow> unat a < unat b"
  by (auto simp: checked_sub_def word_le_nat_alt)

lemma checked_mul_Some:
  "checked_mul a b = Some c \<longleftrightarrow> unat c = unat a * unat b"
  by (auto simp: checked_mul_def unat_word_ariths word_unat_eq_iff dest: unat_eq_bound)

lemma checked_div_Some:
  "checked_div a b = Some c \<longleftrightarrow> b \<noteq> 0 \<and> unat c = unat a div unat b"
  by (auto simp: checked_div_def unat_div word_unat_eq_iff)

lemma unat_saturating_add:
  "unat (saturating_add a (b::'a::len word)) = min (unat a + unat b) (2 ^ LENGTH('a) - 1)"
  by (auto simp: saturating_add_def unat_word_ariths unat_max_word min_def)

lemma unat_saturating_sub: "unat (saturating_sub a b) = unat a - unat b"
  by (auto simp: saturating_sub_def unat_sub word_le_nat_alt)

lemma unat_saturating_mul:
  "unat (saturating_mul a (b::'a::len word)) = min (unat a * unat b) (2 ^ LENGTH('a) - 1)"
proof (cases "unat a * unat b < 2 ^ LENGTH('a)")
  case True
  then show ?thesis
    by (simp add: saturating_mul_def unat_word_ariths min_pred_less del: One_nat_def)
next
  case False
  then show ?thesis
    by (simp add: saturating_mul_def unat_max_word min_pred_ge del: One_nat_def)
qed

lemma try_ucast_Some:
  "try_ucast (a::'a::len word) = Some (b::'b::len word) \<longleftrightarrow> unat b = unat a"
  by (auto simp: try_ucast_def word_unat_eq_iff unsigned_ucast_eq take_bit_nat_eq_self
      dest: unat_eq_bound)

lemma unat_ucast_up:
  assumes "LENGTH('a) \<le> LENGTH('b)"
  shows "unat (ucast (a::'a::len word) :: 'b::len word) = unat a"
proof -
  have "unat a < 2 ^ LENGTH('a)" by (rule unsigned_less)
  also have "(2::nat) ^ LENGTH('a) \<le> 2 ^ LENGTH('b)" using assms by (rule power_increasing) simp
  finally show ?thesis by (simp only: unsigned_ucast_eq take_bit_nat_eq_self)
qed

lemma unat_u32_less: "unat (x :: u32) < 4294967296"
  using unat_eq_bound [OF refl, of x] by simp

lemma unat_u64_less: "unat (x :: u64) < 18446744073709551616"
  using unat_eq_bound [OF refl, of x] by simp

lemmas arith_specs =
  checked_add_Some checked_sub_Some checked_mul_Some checked_div_Some try_ucast_Some
  unat_saturating_add unat_saturating_sub unat_saturating_mul

text \<open>
  Plain \<open>+\<close>, \<open>-\<close> and \<open>*\<close>: an overflow panics when the build has overflow checks (\<open>oc\<close>),
  and wraps around when it has not (the default release profile).
\<close>

definition plain_add :: "bool \<Rightarrow> 'a::len word \<Rightarrow> 'a word \<Rightarrow> ('a word, 'e) result" where
  "plain_add oc a b = (if oc \<and> checked_add a b = None then Panic else Ok (a + b))"

definition plain_sub :: "bool \<Rightarrow> 'a::len word \<Rightarrow> 'a word \<Rightarrow> ('a word, 'e) result" where
  "plain_sub oc a b = (if oc \<and> checked_sub a b = None then Panic else Ok (a - b))"

definition plain_mul :: "bool \<Rightarrow> 'a::len word \<Rightarrow> 'a word \<Rightarrow> ('a word, 'e) result" where
  "plain_mul oc a b = (if oc \<and> checked_mul a b = None then Panic else Ok (a * b))"

fun plain_sum :: "bool \<Rightarrow> 'a::len word \<Rightarrow> 'a word list \<Rightarrow> ('a word, 'e) result" where
  "plain_sum oc acc [] = Ok acc"
| "plain_sum oc acc (x # xs) = rbind (plain_add oc acc x) (\<lambda>acc'. plain_sum oc acc' xs)"

lemma plain_add_exact:
  "unat a + unat b < 2 ^ LENGTH('a) \<Longrightarrow> plain_add oc a (b::'a::len word) = Ok (a + b)"
  by (simp add: plain_add_def checked_add_def)

lemma plain_sub_exact: "b \<le> a \<Longrightarrow> plain_sub oc a b = Ok (a - b)"
  by (simp add: plain_sub_def checked_sub_def)

lemma plain_not_Err [simp]:
  "plain_add oc a b \<noteq> Err e" "plain_sub oc a b \<noteq> Err e" "plain_mul oc a b \<noteq> Err e"
  by (simp_all add: plain_add_def plain_sub_def plain_mul_def)

lemma plain_sum_exact:
  "unat acc + sum_list (map unat xs) < 2 ^ LENGTH('a) \<Longrightarrow>
   \<exists>s. (plain_sum oc acc (xs :: 'a::len word list) :: ('a word, 'e) result) = Ok s \<and> unat s = unat acc + sum_list (map unat xs)"
proof (induction xs arbitrary: acc)
  case Nil
  then show ?case by simp
next
  case (Cons x xs)
  then have u: "unat (acc + x) = unat acc + unat x"
    by (simp add: unat_add_lem [THEN iffD1])
  have "(plain_add oc acc x :: ('a word, 'e) result) = Ok (acc + x)"
    using Cons.prems by (intro plain_add_exact) simp
  moreover have "\<exists>s. (plain_sum oc (acc + x) xs :: ('a word, 'e) result) = Ok s \<and> unat s = unat (acc + x) + sum_list (map unat xs)"
    using Cons.prems u Cons.IH [of "acc + x"] by simp
  ultimately show ?case by (auto simp: u)
qed

text \<open>A result that did not panic is exact, when overflows panic or there is none.\<close>

lemma plain_add_Ok:
  "plain_add oc a b = Ok (c :: 'a::len word) \<Longrightarrow> oc \<or> unat a + unat b < 2 ^ LENGTH('a) \<Longrightarrow> unat c = unat a + unat b"
  using checked_add_Some [of a b c]
  by (auto simp: plain_add_def checked_add_def not_le unat_add_lem [THEN iffD1] split: if_splits)

lemma plain_sub_Ok: "plain_sub oc a b = Ok c \<Longrightarrow> b \<le> a \<Longrightarrow> unat c = unat a - unat b"
  by (auto simp: plain_sub_exact unat_sub_le)

lemma plain_sum_Ok:
  fixes s :: "'a::len word"
  assumes "plain_sum oc acc xs = (Ok s :: ('a word, 'e) result)"
    and "oc \<or> unat acc + sum_list (map unat xs) < 2 ^ LENGTH('a)"
  shows "unat s = unat acc + sum_list (map unat xs)"
  using assms
proof (induction xs arbitrary: acc)
  case Nil
  then show ?case by simp
next
  case (Cons x xs)
  then obtain acc' where add: "plain_add oc acc x = (Ok acc' :: ('a word, 'e) result)"
    and rest: "plain_sum oc acc' xs = (Ok s :: ('a word, 'e) result)" by auto
  have u: "unat acc' = unat acc + unat x"
    by (rule plain_add_Ok [OF add]) (use Cons.prems(2) in auto)
  show ?case using Cons.IH [OF rest] Cons.prems(2) u by auto
qed

section \<open>Actions on an external world\<close>

text \<open>
  An asynchronous call reads and changes a world \<open>'w\<close> the model does not look into (the
  Bitcoin node, the parachain, the clock) and yields a result. The calls of one task are
  sequenced by \<open>a_bind\<close>, which is \<open>.await?\<close>: an error or a panic ends the task.
\<close>

type_synonym ('w, 'a, 'e) action = "'w \<Rightarrow> ('a, 'e) result \<times> 'w"

definition a_ret :: "'a \<Rightarrow> ('w, 'a, 'e) action" where
  "a_ret a w = (Ok a, w)"

definition a_err :: "'e \<Rightarrow> ('w, 'a, 'e) action" where
  "a_err e w = (Err e, w)"

definition a_lift :: "('a, 'e) result \<Rightarrow> ('w, 'a, 'e) action" where
  "a_lift r w = (r, w)"

text \<open>\<open>match m.await\<close>: both outcomes are handled; a panic is not caught.\<close>

definition a_match ::
  "('w, 'a, 'e) action \<Rightarrow> ('a \<Rightarrow> ('w, 'b, 'f) action) \<Rightarrow> ('e \<Rightarrow> ('w, 'b, 'f) action)
    \<Rightarrow> ('w, 'b, 'f) action" where
  "a_match m f g w = (case m w of
      (Ok a, w') \<Rightarrow> f a w'
    | (Err e, w') \<Rightarrow> g e w'
    | (Panic, w') \<Rightarrow> (Panic, w'))"

definition a_bind ::
  "('w, 'a, 'e) action \<Rightarrow> ('a \<Rightarrow> ('w, 'b, 'e) action) \<Rightarrow> ('w, 'b, 'e) action" where
  "a_bind m f = a_match m f a_err"

definition a_map_err :: "('e \<Rightarrow> 'f) \<Rightarrow> ('w, 'a, 'e) action \<Rightarrow> ('w, 'a, 'f) action" where
  "a_map_err h m w = (case m w of (r, w') \<Rightarrow> (map_err h r, w'))"

lemmas action_defs = a_ret_def a_err_def a_lift_def a_match_def a_bind_def a_map_err_def

lemma a_bind_eq_Ok:
  "a_bind m f w = (Ok b, w') \<longleftrightarrow> (\<exists>a w1. m w = (Ok a, w1) \<and> f a w1 = (Ok b, w'))"
  by (auto simp: action_defs split: prod.splits result.splits)

lemma a_match_eq_Ok:
  "a_match m f g w = (Ok b, w') \<longleftrightarrow>
     (\<exists>a w1. m w = (Ok a, w1) \<and> f a w1 = (Ok b, w')) \<or>
     (\<exists>e w1. m w = (Err e, w1) \<and> g e w1 = (Ok b, w'))"
  by (auto simp: action_defs split: prod.splits result.splits)

lemma a_ret_eq_Ok [simp]: "a_ret a w = (Ok b, w') \<longleftrightarrow> a = b \<and> w = w'"
  by (simp add: a_ret_def)

lemma a_err_not_Ok [simp]: "a_err e w \<noteq> (Ok b, w')"
  by (simp add: a_err_def)

text \<open>Running an action for each element in order, up to the first error.\<close>

fun a_mapM :: "('a \<Rightarrow> ('w, 'b, 'e) action) \<Rightarrow> 'a list \<Rightarrow> ('w, 'b list, 'e) action" where
  "a_mapM f [] = a_ret []"
| "a_mapM f (x # xs) = a_bind (f x) (\<lambda>y. a_bind (a_mapM f xs) (\<lambda>ys. a_ret (y # ys)))"

lemma a_mapM_length: "a_mapM f xs w = (Ok ys, w') \<Longrightarrow> length ys = length xs"
  by (induction xs arbitrary: w ys) (auto simp: a_bind_eq_Ok)

text \<open>An action on part of the state: the world beside a component's own state.\<close>

definition on_world :: "('w, 'a, 'e) action \<Rightarrow> ('w \<times> 's, 'a, 'e) action" where
  "on_world m ws = (case ws of (w, s) \<Rightarrow> case m w of (r, w') \<Rightarrow> (r, (w', s)))"

definition modify_state :: "('s \<Rightarrow> 's) \<Rightarrow> ('w \<times> 's, unit, 'e) action" where
  "modify_state f ws = (case ws of (w, s) \<Rightarrow> (Ok (), (w, f s)))"

definition get_state :: "('w \<times> 's, 's, 'e) action" where
  "get_state ws = (Ok (snd ws), ws)"

text \<open>The value of a call whose result is dropped (\<open>let _ = ...\<close>).\<close>

definition a_ignore :: "('w, 'a, 'e) action \<Rightarrow> ('w, unit, 'f) action" where
  "a_ignore m = a_match m (\<lambda>_. a_ret ()) (\<lambda>_. a_ret ())"

lemma on_world_state:
  "on_world m (w, s) = (r, (w', s')) \<longleftrightarrow> m w = (r, w') \<and> s' = s"
  by (auto simp: on_world_def split: prod.splits)

lemmas state_defs = on_world_def modify_state_def get_state_def a_ignore_def

section \<open>Observed actions\<close>

text \<open>
  \<open>log_action new m\<close> runs \<open>m\<close> and appends \<open>new\<close> to a log kept beside the world: how a property
  speaks of the calls a component makes.
\<close>

definition log_action :: "'l list \<Rightarrow> ('w, 'a, 'e) action \<Rightarrow> ('w \<times> 'l list, 'a, 'e) action" where
  "log_action new m wl = (case wl of (w, log) \<Rightarrow> case m w of (r, w') \<Rightarrow> (r, (w', log @ new)))"

text \<open>An action on the world alone leaves the log as it is.\<close>

definition keeps_log :: "('w \<times> 'l, 'a, 'e) action \<Rightarrow> bool" where
  "keeps_log m \<longleftrightarrow> (\<forall>w l r w' l'. m (w, l) = (r, (w', l')) \<longrightarrow> l' = l)"

lemma keeps_log_world [simp]: "keeps_log (on_world m)"
  by (auto simp: keeps_log_def on_world_state)

definition logs_at_most :: "('l list \<Rightarrow> bool) \<Rightarrow> ('w \<times> 'l list, 'a, 'e) action \<Rightarrow> bool" where
  "logs_at_most P m \<longleftrightarrow> (\<forall>w l r w' l'. m (w, l) = (r, (w', l')) \<longrightarrow> (\<exists>new. l' = l @ new \<and> (new = [] \<or> P new)))"

lemma logs_at_most_bind:
  assumes "keeps_log m" and "\<And>a. logs_at_most P (f a)"
  shows "logs_at_most P (a_bind m f)"
  unfolding logs_at_most_def
proof (intro allI impI)
  fix w l r w' l'
  assume run: "a_bind m f (w, l) = (r, (w', l'))"
  obtain x w1 l1 where m: "m (w, l) = (x, (w1, l1))" by (metis surj_pair)
  with assms(1) have "l1 = l" by (auto simp: keeps_log_def)
  with m run assms(2) show "\<exists>new. l' = l @ new \<and> (new = [] \<or> P new)"
    by (cases x) (auto simp: action_defs logs_at_most_def)
qed

lemma logs_at_most_ret [simp]: "logs_at_most P (a_ret a)"
  by (simp add: logs_at_most_def a_ret_def)

end
