(* ===== verification/Errors.thy ===== *)
theory Errors
  imports Prelude
begin

text \<open>
  The error types of the clients (\<open>bitcoin/src/error.rs\<close>, \<open>bitcoin/src/electrs/error.rs\<close>,
  \<open>bitcoin/src/light/error.rs\<close>, \<open>runtime/src/error.rs\<close>, \<open>service/src/error.rs\<close>,
  \<open>vault/src/error.rs\<close>) and the predicates that classify them, on which every retry and
  restart decision rests. The payload of a third-party error is a message \<open>ext_error\<close>;
  where the source matches on the third-party error, its constructors are the ones matched
  on and one for the rest. Constructors carry a prefix for their enum (\<open>Be_\<close>, \<open>El_\<close>,
  \<open>Li_\<close>, \<open>Re_\<close>, \<open>Se_\<close>, \<open>Ve_\<close>).
\<close>

type_synonym ext_error = string

section \<open>Bitcoin Core's RPC error codes\<close>

datatype bitcoin_rpc_error =
    RpcInvalidRequest | RpcMethodNotFound | RpcInvalidParams | RpcInternalError | RpcParseError
  | RpcMiscError | RpcTypeError | RpcInvalidAddressOrKey | RpcOutOfMemory | RpcInvalidParameter
  | RpcDatabaseError | RpcDeserializationErrr | RpcVerifyError | RpcVerifyRejected
  | RpcVerifyAlreadyInChain | RpcInWarmup | RpcMethodDeprecated
  | RpcClientNotConnected | RpcClientInInitialDownload | RpcClientNodeAlreadyAdded
  | RpcClientNodeNotAdded | RpcClientNodeNotConnected | RpcClientInvalidIpOrSubnet
  | RpcClientP2PDisabled | RpcClientMempoolDisabled
  | RpcWalletError | RpcWalletInsufficientFunds | RpcWalletInvalidLabelName
  | RpcWalletKeypoolRanOut | RpcWalletUnlockNeeded | RpcWalletPassphraseIncorrect
  | RpcWalletWrongEncState | RpcWalletEncryptionFailed | RpcWalletAlreadyUnlocked
  | RpcWalletNotFound | RpcWalletNotSpecified | RpcForbiddenBySafeMode | RpcUnknownError

fun rpc_code :: "bitcoin_rpc_error \<Rightarrow> int" where
  "rpc_code RpcInvalidRequest = -32600"
| "rpc_code RpcMethodNotFound = -32601"
| "rpc_code RpcInvalidParams = -32602"
| "rpc_code RpcInternalError = -32603"
| "rpc_code RpcParseError = -32700"
| "rpc_code RpcMiscError = -1"
| "rpc_code RpcTypeError = -3"
| "rpc_code RpcInvalidAddressOrKey = -5"
| "rpc_code RpcOutOfMemory = -7"
| "rpc_code RpcInvalidParameter = -8"
| "rpc_code RpcDatabaseError = -20"
| "rpc_code RpcDeserializationErrr = -22"
| "rpc_code RpcVerifyError = -25"
| "rpc_code RpcVerifyRejected = -26"
| "rpc_code RpcVerifyAlreadyInChain = -27"
| "rpc_code RpcInWarmup = -28"
| "rpc_code RpcMethodDeprecated = -32"
| "rpc_code RpcClientNotConnected = -9"
| "rpc_code RpcClientInInitialDownload = -10"
| "rpc_code RpcClientNodeAlreadyAdded = -23"
| "rpc_code RpcClientNodeNotAdded = -24"
| "rpc_code RpcClientNodeNotConnected = -29"
| "rpc_code RpcClientInvalidIpOrSubnet = -30"
| "rpc_code RpcClientP2PDisabled = -31"
| "rpc_code RpcClientMempoolDisabled = -33"
| "rpc_code RpcWalletError = -4"
| "rpc_code RpcWalletInsufficientFunds = -6"
| "rpc_code RpcWalletInvalidLabelName = -11"
| "rpc_code RpcWalletKeypoolRanOut = -12"
| "rpc_code RpcWalletUnlockNeeded = -13"
| "rpc_code RpcWalletPassphraseIncorrect = -14"
| "rpc_code RpcWalletWrongEncState = -15"
| "rpc_code RpcWalletEncryptionFailed = -16"
| "rpc_code RpcWalletAlreadyUnlocked = -17"
| "rpc_code RpcWalletNotFound = -18"
| "rpc_code RpcWalletNotSpecified = -19"
| "rpc_code RpcForbiddenBySafeMode = -2"
| "rpc_code RpcUnknownError = 0"

definition all_rpc_errors :: "bitcoin_rpc_error list" where
  "all_rpc_errors =
    [RpcInvalidRequest, RpcMethodNotFound, RpcInvalidParams, RpcInternalError, RpcParseError,
     RpcMiscError, RpcTypeError, RpcInvalidAddressOrKey, RpcOutOfMemory, RpcInvalidParameter,
     RpcDatabaseError, RpcDeserializationErrr, RpcVerifyError, RpcVerifyRejected,
     RpcVerifyAlreadyInChain, RpcInWarmup, RpcMethodDeprecated,
     RpcClientNotConnected, RpcClientInInitialDownload, RpcClientNodeAlreadyAdded,
     RpcClientNodeNotAdded, RpcClientNodeNotConnected, RpcClientInvalidIpOrSubnet,
     RpcClientP2PDisabled, RpcClientMempoolDisabled,
     RpcWalletError, RpcWalletInsufficientFunds, RpcWalletInvalidLabelName,
     RpcWalletKeypoolRanOut, RpcWalletUnlockNeeded, RpcWalletPassphraseIncorrect,
     RpcWalletWrongEncState, RpcWalletEncryptionFailed, RpcWalletAlreadyUnlocked,
     RpcWalletNotFound, RpcWalletNotSpecified, RpcForbiddenBySafeMode, RpcUnknownError]"

text \<open>The derived \<open>FromPrimitive::from_i32\<close>: the variant with that discriminant.\<close>

definition from_i32 :: "int \<Rightarrow> bitcoin_rpc_error option" where
  "from_i32 c = List.find (\<lambda>e. rpc_code e = c) all_rpc_errors"

definition from_rpc_error :: "int \<Rightarrow> bitcoin_rpc_error" where
  "from_rpc_error code = (case from_i32 code of Some err \<Rightarrow> err | None \<Rightarrow> RpcUnknownError)"

lemma from_i32_code: "from_i32 (rpc_code e) = Some e"
  by (cases e) (simp_all add: from_i32_def all_rpc_errors_def)

lemma from_i32_Some: "from_i32 c = Some e \<Longrightarrow> rpc_code e = c"
  by (auto simp: from_i32_def find_Some_iff)

lemma from_rpc_error_code [simp]: "from_rpc_error (rpc_code e) = e"
  by (simp add: from_rpc_error_def from_i32_code)

lemma from_rpc_error_cases:
  "from_rpc_error c = e \<longleftrightarrow> c = rpc_code e \<or> (e = RpcUnknownError \<and> from_i32 c = None)"
  by (auto simp: from_rpc_error_def from_i32_code split: option.splits dest: from_i32_Some)

section \<open>Errors of the Bitcoin clients\<close>

datatype json_category = CatIo | CatSyntax | CatData | CatEof

datatype jsonrpc_error =
    Jr_Transport ext_error
  | Jr_Json json_category
  | Jr_Rpc int
  | Jr_Other ext_error

datatype core_error = Ce_JsonRpc jsonrpc_error | Ce_Other ext_error

datatype conversion_error =
    Cv_FromHexError ext_error | Cv_AddressError ext_error | Cv_HashesError ext_error
  | Cv_HashHexError ext_error | Cv_InvalidFormat | Cv_InvalidPayload | Cv_BlockHashError

datatype electrs_error =
    El_NoPrevOut | El_InvalidAddress | El_BitcoinAddressError ext_error
  | El_BitcoinEncodeError ext_error | El_ReqwestError ext_error | El_ParseError ext_error
  | El_SerdeJsonError ext_error | El_HexError ext_error | El_TryFromIntError
  | El_ParseIntError ext_error

datatype light_error =
    Li_NoPrevOut | Li_InvalidPrevOut | Li_InvalidAddress | Li_NoPrivateKey | Li_NotEnoughInputs
  | Li_NoChangeAddress | Li_CannotOpenKeyStore | Li_Secp256k1Error ext_error
  | Li_AddressError ext_error | Li_PsbtError ext_error | Li_ElectrsError electrs_error
  | Li_SighashError ext_error

datatype key_loading_error = Kl_IoError ext_error | Kl_FromUtf8Error ext_error | Kl_KeyError ext_error

datatype bitcoin_error =
    Be_BitcoinEncodeError ext_error | Be_BitcoinError core_error
  | Be_ConversionError conversion_error | Be_SerdeJsonError ext_error
  | Be_Secp256k1Error ext_error | Be_KeyError ext_error | Be_TimeElapsed | Be_TryFromIntError
  | Be_LightClientError light_error | Be_ElectrsError electrs_error
  | Be_KeyLoadingError key_loading_error
  | Be_IncompatibleVersion nat | Be_ConfirmationError | Be_InvalidBitcoinHeight
  | Be_TransactionSigningError | Be_MissingPublicKey | Be_ConnectionRefused
  | Be_WalletNotFound | Be_InvalidBitcoinNetwork | Be_TooManyReturnToSelfAddresses
  | Be_ArithmeticError | Be_MissingBitcoinFeeInfo | Be_FailedToConstructWalletName

text \<open>\<open>Error::BitcoinError(BitcoinError::JsonRpc(JsonRpcError::Rpc(err)))\<close> with its code read.\<close>

fun rpc_error_is :: "bitcoin_rpc_error \<Rightarrow> bitcoin_error \<Rightarrow> bool" where
  "rpc_error_is k (Be_BitcoinError (Ce_JsonRpc (Jr_Rpc code))) = (from_rpc_error code = k)"
| "rpc_error_is k _ = False"

fun is_transport_error :: "bitcoin_error \<Rightarrow> bool" where
  "is_transport_error (Be_BitcoinError (Ce_JsonRpc (Jr_Transport _))) = True"
| "is_transport_error _ = False"

fun is_json_decode_error :: "bitcoin_error \<Rightarrow> bool" where
  "is_json_decode_error (Be_BitcoinError (Ce_JsonRpc (Jr_Json _))) = True"
| "is_json_decode_error _ = False"

definition is_wallet_error :: "bitcoin_error \<Rightarrow> bool" where
  "is_wallet_error e = rpc_error_is RpcWalletError e"

definition rejected_by_network_rules :: "bitcoin_error \<Rightarrow> bool" where
  "rejected_by_network_rules e = rpc_error_is RpcVerifyRejected e"

definition could_be_insufficient_funds :: "bitcoin_error \<Rightarrow> bool" where
  "could_be_insufficient_funds e =
     (rpc_error_is RpcWalletError e \<or> rpc_error_is RpcWalletInsufficientFunds e)"

definition is_wallet_not_found :: "bitcoin_error \<Rightarrow> bool" where
  "is_wallet_not_found e = rpc_error_is RpcWalletNotFound e"

definition is_invalid_parameter :: "bitcoin_error \<Rightarrow> bool" where
  "is_invalid_parameter e = rpc_error_is RpcInvalidParameter e"

lemma rpc_error_is_unique: "rpc_error_is k e \<Longrightarrow> rpc_error_is k' e \<Longrightarrow> k = k'"
  by (cases "(k, e)" rule: rpc_error_is.cases) auto

lemma rpc_error_is_not_transport: "rpc_error_is k e \<Longrightarrow> \<not> is_transport_error e"
  by (cases "(k, e)" rule: rpc_error_is.cases) auto

lemmas bitcoin_error_classes =
  is_wallet_error_def rejected_by_network_rules_def could_be_insufficient_funds_def
  is_wallet_not_found_def is_invalid_parameter_def

section \<open>Errors of the parachain client\<close>

datatype call_error = Cl_Custom int "string option" | Cl_Other ext_error

datatype jsonrpsee_error =
    Js_Call call_error | Js_RestartNeeded ext_error | Js_Other ext_error

text \<open>\<open>Sx_Module pallet error\<close> is a dispatch error of a pallet.\<close>

datatype subxt_error =
    Sx_Module string string
  | Sx_Rpc jsonrpsee_error
  | Sx_TransactionBlockHashNotFound
  | Sx_Other ext_error

datatype runtime_error =
    Re_ExchangeRateInfo | Re_RequestIssueIDNotFound | Re_RequestRedeemIDNotFound
  | Re_RequestReplaceIDNotFound | Re_BlockNotFound | Re_AssetNotFound
  | Re_CannotOpenAssetRegistry | Re_VaultNotFound | Re_VaultLiquidated | Re_ChannelClosed
  | Re_PoolTooLowPriority | Re_BlockHashNotFound | Re_InvalidTransaction string | Re_Timeout
  | Re_BlockNotInRelayMainChain | Re_InvalidCurrency | Re_KeyringArgumentError
  | Re_KeyringAccountParsingError | Re_StorageItemNotFound | Re_InsufficientFunds
  | Re_CurrencyNotFound | Re_InvalidSpecVersion u32 u32 u32
  | Re_ParachainMetadataMismatch string string | Re_BitcoinNetworkMismatch string string
  | Re_KeyLoadingFailure ext_error | Re_Serialize | Re_Convert
  | Re_SubxtRuntimeError subxt_error | Re_CodecError ext_error | Re_SerdeJsonError ext_error
  | Re_JsonRpseeError jsonrpsee_error | Re_TimeElapsed | Re_UrlParseError ext_error
  | Re_PrometheusError ext_error | Re_Utf8Error

definition BTC_RELAY_MODULE :: string where "BTC_RELAY_MODULE = ''BTCRelay''"
definition ISSUE_MODULE :: string where "ISSUE_MODULE = ''Issue''"
definition SYSTEM_MODULE :: string where "SYSTEM_MODULE = ''System''"

fun is_module_err :: "runtime_error \<Rightarrow> string \<Rightarrow> string \<Rightarrow> bool" where
  "is_module_err (Re_SubxtRuntimeError (Sx_Module pallet error)) pallet_name error_name =
     (pallet = pallet_name \<and> error = error_name)"
| "is_module_err _ _ _ = False"

definition is_duplicate_block :: "runtime_error \<Rightarrow> bool" where
  "is_duplicate_block e = is_module_err e BTC_RELAY_MODULE ''DuplicateBlock''"

definition is_invalid_chain_id :: "runtime_error \<Rightarrow> bool" where
  "is_invalid_chain_id e = is_module_err e BTC_RELAY_MODULE ''InvalidChainID''"

definition is_issue_completed :: "runtime_error \<Rightarrow> bool" where
  "is_issue_completed e = is_module_err e ISSUE_MODULE ''IssueCompleted''"

definition is_parachain_shutdown_error :: "runtime_error \<Rightarrow> bool" where
  "is_parachain_shutdown_error e = is_module_err e SYSTEM_MODULE ''CallFiltered''"

definition POOL_INVALID_TX :: int where "POOL_INVALID_TX = 1000 + 10"
definition POOL_TOO_LOW_PRIORITY :: int where "POOL_TOO_LOW_PRIORITY = POOL_INVALID_TX + 4"

fun map_call_error :: "runtime_error \<Rightarrow> (call_error \<Rightarrow> 'a option) \<Rightarrow> 'a option" where
  "map_call_error (Re_SubxtRuntimeError (Sx_Rpc (Js_Call err))) call = call err"
| "map_call_error _ call = None"

definition is_invalid_transaction :: "runtime_error \<Rightarrow> string option" where
  "is_invalid_transaction e = map_call_error e (\<lambda>call_error. case call_error of
      Cl_Custom code data \<Rightarrow>
        (if code = POOL_INVALID_TX then Some (case data of Some raw \<Rightarrow> raw | None \<Rightarrow> []) else None)
    | _ \<Rightarrow> None)"

definition is_pool_too_low_priority :: "runtime_error \<Rightarrow> unit option" where
  "is_pool_too_low_priority e = map_call_error e (\<lambda>call_error. case call_error of
      Cl_Custom code data \<Rightarrow> (if code = POOL_TOO_LOW_PRIORITY then Some () else None)
    | _ \<Rightarrow> None)"

fun is_rpc_disconnect_error :: "runtime_error \<Rightarrow> bool" where
  "is_rpc_disconnect_error (Re_SubxtRuntimeError (Sx_Rpc (Js_RestartNeeded _))) = True"
| "is_rpc_disconnect_error _ = False"

fun is_rpc_error :: "runtime_error \<Rightarrow> bool" where
  "is_rpc_error (Re_SubxtRuntimeError (Sx_Rpc _)) = True"
| "is_rpc_error _ = False"

fun is_block_hash_not_found_error :: "runtime_error \<Rightarrow> bool" where
  "is_block_hash_not_found_error (Re_SubxtRuntimeError Sx_TransactionBlockHashNotFound) = True"
| "is_block_hash_not_found_error _ = False"

lemma module_err_not_disconnect: "is_module_err e p n \<Longrightarrow> \<not> is_rpc_disconnect_error e"
  by (cases "(e, p, n)" rule: is_module_err.cases) auto

lemma module_err_unique:
  "is_module_err e p n \<Longrightarrow> is_module_err e p' n' \<Longrightarrow> p = p' \<and> n = n'"
  by (cases "(e, p, n)" rule: is_module_err.cases) auto

lemma map_call_error_Some:
  "map_call_error e f = Some a \<longleftrightarrow>
     (\<exists>c. e = Re_SubxtRuntimeError (Sx_Rpc (Js_Call c)) \<and> f c = Some a)"
  by (cases "(e, f)" rule: map_call_error.cases) auto

lemma call_custom_Some:
  "(case c of Cl_Custom code data \<Rightarrow> (if code = k then Some (g data) else None)
     | Cl_Other x \<Rightarrow> None) = Some d \<longleftrightarrow> (\<exists>dat. c = Cl_Custom k dat \<and> d = g dat)"
  by (cases c) auto

lemma is_invalid_transaction_Some:
  "is_invalid_transaction e = Some d \<longleftrightarrow>
     (\<exists>dat. e = Re_SubxtRuntimeError (Sx_Rpc (Js_Call (Cl_Custom POOL_INVALID_TX dat)))
        \<and> d = (case dat of Some raw \<Rightarrow> raw | None \<Rightarrow> []))"
  by (auto simp: is_invalid_transaction_def map_call_error_Some call_custom_Some)

lemma is_pool_too_low_priority_Some:
  "is_pool_too_low_priority e = Some u \<longleftrightarrow>
     (\<exists>dat. e = Re_SubxtRuntimeError (Sx_Rpc (Js_Call (Cl_Custom POOL_TOO_LOW_PRIORITY dat))))"
  by (auto simp: is_pool_too_low_priority_def map_call_error_Some call_custom_Some)

section \<open>Errors of the service and of the vault\<close>

datatype service_error =
    Se_InvalidResponse | Se_ClientShutdown | Se_OsStringError | Se_FileAlreadyExists
  | Se_ServiceAlreadyRunning u32 | Se_ProcessNotFound string
  | Se_SerdeJsonError ext_error | Se_HyperError ext_error | Se_HyperHttpError ext_error
  | Se_ParseIntError ext_error | Se_RuntimeError runtime_error | Se_BitcoinError bitcoin_error
  | Se_TokioError ext_error | Se_IoError ext_error | Se_Other string

datatype vault_error =
    Ve_InsufficientFunds | Ve_WalletInitializationFailure bitcoin_error
  | Ve_ArithmeticOverflow | Ve_ArithmeticUnderflow | Ve_TryIntoIntError | Ve_DeadlineExpired
  | Ve_FaucetUrlNotSet | Ve_ServiceError service_error | Ve_RpcError ext_error
  | Ve_FromHexError ext_error | Ve_BitcoinError bitcoin_error | Ve_RuntimeError runtime_error
  | Ve_SubxtError subxt_error | Ve_CodecError ext_error | Ve_BroadcastStreamRecvError ext_error

text \<open>A call of another crate: its error is wrapped by \<open>From\<close>.\<close>

definition on_runtime :: "('w, 'a, runtime_error) action \<Rightarrow> ('w, 'a, vault_error) action" where
  "on_runtime m = a_map_err Ve_RuntimeError m"

definition on_bitcoin :: "('w, 'a, bitcoin_error) action \<Rightarrow> ('w, 'a, vault_error) action" where
  "on_bitcoin m = a_map_err Ve_BitcoinError m"

lemma on_runtime_Ok [simp]: "on_runtime m w = (Ok a, w') \<longleftrightarrow> m w = (Ok a, w')"
  by (auto simp: on_runtime_def a_map_err_def split: prod.splits)

lemma on_bitcoin_Ok [simp]: "on_bitcoin m w = (Ok a, w') \<longleftrightarrow> m w = (Ok a, w')"
  by (auto simp: on_bitcoin_def a_map_err_def split: prod.splits)

lemma keeps_log_errors [simp]:
  "keeps_log (on_runtime m) = keeps_log m" "keeps_log (on_bitcoin m') = keeps_log m'"
  by (auto simp: keeps_log_def on_runtime_def on_bitcoin_def a_map_err_def split: prod.splits)

section \<open>Properties\<close>

text \<open>
  Bitcoin Core's RPC error codes and the enum they decode to are inverse: every
  variant's code decodes to that variant, and a code outside the enum decodes to
  \<open>RpcUnknownError\<close> (so two errors with different known codes are never confused).
\<close>

theorem rpc_error_code_roundtrip:
  "from_rpc_error (rpc_code e) = e \<and>
   (rpc_code (from_rpc_error c) = c \<or> (from_rpc_error c = RpcUnknownError \<and> from_i32 c = None))"
  by (auto simp: from_rpc_error_def from_i32_code split: option.splits dest: from_i32_Some)

end
