(* ===== verification/BtcTypes.thy ===== *)
theory BtcTypes
  imports Errors
begin

text \<open>
  Bitcoin data as the clients see it: transactions and the \<open>TransactionExt\<close> methods of
  \<open>bitcoin/src/lib.rs\<close> that match a transaction to a request, and the conversion between
  the parachain's addresses and Bitcoin payloads (\<open>runtime/src/addr.rs\<close>). Hashes and
  scripts are byte lists. Building and decoding scripts is rust-bitcoin's: the
  \<open>script_lib\<close> record stands for it, and \<open>script_laws\<close> is what its documentation
  promises of the four standard scripts and of data pushes.
\<close>

section \<open>Scripts, payloads and addresses\<close>

type_synonym bytes = "u8 list"
type_synonym H256 = bytes
type_synonym txid = bytes
type_synonym block_hash = bytes

datatype payload = PubkeyHash bytes | ScriptHash bytes | WitnessProgram nat bytes

datatype network = Bitcoin | Testnet | Signet | Regtest

record address =
  addr_payload :: payload
  addr_network :: network

record script_lib =
  new_p2pkh :: "bytes \<Rightarrow> bytes"
  new_p2sh :: "bytes \<Rightarrow> bytes"
  new_v0_p2wpkh :: "bytes \<Rightarrow> bytes"
  new_v0_p2wsh :: "bytes \<Rightarrow> bytes"
  from_script :: "bytes \<Rightarrow> payload option"
  script_of :: "payload \<Rightarrow> bytes"
  push_opcode :: "bytes \<Rightarrow> u8 \<Rightarrow> bytes"
  push_slice :: "bytes \<Rightarrow> bytes \<Rightarrow> bytes"

definition OP_RETURN :: u8 where "OP_RETURN = 0x6a"

definition script_laws :: "script_lib \<Rightarrow> bool" where
  "script_laws L \<longleftrightarrow>
     (\<forall>h. length h = 20 \<longrightarrow> from_script L (new_p2pkh L h) = Some (PubkeyHash h)) \<and>
     (\<forall>h. length h = 20 \<longrightarrow> from_script L (new_p2sh L h) = Some (ScriptHash h)) \<and>
     (\<forall>h. length h = 20 \<longrightarrow> from_script L (new_v0_p2wpkh L h) = Some (WitnessProgram 0 h)) \<and>
     (\<forall>h. length h = 32 \<longrightarrow> from_script L (new_v0_p2wsh L h) = Some (WitnessProgram 0 h)) \<and>
     (\<forall>s opc. push_opcode L s opc = s @ [opc]) \<and>
     (\<forall>s d. length d \<le> 75 \<longrightarrow> push_slice L s d = s @ of_nat (length d) # d)"

datatype btc_address = P2PKH bytes | P2SH bytes | P2WPKHv0 bytes | P2WSHv0 bytes

text \<open>\<open>H160\<close> and \<open>H256\<close> fix the number of bytes.\<close>

fun wf_btc_address :: "btc_address \<Rightarrow> bool" where
  "wf_btc_address (P2PKH h) = (length h = 20)"
| "wf_btc_address (P2SH h) = (length h = 20)"
| "wf_btc_address (P2WPKHv0 h) = (length h = 20)"
| "wf_btc_address (P2WSHv0 h) = (length h = 32)"

fun wf_payload :: "payload \<Rightarrow> bool" where
  "wf_payload (PubkeyHash h) = (length h = 20)"
| "wf_payload (ScriptHash h) = (length h = 20)"
| "wf_payload (WitnessProgram v p) = (v \<le> 16 \<and> 2 \<le> length p \<and> length p \<le> 40)"

fun from_payload :: "payload \<Rightarrow> (btc_address, conversion_error) result" where
  "from_payload (PubkeyHash h) = Ok (P2PKH h)"
| "from_payload (ScriptHash h) = Ok (P2SH h)"
| "from_payload (WitnessProgram version program) =
     (if length program = 20 then Ok (P2WPKHv0 program) else Err Cv_InvalidPayload)"

text \<open>\<open>from_slice\<close> of the four hash types checks the length.\<close>

definition hash_from_slice :: "nat \<Rightarrow> bytes \<Rightarrow> (bytes, conversion_error) result" where
  "hash_from_slice n h = (if length h = n then Ok h else Err (Cv_HashesError ''InvalidLength''))"

fun address_script :: "script_lib \<Rightarrow> btc_address \<Rightarrow> (bytes, conversion_error) result" where
  "address_script L (P2PKH h) = rbind (hash_from_slice 20 h) (\<lambda>x. Ok (new_p2pkh L x))"
| "address_script L (P2SH h) = rbind (hash_from_slice 20 h) (\<lambda>x. Ok (new_p2sh L x))"
| "address_script L (P2WPKHv0 h) = rbind (hash_from_slice 20 h) (\<lambda>x. Ok (new_v0_p2wpkh L x))"
| "address_script L (P2WSHv0 h) = rbind (hash_from_slice 32 h) (\<lambda>x. Ok (new_v0_p2wsh L x))"

definition to_payload :: "script_lib \<Rightarrow> btc_address \<Rightarrow> (payload, conversion_error) result" where
  "to_payload L a = rbind (address_script L a)
     (\<lambda>script. ok_or (Cv_AddressError ''UnrecognizedScript'') (from_script L script))"

definition from_address :: "address \<Rightarrow> (btc_address, conversion_error) result" where
  "from_address a = from_payload (addr_payload a)"

definition to_address ::
  "script_lib \<Rightarrow> btc_address \<Rightarrow> network \<Rightarrow> (address, conversion_error) result" where
  "to_address L a net = rbind (to_payload L a)
     (\<lambda>p. Ok \<lparr>addr_payload = p, addr_network = net\<rparr>)"

fun payload_of :: "btc_address \<Rightarrow> payload" where
  "payload_of (P2PKH h) = PubkeyHash h"
| "payload_of (P2SH h) = ScriptHash h"
| "payload_of (P2WPKHv0 h) = WitnessProgram 0 h"
| "payload_of (P2WSHv0 h) = WitnessProgram 0 h"

lemma to_payload_wf:
  "script_laws L \<Longrightarrow> wf_btc_address a \<Longrightarrow> to_payload L a = Ok (payload_of a)"
  by (cases a) (auto simp: to_payload_def hash_from_slice_def script_laws_def)

lemma to_payload_inj:
  "script_laws L \<Longrightarrow> wf_btc_address a \<Longrightarrow> wf_btc_address b \<Longrightarrow>
   to_payload L a = to_payload L b \<Longrightarrow> a = b"
  by (cases a; cases b) (auto simp: to_payload_wf)

section \<open>Transactions\<close>

record tx_out =
  out_value :: u64
  script_pubkey :: bytes

record out_point =
  op_txid :: txid
  op_vout :: u32

record tx_in =
  previous_output :: out_point
  script_sig :: bytes
  tx_sequence :: u32
  tx_witness :: "bytes list"

record transaction =
  tx_version :: int
  lock_time :: u32
  tx_input :: "tx_in list"
  tx_output :: "tx_out list"

text \<open>
  The 34 bytes of an OP_RETURN output: length 34, then \<open>0x6a\<close> and the length byte 32;
  only the first three outputs are looked at.
\<close>

definition op_return_arr :: "tx_out \<Rightarrow> bytes option" where
  "op_return_arr x = (let arr = script_pubkey x in
     if length arr = 34 \<and> arr ! 0 = 0x6a \<and> arr ! 1 = 32 then Some arr else None)"

definition get_op_return_bytes :: "transaction \<Rightarrow> bytes option" where
  "get_op_return_bytes tx = find_map op_return_arr (take 3 (tx_output tx))"

definition get_op_return :: "transaction \<Rightarrow> H256 option" where
  "get_op_return tx = map_option (drop 2) (get_op_return_bytes tx)"

definition get_payment_amount_to :: "script_lib \<Rightarrow> transaction \<Rightarrow> payload \<Rightarrow> u64 option" where
  "get_payment_amount_to L tx dest = find_map (\<lambda>uxto. case from_script L (script_pubkey uxto) of
       None \<Rightarrow> None
     | Some payload \<Rightarrow> if payload = dest then Some (out_value uxto) else None) (tx_output tx)"

definition extract_indexed_output_addresses ::
  "script_lib \<Rightarrow> transaction \<Rightarrow> (nat \<times> payload) list" where
  "extract_indexed_output_addresses L tx =
     filter_map (\<lambda>(idx, o'). map_option (\<lambda>p. (idx, p)) (from_script L (script_pubkey o')))
       (filter (\<lambda>(_, x). out_value x > 0) (enumerate 0 (tx_output tx)))"

definition extract_output_addresses :: "script_lib \<Rightarrow> transaction \<Rightarrow> payload list" where
  "extract_output_addresses L tx = map snd (extract_indexed_output_addresses L tx)"

definition extract_return_to_self_address ::
  "script_lib \<Rightarrow> transaction \<Rightarrow> payload \<Rightarrow> ((nat \<times> payload) option, bitcoin_error) result" where
  "extract_return_to_self_address L tx destination =
     (case filter (\<lambda>(_, x). x \<noteq> destination) (extract_indexed_output_addresses L tx) of
        [] \<Rightarrow> Ok None
      | [a] \<Rightarrow> Ok (Some a)
      | _ \<Rightarrow> Err Be_TooManyReturnToSelfAddresses)"

lemma op_return_arr_Some:
  "op_return_arr x = Some a \<Longrightarrow> a = script_pubkey x \<and> length a = 34"
  by (auto simp: op_return_arr_def Let_def split: if_splits)

lemma length_get_op_return: "get_op_return tx = Some h \<Longrightarrow> length h = 32"
  by (auto simp: get_op_return_def get_op_return_bytes_def dest!: find_map_Some op_return_arr_Some)

lemma get_payment_Some:
  "get_payment_amount_to L tx dest = Some v \<Longrightarrow>
   \<exists>x\<in>set (tx_output tx). from_script L (script_pubkey x) = Some dest \<and> out_value x = v"
  by (auto simp: get_payment_amount_to_def dest!: find_map_Some split: option.splits if_splits)

lemma set_extract_indexed:
  "(i, p) \<in> set (extract_indexed_output_addresses L tx) \<longleftrightarrow>
     i < length (tx_output tx) \<and> out_value (tx_output tx ! i) > 0 \<and>
     from_script L (script_pubkey (tx_output tx ! i)) = Some p"
  by (auto simp: extract_indexed_output_addresses_def set_filter_map in_set_enumerate_eq
      split: prod.splits)

lemma extract_indexed_outputs_distinct:
  "distinct (map fst (extract_indexed_output_addresses L tx))"
proof -
  have "map fst (filter_map (\<lambda>(idx, o'). map_option (\<lambda>p. (idx, p)) (f o')) xs) =
        map fst (filter (\<lambda>(_, o'). f o' \<noteq> None) xs)" for f :: "tx_out \<Rightarrow> payload option" and xs :: "(nat \<times> tx_out) list"
    by (induction xs) (auto split: option.splits)
  then show ?thesis
    by (simp add: extract_indexed_output_addresses_def distinct_map_filter)
qed

section \<open>Properties\<close>

text \<open>
  An address of the parachain survives the trip through a Bitcoin payload: a
  well-formed P2PKH, P2SH or P2WPKHv0 address encodes and decodes to itself, and a P2WSHv0
  address encodes to a payload that \<open>from_payload\<close> rejects with \<open>InvalidPayload\<close>.
\<close>

theorem address_payload_roundtrip:
  assumes "script_laws L" and "wf_btc_address a"
  shows "rbind (to_payload L a) from_payload =
           (case a of P2WSHv0 h \<Rightarrow> Err Cv_InvalidPayload | _ \<Rightarrow> Ok a)"
  using assms by (cases a) (auto simp: to_payload_wf)

text \<open>
  Decoding forgets the witness version: re-encoding what \<open>from_payload\<close> accepted gives
  the payload back exactly when it is not a 20-byte witness program of a version above 0.
\<close>

theorem from_payload_version:
  assumes "script_laws L" and "wf_payload p" and "from_payload p = Ok a"
  shows "wf_btc_address a \<and>
         (to_payload L a = Ok p) = (case p of WitnessProgram v _ \<Rightarrow> v = 0 | _ \<Rightarrow> True)"
  using assms
  by (cases p) (auto simp: to_payload_wf split: if_splits)

definition change_indices :: "script_lib \<Rightarrow> transaction \<Rightarrow> payload \<Rightarrow> nat set" where
  "change_indices L tx dest = {i. i < length (tx_output tx) \<and> out_value (tx_output tx ! i) > 0 \<and>
     (\<exists>p. from_script L (script_pubkey (tx_output tx ! i)) = Some p \<and> p \<noteq> dest)}"

lemma change_indices_list:
  "change_indices L tx dest =
     set (map fst (filter (\<lambda>(_, x). x \<noteq> dest) (extract_indexed_output_addresses L tx)))"
  by (auto simp: change_indices_def image_iff set_extract_indexed split: prod.splits) blast+

lemma card_change_indices:
  "card (change_indices L tx dest) =
     length (filter (\<lambda>(_, x). x \<noteq> dest) (extract_indexed_output_addresses L tx))"
  unfolding change_indices_list
  by (subst distinct_card)
    (simp_all add: extract_indexed_outputs_distinct distinct_map_filter)

text \<open>
  \<open>extract_return_to_self_address\<close> finds the change output: it returns an index and a
  payload exactly when that is the only output with a positive value whose payload can be
  decoded and differs from the destination; it returns none when there is no such output,
  and with two or more it is the error \<open>TooManyReturnToSelfAddresses\<close>.
\<close>

theorem extract_return_to_self_spec:
  "case extract_return_to_self_address L tx dest of
     Ok (Some (i, p)) \<Rightarrow> change_indices L tx dest = {i} \<and>
        from_script L (script_pubkey (tx_output tx ! i)) = Some p \<and> p \<noteq> dest
   | Ok None \<Rightarrow> change_indices L tx dest = {}
   | Err e \<Rightarrow> e = Be_TooManyReturnToSelfAddresses \<and> 2 \<le> card (change_indices L tx dest)
   | Panic \<Rightarrow> False"
proof -
  let ?xs = "filter (\<lambda>(_, x). x \<noteq> dest) (extract_indexed_output_addresses L tx)"
  have mem: "x \<in> set ?xs \<Longrightarrow>
      from_script L (script_pubkey (tx_output tx ! fst x)) = Some (snd x) \<and> snd x \<noteq> dest" for x
    by (cases x) (auto simp: set_extract_indexed)
  consider "?xs = []" | i p where "?xs = [(i, p)]" | x y zs where "?xs = x # y # zs"
    by (metis neq_Nil_conv prod.exhaust)
  then show ?thesis
  proof cases
    case 1
    then show ?thesis
      by (simp add: extract_return_to_self_address_def change_indices_list)
  next
    case (2 i p)
    then show ?thesis
      using mem [of "(i, p)"] by (simp add: extract_return_to_self_address_def change_indices_list)
  next
    case (3 x y zs)
    then show ?thesis
      by (simp add: extract_return_to_self_address_def card_change_indices)
  qed
qed

text \<open>A concrete \<open>script_lib\<close> with the standard scripts, for the witnesses.\<close>

definition std_from_script :: "bytes \<Rightarrow> payload option" where
  "std_from_script s =
     (if length s = 25 \<and> take 3 s = [0x76, 0xa9, 20] \<and> drop 23 s = [0x88, 0xac]
        then Some (PubkeyHash (take 20 (drop 3 s)))
      else if length s = 23 \<and> take 2 s = [0xa9, 20] \<and> drop 22 s = [0x87]
        then Some (ScriptHash (take 20 (drop 2 s)))
      else if length s = 22 \<and> take 2 s = [0, 20] then Some (WitnessProgram 0 (drop 2 s))
      else if length s = 34 \<and> take 2 s = [0, 32] then Some (WitnessProgram 0 (drop 2 s))
      else if length s = 22 \<and> take 2 s = [0x51, 20] then Some (WitnessProgram 1 (drop 2 s))
      else None)"

definition std_lib :: script_lib where
  "std_lib = \<lparr>
     new_p2pkh = (\<lambda>h. [0x76, 0xa9, 20] @ h @ [0x88, 0xac]),
     new_p2sh = (\<lambda>h. [0xa9, 20] @ h @ [0x87]),
     new_v0_p2wpkh = (\<lambda>h. [0, 20] @ h),
     new_v0_p2wsh = (\<lambda>h. [0, 32] @ h),
     from_script = std_from_script,
     script_of = (\<lambda>p. case p of
         PubkeyHash h \<Rightarrow> [0x76, 0xa9, 20] @ h @ [0x88, 0xac]
       | ScriptHash h \<Rightarrow> [0xa9, 20] @ h @ [0x87]
       | WitnessProgram v h \<Rightarrow> (if v = 0 then 0 else 0x50 + of_nat v) # of_nat (length h) # h),
     push_opcode = (\<lambda>s opc. s @ [opc]),
     push_slice = (\<lambda>s d. s @ of_nat (length d) # d)\<rparr>"

lemma std_lib_laws: "script_laws std_lib"
  by (simp add: script_laws_def std_lib_def std_from_script_def)

lemma address_payload_roundtrip_witness:
  "rbind (to_payload std_lib (P2WPKHv0 (replicate 20 7))) from_payload = Ok (P2WPKHv0 (replicate 20 7))"
  using address_payload_roundtrip [OF std_lib_laws, of "P2WPKHv0 (replicate 20 7)"] by simp

lemma from_payload_version_witness:
  "to_payload std_lib (P2WPKHv0 (replicate 20 7)) \<noteq> Ok (WitnessProgram 1 (replicate 20 7))"
  using from_payload_version [OF std_lib_laws,
      of "WitnessProgram 1 (replicate 20 7)" "P2WPKHv0 (replicate 20 7)"] by simp

end
