(* ===== verification/Requests.thy ===== *)
theory Requests
  imports BtcTypes
begin

text \<open>
  Redeem and replace requests and their deadlines: the first part of
  \<open>vault/src/execution.rs\<close> (\<open>Deadline\<close>, \<open>Request\<close>, the block conversions and
  \<open>calculate_deadline\<close>), the matching of a Bitcoin transaction to a request
  (\<open>get_request_for_btc_tx\<close>) and \<open>calculate_remaining_time\<close> of \<open>vault/src/metrics.rs\<close>.
  Block heights are \<open>u32\<close>, amounts \<open>u128\<close>; a \<open>Duration\<close> is its number of milliseconds.
\<close>

section \<open>Block times\<close>

definition MILLISECS_PER_BLOCK :: u64 where "MILLISECS_PER_BLOCK = 12000"

text \<open>\<open>BLOCK_INTERVAL\<close> of the \<open>bitcoin\<close> crate: 600 seconds, read in milliseconds.\<close>

definition BITCOIN_BLOCK_INTERVAL :: u128 where "BITCOIN_BLOCK_INTERVAL = 600 * 1000"

definition parachain_blocks_to_bitcoin_blocks_rounded_up :: "u32 \<Rightarrow> (u32, vault_error) result" where
  "parachain_blocks_to_bitcoin_blocks_rounded_up parachain_blocks =
     rbind (ok_or Ve_ArithmeticOverflow (checked_mul (ucast parachain_blocks) MILLISECS_PER_BLOCK)) (\<lambda>millis.
     let denominator = BITCOIN_BLOCK_INTERVAL in
     rbind (ok_or Ve_ArithmeticOverflow (checked_add (ucast millis) denominator)) (\<lambda>x.
     rbind (ok_or Ve_ArithmeticUnderflow (checked_sub x 1)) (\<lambda>y.
     rbind (ok_or Ve_ArithmeticUnderflow (checked_div y denominator)) (\<lambda>num_bitcoin_blocks.
     ok_or Ve_TryIntoIntError (try_ucast num_bitcoin_blocks)))))"

definition duration_to_parachain_blocks :: "u128 \<Rightarrow> (u32, vault_error) result" where
  "duration_to_parachain_blocks duration_millis =
     ok_or Ve_TryIntoIntError (try_ucast (duration_millis div ucast MILLISECS_PER_BLOCK))"

text \<open>Fifty parachain blocks to a Bitcoin block, rounded up; it never fails on a \<open>u32\<close>.\<close>

lemma millis_div: "(n * 12000 + 599999) div 600000 = (n + 49) div (50::nat)"
proof -
  have "(n * 12000 + 599999) div 600000 = (11999 + 12000 * (n + 49)) div (12000 * 50)"
    by simp
  also have "\<dots> = (11999 + 12000 * (n + 49)) div 12000 div 50"
    by (rule div_mult2_eq)
  also have "(11999 + 12000 * (n + 49)) div 12000 = n + 49"
    by (simp add: div_mult_self2)
  finally show ?thesis .
qed

lemma to_bitcoin_blocks:
  "parachain_blocks_to_bitcoin_blocks_rounded_up b = Ok c \<longleftrightarrow> unat c = (unat b + 49) div 50"
  and to_bitcoin_blocks_total:
  "\<exists>c. parachain_blocks_to_bitcoin_blocks_rounded_up b = Ok c"
proof -
  let ?n = "unat b"
  have n: "?n < 2 ^ 32" using unsigned_less [of b] by simp
  define m :: u64 where "m = ucast b * 12000"
  have ub: "unat (ucast b :: u64) = ?n"
    using n by (simp add: unsigned_ucast_eq take_bit_nat_eq_self)
  have m: "unat m = ?n * 12000"
    unfolding m_def using n by (subst unat_mult_lem [THEN iffD1]) (simp_all add: ub)
  have mul: "checked_mul (ucast b) MILLISECS_PER_BLOCK = Some m"
    by (simp add: checked_mul_Some MILLISECS_PER_BLOCK_def m ub)
  define x :: u128 where "x = ucast m + 600000"
  have um: "unat (ucast m :: u128) = ?n * 12000"
    using n by (simp add: unsigned_ucast_eq take_bit_nat_eq_self m)
  have x: "unat x = ?n * 12000 + 600000"
    unfolding x_def using n by (subst unat_add_lem [THEN iffD1]) (simp_all add: um)
  have add: "checked_add (ucast m) BITCOIN_BLOCK_INTERVAL = Some x"
    by (simp add: checked_add_Some BITCOIN_BLOCK_INTERVAL_def um x)
  define y :: u128 where "y = x - 1"
  have y: "unat y = ?n * 12000 + 599999"
    unfolding y_def using x by (subst unat_sub) (simp_all add: word_le_nat_alt)
  have sub: "checked_sub x 1 = Some y"
    by (simp add: checked_sub_Some x y)
  define z :: u128 where "z = y div 600000"
  have z: "unat z = (?n + 49) div 50"
    by (simp add: z_def unat_div y millis_div)
  have dv: "checked_div y BITCOIN_BLOCK_INTERVAL = Some z"
    by (simp add: checked_div_Some BITCOIN_BLOCK_INTERVAL_def y z millis_div)
  have eq: "parachain_blocks_to_bitcoin_blocks_rounded_up b = ok_or Ve_TryIntoIntError (try_ucast z)"
    by (simp add: parachain_blocks_to_bitcoin_blocks_rounded_up_def mul add sub dv)
  show "parachain_blocks_to_bitcoin_blocks_rounded_up b = Ok c \<longleftrightarrow> unat c = (?n + 49) div 50"
    by (simp add: eq try_ucast_Some z)
  have "unat z < 2 ^ 32" using n by (simp add: z)
  then have "try_ucast z = Some (ucast z :: u32)" by (simp add: try_ucast_def)
  then show "\<exists>c. parachain_blocks_to_bitcoin_blocks_rounded_up b = Ok c"
    by (simp add: eq)
qed

lemma duration_blocks_Ok:
  "duration_to_parachain_blocks d = Ok c \<longleftrightarrow> unat c = unat d div 12000"
proof -
  have "unat (ucast MILLISECS_PER_BLOCK :: u128) = 12000"
    by (simp add: MILLISECS_PER_BLOCK_def)
  then show ?thesis
    by (simp add: duration_to_parachain_blocks_def try_ucast_Some unat_div)
qed

lemma duration_blocks_cases:
  "duration_to_parachain_blocks d =
     (if unat d div 12000 < 2 ^ 32 then Ok (of_nat (unat d div 12000)) else Err Ve_TryIntoIntError)"
proof (cases "unat d div 12000 < 2 ^ 32")
  case True
  then have "unat (of_nat (unat d div 12000) :: u32) = unat d div 12000"
    by (simp add: unsigned_of_nat take_bit_nat_eq_self)
  with True show ?thesis by (simp add: duration_blocks_Ok)
next
  case False
  then have "duration_to_parachain_blocks d \<noteq> Ok c" for c
    by (auto simp: duration_blocks_Ok dest!: unat_eq_bound)
  with False show ?thesis
    by (cases "duration_to_parachain_blocks d") (auto simp: duration_to_parachain_blocks_def)
qed

section \<open>Deadlines\<close>

record deadline =
  dl_parachain :: u32
  dl_bitcoin :: u32

definition calculate_deadline ::
  "u32 \<Rightarrow> u32 \<Rightarrow> u32 \<Rightarrow> u128 \<Rightarrow> (deadline, vault_error) result" where
  "calculate_deadline opentime btc_start_height period payment_margin =
     rbind (duration_to_parachain_blocks payment_margin) (\<lambda>margin_parachain_blocks.
     rbind (ok_or Ve_ArithmeticOverflow (checked_add opentime period)) (\<lambda>p1.
     rbind (ok_or Ve_ArithmeticUnderflow (checked_sub p1 margin_parachain_blocks)) (\<lambda>parachain_deadline.
     rbind (parachain_blocks_to_bitcoin_blocks_rounded_up period) (\<lambda>period_btc.
     rbind (ok_or Ve_ArithmeticOverflow (checked_add btc_start_height period_btc)) (\<lambda>b1.
     rbind (parachain_blocks_to_bitcoin_blocks_rounded_up margin_parachain_blocks) (\<lambda>margin_btc.
     rbind (ok_or Ve_ArithmeticUnderflow (checked_sub b1 margin_btc)) (\<lambda>bitcoin_deadline.
     Ok \<lparr>dl_parachain = parachain_deadline, dl_bitcoin = bitcoin_deadline\<rparr>)))))))"

lemma calculate_deadline_Ok:
  "calculate_deadline opentime btc_start period margin = Ok d \<Longrightarrow>
     unat (dl_parachain d) + unat margin div 12000 = unat opentime + unat period \<and>
     unat (dl_bitcoin d) + (unat margin div 12000 + 49) div 50 =
       unat btc_start + (unat period + 49) div 50"
  by (auto simp: calculate_deadline_def duration_blocks_Ok arith_specs to_bitcoin_blocks)

lemma calculate_deadline_value:
  "calculate_deadline opentime btc_start period margin =
     (let M = unat margin div 12000; P = (unat period + 49) div 50; Mb = (M + 49) div 50 in
      if 2 ^ 32 \<le> M then Err Ve_TryIntoIntError
      else if 2 ^ 32 \<le> unat opentime + unat period then Err Ve_ArithmeticOverflow
      else if unat opentime + unat period < M then Err Ve_ArithmeticUnderflow
      else if 2 ^ 32 \<le> unat btc_start + P then Err Ve_ArithmeticOverflow
      else if unat btc_start + P < Mb then Err Ve_ArithmeticUnderflow
      else Ok \<lparr>dl_parachain = of_nat (unat opentime + unat period - M),
               dl_bitcoin = of_nat (unat btc_start + P - Mb)\<rparr>)"
proof (cases "unat margin div 12000 < 2 ^ 32")
  case False
  then show ?thesis
    by (simp add: calculate_deadline_def duration_blocks_cases Let_def)
next
  case True
  define m :: u32 where "m = of_nat (unat margin div 12000)"
  have m: "duration_to_parachain_blocks margin = Ok m" and um: "unat m = unat margin div 12000"
    using True by (simp_all add: duration_blocks_cases m_def unsigned_of_nat take_bit_nat_eq_self)
  obtain P where P: "parachain_blocks_to_bitcoin_blocks_rounded_up period = Ok P"
    using to_bitcoin_blocks_total by blast
  obtain Mb where Mb: "parachain_blocks_to_bitcoin_blocks_rounded_up m = Ok Mb"
    using to_bitcoin_blocks_total by blast
  have uP: "unat P = (unat period + 49) div 50" using P by (simp add: to_bitcoin_blocks)
  have uMb: "unat Mb = (unat margin div 12000 + 49) div 50" using Mb um by (simp add: to_bitcoin_blocks)
  have eq: "calculate_deadline opentime btc_start period margin =
     (if 2 ^ 32 \<le> unat opentime + unat period then Err Ve_ArithmeticOverflow
      else if unat opentime + unat period < unat m then Err Ve_ArithmeticUnderflow
      else if 2 ^ 32 \<le> unat btc_start + unat P then Err Ve_ArithmeticOverflow
      else if unat btc_start + unat P < unat Mb then Err Ve_ArithmeticUnderflow
      else Ok \<lparr>dl_parachain = opentime + period - m, dl_bitcoin = btc_start + P - Mb\<rparr>)"
    by (simp add: calculate_deadline_def m P Mb checked_add_def checked_sub_def word_le_nat_alt
        unat_word_ariths)
  have sub: "b + c - d = of_nat (unat b + unat c - unat d)"
    if "\<not> 2 ^ 32 \<le> unat b + unat c" and "\<not> unat b + unat c < unat d" for b c d :: u32
    using that by (simp add: of_nat_diff)
  have eq': "calculate_deadline opentime btc_start period margin =
     (if 2 ^ 32 \<le> unat opentime + unat period then Err Ve_ArithmeticOverflow
      else if unat opentime + unat period < unat m then Err Ve_ArithmeticUnderflow
      else if 2 ^ 32 \<le> unat btc_start + unat P then Err Ve_ArithmeticOverflow
      else if unat btc_start + unat P < unat Mb then Err Ve_ArithmeticUnderflow
      else Ok \<lparr>dl_parachain = of_nat (unat opentime + unat period - unat m),
               dl_bitcoin = of_nat (unat btc_start + unat P - unat Mb)\<rparr>)"
    unfolding eq by (intro if_cong refl arg_cong [where f = Ok])
      (rule arg_cong2 [where f = "\<lambda>x y. \<lparr>dl_parachain = x, dl_bitcoin = y\<rparr>"]; rule sub; assumption)
  show ?thesis
    using True unfolding eq' um uP uMb Let_def by (simp only: not_le if_False if_True not_less [symmetric] not_True_eq_False)
qed

text \<open>
  C8. The payment deadline is computed exactly and fails only for a reason. With the margin
  in parachain blocks \<open>M\<close>: an error when \<open>M\<close> does not fit \<open>u32\<close>, an overflow when a deadline
  before subtracting the margin leaves \<open>u32\<close>, an underflow when a deadline would be negative,
  and otherwise open height plus period less margin, the period and the margin converted to
  Bitcoin blocks rounded up.
\<close>

theorem calculate_deadline_spec:
  "calculate_deadline opentime btc_start period margin =
     (let M = unat margin div 12000; P = (unat period + 49) div 50; Mb = (M + 49) div 50 in
      if 2 ^ 32 \<le> M then Err Ve_TryIntoIntError
      else if 2 ^ 32 \<le> unat opentime + unat period then Err Ve_ArithmeticOverflow
      else if unat opentime + unat period < M then Err Ve_ArithmeticUnderflow
      else if 2 ^ 32 \<le> unat btc_start + P then Err Ve_ArithmeticOverflow
      else if unat btc_start + P < Mb then Err Ve_ArithmeticUnderflow
      else Ok \<lparr>dl_parachain = of_nat (unat opentime + unat period - M),
               dl_bitcoin = of_nat (unat btc_start + P - Mb)\<rparr>)"
  by (rule calculate_deadline_value)

lemma calculate_deadline_example:
  "calculate_deadline 100 50 900 3600000 = Ok \<lparr>dl_parachain = 700, dl_bitcoin = 62\<rparr>"
  by (simp add: calculate_deadline_value)

section \<open>Requests\<close>

datatype request_type = Redeem | Replace

datatype redeem_status = Rd_Pending | Rd_Completed | Rd_Reimbursed bool | Rd_Retried
datatype replace_status = Rp_Pending | Rp_Completed | Rp_Cancelled

text \<open>Accounts and currencies are opaque to the client: \<open>'v\<close> is \<open>VaultId\<close>.\<close>

record 'v redeem_request =
  rd_vault :: 'v
  rd_opentime :: u32
  rd_period :: u32
  rd_amount_btc :: u128
  rd_transfer_fee_btc :: u128
  rd_btc_address :: btc_address
  rd_btc_height :: u32
  rd_status :: redeem_status

record 'v replace_request =
  rp_old_vault :: 'v
  rp_new_vault :: 'v
  rp_amount :: u128
  rp_accept_time :: u32
  rp_period :: u32
  rp_btc_address :: btc_address
  rp_btc_height :: u32
  rp_status :: replace_status

datatype issue_status = Is_Pending | Is_Completed | Is_Cancelled

record 'v issue_request =
  is_vault :: 'v
  is_requester :: bytes
  is_btc_public_key :: bytes
  is_opentime :: u32
  is_period :: u32
  is_amount :: u128
  is_fee :: u128
  is_btc_address :: btc_address
  is_btc_height :: u32
  is_status :: issue_status

record 'v request =
  rq_hash :: H256
  rq_btc_height :: "u32 option"
  rq_deadline :: "deadline option"
  rq_amount :: u128
  rq_btc_address :: btc_address
  rq_request_type :: request_type
  rq_vault_id :: 'v
  rq_fee_budget :: "u128 option"

definition from_redeem_request ::
  "H256 \<Rightarrow> 'v redeem_request \<Rightarrow> u128 \<Rightarrow> ('v request, vault_error) result" where
  "from_redeem_request hash request payment_margin =
     rbind (calculate_deadline (rd_opentime request) (rd_btc_height request) (rd_period request)
              payment_margin) (\<lambda>deadline.
     Ok \<lparr>rq_hash = hash, rq_btc_height = Some (rd_btc_height request), rq_deadline = Some deadline,
         rq_amount = rd_amount_btc request, rq_btc_address = rd_btc_address request,
         rq_request_type = Redeem, rq_vault_id = rd_vault request,
         rq_fee_budget = Some (rd_transfer_fee_btc request)\<rparr>)"

definition from_replace_request ::
  "H256 \<Rightarrow> 'v replace_request \<Rightarrow> u128 \<Rightarrow> ('v request, vault_error) result" where
  "from_replace_request hash request payment_margin =
     rbind (calculate_deadline (rp_accept_time request) (rp_btc_height request) (rp_period request)
              payment_margin) (\<lambda>deadline.
     Ok \<lparr>rq_hash = hash, rq_btc_height = Some (rp_btc_height request), rq_deadline = Some deadline,
         rq_amount = rp_amount request, rq_btc_address = rp_btc_address request,
         rq_request_type = Replace, rq_vault_id = rp_old_vault request,
         rq_fee_budget = None\<rparr>)"

text \<open>
  The request a transaction pays for: the OP_RETURN names it and the first output to its
  address carries at least its amount. The hash map is a partial map.
\<close>

definition get_request_for_btc_tx ::
  "script_lib \<Rightarrow> transaction \<Rightarrow> (H256 \<rightharpoonup> 'v request) \<Rightarrow> 'v request option" where
  "get_request_for_btc_tx L tx hash_map =
     Option.bind (get_op_return tx) (\<lambda>hash.
     Option.bind (hash_map hash) (\<lambda>request.
     Option.bind (ok_opt (to_payload L (rq_btc_address request))) (\<lambda>payload.
     Option.bind (get_payment_amount_to L tx payload) (\<lambda>paid_amount.
     if ucast paid_amount \<ge> rq_amount request then Some request else None))))"

lemma get_request_Some:
  "get_request_for_btc_tx L tx m = Some r \<longleftrightarrow>
     (\<exists>h p v. get_op_return tx = Some h \<and> m h = Some r \<and> to_payload L (rq_btc_address r) = Ok p \<and>
        get_payment_amount_to L tx p = Some v \<and> unat (rq_amount r) \<le> unat v)"
  by (auto simp: get_request_for_btc_tx_def bind_eq_Some_conv word_le_nat_alt unat_ucast_up
      split: if_splits)

section \<open>Remaining time of a redeem request\<close>

text \<open>
  A \<open>Duration\<close> times a \<open>u32\<close>; \<open>Duration\<close> holds 64 bits of seconds, so the product of these
  intervals with any \<open>u32\<close> fits. The number of Bitcoin blocks is first cut to \<open>u32\<close> (\<open>try_into\<close>).
\<close>

definition calculate_remaining_time ::
  "u32 \<Rightarrow> 'v redeem_request \<Rightarrow> u32 \<Rightarrow> u64 \<Rightarrow> u128 option" where
  "calculate_remaining_time redeem_period redeem para_height bitcoin_height =
     (let period_parachain_blocks = max redeem_period (rd_period redeem);
          deadline_block = saturating_add (rd_opentime redeem) period_parachain_blocks;
          remaining_blocks = saturating_sub deadline_block para_height;
          time_to_parachain_deadline = ucast MILLISECS_PER_BLOCK * (ucast remaining_blocks :: u128)
      in Option.bind (ok_opt (parachain_blocks_to_bitcoin_blocks_rounded_up period_parachain_blocks)) (\<lambda>b.
         let period_bitcoin_blocks = (ucast b :: u64);
             deadline_bitcoin_block = saturating_add period_bitcoin_blocks (ucast (rd_btc_height redeem));
             remaining_blocks = saturating_sub deadline_bitcoin_block bitcoin_height
         in Option.bind (try_ucast remaining_blocks :: u32 option) (\<lambda>rb.
            let time_to_bitcoin_deadline = BITCOIN_BLOCK_INTERVAL * (ucast rb :: u128)
            in Some (max time_to_parachain_deadline time_to_bitcoin_deadline))))"

lemma unat_mult_small:
  "unat a * unat b < 2 ^ LENGTH('a) \<Longrightarrow> unat (a * b :: 'a::len word) = unat a * unat b"
  by (simp add: unat_mult_lem [THEN iffD1])

lemma max_word_of_nat:
  "unat (max a b :: 'a::len word) = max (unat a) (unat b)"
  by (simp add: max_def word_le_nat_alt)

lemma blocks_to_millis:
  fixes rb :: u32
  shows "unat (ucast MILLISECS_PER_BLOCK * (ucast rb :: u128)) = 12000 * unat rb"
    and "unat (BITCOIN_BLOCK_INTERVAL * (ucast rb :: u128)) = 600000 * unat rb"
proof -
  have u: "unat (ucast rb :: u128) = unat rb" by (rule unat_ucast_up) simp
  have b: "unat rb < 2 ^ 32" using unsigned_less [of rb] by simp
  have m: "unat (ucast MILLISECS_PER_BLOCK :: u128) = 12000"
    by (simp add: MILLISECS_PER_BLOCK_def)
  show "unat (ucast MILLISECS_PER_BLOCK * (ucast rb :: u128)) = 12000 * unat rb"
    using b by (subst unat_mult_small) (simp_all only: u m, simp_all)
  have n: "unat BITCOIN_BLOCK_INTERVAL = 600000"
    by (simp add: BITCOIN_BLOCK_INTERVAL_def)
  show "unat (BITCOIN_BLOCK_INTERVAL * (ucast rb :: u128)) = 600000 * unat rb"
    using b by (subst unat_mult_small) (simp_all only: u n, simp_all)
qed

text \<open>
  The remaining time of a redeem request is the longer of the times to its two
  deadlines, each zero once the deadline has passed; it is missing only when the Bitcoin
  deadline is \<open>2^32\<close> or more blocks away.
\<close>

theorem remaining_time_spec:
  "map_option unat (calculate_remaining_time redeem_period redeem para_height bitcoin_height) =
     (let period = max (unat redeem_period) (unat (rd_period redeem));
          para = min (unat (rd_opentime redeem) + period) (2 ^ 32 - 1) - unat para_height;
          btc = (period + 49) div 50 + unat (rd_btc_height redeem) - unat bitcoin_height in
      if btc < 2 ^ 32 then Some (max (12000 * para) (600000 * btc)) else None)"
proof -
  let ?p = "max redeem_period (rd_period redeem)"
  obtain b where b: "parachain_blocks_to_bitcoin_blocks_rounded_up ?p = Ok b"
    using to_bitcoin_blocks_total by blast
  have ub: "unat b = (max (unat redeem_period) (unat (rd_period redeem)) + 49) div 50"
    using b by (simp add: to_bitcoin_blocks max_word_of_nat)
  let ?rem = "saturating_sub (saturating_add (ucast b :: u64) (ucast (rd_btc_height redeem))) bitcoin_height"
  have "unat b + unat (rd_btc_height redeem) < 2 ^ 64 - 1"
    using unat_u32_less [of b] unat_u32_less [of "rd_btc_height redeem"] by simp
  then have rem: "unat ?rem = unat b + unat (rd_btc_height redeem) - unat bitcoin_height"
    by (simp add: unat_saturating_sub unat_saturating_add unat_ucast_up)
  let ?par = "saturating_sub (saturating_add (rd_opentime redeem) ?p) para_height"
  have par: "unat ?par = min (unat (rd_opentime redeem) + unat ?p) (2 ^ 32 - 1) - unat para_height"
    by (simp add: unat_saturating_sub unat_saturating_add)
  show ?thesis
  proof (cases "unat ?rem < 2 ^ 32")
    case True
    then have t: "try_ucast ?rem = Some (ucast ?rem :: u32)" and u: "unat (ucast ?rem :: u32) = unat ?rem"
      by (simp_all add: try_ucast_def unsigned_ucast_eq take_bit_nat_eq_self)
    show ?thesis
      using True unfolding calculate_remaining_time_def Let_def b ok_opt.simps Option.bind.simps t
      by (simp only: option.map max_word_of_nat blocks_to_millis u rem par ub if_True)
  next
    case False
    then have t: "(try_ucast ?rem :: u32 option) = None" by (simp add: try_ucast_def)
    show ?thesis
      using False unfolding calculate_remaining_time_def Let_def b ok_opt.simps Option.bind.simps t
      by (simp only: option.map rem ub if_False)
  qed
qed

end
