(* ===== verification/Cancellation.thy ===== *)
theory Cancellation
  imports Requests "HOL-Library.Sublist"
begin

text \<open>
  The cancellation scheduler of the vault (\<open>vault/src/cancellation.rs\<close>): it keeps a list of
  the open issue (or replace) requests with their two deadlines, refreshes it when it is
  marked invalid, and cancels the requests whose deadlines have both passed. The parachain
  calls are actions on the world \<open>'w\<close>, collected in \<open>cancel_pallets\<close>; the trait \<open>Canceller\<close>
  is the record \<open>canceller\<close> with its two instances.
\<close>

section \<open>State and events\<close>

datatype event = Opened | Executed H256 | ParachainBlock u32 | BitcoinBlock u32

record active_request =
  ar_id :: H256
  parachain_deadline_height :: u32
  bitcoin_deadline_height :: u32

record unconverted_open_time =
  uo_id :: H256
  parachain_open_height :: u32
  bitcoin_open_height :: u32
  uo_period :: u32

datatype list_state = Valid | Invalid

record 'acc scheduler =
  sc_vault_id :: 'acc
  sc_parachain_height :: u32
  sc_bitcoin_height :: u32

definition scheduler_new :: "u32 \<Rightarrow> u32 \<Rightarrow> 'acc \<Rightarrow> 'acc scheduler" where
  "scheduler_new parachain_height bitcoin_height vault_id =
     \<lparr>sc_vault_id = vault_id, sc_parachain_height = parachain_height, sc_bitcoin_height = bitcoin_height\<rparr>"

section \<open>The canceller trait and its instances\<close>

record ('w, 'acc, 'v) cancel_pallets =
  cp_get_vault_issue_requests :: "'acc \<Rightarrow> ('w, (H256 \<times> 'v issue_request) list, runtime_error) action"
  cp_get_new_vault_replace_requests :: "'acc \<Rightarrow> ('w, (H256 \<times> 'v replace_request) list, runtime_error) action"
  cp_get_issue_period :: "('w, u32, runtime_error) action"
  cp_get_replace_period :: "('w, u32, runtime_error) action"
  cp_cancel_issue :: "H256 \<Rightarrow> ('w, unit, runtime_error) action"
  cp_cancel_replace :: "H256 \<Rightarrow> ('w, unit, runtime_error) action"

record ('w, 'acc) canceller =
  c_get_open_requests :: "'acc \<Rightarrow> ('w, unconverted_open_time list, vault_error) action"
  c_get_period :: "('w, u32, vault_error) action"
  c_cancel_request :: "H256 \<Rightarrow> ('w, unit, vault_error) action"

definition issue_canceller :: "('w, 'acc, 'v) cancel_pallets \<Rightarrow> ('w, 'acc) canceller" where
  "issue_canceller P = \<lparr>
     c_get_open_requests = (\<lambda>vault_id.
       a_bind (a_map_err Ve_RuntimeError (cp_get_vault_issue_requests P vault_id)) (\<lambda>reqs.
       a_ret (map (\<lambda>(rid, issue). \<lparr>uo_id = rid, parachain_open_height = is_opentime issue,
                  bitcoin_open_height = is_btc_height issue, uo_period = is_period issue\<rparr>)
               (filter (\<lambda>(_, issue). is_status issue = Is_Pending) reqs)))),
     c_get_period = a_map_err Ve_RuntimeError (cp_get_issue_period P),
     c_cancel_request = (\<lambda>request_id. a_map_err Ve_RuntimeError (cp_cancel_issue P request_id))\<rparr>"

definition replace_canceller :: "('w, 'acc, 'v) cancel_pallets \<Rightarrow> ('w, 'acc) canceller" where
  "replace_canceller P = \<lparr>
     c_get_open_requests = (\<lambda>vault_id.
       a_bind (a_map_err Ve_RuntimeError (cp_get_new_vault_replace_requests P vault_id)) (\<lambda>reqs.
       a_ret (map (\<lambda>(rid, replace). \<lparr>uo_id = rid, parachain_open_height = rp_accept_time replace,
                  bitcoin_open_height = rp_btc_height replace, uo_period = rp_period replace\<rparr>)
               (filter (\<lambda>(_, replace). rp_status replace = Rp_Pending) reqs)))),
     c_get_period = a_map_err Ve_RuntimeError (cp_get_replace_period P),
     c_cancel_request = (\<lambda>request_id. a_map_err Ve_RuntimeError (cp_cancel_replace P request_id))\<rparr>"

section \<open>Draining the expired requests\<close>

definition has_expired :: "u32 \<Rightarrow> u32 \<Rightarrow> active_request \<Rightarrow> bool" where
  "has_expired current_height bitcoin_height request \<longleftrightarrow>
     current_height > parachain_deadline_height request \<and>
     bitcoin_height > bitcoin_deadline_height request"

lemma has_expired_nat:
  "has_expired cur btc = (\<lambda>r. unat (parachain_deadline_height r) < unat cur \<and>
                              unat (bitcoin_deadline_height r) < unat btc)"
  by (auto simp: has_expired_def word_less_nat_alt)

text \<open>
  The loop of \<open>drain_expired\<close>: \<open>requests.remove(i)\<close> shifts the rest down, so the index only
  advances over requests that are kept. Indexing past the end panics.
\<close>

function drain_loop ::
  "u32 \<Rightarrow> u32 \<Rightarrow> nat \<Rightarrow> active_request list \<Rightarrow> active_request list
    \<Rightarrow> (active_request list \<times> active_request list, 'e) result" where
  "drain_loop cur btc i requests expired =
     (if i = length requests then Ok (requests, expired)
      else if length requests < i then Panic
      else if has_expired cur btc (requests ! i)
      then drain_loop cur btc i (take i requests @ drop (Suc i) requests) (expired @ [requests ! i])
      else drain_loop cur btc (Suc i) requests expired)"
  by pat_completeness auto
termination
  by (relation "measure (\<lambda>(cur, btc, i, requests, expired). length requests - i)") auto

declare drain_loop.simps [simp del]

text \<open>Returns the requests that stay and the expired ones.\<close>

definition drain_expired ::
  "active_request list \<Rightarrow> u32 \<Rightarrow> u32 \<Rightarrow> (active_request list \<times> active_request list, 'e) result" where
  "drain_expired requests current_height bitcoin_height =
     drain_loop current_height bitcoin_height 0 requests []"

lemma drain_loop_filter:
  "i \<le> length requests \<Longrightarrow> drain_loop cur btc i requests expired =
     Ok (take i requests @ filter (\<lambda>r. \<not> has_expired cur btc r) (drop i requests),
         expired @ filter (has_expired cur btc) (drop i requests))"
proof (induction cur btc i requests expired rule: drain_loop.induct)
  case (1 cur btc i requests expired)
  show ?case
  proof (cases "i = length requests")
    case True
    then show ?thesis by (simp add: drain_loop.simps)
  next
    case False
    with "1.prems" have i: "i < length requests" by simp
    then have d: "drop i requests = requests ! i # drop (Suc i) requests"
      by (rule Cons_nth_drop_Suc [symmetric])
    have t: "take (Suc i) requests = take i requests @ [requests ! i]"
      using i by (rule take_Suc_conv_app_nth)
    show ?thesis
      using "1.IH" i by (subst drain_loop.simps) (simp add: d t)
  qed
qed

lemma drain_expired_filter:
  "drain_expired requests cur btc =
     Ok (filter (\<lambda>r. \<not> has_expired cur btc r) requests, filter (has_expired cur btc) requests)"
  by (simp add: drain_expired_def drain_loop_filter)

section \<open>The scheduler\<close>

text \<open>Cancels in order; the first failure marks the list invalid and stops.\<close>

fun cancel_loop :: "('w, 'acc) canceller \<Rightarrow> active_request list \<Rightarrow> ('w, list_state, runtime_error) action" where
  "cancel_loop C [] = a_ret Valid"
| "cancel_loop C (request # rest) =
     a_match (c_cancel_request C (ar_id request)) (\<lambda>_. cancel_loop C rest) (\<lambda>e. a_ret Invalid)"

definition cancel_requests ::
  "('w, 'acc) canceller \<Rightarrow> 'acc scheduler \<Rightarrow> active_request list
    \<Rightarrow> ('w, active_request list \<times> list_state, runtime_error) action" where
  "cancel_requests C s active_requests =
     a_bind (a_lift (drain_expired active_requests (sc_parachain_height s) (sc_bitcoin_height s)))
       (\<lambda>(active', cancellable_requests).
          a_bind (cancel_loop C cancellable_requests) (\<lambda>st. a_ret (active', st)))"

definition convert_open_time ::
  "u32 \<Rightarrow> unconverted_open_time \<Rightarrow> (active_request, vault_error) result" where
  "convert_open_time global_period r =
     (let period = max global_period (uo_period r) in
      rbind (ok_or Ve_ArithmeticOverflow (checked_add (parachain_open_height r) period)) (\<lambda>p.
      rbind (parachain_blocks_to_bitcoin_blocks_rounded_up period) (\<lambda>bp.
      rbind (ok_or Ve_ArithmeticOverflow (checked_add (bitcoin_open_height r) bp)) (\<lambda>b.
      Ok \<lparr>ar_id = uo_id r, parachain_deadline_height = p, bitcoin_deadline_height = b\<rparr>))))"

definition sched_get_open_requests ::
  "('w, 'acc) canceller \<Rightarrow> 'acc scheduler \<Rightarrow> ('w, active_request list, vault_error) action" where
  "sched_get_open_requests C s =
     a_bind (c_get_open_requests C (sc_vault_id s)) (\<lambda>open_requests.
     if open_requests = [] then a_ret []
     else a_bind (c_get_period C) (\<lambda>global_period.
          a_lift (collect (map (convert_open_time global_period) open_requests))))"

definition refresh_list ::
  "('w, 'acc) canceller \<Rightarrow> 'acc scheduler \<Rightarrow> active_request list \<Rightarrow> list_state
    \<Rightarrow> ('w, active_request list, runtime_error) action" where
  "refresh_list C s active_requests list_state =
     (case list_state of
        Valid \<Rightarrow> a_ret active_requests
      | Invalid \<Rightarrow> a_match (sched_get_open_requests C s) a_ret (\<lambda>e. a_ret []))"

definition process_event ::
  "('w, 'acc) canceller \<Rightarrow> event \<Rightarrow> 'acc scheduler \<Rightarrow> active_request list \<Rightarrow> list_state
    \<Rightarrow> ('w, 'acc scheduler \<times> active_request list \<times> list_state, runtime_error) action" where
  "process_event C event s active_requests list_state =
     a_bind (refresh_list C s active_requests list_state) (\<lambda>active.
     case event of
       ParachainBlock height \<Rightarrow>
         (let s' = s\<lparr>sc_parachain_height := height\<rparr>
          in a_bind (cancel_requests C s' active) (\<lambda>(active', st). a_ret (s', active', st)))
     | BitcoinBlock height \<Rightarrow>
         (let s' = s\<lparr>sc_bitcoin_height := height\<rparr>
          in a_bind (cancel_requests C s' active) (\<lambda>(active', st). a_ret (s', active', st)))
     | Executed rid \<Rightarrow> a_ret (s, filter (\<lambda>x. ar_id x \<noteq> rid) active, Valid)
     | Opened \<Rightarrow> a_ret (s, active, Invalid))"

text \<open>
  The events received so far; the task itself ends with \<open>ChannelClosed\<close> when the channel does.
\<close>

fun process_events ::
  "('w, 'acc) canceller \<Rightarrow> event list \<Rightarrow> 'acc scheduler \<Rightarrow> active_request list \<Rightarrow> list_state
    \<Rightarrow> ('w, 'acc scheduler \<times> active_request list \<times> list_state, runtime_error) action" where
  "process_events C [] s active st = a_ret (s, active, st)"
| "process_events C (event # events) s active st =
     a_bind (process_event C event s active st)
       (\<lambda>(s', active', st'). process_events C events s' active' st')"

definition handle_cancellation ::
  "('w, 'acc) canceller \<Rightarrow> 'acc scheduler \<Rightarrow> event list \<Rightarrow> ('w, unit, runtime_error) action" where
  "handle_cancellation C s event_listener =
     a_bind (process_events C event_listener s [] Invalid) (\<lambda>_. a_err Re_ChannelClosed)"

section \<open>Which requests are cancelled\<close>

text \<open>
  The interface between the scheduler and a canceller whose cancellations can be observed:
  \<open>calls w\<close> are the ids passed to \<open>cancel_request\<close> so far, and the two queries pass none.
\<close>

locale observed_canceller =
  fixes C :: "('w, 'acc) canceller" and calls :: "'w \<Rightarrow> H256 list"
  assumes open_calls: "c_get_open_requests C v w = (r1, w') \<Longrightarrow> calls w' = calls w"
    and period_calls: "c_get_period C w = (r2, w') \<Longrightarrow> calls w' = calls w"
    and cancel_calls: "c_cancel_request C rid w = (r3, w') \<Longrightarrow> calls w' = calls w @ [rid]"
begin

lemma cancel_loop_calls:
  "cancel_loop C rs w = (Ok st, w') \<Longrightarrow>
     \<exists>n. calls w' = calls w @ map ar_id (take n rs) \<and> (if st = Valid then take n rs = rs else rs \<noteq> [])"
proof (induction rs arbitrary: w)
  case Nil
  then show ?case by auto
next
  case (Cons r rs)
  obtain x w1 where x: "c_cancel_request C (ar_id r) w = (x, w1)" by fastforce
  then have c: "calls w1 = calls w @ [ar_id r]" by (rule cancel_calls)
  show ?case
  proof (cases x)
    case (Ok u)
    with Cons.prems x have "cancel_loop C rs w1 = (Ok st, w')" by (simp add: a_match_def)
    from Cons.IH [OF this] obtain n where
      "calls w' = calls w1 @ map ar_id (take n rs)" "if st = Valid then take n rs = rs else rs \<noteq> []"
      by blast
    with c show ?thesis by (intro exI [of _ "Suc n"]) (auto split: if_splits)
  next
    case (Err e)
    with Cons.prems x c show ?thesis
      by (intro exI [of _ 1]) (auto simp: a_match_def)
  next
    case Panic
    with Cons.prems x show ?thesis by (simp add: a_match_def)
  qed
qed

lemma sched_get_calls: "sched_get_open_requests C s w = (r, w') \<Longrightarrow> calls w' = calls w"
  by (auto simp: sched_get_open_requests_def action_defs split: prod.splits result.splits if_splits
      dest!: open_calls period_calls)

lemma refresh_calls: "refresh_list C s active st w = (Ok l, w') \<Longrightarrow> calls w' = calls w"
  by (auto simp: refresh_list_def a_match_eq_Ok split: list_state.splits dest!: sched_get_calls)

lemma cancel_requests_calls:
  assumes "cancel_requests C s active w = (Ok (active', st), w')"
  shows "\<exists>due called. due = filter (has_expired (sc_parachain_height s) (sc_bitcoin_height s)) active \<and>
    calls w' = calls w @ map ar_id called \<and> prefix called due \<and> (st = Valid \<longrightarrow> called = due) \<and>
    active' = filter (\<lambda>r. r \<notin> set due) active"
proof -
  let ?due = "filter (has_expired (sc_parachain_height s) (sc_bitcoin_height s)) active"
  from assms have "cancel_loop C ?due w = (Ok st, w')"
    and kept: "active' = filter (\<lambda>r. r \<notin> set ?due) active"
    by (auto simp: cancel_requests_def a_bind_eq_Ok a_lift_def drain_expired_filter intro!: filter_cong)
  from cancel_loop_calls [OF this(1)] obtain n where
    "calls w' = calls w @ map ar_id (take n ?due)" "if st = Valid then take n ?due = ?due else ?due \<noteq> []" by blast
  with kept show ?thesis by (intro exI [of _ ?due] exI [of _ "take n ?due"]) (auto simp: take_is_prefix split: if_splits)
qed

lemma process_event_calls:
  assumes run: "process_event C ev s active st w = (Ok (s', active', st'), w')"
    and l: "refresh_list C s active st w = (Ok l, w1)"
  shows "\<exists>due called. due = filter (has_expired (sc_parachain_height s') (sc_bitcoin_height s')) l \<and>
    calls w' = calls w @ map ar_id called \<and>
    (case ev of
       ParachainBlock h \<Rightarrow> s' = s\<lparr>sc_parachain_height := h\<rparr> \<and> prefix called due \<and>
         active' = filter (\<lambda>r. r \<notin> set due) l \<and> (st' = Valid \<longrightarrow> called = due)
     | BitcoinBlock h \<Rightarrow> s' = s\<lparr>sc_bitcoin_height := h\<rparr> \<and> prefix called due \<and>
         active' = filter (\<lambda>r. r \<notin> set due) l \<and> (st' = Valid \<longrightarrow> called = due)
     | Executed rid \<Rightarrow> s' = s \<and> called = [] \<and> active' = filter (\<lambda>r. ar_id r \<noteq> rid) l \<and> st' = Valid
     | Opened \<Rightarrow> s' = s \<and> called = [] \<and> active' = l \<and> st' = Invalid)"
proof -
  have c: "calls w1 = calls w" using l by (rule refresh_calls)

  have block: ?thesis if ev: "ev = ParachainBlock h \<and> s1 = s\<lparr>sc_parachain_height := h\<rparr> \<or>
      ev = BitcoinBlock h \<and> s1 = s\<lparr>sc_bitcoin_height := h\<rparr>" for h s1
  proof -
    from ev run l have "cancel_requests C s1 l w1 = (Ok (active', st'), w')" and "s' = s1"
      by (auto simp: process_event_def a_bind_eq_Ok Let_def)
    from cancel_requests_calls [OF this(1)] this(2) ev c show ?thesis
      by (elim disjE exE conjE) (intro exI conjI; simp)+
  qed
  show ?thesis
  proof (cases ev)
    case Opened
    with run l c show ?thesis by (auto simp: process_event_def a_bind_eq_Ok)
  next
    case (Executed h)
    with run l c show ?thesis by (auto simp: process_event_def a_bind_eq_Ok)
  qed (use block in auto)
qed

end

text \<open>
  Any canceller can be observed: \<open>logged C\<close> runs \<open>C\<close> and keeps the list of the ids it was
  asked to cancel beside the world.
\<close>

definition logged :: "('w, 'acc) canceller \<Rightarrow> ('w \<times> H256 list, 'acc) canceller" where
  "logged C = \<lparr>
     c_get_open_requests = (\<lambda>v. log_action [] (c_get_open_requests C v)),
     c_get_period = log_action [] (c_get_period C),
     c_cancel_request = (\<lambda>rid. log_action [rid] (c_cancel_request C rid))\<rparr>"

interpretation lc: observed_canceller "logged C" snd for C :: "('w, 'acc) canceller"
  by unfold_locales (auto simp: logged_def log_action_def split: prod.splits)

section \<open>Properties\<close>

text \<open>
  \<open>drain_expired\<close> is \<open>drain_filter\<close>: its index loop ends without reading past the list,
  keeps the requests with a deadline to come, in order, and returns the expired ones, in order.
\<close>

theorem drain_expired_is_filter:
  "drain_expired requests cur btc =
     Ok (filter (\<lambda>r. \<not> has_expired cur btc r) requests, filter (has_expired cur btc) requests)"
  by (rule drain_expired_filter)

text \<open>
  C24. The scheduler cancels nothing early and forgets nothing early, whatever the parachain answers.
  A request is due when the parachain height of the scheduler is strictly past the parachain deadline
  of the request and its Bitcoin height is strictly past the Bitcoin deadline, one of them alone not
  being enough. A block event sets the one height it brings; the ids then passed to
  \<open>cancel_request\<close> are those of a prefix of the due requests of the (refreshed) list, in list order,
  all of them when no cancellation failed, and the requests that stay in the list are exactly those
  that are not due. The two other events cancel nothing: an executed request leaves the list, an
  opened one marks it invalid.
\<close>

theorem scheduler_cancels_only_expired:
  assumes "process_event (logged C) ev s active st (w, log) = (Ok (s', active', st'), (w', log'))"
    and "refresh_list (logged C) s active st (w, log) = (Ok l, w1)"
  shows "\<exists>due called.
    due = filter (\<lambda>r. unat (parachain_deadline_height r) < unat (sc_parachain_height s') \<and>
                      unat (bitcoin_deadline_height r) < unat (sc_bitcoin_height s')) l \<and>
    log' = log @ map ar_id called \<and>
    (case ev of
       ParachainBlock h \<Rightarrow> s' = s\<lparr>sc_parachain_height := h\<rparr> \<and> prefix called due \<and>
         active' = filter (\<lambda>r. r \<notin> set due) l \<and> (st' = Valid \<longrightarrow> called = due)
     | BitcoinBlock h \<Rightarrow> s' = s\<lparr>sc_bitcoin_height := h\<rparr> \<and> prefix called due \<and>
         active' = filter (\<lambda>r. r \<notin> set due) l \<and> (st' = Valid \<longrightarrow> called = due)
     | Executed rid \<Rightarrow> s' = s \<and> called = [] \<and> active' = filter (\<lambda>r. ar_id r \<noteq> rid) l \<and> st' = Valid
     | Opened \<Rightarrow> s' = s \<and> called = [] \<and> active' = l \<and> st' = Invalid)"
  using lc.process_event_calls [OF assms]
  by (simp only: snd_conv has_expired_nat)

text \<open>
  After a block event the list holds no request whose two deadlines are both past, and
  it is the refreshed list without those; if every cancellation succeeded the list stays valid.
\<close>

theorem block_event_clears_expired:
  assumes "process_event C ev s active st w = (Ok (s', active', st'), w')"
    and "refresh_list C s active st w = (Ok l, w1)"
    and "ev \<in> {ParachainBlock h, BitcoinBlock h}"
  shows "active' = filter (\<lambda>r. \<not> has_expired (sc_parachain_height s') (sc_bitcoin_height s') r) l"
  using assms
  by (auto simp: process_event_def a_bind_eq_Ok Let_def cancel_requests_def a_lift_def
      drain_expired_filter)

text \<open>
  The deadlines the scheduler works with: open height plus the larger of the global and
  the request's own period, in parachain blocks and in Bitcoin blocks rounded up; it fails with
  \<open>ArithmeticOverflow\<close>, and only then, when one of the two leaves \<open>u32\<close>.
\<close>

theorem convert_open_time_spec:
  "convert_open_time g r =
     (let period = max (unat g) (unat (uo_period r));
          p = unat (parachain_open_height r) + period;
          b = unat (bitcoin_open_height r) + (period + 49) div 50 in
      if p < 2 ^ 32 \<and> b < 2 ^ 32
      then Ok \<lparr>ar_id = uo_id r, parachain_deadline_height = of_nat p, bitcoin_deadline_height = of_nat b\<rparr>
      else Err Ve_ArithmeticOverflow)"
proof -
  let ?m = "max g (uo_period r)"
  have um: "unat ?m = max (unat g) (unat (uo_period r))"
    by (simp add: max_def word_le_nat_alt)
  obtain c where c: "parachain_blocks_to_bitcoin_blocks_rounded_up ?m = Ok c"
    using to_bitcoin_blocks_total by blast
  then have uc: "unat c = (max (unat g) (unat (uo_period r)) + 49) div 50"
    by (simp add: to_bitcoin_blocks um)
  have add: "ok_or e (checked_add a x) =
      (if unat a + unat x < 2 ^ 32 then Ok (of_nat (unat a + unat x)) else Err e)"
    for a x :: u32 and e :: vault_error
    by (simp add: checked_add_def)
  show ?thesis
    by (simp only: convert_open_time_def Let_def c add um rbind.simps uc split: if_split) auto
qed

lemma idle_scheduler:
  "Opened \<notin> set evs \<Longrightarrow> \<exists>s'. process_events C evs s [] Valid w = (Ok (s', [], Valid), w)"
proof (induction evs arbitrary: s)
  case Nil
  then show ?case by (simp add: a_ret_def)
next
  case (Cons ev evs)
  have "\<exists>s1. process_event C ev s [] Valid w = (Ok (s1, [], Valid), w)"
    using Cons.prems
    by (cases ev) (simp_all add: process_event_def refresh_list_def cancel_requests_def
        drain_expired_filter action_defs Let_def)
  then obtain s1 where "process_event C ev s [] Valid w = (Ok (s1, [], Valid), w)" ..
  moreover have "\<exists>s'. process_events C evs s1 [] Valid w = (Ok (s', [], Valid), w)"
    using Cons.prems by (intro Cons.IH) simp
  ultimately show ?case by (auto simp: a_bind_def a_match_def)
qed

text \<open>
  A failed query loses the open requests: when the list is invalid and the query for it
  fails, the next block event leaves an empty list marked valid, and from then on no event
  but \<open>Opened\<close> makes the scheduler query or cancel anything again.
\<close>

theorem failed_query_loses_requests:
  assumes "sched_get_open_requests C s w = (Err e, w1)"
    and "Opened \<notin> set evs"
  shows "\<exists>s'. process_events C (ParachainBlock h # evs) s active Invalid w = (Ok (s', [], Valid), w1)"
proof -
  have "\<exists>s1. process_event C (ParachainBlock h) s active Invalid w = (Ok (s1, [], Valid), w1)"
    using assms(1)
    by (simp add: process_event_def refresh_list_def cancel_requests_def drain_expired_filter
        action_defs Let_def)
  then obtain s1 where "process_event C (ParachainBlock h) s active Invalid w = (Ok (s1, [], Valid), w1)" ..
  with idle_scheduler [OF assms(2), of C s1 w1] show ?thesis
    by (auto simp: a_bind_def a_match_def)
qed

section \<open>Witnesses\<close>

definition demo_canceller :: "(unit, unit) canceller" where
  "demo_canceller = \<lparr>
     c_get_open_requests = (\<lambda>_. a_ret [\<lparr>uo_id = [1], parachain_open_height = 10,
                                  bitcoin_open_height = 10, uo_period = 3\<rparr>]),
     c_get_period = a_ret 5,
     c_cancel_request = (\<lambda>_. a_ret ())\<rparr>"

definition failing_canceller :: "(unit, unit) canceller" where
  "failing_canceller = demo_canceller\<lparr>c_get_period := a_err Ve_ArithmeticOverflow\<rparr>"

definition demo_scheduler :: "unit scheduler" where
  "demo_scheduler = scheduler_new 20 20 ()"

definition demo_active :: active_request where
  "demo_active = \<lparr>ar_id = [1], parachain_deadline_height = 15, bitcoin_deadline_height = 11\<rparr>"

lemmas cancellation_eval =
  process_event_def refresh_list_def sched_get_open_requests_def convert_open_time_spec
  cancel_requests_def drain_expired_filter has_expired_def log_action_def action_defs Let_def
  scheduler_new_def logged_def demo_canceller_def failing_canceller_def demo_scheduler_def
  demo_active_def

lemma demo_refresh:
  "refresh_list (logged demo_canceller) demo_scheduler [] Invalid ((), []) =
     (Ok [demo_active], ((), []))"
  by (simp add: cancellation_eval)

lemma demo_process:
  "process_event (logged demo_canceller) (ParachainBlock 20) demo_scheduler [] Invalid ((), []) =
     (Ok (demo_scheduler, [], Valid), ((), [[1]]))"
  by (simp add: cancellation_eval)

text \<open>Twenty parachain blocks in and still in Bitcoin block 11, the request is not due.\<close>

lemma demo_process_early:
  "process_event (logged demo_canceller) (BitcoinBlock 11) demo_scheduler [demo_active] Valid ((), []) =
     (Ok (demo_scheduler\<lparr>sc_bitcoin_height := 11\<rparr>, [demo_active], Valid), ((), []))"
  by (simp add: cancellation_eval)

lemma scheduler_cancels_only_expired_witness:
  "(\<exists>due called. due = [demo_active] \<and> [[1]] = [] @ map ar_id called \<and> called = due) \<and>
   (\<exists>due called. due = [] \<and> [] = [] @ map ar_id called \<and> prefix called due)"
proof
  show "\<exists>due called. due = [demo_active] \<and> [[1]] = [] @ map ar_id called \<and> called = due"
    using scheduler_cancels_only_expired [OF demo_process demo_refresh]
    by (simp add: demo_scheduler_def scheduler_new_def demo_active_def)
  have "refresh_list (logged demo_canceller) demo_scheduler [demo_active] Valid ((), []) = (Ok [demo_active], ((), []))"
    by (simp add: refresh_list_def a_ret_def)
  from scheduler_cancels_only_expired [OF demo_process_early this]
  show "\<exists>due called. due = [] \<and> [] = [] @ map ar_id called \<and> prefix called due"
    by (simp add: demo_scheduler_def scheduler_new_def demo_active_def)
qed

lemma block_event_clears_expired_witness:
  "[] = filter (\<lambda>r. \<not> has_expired (sc_parachain_height demo_scheduler)
          (sc_bitcoin_height demo_scheduler) r) [demo_active]"
  by (rule block_event_clears_expired [OF demo_process demo_refresh, where h = 20]) simp

lemma failed_query_loses_requests_witness:
  "\<exists>s'. process_events failing_canceller [ParachainBlock 21, BitcoinBlock 30] demo_scheduler
      [demo_active] Invalid () = (Ok (s', [], Valid), ())"
proof (rule failed_query_loses_requests)
  show "sched_get_open_requests failing_canceller demo_scheduler () = (Err Ve_ArithmeticOverflow, ())"
    by (simp add: cancellation_eval)
  show "Opened \<notin> set [BitcoinBlock 30]" by simp
qed

end
