(* ===== verification/IssueMap.thy ===== *)
theory IssueMap
  imports BtcTypes
begin

text \<open>
  The set of watched issue requests (\<open>vault/src/types.rs\<close>): a map from issue ids to deposit
  addresses that can also be read backwards, kept as two hash maps.
\<close>

record ('k, 'v) rmap =
  fwd :: "'k \<rightharpoonup> 'v"
  bwd :: "'v \<rightharpoonup> 'k"

definition rmap_new :: "('k, 'v) rmap" where
  "rmap_new = \<lparr>fwd = Map.empty, bwd = Map.empty\<rparr>"

definition rmap_insert :: "('k, 'v) rmap \<Rightarrow> 'k \<Rightarrow> 'v \<Rightarrow> ('k option \<times> 'v option) \<times> ('k, 'v) rmap" where
  "rmap_insert m k v =
     (let k1 = fwd m k; k2 = bwd m v
      in ((k2, k1), \<lparr>fwd = (fwd m)(k \<mapsto> v), bwd = (bwd m)(v \<mapsto> k)\<rparr>))"

definition remove_key :: "('k, 'v) rmap \<Rightarrow> 'k \<Rightarrow> 'v option \<times> ('k, 'v) rmap" where
  "remove_key m k = (case fwd m k of
      Some v \<Rightarrow> (Some v, \<lparr>fwd = (fwd m)(k := None), bwd = (bwd m)(v := None)\<rparr>)
    | None \<Rightarrow> (None, m))"

definition remove_value :: "('k, 'v) rmap \<Rightarrow> 'v \<Rightarrow> 'k option \<times> ('k, 'v) rmap" where
  "remove_value m v = (case bwd m v of
      Some k \<Rightarrow> (Some k, \<lparr>fwd = (fwd m)(k := None), bwd = (bwd m)(v := None)\<rparr>)
    | None \<Rightarrow> (None, m))"

definition get_key_for_value :: "('k, 'v) rmap \<Rightarrow> 'v \<Rightarrow> 'k option" where
  "get_key_for_value m v = bwd m v"

text \<open>The two maps are inverse to each other.\<close>

definition rmap_inv :: "('k, 'v) rmap \<Rightarrow> bool" where
  "rmap_inv m \<longleftrightarrow> (\<forall>k v. fwd m k = Some v \<longleftrightarrow> bwd m v = Some k)"

lemma rmap_inv_new: "rmap_inv rmap_new"
  by (simp add: rmap_inv_def rmap_new_def)

lemma rmap_new_simps [simp]: "fwd rmap_new = Map.empty" "bwd rmap_new = Map.empty"
  by (simp_all add: rmap_new_def)

lemma rmap_inv_inj: "rmap_inv m \<Longrightarrow> fwd m k = Some v \<Longrightarrow> fwd m k' = Some v \<Longrightarrow> k = k'"
  by (simp add: rmap_inv_def)

text \<open>Dropping a pair of partners from both maps keeps them inverse.\<close>

lemma rmap_inv_drop:
  assumes i: "rmap_inv m" and k: "fwd m k = Some v"
  shows "rmap_inv \<lparr>fwd = (fwd m)(k := None), bwd = (bwd m)(v := None)\<rparr>"
proof -
  have "fwd m a = Some v \<longleftrightarrow> a = k" for a using i k by (auto simp: rmap_inv_def)
  moreover have "bwd m a = Some k \<longleftrightarrow> a = v" for a
    using i k unfolding rmap_inv_def by (metis option.inject)
  ultimately show ?thesis using i by (auto simp: rmap_inv_def)
qed

lemma rmap_inv_remove_key: "rmap_inv m \<Longrightarrow> rmap_inv (snd (remove_key m k))"
  by (simp add: remove_key_def rmap_inv_drop split: option.splits)

lemma rmap_inv_remove_value: "rmap_inv m \<Longrightarrow> rmap_inv (snd (remove_value m v))"
  by (simp add: remove_value_def rmap_inv_drop rmap_inv_def [THEN iffD1, rule_format] split: option.splits)

section \<open>The interface its clients rely on\<close>

text \<open>
  A watch list: a partial map \<open>watched\<close> from ids to addresses with a reverse lookup.
  \<open>add\<close> keeps the invariant for a new id and a new address.
\<close>

locale watch_list =
  fixes empty_list :: "'m" and add :: "'m \<Rightarrow> 'k \<Rightarrow> 'v \<Rightarrow> 'm"
    and drop_key :: "'m \<Rightarrow> 'k \<Rightarrow> 'm" and drop_value :: "'m \<Rightarrow> 'v \<Rightarrow> 'm"
    and key_of :: "'m \<Rightarrow> 'v \<Rightarrow> 'k option" and watched :: "'m \<Rightarrow> 'k \<rightharpoonup> 'v"
    and invar :: "'m \<Rightarrow> bool"
  assumes invar_empty: "invar empty_list"
    and watched_empty: "watched empty_list = Map.empty"
    and invar_add: "invar m \<Longrightarrow> watched m k = None \<Longrightarrow> key_of m v = None \<Longrightarrow> invar (add m k v)"
    and watched_add: "watched (add m k v) = (watched m)(k \<mapsto> v)"
    and invar_drop_key: "invar m \<Longrightarrow> invar (drop_key m k)"
    and watched_drop_key: "watched (drop_key m k) = (watched m)(k := None)"
    and invar_drop_value: "invar m \<Longrightarrow> invar (drop_value m v)"
    and key_of_watched: "invar m \<Longrightarrow> key_of m v = Some k \<longleftrightarrow> watched m k = Some v"
    and watched_drop_value: "invar m \<Longrightarrow> watched (drop_value m v) =
          (case key_of m v of None \<Rightarrow> watched m | Some k \<Rightarrow> (watched m)(k := None))"
begin

lemma key_of_add:
  assumes "invar m" "watched m k = None" "key_of m v = None"
  shows "key_of (add m k v) v' = (if v' = v then Some k else key_of m v')"
proof -
  have "key_of (add m k v) v' = Some k' \<longleftrightarrow> (if v' = v then k' = k else key_of m v' = Some k')" for k'
    using assms key_of_watched [OF invar_add [OF assms], of v' k'] key_of_watched [OF assms(1), of v' k']
      key_of_watched [OF assms(1), of v k'] by (auto simp: watched_add split: if_splits)
  then show ?thesis
    by (intro option_eqI) (auto split: if_splits)
qed

lemma dropped_value_unwatched: "invar m \<Longrightarrow> key_of (drop_value m v) v = None"
proof (rule ccontr)
  assume i: "invar m" and "key_of (drop_value m v) v \<noteq> None"
  then obtain k where k: "watched (drop_value m v) k = Some v"
    using key_of_watched [OF invar_drop_value [OF i]] by blast
  show False
  proof (cases "key_of m v")
    case None
    with k i have "watched m k = Some v" by (simp add: watched_drop_value)
    with None key_of_watched [OF i, of v k] show False by simp
  next
    case (Some k')
    with k i have "k \<noteq> k'" "watched m k = Some v"
      by (auto simp: watched_drop_value split: if_splits)
    with Some key_of_watched [OF i, of v k] show False by simp
  qed
qed

text \<open>Adding a list of entries with new, distinct ids and addresses.\<close>

lemma add_all:
  assumes "invar m" "distinct (map fst xs)" "distinct (map snd xs)"
    and "\<And>k v. (k, v) \<in> set xs \<Longrightarrow> watched m k = None \<and> key_of m v = None"
  shows "invar (foldl (\<lambda>m (k, v). add m k v) m xs) \<and>
         watched (foldl (\<lambda>m (k, v). add m k v) m xs) = watched m ++ map_of xs"
  using assms
proof (induction xs arbitrary: m)
  case Nil
  then show ?case by simp
next
  case (Cons x xs)
  obtain k v where x: "x = (k, v)" by fastforce
  have i: "invar (add m k v)"
    using Cons.prems x by (intro invar_add) auto
  have fresh: "watched (add m k v) k' = None \<and> key_of (add m k v) v' = None"
    if "(k', v') \<in> set xs" for k' v'
  proof -
    have "k' \<noteq> k" "v' \<noteq> v"
      using Cons.prems(2,3) x that by (auto simp: image_iff)
    moreover have "key_of (add m k v) v' = (if v' = v then Some k else key_of m v')"
      using Cons.prems x by (intro key_of_add) auto
    ultimately show ?thesis
      using that Cons.prems(4) [of k' v'] x by (simp add: watched_add)
  qed
  have "map_of xs k = None" using Cons.prems(2) x by (simp add: map_of_eq_None_iff)
  then have "watched (add m k v) ++ map_of xs = watched m ++ map_of (x # xs)"
    using x by (simp add: watched_add map_add_def fun_eq_iff split: option.splits)
  moreover have "distinct (map fst xs)" "distinct (map snd xs)" using Cons.prems(2,3) by simp_all
  ultimately show ?case
    using Cons.IH [OF i] fresh x by (simp only: foldl_Cons prod.case)
qed

end

interpretation iss: watch_list rmap_new "\<lambda>m k v. snd (rmap_insert m k v)"
  "\<lambda>m k. snd (remove_key m k)" "\<lambda>m v. snd (remove_value m v)" get_key_for_value fwd rmap_inv
proof (unfold_locales, goal_cases)
  case 1 show ?case by (rule rmap_inv_new)
next
  case 2 show ?case by (simp add: rmap_new_def)
next
  case (3 m k v)
  then have "fwd m k' \<noteq> Some v" "bwd m v' \<noteq> Some k" for k' v'
    by (auto simp: rmap_inv_def get_key_for_value_def dest: spec [of _ k] spec [of _ v'])
  with 3(1) show ?case
    by (auto simp: rmap_inv_def rmap_insert_def Let_def)
next
  case (4 m k v) show ?case by (simp add: rmap_insert_def Let_def)
next
  case (5 m k) then show ?case by (rule rmap_inv_remove_key)
next
  case (6 m k) show ?case by (auto simp: remove_key_def split: option.splits)
next
  case (7 m v) then show ?case by (rule rmap_inv_remove_value)
next
  case (8 m v k) then show ?case by (simp add: rmap_inv_def get_key_for_value_def)
next
  case (9 m v) then show ?case
    by (auto simp: remove_value_def get_key_for_value_def split: option.splits)
qed

section \<open>Properties\<close>

text \<open>
  \<open>insert\<close> keeps the two maps inverse exactly when it does not overwrite: the id must be
  new or already hold this address, and the address must be new or already belong to this id.
\<close>

theorem rmap_insert_invariant:
  assumes "rmap_inv m"
  shows "rmap_inv (snd (rmap_insert m k v)) \<longleftrightarrow> fwd m k \<in> {None, Some v} \<and> bwd m v \<in> {None, Some k}"
proof
  assume "rmap_inv (snd (rmap_insert m k v))"
  then have inv: "((fwd m)(k \<mapsto> v)) a = Some b \<longleftrightarrow> ((bwd m)(v \<mapsto> k)) b = Some a" for a b
    by (simp add: rmap_inv_def rmap_insert_def Let_def)
  have old: "fwd m a = Some b \<longleftrightarrow> bwd m b = Some a" for a b
    using assms by (simp add: rmap_inv_def)
  have k: "v' = v" if "fwd m k = Some v'" for v'
    using that old [of k v'] inv [of k v'] by (metis fun_upd_same fun_upd_other option.inject)
  have v: "k' = k" if "bwd m v = Some k'" for k'
    using that old [of k' v] inv [of k' v] by (metis fun_upd_same fun_upd_other option.inject)
  show "fwd m k \<in> {None, Some v} \<and> bwd m v \<in> {None, Some k}"
    using k v by (intro conjI option_in_pairI)
next
  assume c: "fwd m k \<in> {None, Some v} \<and> bwd m v \<in> {None, Some k}"
  have "((fwd m)(k \<mapsto> v)) a = Some b \<longleftrightarrow> ((bwd m)(v \<mapsto> k)) b = Some a" for a b
  proof -
    have old: "fwd m i = Some j \<longleftrightarrow> bwd m j = Some i" for i j
      using assms by (simp add: rmap_inv_def)
    have "\<not> fwd m k = Some b" if "b \<noteq> v" using c that by auto
    moreover have "\<not> bwd m v = Some a" if "a \<noteq> k" using c that by auto
    ultimately show ?thesis
      using old [of a b] old [of k b] old [of a v] by (cases "a = k"; cases "b = v") simp_all
  qed
  then show "rmap_inv (snd (rmap_insert m k v))"
    by (simp add: rmap_inv_def rmap_insert_def Let_def)
qed

lemma rmap_insert_invariant_witness:
  "\<not> rmap_inv (snd (rmap_insert \<lparr>fwd = [1 \<mapsto> 10], bwd = [10 \<mapsto> 1]\<rparr> (1::nat) (20::nat)))"
proof -
  have "rmap_inv \<lparr>fwd = [1 \<mapsto> 10], bwd = [10 \<mapsto> 1]\<rparr>"
    by (auto simp: rmap_inv_def split: if_splits)
  from rmap_insert_invariant [OF this, of "1::nat" "20::nat"] show ?thesis by simp
qed

text \<open>
  Overwriting an id leaves a stale address behind: after the id's new address is inserted
  and the id is removed again, the old address is still found under the removed id.
\<close>

theorem rmap_insert_leaves_stale_address:
  assumes "rmap_inv m" and "fwd m k = Some old" and "old \<noteq> v"
  shows "get_key_for_value (snd (remove_key (snd (rmap_insert m k v)) k)) old = Some k \<and>
         fwd (snd (remove_key (snd (rmap_insert m k v)) k)) k = None"
  using assms by (auto simp: rmap_inv_def rmap_insert_def remove_key_def get_key_for_value_def Let_def)

lemma rmap_insert_leaves_stale_address_witness:
  "get_key_for_value (snd (remove_key (snd (rmap_insert
      \<lparr>fwd = [1 \<mapsto> 10], bwd = [10 \<mapsto> 1]\<rparr> 1 20)) (1::nat))) (10::nat) = Some 1"
proof -
  have "rmap_inv \<lparr>fwd = [1 \<mapsto> 10], bwd = [10 \<mapsto> 1]\<rparr>"
    by (auto simp: rmap_inv_def split: if_splits)
  from rmap_insert_leaves_stale_address [OF this, of "1::nat" "10::nat" "20::nat"]
  show ?thesis by simp
qed

end
