(* ===== verification/Assets.thy ===== *)
theory Assets
  imports BtcTypes
begin

text \<open>
  Currencies and vault ids of the runtime crate: \<open>runtime/src/types.rs\<close> (\<open>VaultId\<close>,
  \<open>CurrencyIdExt\<close>), the currency parsers of \<open>runtime/src/lib.rs\<close> and the asset registry of
  \<open>runtime/src/assets.rs\<close>. A Rust \<open>String\<close> is its UTF-8 bytes, one HOL character each. Case
  conversion goes code point by code point: ASCII letters are converted here, for the others the
  Unicode tables are part of \<open>token_info\<close>. The registry's mutex is \<open>None\<close> when poisoned.
\<close>

section \<open>Text\<close>

definition ascii_upper :: "char \<Rightarrow> char" where
  "ascii_upper c = (if 97 \<le> (of_char c :: nat) \<and> (of_char c :: nat) \<le> 122 then char_of (of_char c - 32 :: nat) else c)"

definition ascii_lower :: "char \<Rightarrow> char" where
  "ascii_lower c = (if 65 \<le> (of_char c :: nat) \<and> (of_char c :: nat) \<le> 90 then char_of (of_char c + 32 :: nat) else c)"

definition is_ascii :: "char \<Rightarrow> bool" where "is_ascii c \<longleftrightarrow> (of_char c :: nat) < 128"

text \<open>The code points of a text, each as its UTF-8 bytes: all but the first lie in 80..BF.\<close>

definition trails :: "char \<Rightarrow> bool" where
  "trails c \<longleftrightarrow> 128 \<le> (of_char c :: nat) \<and> (of_char c :: nat) < 192"

function text_chars :: "string \<Rightarrow> string list" where
  "text_chars [] = []"
| "text_chars (c # cs) = (c # takeWhile trails cs) # text_chars (dropWhile trails cs)"
  by pat_completeness auto
termination
  by (relation "measure length") (simp_all add: length_dropWhile_le le_imp_less_Suc)

text \<open>
  \<open>str::to_uppercase\<close> replaces each code point by its uppercase, which may be several; \<open>table\<close>
  is Unicode's, for a code point outside ASCII. \<open>str::to_lowercase\<close> looks at the neighbours of a
  final sigma, so there the table is one of whole texts.
\<close>

definition upper_char :: "(string \<Rightarrow> string) \<Rightarrow> string \<Rightarrow> string" where
  "upper_char table c = (if is_ascii (hd c) then map ascii_upper c else table c)"

definition to_uppercase :: "(string \<Rightarrow> string) \<Rightarrow> string \<Rightarrow> string" where
  "to_uppercase table s = concat (map (upper_char table) (text_chars s))"

definition to_lowercase :: "(string \<Rightarrow> string) \<Rightarrow> string \<Rightarrow> string" where
  "to_lowercase table s = (if list_all is_ascii s then map ascii_lower s else table s)"

definition cont_byte :: "u8 \<Rightarrow> bool" where
  "cont_byte b \<longleftrightarrow> 0x80 \<le> b \<and> b \<le> 0xBF"

text \<open>Well-formed UTF-8: one to four bytes per code point, no overlong form, no surrogate.\<close>

fun utf8_valid :: "bytes \<Rightarrow> bool" where
  "utf8_valid [] = True"
| "utf8_valid (b # bs) = (if b < 0x80 then utf8_valid bs else (case bs of
      [] \<Rightarrow> False
    | c1 # bs1 \<Rightarrow>
        if 0xC2 \<le> b \<and> b \<le> 0xDF then cont_byte c1 \<and> utf8_valid bs1 else (case bs1 of
          [] \<Rightarrow> False
        | c2 # bs2 \<Rightarrow>
            if 0xE0 \<le> b \<and> b \<le> 0xEF
            then cont_byte c1 \<and> cont_byte c2 \<and> (b = 0xE0 \<longrightarrow> 0xA0 \<le> c1) \<and> (b = 0xED \<longrightarrow> c1 \<le> 0x9F)
                 \<and> utf8_valid bs2
            else (case bs2 of
              [] \<Rightarrow> False
            | c3 # bs3 \<Rightarrow> 0xF0 \<le> b \<and> b \<le> 0xF4 \<and> cont_byte c1 \<and> cont_byte c2 \<and> cont_byte c3
                 \<and> (b = 0xF0 \<longrightarrow> 0x90 \<le> c1) \<and> (b = 0xF4 \<longrightarrow> c1 \<le> 0x8F) \<and> utf8_valid bs3))))"

definition text_of :: "bytes \<Rightarrow> string" where
  "text_of bs = map (\<lambda>b. char_of (unat b)) bs"

definition from_utf8 :: "bytes \<Rightarrow> string option" where
  "from_utf8 bs = (if utf8_valid bs then Some (text_of bs) else None)"

lemma ascii_upper_idem [simp]: "ascii_upper (ascii_upper c) = ascii_upper c"
proof (cases "97 \<le> (of_char c :: nat) \<and> (of_char c :: nat) \<le> 122")
  case True
  then have "(of_char c - 32 :: nat) mod 256 = of_char c - 32" by (intro mod_less) linarith
  with True show ?thesis by (simp add: ascii_upper_def) linarith
qed (auto simp: ascii_upper_def)

lemma ascii_upper_code:
  "of_char (ascii_upper c) =
     (if 97 \<le> (of_char c :: nat) \<and> (of_char c :: nat) \<le> 122 then of_char c - 32 else of_char c :: nat)"
  by (auto simp: ascii_upper_def)

lemma ascii_upper_is_ascii [simp]: "is_ascii (ascii_upper c) \<longleftrightarrow> is_ascii c"
  by (auto simp: is_ascii_def ascii_upper_code)

lemma ascii_upper_trails [simp]: "trails (ascii_upper c) \<longleftrightarrow> trails c"
  by (auto simp: trails_def ascii_upper_code)

lemma ascii_upper_other: "\<not> is_ascii c \<Longrightarrow> ascii_upper c = c"
  by (auto simp: is_ascii_def ascii_upper_def)

lemma trails_not_ascii: "trails c \<Longrightarrow> \<not> is_ascii c"
  by (simp add: trails_def is_ascii_def)

lemma text_chars_upper: "text_chars (map ascii_upper s) = map (map ascii_upper) (text_chars s)"
  by (induction s rule: text_chars.induct) (simp_all add: takeWhile_map dropWhile_map comp_def)

lemma text_chars_shape: "c \<in> set (text_chars s) \<Longrightarrow> \<exists>b bs. c = b # bs \<and> list_all trails bs"
  by (induction s rule: text_chars.induct) (auto simp: list_all_iff dest: set_takeWhileD)

lemma text_chars_ascii: "list_all is_ascii s \<Longrightarrow> text_chars s = map (\<lambda>c. [c]) s"
proof (induction s rule: text_chars.induct)
  case (2 c cs)
  have "takeWhile trails cs = []" "dropWhile trails cs = cs"
    using 2(2) by (cases cs; auto dest: trails_not_ascii)+
  with 2 show ?case by simp
qed simp

lemma to_uppercase_ascii: "list_all is_ascii s \<Longrightarrow> to_uppercase table s = map ascii_upper s"
  unfolding to_uppercase_def by (subst text_chars_ascii) (induction s; auto simp: upper_char_def)+

text \<open>Texts that differ only in the case of their ASCII letters have the same uppercase form.\<close>

lemma to_uppercase_ascii_case: "to_uppercase table (map ascii_upper s) = to_uppercase table s"
proof -
  have "upper_char table (map ascii_upper c) = upper_char table c" if c: "c \<in> set (text_chars s)" for c
  proof -
    from text_chars_shape [OF c] obtain b bs where bs: "c = b # bs" "list_all trails bs" by blast
    then have "map ascii_upper bs = bs"
      by (simp add: list_all_iff map_idI ascii_upper_other trails_not_ascii)
    with bs show ?thesis by (simp add: upper_char_def ascii_upper_other)
  qed
  then show ?thesis by (simp add: to_uppercase_def text_chars_upper comp_def cong: map_cong)
qed

section \<open>Currencies\<close>

datatype token_symbol = DOT | IBTC | INTR | KSM | KBTC | KINT

datatype currency_id = Token token_symbol | ForeignAsset u32

text \<open>
  What the libraries know: the symbol, the name and the decimals of a token are those of the
  runtime's primitives, the uppercase and lowercase tables those of Unicode.
\<close>

record token_info =
  tk_symbol :: "token_symbol \<Rightarrow> string"
  tk_name :: "token_symbol \<Rightarrow> string"
  tk_decimals :: "token_symbol \<Rightarrow> u8"
  tk_upper :: "string \<Rightarrow> string"
  tk_lower :: "string \<Rightarrow> string"

definition currency_inner :: "currency_id \<Rightarrow> (token_symbol, runtime_error) result" where
  "currency_inner c = (case c of Token x \<Rightarrow> Ok x | ForeignAsset i \<Rightarrow> Err Re_CurrencyNotFound)"

definition parse_native_currency :: "token_info \<Rightarrow> string \<Rightarrow> (currency_id, runtime_error) result" where
  "parse_native_currency T src =
     (let s = to_uppercase (tk_upper T) src in
      if s = tk_symbol T KINT then Ok (Token KINT)
      else if s = tk_symbol T INTR then Ok (Token INTR)
      else Err Re_InvalidCurrency)"

definition parse_collateral_currency :: "token_info \<Rightarrow> string \<Rightarrow> (currency_id, runtime_error) result" where
  "parse_collateral_currency T src =
     (let s = to_uppercase (tk_upper T) src in
      if s = tk_symbol T KSM then Ok (Token KSM)
      else if s = tk_symbol T DOT then Ok (Token DOT)
      else parse_native_currency T s)"

definition parse_wrapped_currency :: "token_info \<Rightarrow> string \<Rightarrow> (currency_id, runtime_error) result" where
  "parse_wrapped_currency T src =
     (let s = to_uppercase (tk_upper T) src in
      if s = tk_symbol T KBTC then Ok (Token KBTC)
      else if s = tk_symbol T IBTC then Ok (Token IBTC)
      else Err Re_InvalidCurrency)"

section \<open>Vault ids\<close>

type_synonym account_id = bytes

record vault_currency_pair =
  collateral :: currency_id
  wrapped :: currency_id

record vault_id =
  account :: account_id
  currencies :: vault_currency_pair

definition vault_id_new :: "account_id \<Rightarrow> currency_id \<Rightarrow> currency_id \<Rightarrow> vault_id" where
  "vault_id_new a c w = \<lparr>account = a, currencies = \<lparr>collateral = c, wrapped = w\<rparr>\<rparr>"

definition collateral_currency :: "vault_id \<Rightarrow> currency_id" where
  "collateral_currency v = collateral (currencies v)"

definition wrapped_currency :: "vault_id \<Rightarrow> currency_id" where
  "wrapped_currency v = wrapped (currencies v)"

section \<open>The asset registry\<close>

record asset_metadata =
  md_decimals :: u32
  md_name :: bytes
  md_symbol :: bytes
  md_coingecko_id :: bytes

record asset_registry =
  symbol_lookup :: "string \<rightharpoonup> u32"
  metadata_lookup :: "u32 \<rightharpoonup> asset_metadata"

definition empty_registry :: asset_registry where
  "empty_registry = \<lparr>symbol_lookup = Map.empty, metadata_lookup = Map.empty\<rparr>"

definition registry_global :: "asset_registry option \<Rightarrow> (asset_registry, runtime_error) result" where
  "registry_global g = ok_or Re_CannotOpenAssetRegistry g"

definition inner_insert :: "token_info \<Rightarrow> asset_registry \<Rightarrow> u32 \<Rightarrow> asset_metadata \<Rightarrow> (asset_registry, runtime_error) result" where
  "inner_insert T r i md =
     rbind (ok_or Re_InvalidCurrency (from_utf8 (md_symbol md))) (\<lambda>sym.
     let asset_name = to_uppercase (tk_upper T) sym in
     Ok \<lparr>symbol_lookup = (symbol_lookup r)(asset_name \<mapsto> i),
         metadata_lookup = (metadata_lookup r)(i \<mapsto> md)\<rparr>)"

text \<open>The registry is changed in place: an error leaves the earlier insertions of the call.\<close>

definition registry_insert ::
  "token_info \<Rightarrow> asset_registry option \<Rightarrow> u32 \<Rightarrow> asset_metadata \<Rightarrow> (unit, runtime_error) result \<times> asset_registry option" where
  "registry_insert T g i md = (case registry_global g of
      Ok r \<Rightarrow> (case inner_insert T r i md of
          Ok r' \<Rightarrow> (Ok (), Some r')
        | Err e \<Rightarrow> (Err e, g)
        | Panic \<Rightarrow> (Panic, g))
    | Err e \<Rightarrow> (Err e, g)
    | Panic \<Rightarrow> (Panic, g))"

fun extend_loop :: "token_info \<Rightarrow> asset_registry \<Rightarrow> (u32 \<times> asset_metadata) list \<Rightarrow> (unit, runtime_error) result \<times> asset_registry" where
  "extend_loop T r [] = (Ok (), r)"
| "extend_loop T r ((i, md) # assets) = (case inner_insert T r i md of
      Ok r' \<Rightarrow> extend_loop T r' assets
    | Err e \<Rightarrow> (Err e, r)
    | Panic \<Rightarrow> (Panic, r))"

definition registry_extend ::
  "token_info \<Rightarrow> asset_registry option \<Rightarrow> (u32 \<times> asset_metadata) list \<Rightarrow> (unit, runtime_error) result \<times> asset_registry option" where
  "registry_extend T g assets = (case registry_global g of
      Ok r \<Rightarrow> (case extend_loop T r assets of (res, r') \<Rightarrow> (res, Some r'))
    | Err e \<Rightarrow> (Err e, g)
    | Panic \<Rightarrow> (Panic, g))"

definition get_foreign_asset_by_symbol :: "asset_registry option \<Rightarrow> string \<Rightarrow> (currency_id, runtime_error) result" where
  "get_foreign_asset_by_symbol g s =
     rbind (registry_global g) (\<lambda>r. ok_or Re_AssetNotFound (map_option ForeignAsset (symbol_lookup r s)))"

definition get_asset_metadata_by_id :: "asset_registry option \<Rightarrow> u32 \<Rightarrow> (asset_metadata, runtime_error) result" where
  "get_asset_metadata_by_id g i =
     rbind (registry_global g) (\<lambda>r. ok_or Re_AssetNotFound (metadata_lookup r i))"

definition try_from_symbol :: "token_info \<Rightarrow> asset_registry option \<Rightarrow> string \<Rightarrow> (currency_id, runtime_error) result" where
  "try_from_symbol T g symbol =
     (let s = to_uppercase (tk_upper T) symbol in
      if s = tk_symbol T DOT then Ok (Token DOT)
      else if s = tk_symbol T IBTC then Ok (Token IBTC)
      else if s = tk_symbol T INTR then Ok (Token INTR)
      else if s = tk_symbol T KSM then Ok (Token KSM)
      else if s = tk_symbol T KBTC then Ok (Token KBTC)
      else if s = tk_symbol T KINT then Ok (Token KINT)
      else get_foreign_asset_by_symbol g s)"

definition currency_name :: "token_info \<Rightarrow> asset_registry option \<Rightarrow> currency_id \<Rightarrow> (string, runtime_error) result" where
  "currency_name T g c = (case c of
      Token t \<Rightarrow> Ok (tk_name T t)
    | ForeignAsset i \<Rightarrow> rbind (get_asset_metadata_by_id g i)
        (\<lambda>md. ok_or Re_InvalidCurrency (from_utf8 (md_name md))))"

definition currency_symbol :: "token_info \<Rightarrow> asset_registry option \<Rightarrow> currency_id \<Rightarrow> (string, runtime_error) result" where
  "currency_symbol T g c = (case c of
      Token t \<Rightarrow> Ok (tk_symbol T t)
    | ForeignAsset i \<Rightarrow> rbind (get_asset_metadata_by_id g i)
        (\<lambda>md. ok_or Re_InvalidCurrency (from_utf8 (md_symbol md))))"

definition currency_decimals :: "token_info \<Rightarrow> asset_registry option \<Rightarrow> currency_id \<Rightarrow> (u32, runtime_error) result" where
  "currency_decimals T g c = (case c of
      Token t \<Rightarrow> Ok (ucast (tk_decimals T t))
    | ForeignAsset i \<Rightarrow> rbind (get_asset_metadata_by_id g i) (\<lambda>md. Ok (md_decimals md)))"

definition currency_coingecko_id :: "token_info \<Rightarrow> asset_registry option \<Rightarrow> currency_id \<Rightarrow> (string, runtime_error) result" where
  "currency_coingecko_id T g c = (case c of
      Token t \<Rightarrow> Ok (to_lowercase (tk_lower T) (tk_name T t))
    | ForeignAsset i \<Rightarrow> rbind (get_asset_metadata_by_id g i)
        (\<lambda>md. ok_or Re_InvalidCurrency (from_utf8 (md_coingecko_id md))))"

lemmas registry_defs =
  registry_global_def registry_insert_def registry_extend_def get_foreign_asset_by_symbol_def
  get_asset_metadata_by_id_def currency_symbol_def

lemma inner_insert_Ok:
  "inner_insert T r i md = Ok r' \<longleftrightarrow>
     (\<exists>s. from_utf8 (md_symbol md) = Some s \<and>
        r' = \<lparr>symbol_lookup = (symbol_lookup r)(to_uppercase (tk_upper T) s \<mapsto> i),
              metadata_lookup = (metadata_lookup r)(i \<mapsto> md)\<rparr>)"
  by (auto simp: inner_insert_def Let_def)

lemma try_from_symbol_foreign:
  "to_uppercase (tk_upper T) s \<notin> range (tk_symbol T) \<Longrightarrow>
   try_from_symbol T g s = get_foreign_asset_by_symbol g (to_uppercase (tk_upper T) s)"
  by (auto simp: try_from_symbol_def Let_def image_iff)

text \<open>The invariant of the registry: every id a symbol leads to has metadata.\<close>

definition registry_inv :: "asset_registry \<Rightarrow> bool" where
  "registry_inv r \<longleftrightarrow> ran (symbol_lookup r) \<subseteq> dom (metadata_lookup r)"

lemma registry_inv_insert: "registry_inv r \<Longrightarrow> inner_insert T r i md = Ok r' \<Longrightarrow> registry_inv r'"
  by (fastforce simp: registry_inv_def inner_insert_Ok ran_def subset_iff dom_def split: if_splits)

lemma registry_inv_extend: "registry_inv r \<Longrightarrow> extend_loop T r assets = (res, r') \<Longrightarrow> registry_inv r'"
  by (induction T r assets rule: extend_loop.induct)
     (auto split: result.splits dest: registry_inv_insert)

section \<open>Properties\<close>

lemma try_from_symbol_token:
  assumes "to_uppercase (tk_upper T) s \<in> range (tk_symbol T)"
  shows "\<exists>t. tk_symbol T t = to_uppercase (tk_upper T) s \<and> try_from_symbol T g s = Ok (Token t)"
proof -
  from assms obtain t where "to_uppercase (tk_upper T) s = tk_symbol T t" by auto
  then show ?thesis by (cases t) (auto simp: try_from_symbol_def Let_def)
qed

text \<open>
  C34. A registered foreign asset is found again: after \<open>insert\<close> succeeds, the asset's symbol reads
  back as registered, and any text with the same uppercase form as this symbol, in Unicode, converts
  to this asset, with one exception: if the uppercase form is the symbol of a hardcoded token, the
  text converts to that token and the asset is not reachable by its symbol.
\<close>

theorem asset_symbol_roundtrip:
  assumes ins: "registry_insert T g i md = (Ok (), g')"
  shows "\<exists>sym. from_utf8 (md_symbol md) = Some sym \<and> currency_symbol T g' (ForeignAsset i) = Ok sym \<and>
          (\<forall>s. to_uppercase (tk_upper T) s = to_uppercase (tk_upper T) sym \<longrightarrow>
             (if to_uppercase (tk_upper T) s \<in> range (tk_symbol T)
              then \<exists>t. tk_symbol T t = to_uppercase (tk_upper T) s \<and> try_from_symbol T g' s = Ok (Token t)
              else try_from_symbol T g' s = Ok (ForeignAsset i)))"
proof -
  obtain r r' where r: "inner_insert T r i md = Ok r'" "g' = Some r'"
    using ins by (auto simp: registry_insert_def split: result.splits)
  then obtain sym where sym: "from_utf8 (md_symbol md) = Some sym"
    and look: "symbol_lookup r' = (symbol_lookup r)(to_uppercase (tk_upper T) sym \<mapsto> i)"
              "metadata_lookup r' = (metadata_lookup r)(i \<mapsto> md)"
    by (auto simp: inner_insert_Ok)
  have "try_from_symbol T g' s = Ok (ForeignAsset i)"
    if "to_uppercase (tk_upper T) s = to_uppercase (tk_upper T) sym" "to_uppercase (tk_upper T) s \<notin> range (tk_symbol T)" for s
    using that look r(2) by (simp add: try_from_symbol_foreign registry_defs)
  then have "if to_uppercase (tk_upper T) s \<in> range (tk_symbol T)
      then \<exists>t. tk_symbol T t = to_uppercase (tk_upper T) s \<and> try_from_symbol T g' s = Ok (Token t)
      else try_from_symbol T g' s = Ok (ForeignAsset i)"
    if "to_uppercase (tk_upper T) s = to_uppercase (tk_upper T) sym" for s
    using that try_from_symbol_token [of T s g'] by presburger
  moreover have "currency_symbol T g' (ForeignAsset i) = Ok sym" using sym look r(2) by (simp add: registry_defs)
  ultimately show ?thesis using sym by blast
qed

text \<open>The long s, a code point outside ASCII whose uppercase is \<open>S\<close>, in UTF-8.\<close>

definition long_s :: string where "long_s = [CHR 0xC5, CHR 0xBF]"

definition demo_tokens :: token_info where
  "demo_tokens = \<lparr>tk_symbol = (\<lambda>t. case t of DOT \<Rightarrow> ''DOT'' | IBTC \<Rightarrow> ''IBTC'' | INTR \<Rightarrow> ''INTR''
      | KSM \<Rightarrow> ''KSM'' | KBTC \<Rightarrow> ''KBTC'' | KINT \<Rightarrow> ''KINT''),
    tk_name = (\<lambda>t. ''Token''), tk_decimals = (\<lambda>t. 10),
    tk_upper = (\<lambda>c. if c = long_s then ''S'' else c), tk_lower = id\<rparr>"

text \<open>The asset of the repository's own test: ticker \<open>AST1\<close>.\<close>

definition demo_asset :: asset_metadata where
  "demo_asset = \<lparr>md_decimals = 10, md_name = [], md_symbol = [65, 83, 84, 49], md_coingecko_id = []\<rparr>"

lemma demo_asset_symbol: "from_utf8 (md_symbol demo_asset) = Some ''AST1''"
  by (simp add: demo_asset_def from_utf8_def text_of_def) code_simp

text \<open>A foreign asset whose ticker is \<open>ksm\<close> with a long s has the uppercase form of a hardcoded token.\<close>

definition long_s_asset :: asset_metadata where
  "long_s_asset = \<lparr>md_decimals = 10, md_name = [], md_symbol = [0x6B, 0xC5, 0xBF, 0x6D], md_coingecko_id = []\<rparr>"

lemma long_s_symbol: "from_utf8 (md_symbol long_s_asset) = Some (''k'' @ long_s @ ''m'')"
  by (simp add: long_s_asset_def from_utf8_def text_of_def long_s_def) code_simp

lemma long_s_upper: "to_uppercase (tk_upper demo_tokens) (''k'' @ long_s @ ''m'') = ''KSM''"
  by (simp add: demo_tokens_def to_uppercase_def long_s_def) code_simp

lemma registry_insert_demo:
  "from_utf8 (md_symbol md) = Some x \<Longrightarrow>
     registry_insert demo_tokens (Some r) 7 md = (Ok (), snd (registry_insert demo_tokens (Some r) 7 md))"
  by (simp add: registry_insert_def registry_global_def inner_insert_def Let_def)

lemma asset_symbol_roundtrip_witness:
  "currency_symbol demo_tokens (snd (registry_insert demo_tokens (Some empty_registry) 7 demo_asset)) (ForeignAsset 7)
     = Ok ''AST1'' \<and>
   try_from_symbol demo_tokens (snd (registry_insert demo_tokens (Some empty_registry) 7 demo_asset)) ''asT1''
     = Ok (ForeignAsset 7) \<and>
   (\<exists>t. tk_symbol demo_tokens t = ''KSM'' \<and>
     try_from_symbol demo_tokens (snd (registry_insert demo_tokens (Some empty_registry) 7 long_s_asset))
       (''k'' @ long_s @ ''m'') = Ok (Token t))"
proof -
  have up: "to_uppercase (tk_upper demo_tokens) ''asT1'' = ''AST1''"
    "to_uppercase (tk_upper demo_tokens) ''AST1'' = ''AST1''"
    by (simp_all add: demo_tokens_def to_uppercase_def) code_simp+
  have tokens: "''AST1'' \<notin> range (tk_symbol demo_tokens)" "''KSM'' \<in> range (tk_symbol demo_tokens)"
    by (auto simp: demo_tokens_def split: token_symbol.splits intro: image_eqI [of _ _ KSM])
  have "currency_symbol demo_tokens (snd (registry_insert demo_tokens (Some empty_registry) 7 demo_asset)) (ForeignAsset 7)
      = Ok ''AST1'' \<and>
      try_from_symbol demo_tokens (snd (registry_insert demo_tokens (Some empty_registry) 7 demo_asset)) ''asT1''
      = Ok (ForeignAsset 7)"
    using asset_symbol_roundtrip [OF registry_insert_demo [OF demo_asset_symbol, of empty_registry]] demo_asset_symbol tokens
    by (auto simp: up)
  moreover have "\<exists>t. tk_symbol demo_tokens t = ''KSM'' \<and>
      try_from_symbol demo_tokens (snd (registry_insert demo_tokens (Some empty_registry) 7 long_s_asset))
       (''k'' @ long_s @ ''m'') = Ok (Token t)"
    using asset_symbol_roundtrip [OF registry_insert_demo [OF long_s_symbol, of empty_registry]] long_s_symbol tokens(2)
    by (simp only: option.inject long_s_upper ex_simps simp_thms) (metis long_s_upper)
  ultimately show ?thesis by blast
qed

text \<open>
  An asset that changes its ticker keeps the old one: after an update of asset \<open>i\<close> to a new
  symbol, the old symbol still converts to asset \<open>i\<close>, whose symbol is now another.
\<close>

theorem renamed_asset_keeps_old_symbol:
  assumes "symbol_lookup r (to_uppercase (tk_upper T) old) = Some i"
    and "registry_insert T (Some r) i md = (Ok (), g')"
    and "to_uppercase (tk_upper T) old \<notin> range (tk_symbol T)"
  shows "try_from_symbol T g' old = Ok (ForeignAsset i)"
  using assms
  by (auto simp: try_from_symbol_foreign registry_defs inner_insert_Ok split: result.splits)

lemma renamed_asset_keeps_old_symbol_witness:
  "try_from_symbol demo_tokens
     (snd (registry_insert demo_tokens (Some \<lparr>symbol_lookup = [''OLD'' \<mapsto> 7], metadata_lookup = Map.empty\<rparr>) 7 demo_asset))
     ''OLD'' = Ok (ForeignAsset 7)"
proof -
  let ?r = "\<lparr>symbol_lookup = [''OLD'' \<mapsto> 7], metadata_lookup = Map.empty\<rparr>"
  have up: "to_uppercase (tk_upper demo_tokens) ''OLD'' = ''OLD''"
    by (simp add: demo_tokens_def to_uppercase_def) code_simp
  have "symbol_lookup ?r (to_uppercase (tk_upper demo_tokens) ''OLD'') = Some 7" by (simp add: up)
  moreover have "to_uppercase (tk_upper demo_tokens) ''OLD'' \<notin> range (tk_symbol demo_tokens)"
    unfolding up by (auto simp: demo_tokens_def split: token_symbol.splits)
  ultimately show ?thesis
    by (intro renamed_asset_keeps_old_symbol [OF _ registry_insert_demo [OF demo_asset_symbol]])
qed

end
