(* ===== verification/Retry.thy ===== *)
theory Retry
  imports Errors
begin

text \<open>
  The retry loop of the runtime crate (\<open>runtime/src/retry.rs\<close>). The backoff library is a
  parameter: the waits it yields for one call, in order, before it gives up (it has a maximal
  elapsed time, so they are finitely many). Durations are in milliseconds.
\<close>

record exponential_backoff =
  max_elapsed_time :: "nat option"
  max_interval :: nat
  initial_interval :: nat
  current_interval :: nat
  multiplier_permille :: nat
  randomization_permille :: nat

definition get_exponential_backoff :: exponential_backoff where
  "get_exponential_backoff =
     \<lparr>max_elapsed_time = Some (60 * 10 * 1000), max_interval = 60 * 2 * 1000,
      initial_interval = 1000, current_interval = 1000,
      multiplier_permille = 2000, randomization_permille = 250\<rparr>"

datatype 'e retry_policy = Skip 'e | Throw 'e

text \<open>
  The loop: call, verify, and sleep before the next attempt as long as the backoff has a wait;
  \<open>give_up\<close> is the error when it has none left.
\<close>

fun retry_loop ::
  "'f \<Rightarrow> nat list \<Rightarrow> (nat \<Rightarrow> 'w \<Rightarrow> 'w) \<Rightarrow> ('w, 't, 'e) action
    \<Rightarrow> (('t, 'e) result \<Rightarrow> ('w, 'u, 'f retry_policy) action) \<Rightarrow> ('w, 'u, 'f) action" where
  "retry_loop give_up waits sleep call verify w =
     (case call w of (x, w1) \<Rightarrow>
      (case verify x w1 of
         (Ok ok, w2) \<Rightarrow> (Ok ok, w2)
       | (Err (Throw err), w2) \<Rightarrow> (Err err, w2)
       | (Err (Skip err), w2) \<Rightarrow> (case waits of
             [] \<Rightarrow> (Err give_up, w2)
           | wait # rest \<Rightarrow> retry_loop give_up rest sleep call verify (sleep wait w2))
       | (Panic, w2) \<Rightarrow> (Panic, w2)))"

declare retry_loop.simps [simp del]

definition notify_retry ::
  "nat list \<Rightarrow> (nat \<Rightarrow> 'w \<Rightarrow> 'w) \<Rightarrow> ('w, 't, 'e) action
    \<Rightarrow> (('t, 'e) result \<Rightarrow> ('w, 'u, runtime_error retry_policy) action) \<Rightarrow> ('w, 'u, runtime_error) action" where
  "notify_retry waits sleep call verify = retry_loop Re_Timeout waits sleep call verify"

text \<open>
  What a client of the loop relies on: a relation \<open>R\<close> every attempt and every sleep keeps, a
  postcondition \<open>Q\<close> of the attempt that succeeded, and \<open>E\<close> of one that is not retried.
\<close>

locale retried =
  fixes sleep :: "nat \<Rightarrow> 'w \<Rightarrow> 'w" and call :: "('w, 't, 'e) action"
    and verify :: "('t, 'e) result \<Rightarrow> ('w, 'u, 'f retry_policy) action"
    and R :: "'w \<Rightarrow> 'w \<Rightarrow> bool" and Q :: "'w \<Rightarrow> 'u \<Rightarrow> bool" and E :: "'w \<Rightarrow> 'f \<Rightarrow> bool"
  assumes R_trans: "R w w1 \<Longrightarrow> R w1 w2 \<Longrightarrow> R w w2"
    and attempt: "call w = (x, w1) \<Longrightarrow> verify x w1 = (y, w2) \<Longrightarrow> R w w2"
    and slept: "R w w1 \<Longrightarrow> R w (sleep t w1)"
    and accepted: "call w = (x, w1) \<Longrightarrow> verify x w1 = (Ok u, w2) \<Longrightarrow> Q w2 u"
    and thrown: "call w = (x, w1) \<Longrightarrow> verify x w1 = (Err (Throw err), w2) \<Longrightarrow> E w2 err"
begin

lemma retry_R: "retry_loop g waits sleep call verify w = (r, w') \<Longrightarrow> R w w'"
proof (induction waits arbitrary: w)
  case Nil
  then show ?case
    by (subst (asm) retry_loop.simps)
       (auto split: prod.splits result.splits retry_policy.splits intro: attempt)
next
  case (Cons t ts)
  obtain x w1 where c: "call w = (x, w1)" by fastforce
  obtain y w2 where v: "verify x w1 = (y, w2)" by fastforce
  have R2: "R w w2" by (rule attempt [OF c v])
  show ?case
  proof (cases "\<exists>err. y = Err (Skip err)")
    case True
    with Cons.prems c v have "retry_loop g ts sleep call verify (sleep t w2) = (r, w')"
      by (subst (asm) retry_loop.simps) auto
    then have "R (sleep t w2) w'" by (rule Cons.IH)
    with slept [OF R2] show ?thesis by (rule R_trans)
  next
    case False
    with Cons.prems c v R2 show ?thesis
      by (subst (asm) retry_loop.simps) (auto split: result.splits retry_policy.splits)
  qed
qed

lemma retry_Ok: "retry_loop g waits sleep call verify w = (Ok u, w') \<Longrightarrow> Q w' u"
proof (induction waits arbitrary: w)
  case Nil
  then show ?case
    by (subst (asm) retry_loop.simps)
       (auto split: prod.splits result.splits retry_policy.splits intro: accepted)
next
  case (Cons t ts)
  then show ?case
    by (subst (asm) (2) retry_loop.simps)
       (auto split: prod.splits result.splits retry_policy.splits intro: accepted)
qed

text \<open>An error is the timeout of the whole loop or that of an attempt that is not retried.\<close>

lemma retry_Err: "retry_loop g waits sleep call verify w = (Err e, w') \<Longrightarrow> e = g \<or> E w' e"
proof (induction waits arbitrary: w)
  case Nil
  then show ?case
    by (subst (asm) retry_loop.simps)
       (auto split: prod.splits result.splits retry_policy.splits intro: thrown)
next
  case (Cons t ts)
  then show ?case
    by (subst (asm) (2) retry_loop.simps)
       (auto split: prod.splits result.splits retry_policy.splits intro: thrown)
qed

end

end
