(* ===== verification/Parachain.thy ===== *)
theory Parachain
  imports Requests Assets Retry
begin

text \<open>
  The parachain client, \<open>InterBtcParachain\<close> of \<open>runtime/src/rpc.rs\<close>: every pallet trait's
  operation as the storage read, RPC request or extrinsic the client makes for it, the nonce
  handling of \<open>with_unique_signer\<close>, and the block waits.

  The node behind the \<open>subxt\<close> client is the record \<open>node\<close>, one field per storage item, RPC
  method or subscription used; its world is \<open>'w\<close>. The client's own state (the signer's nonce,
  the shutdown channel, the fee rate channel) is the record \<open>client\<close>, kept beside the world.
\<close>

section \<open>Extrinsics\<close>

datatype oracle_key = ExchangeRate currency_id | FeeEstimation

record client_release =
  cr_uri :: bytes
  cr_checksum :: H256

text \<open>\<open>EncodedCall\<close>: the calls wrapped in a batch or in a sudo call.\<close>

datatype encoded_call =
    Call_store_block_header bytes
  | Call_set_storage "(bytes \<times> bytes) list"
  | Call_set_redeem_period u32
  | Call_set_issue_period u32
  | Call_set_replace_period u32
  | Call_insert_authorized_oracle account_id bytes

datatype extrinsic =
    Tx_batch "encoded_call list"
  | Tx_sudo encoded_call
  | Tx_transfer account_id currency_id u128
  | Tx_request_replace vault_currency_pair u128
  | Tx_withdraw_replace vault_currency_pair u128
  | Tx_accept_replace vault_currency_pair vault_id u128 u128 btc_address
  | Tx_execute_replace H256 bytes bytes
  | Tx_cancel_replace H256
  | Tx_feed_values "(oracle_key \<times> u128) list"
  | Tx_request_issue u128 vault_id
  | Tx_execute_issue H256 bytes bytes
  | Tx_cancel_issue H256
  | Tx_request_redeem u128 btc_address vault_id
  | Tx_execute_redeem H256 bytes bytes
  | Tx_cancel_redeem H256 bool
  | Tx_initialize bytes u32
  | Tx_store_block_header bytes
  | Tx_register_vault vault_currency_pair u128
  | Tx_deposit_collateral vault_currency_pair u128
  | Tx_withdraw_collateral vault_currency_pair u128
  | Tx_register_public_key bytes
  | Tx_set_current_client_release bytes client_release
  | Tx_set_pending_client_release bytes client_release

record request_issue_event =
  ri_issue_id :: H256
  ri_vault_id :: vault_id
  ri_vault_address :: btc_address
  ri_vault_public_key :: bytes

text \<open>The events of a finalized extrinsic; an event that does not decode is \<open>None\<close>.\<close>

datatype tx_event =
    Ev_RequestIssue "request_issue_event option"
  | Ev_RequestRedeem "H256 option"
  | Ev_Other

datatype vault_status = VaultActive bool | Liquidated

record rich_block_header =
  bh_block_height :: u32

record vault =
  v_id :: vault_id
  v_status :: vault_status
  v_issued_tokens :: u128
  v_to_be_issued_tokens :: u128
  v_to_be_redeemed_tokens :: u128

datatype status_code = StatusRunning | StatusError | StatusShutdown

section \<open>The node\<close>

text \<open>
  \<open>n_submit nonce tx\<close> signs, submits and watches; \<open>None\<close> is a watch that did not end within
  \<open>TRANSACTION_TIMEOUT\<close>. \<open>n_waits\<close> are the waits of a backoff that starts now. Storage
  iterators yield the raw storage key with the value, or the error of a page.
\<close>

record 'w node =
  n_testing_utils :: bool
  n_finalized_head :: "('w, H256, runtime_error) action"
  n_waits :: "'w \<Rightarrow> nat list"
  n_sleep :: "nat \<Rightarrow> 'w \<Rightarrow> 'w"
  n_account_nonce :: "account_id \<Rightarrow> ('w, u32, runtime_error) action"
  n_submit :: "u32 \<Rightarrow> extrinsic \<Rightarrow> 'w \<Rightarrow> (tx_event list, runtime_error) result option \<times> 'w"
  n_subscribe_blocks :: "bool \<Rightarrow> ('w, (u32, runtime_error) result list, runtime_error) action"
  n_number :: "H256 option \<Rightarrow> ('w, u32, runtime_error) action"
  n_asset_metadata :: "u32 \<Rightarrow> H256 option \<Rightarrow> ('w, asset_metadata option, runtime_error) action"
  n_asset_metadata_iter :: "H256 option \<Rightarrow> ('w, (bytes \<times> asset_metadata) list, runtime_error) action"
  n_token_accounts :: "account_id \<Rightarrow> currency_id \<Rightarrow> H256 option \<Rightarrow> ('w, u128 \<times> u128, runtime_error) action"
  n_new_vault_replace_requests :: "account_id \<Rightarrow> H256 option \<Rightarrow> ('w, H256 list, runtime_error) action"
  n_old_vault_replace_requests :: "account_id \<Rightarrow> H256 option \<Rightarrow> ('w, H256 list, runtime_error) action"
  n_replace_requests :: "H256 \<Rightarrow> H256 option \<Rightarrow> ('w, vault_id replace_request option, runtime_error) action"
  n_replace_period :: "H256 option \<Rightarrow> ('w, u32, runtime_error) action"
  n_replace_btc_dust_value :: "H256 option \<Rightarrow> ('w, u128, runtime_error) action"
  n_now :: "H256 option \<Rightarrow> ('w, u64, runtime_error) action"
  n_aggregate :: "oracle_key \<Rightarrow> H256 option \<Rightarrow> ('w, u128 option, runtime_error) action"
  n_raw_values_updated :: "oracle_key \<Rightarrow> H256 option \<Rightarrow> ('w, bool option, runtime_error) action"
  n_wrapped_to_collateral :: "u128 \<Rightarrow> currency_id \<Rightarrow> H256 option \<Rightarrow> ('w, u128, runtime_error) action"
  n_collateral_to_wrapped :: "u128 \<Rightarrow> currency_id \<Rightarrow> H256 option \<Rightarrow> ('w, u128, runtime_error) action"
  n_parachain_status :: "H256 option \<Rightarrow> ('w, status_code, runtime_error) action"
  n_active_block_count :: "H256 option \<Rightarrow> ('w, u32, runtime_error) action"
  n_issue_requests :: "H256 \<Rightarrow> H256 option \<Rightarrow> ('w, vault_id issue_request option, runtime_error) action"
  n_vault_issue_requests :: "account_id \<Rightarrow> H256 option \<Rightarrow> ('w, H256 list, runtime_error) action"
  n_issue_period :: "H256 option \<Rightarrow> ('w, u32, runtime_error) action"
  n_issue_requests_iter :: "H256 option \<Rightarrow> ('w, (bytes \<times> vault_id issue_request) list, runtime_error) action"
  n_redeem_requests :: "H256 \<Rightarrow> H256 option \<Rightarrow> ('w, vault_id redeem_request option, runtime_error) action"
  n_vault_redeem_requests :: "account_id \<Rightarrow> H256 option \<Rightarrow> ('w, H256 list, runtime_error) action"
  n_redeem_period :: "H256 option \<Rightarrow> ('w, u32, runtime_error) action"
  n_best_block :: "H256 option \<Rightarrow> ('w, H256, runtime_error) action"
  n_best_block_height :: "H256 option \<Rightarrow> ('w, u32, runtime_error) action"
  n_chains_hashes :: "u32 \<Rightarrow> u32 \<Rightarrow> H256 option \<Rightarrow> ('w, H256, runtime_error) action"
  n_block_headers :: "H256 \<Rightarrow> H256 option \<Rightarrow> ('w, rich_block_header, runtime_error) action"
  n_stable_bitcoin_confirmations :: "H256 option \<Rightarrow> ('w, u32, runtime_error) action"
  n_stable_parachain_confirmations :: "H256 option \<Rightarrow> ('w, u32, runtime_error) action"
  n_verify_inclusion :: "H256 \<Rightarrow> H256 option \<Rightarrow> ('w, subxt_error option, runtime_error) action"
  n_vaults :: "vault_id \<Rightarrow> H256 option \<Rightarrow> ('w, vault option, runtime_error) action"
  n_vaults_by_account_id :: "account_id \<Rightarrow> H256 option \<Rightarrow> ('w, vault_id list, runtime_error) action"
  n_vaults_iter :: "H256 option \<Rightarrow> ('w, vault list, runtime_error) action"
  n_vault_bitcoin_public_key :: "account_id \<Rightarrow> H256 option \<Rightarrow> ('w, bytes option, runtime_error) action"
  n_required_collateral_for_wrapped :: "u128 \<Rightarrow> currency_id \<Rightarrow> H256 option \<Rightarrow> ('w, u128, runtime_error) action"
  n_required_collateral_for_vault :: "vault_id \<Rightarrow> H256 option \<Rightarrow> ('w, u128, runtime_error) action"
  n_vault_total_collateral :: "vault_id \<Rightarrow> H256 option \<Rightarrow> ('w, u128, runtime_error) action"
  n_collateralization_from_vault :: "vault_id \<Rightarrow> bool \<Rightarrow> H256 option \<Rightarrow> ('w, u128, runtime_error) action"
  n_issue_griefing_collateral :: "H256 option \<Rightarrow> ('w, u128, runtime_error) action"
  n_issue_fee :: "H256 option \<Rightarrow> ('w, u128, runtime_error) action"
  n_replace_griefing_collateral :: "H256 option \<Rightarrow> ('w, u128, runtime_error) action"

text \<open>
  The client: \<open>cl_sent\<close> is not part of the code, it records the submissions made, each with
  the nonce it was signed with, so that the properties can speak of them.
\<close>

record client =
  cl_account_id :: account_id
  cl_nonce :: u32
  cl_shutdowns :: nat
  cl_fee_updates :: "u128 list"
  cl_native_currency :: currency_id
  cl_sent :: "(u32 \<times> extrinsic) list"

type_synonym ('w, 'a) pc_action = "('w \<times> client, 'a, runtime_error) action"

section \<open>Starting the client\<close>

record runtime_version =
  rv_spec_name :: "string option"
  rv_spec_version :: u32

text \<open>\<open>new\<close>: the node must run the spec name and a spec version of the built-in range.\<close>

definition check_runtime_version ::
  "string \<Rightarrow> u32 \<Rightarrow> u32 \<Rightarrow> runtime_version \<Rightarrow> (unit, runtime_error) result" where
  "check_runtime_version default_spec_name range_start range_end rv =
     (let spec_name = (case rv_spec_name rv of Some s \<Rightarrow> s | None \<Rightarrow> []) in
      if default_spec_name \<noteq> spec_name then Err (Re_ParachainMetadataMismatch default_spec_name spec_name)
      else if range_start \<le> rv_spec_version rv \<and> rv_spec_version rv < range_end then Ok ()
      else Err (Re_InvalidSpecVersion range_start range_end (rv_spec_version rv)))"

section \<open>Nonces and submission\<close>

text \<open>A failed nonce query counts as nonce 0 (\<open>unwrap_or(0)\<close>).\<close>

definition refresh_nonce :: "'w node \<Rightarrow> ('w, unit) pc_action" where
  "refresh_nonce N wc = (case wc of (w, c) \<Rightarrow>
     (case n_account_nonce N (cl_account_id c) w of
        (Panic, w1) \<Rightarrow> (Panic, (w1, c))
      | (r, w1) \<Rightarrow>
          (Ok (), (w1, c\<lparr>cl_nonce := (case ok_opt r of Some n \<Rightarrow> n | None \<Rightarrow> 0)\<rparr>))))"

definition submit_once :: "'w node \<Rightarrow> extrinsic \<Rightarrow> ('w, tx_event list) pc_action" where
  "submit_once N tx wc = (case wc of (w, c) \<Rightarrow>
     (let nonce = cl_nonce c;
          c1 = c\<lparr>cl_nonce := nonce + 1, cl_sent := cl_sent c @ [(nonce, tx)]\<rparr>
      in (case n_submit N nonce tx w of
            (None, w1) \<Rightarrow> (Err Re_Timeout, (w1, c1\<lparr>cl_shutdowns := Suc (cl_shutdowns c1)\<rparr>))
          | (Some r, w1) \<Rightarrow> (r, (w1, c1)))))"

definition verify_submission ::
  "'w node \<Rightarrow> (tx_event list, runtime_error) result
    \<Rightarrow> ('w \<times> client, tx_event list, runtime_error retry_policy) action" where
  "verify_submission N result = (case result of
      Ok te \<Rightarrow> a_ret te
    | Panic \<Rightarrow> a_lift Panic
    | Err err \<Rightarrow>
        (case is_invalid_transaction err of
           Some data \<Rightarrow> a_match (refresh_nonce N) (\<lambda>_. a_err (Skip (Re_InvalidTransaction data))) (\<lambda>e. a_err (Throw e))
         | None \<Rightarrow>
             if is_pool_too_low_priority err \<noteq> None
             then a_match (refresh_nonce N) (\<lambda>_. a_err (Skip Re_PoolTooLowPriority)) (\<lambda>e. a_err (Throw e))
             else if is_block_hash_not_found_error err
             then a_match (refresh_nonce N) (\<lambda>_. a_err (Skip Re_BlockHashNotFound)) (\<lambda>e. a_err (Throw e))
             else a_err (Throw err)))"

definition pc_sleep :: "'w node \<Rightarrow> nat \<Rightarrow> 'w \<times> client \<Rightarrow> 'w \<times> client" where
  "pc_sleep N t wc = (n_sleep N t (fst wc), snd wc)"

definition with_unique_signer :: "'w node \<Rightarrow> extrinsic \<Rightarrow> ('w, tx_event list) pc_action" where
  "with_unique_signer N tx wc =
     notify_retry (n_waits N (fst wc)) (pc_sleep N) (submit_once N tx) (verify_submission N) wc"

text \<open>An extrinsic whose events are not looked at.\<close>

definition submit :: "'w node \<Rightarrow> extrinsic \<Rightarrow> ('w, unit) pc_action" where
  "submit N tx = a_bind (with_unique_signer N tx) (\<lambda>_. a_ret ())"

definition batch :: "'w node \<Rightarrow> encoded_call list \<Rightarrow> ('w, unit) pc_action" where
  "batch N calls = submit N (Tx_batch calls)"

section \<open>Heads and blocks\<close>

definition get_latest_block_hash :: "'w node \<Rightarrow> ('w, H256 option, runtime_error) action" where
  "get_latest_block_hash N =
     (if n_testing_utils N then a_ret None else a_bind (n_finalized_head N) (\<lambda>h. a_ret (Some h)))"

text \<open>A storage read or RPC request at the latest (finalized) head.\<close>

definition at_head :: "'w node \<Rightarrow> (H256 option \<Rightarrow> ('w, 'a, runtime_error) action) \<Rightarrow> ('w, 'a, runtime_error) action" where
  "at_head N q = a_bind (get_latest_block_hash N) q"

text \<open>\<open>.ok_or(Error::StorageItemNotFound)\<close> and the like, on a read.\<close>

definition required :: "'e \<Rightarrow> ('w, 'a option, 'e) action \<Rightarrow> ('w, 'a, 'e) action" where
  "required e m = a_bind m (\<lambda>x. a_lift (ok_or e x))"

fun await_height :: "u32 \<Rightarrow> (u32, runtime_error) result list \<Rightarrow> (unit, runtime_error) result" where
  "await_height height [] = Err Re_ChannelClosed"
| "await_height height (b # sub) = rbind b (\<lambda>number. if height \<le> number then Ok () else await_height height sub)"

definition wait_for_block :: "'w node \<Rightarrow> u32 \<Rightarrow> ('w, unit, runtime_error) action" where
  "wait_for_block N height =
     a_bind (n_subscribe_blocks N (\<not> n_testing_utils N)) (\<lambda>sub. a_lift (await_height height sub))"

fun on_block_loop ::
  "(u32 \<Rightarrow> ('w, unit, runtime_error) action) \<Rightarrow> (u32, runtime_error) result list \<Rightarrow> ('w, unit, runtime_error) action" where
  "on_block_loop f [] = a_err Re_ChannelClosed"
| "on_block_loop f (b # sub) = a_bind (a_lift b) (\<lambda>h. a_bind (f h) (\<lambda>_. on_block_loop f sub))"

definition on_block :: "'w node \<Rightarrow> (u32 \<Rightarrow> ('w, unit, runtime_error) action) \<Rightarrow> ('w, unit, runtime_error) action" where
  "on_block N f = a_bind (n_subscribe_blocks N (\<not> n_testing_utils N)) (on_block_loop f)"

definition get_current_chain_height :: "'w node \<Rightarrow> ('w, u32, runtime_error) action" where
  "get_current_chain_height N = at_head N (n_number N)"

definition delay_for_blocks :: "bool \<Rightarrow> 'w node \<Rightarrow> u32 \<Rightarrow> ('w, unit, runtime_error) action" where
  "delay_for_blocks oc N delay =
     (if delay = 0 then a_ret ()
      else a_bind (get_current_chain_height N) (\<lambda>start.
           a_bind (a_lift (plain_add oc start delay)) (wait_for_block N)))"

end
