(* ===== verification/Pallets.thy ===== *)
theory Pallets
  imports Parachain
begin

text \<open>
  The pallet traits of \<open>runtime/src/rpc.rs\<close> as implemented for \<open>InterBtcParachain\<close>, trait by
  trait in the order of the file: each operation is the storage read, the RPC request or the
  extrinsic the client makes for it.
\<close>

section \<open>UtilFuncs\<close>

definition is_this_vault :: "client \<Rightarrow> vault_id \<Rightarrow> bool" where
  "is_this_vault c v = (account v = cl_account_id c)"

text \<open>The last four bytes of the storage key, read as a little-endian number.\<close>

definition decode_u32 :: "bytes \<Rightarrow> (u32, runtime_error) result" where
  "decode_u32 key = (case key of
      b0 # b1 # b2 # b3 # _ \<Rightarrow> Ok (ucast b0 + 256 * ucast b1 + 65536 * ucast b2 + 16777216 * ucast b3)
    | _ \<Rightarrow> Err (Re_CodecError ''not enough data''))"

text \<open>\<open>&raw_key[raw_key.len() - n..]\<close>: a key shorter than \<open>n\<close> panics.\<close>

definition last_bytes :: "nat \<Rightarrow> bytes \<Rightarrow> (bytes, 'e) result" where
  "last_bytes n raw_key = (if length raw_key < n then Panic else Ok (drop (length raw_key - n) raw_key))"

definition get_foreign_assets_metadata :: "'w node \<Rightarrow> ('w, (u32 \<times> asset_metadata) list, runtime_error) action" where
  "get_foreign_assets_metadata N =
     a_bind (at_head N (n_asset_metadata_iter N)) (\<lambda>entries.
     a_lift (collect (map (\<lambda>(raw_key, value).
       rbind (last_bytes 4 raw_key) (\<lambda>key. rbind (decode_u32 key) (\<lambda>k. Ok (k, value)))) entries)))"

definition get_foreign_asset_metadata :: "'w node \<Rightarrow> u32 \<Rightarrow> ('w, asset_metadata, runtime_error) action" where
  "get_foreign_asset_metadata N i = required Re_AssetNotFound (at_head N (n_asset_metadata N i))"

definition store_assets_metadata ::
  "token_info \<Rightarrow> 'w node \<Rightarrow> ('w \<times> asset_registry option, unit, runtime_error) action" where
  "store_assets_metadata T N =
     a_bind (on_world (get_foreign_assets_metadata N)) (\<lambda>assets (w, g).
       case registry_extend T g assets of (r, g') \<Rightarrow> (r, (w, g')))"

section \<open>CollateralBalancesPallet\<close>

definition get_free_balance_for_id :: "'w node \<Rightarrow> account_id \<Rightarrow> currency_id \<Rightarrow> ('w, u128, runtime_error) action" where
  "get_free_balance_for_id N i currency_id =
     a_bind (at_head N (n_token_accounts N i currency_id)) (\<lambda>(free, reserved). a_ret free)"

definition get_free_balance :: "'w node \<Rightarrow> client \<Rightarrow> currency_id \<Rightarrow> ('w, u128, runtime_error) action" where
  "get_free_balance N c currency_id = get_free_balance_for_id N (cl_account_id c) currency_id"

definition get_reserved_balance_for_id :: "'w node \<Rightarrow> account_id \<Rightarrow> currency_id \<Rightarrow> ('w, u128, runtime_error) action" where
  "get_reserved_balance_for_id N i currency_id =
     a_bind (at_head N (n_token_accounts N i currency_id)) (\<lambda>(free, reserved). a_ret reserved)"

definition get_reserved_balance :: "'w node \<Rightarrow> client \<Rightarrow> currency_id \<Rightarrow> ('w, u128, runtime_error) action" where
  "get_reserved_balance N c currency_id = get_reserved_balance_for_id N (cl_account_id c) currency_id"

definition transfer_to :: "'w node \<Rightarrow> account_id \<Rightarrow> u128 \<Rightarrow> currency_id \<Rightarrow> ('w, unit) pc_action" where
  "transfer_to N recipient amount currency_id = submit N (Tx_transfer recipient currency_id amount)"

section \<open>ReplacePallet\<close>

definition request_replace :: "'w node \<Rightarrow> vault_id \<Rightarrow> u128 \<Rightarrow> ('w, unit) pc_action" where
  "request_replace N v amount = submit N (Tx_request_replace (currencies v) amount)"

definition withdraw_replace :: "'w node \<Rightarrow> vault_id \<Rightarrow> u128 \<Rightarrow> ('w, unit) pc_action" where
  "withdraw_replace N v amount = submit N (Tx_withdraw_replace (currencies v) amount)"

definition accept_replace ::
  "'w node \<Rightarrow> vault_id \<Rightarrow> vault_id \<Rightarrow> u128 \<Rightarrow> u128 \<Rightarrow> btc_address \<Rightarrow> ('w, unit) pc_action" where
  "accept_replace N new_vault old_vault amount_btc coll btc_address =
     submit N (Tx_accept_replace (currencies new_vault) old_vault amount_btc coll btc_address)"

definition execute_replace :: "'w node \<Rightarrow> H256 \<Rightarrow> bytes \<Rightarrow> bytes \<Rightarrow> ('w, unit) pc_action" where
  "execute_replace N replace_id merkle_proof raw_tx = submit N (Tx_execute_replace replace_id merkle_proof raw_tx)"

definition cancel_replace :: "'w node \<Rightarrow> H256 \<Rightarrow> ('w, unit) pc_action" where
  "cancel_replace N replace_id = submit N (Tx_cancel_replace replace_id)"

definition get_replace_request :: "'w node \<Rightarrow> H256 \<Rightarrow> ('w, vault_id replace_request, runtime_error) action" where
  "get_replace_request N replace_id = required Re_StorageItemNotFound (at_head N (n_replace_requests N replace_id))"

text \<open>
  \<open>join_all(..).await.into_iter().collect()\<close>: every key is read; the first error in the order
  of the keys is the result. (The reads run concurrently; here they run in that order, each
  to its end.)
\<close>

fun join_all :: "('w, 'a, 'e) action list \<Rightarrow> 'w \<Rightarrow> ('a, 'e) result list \<times> 'w" where
  "join_all [] w = ([], w)"
| "join_all (m # ms) w = (case m w of (r, w1) \<Rightarrow> case join_all ms w1 of (rs, w2) \<Rightarrow> (r # rs, w2))"

definition get_requests ::
  "('w, H256 list, runtime_error) action \<Rightarrow> (H256 \<Rightarrow> ('w, 'a, runtime_error) action)
    \<Rightarrow> ('w, (H256 \<times> 'a) list, runtime_error) action" where
  "get_requests keys get = a_bind keys (\<lambda>ks w.
     (case join_all (map (\<lambda>key. a_bind (get key) (\<lambda>value. a_ret (key, value))) ks) w of
        (rs, w') \<Rightarrow> (collect rs, w')))"

definition get_new_vault_replace_requests ::
  "'w node \<Rightarrow> account_id \<Rightarrow> ('w, (H256 \<times> vault_id replace_request) list, runtime_error) action" where
  "get_new_vault_replace_requests N acc =
     get_requests (at_head N (n_new_vault_replace_requests N acc)) (get_replace_request N)"

definition get_old_vault_replace_requests ::
  "'w node \<Rightarrow> account_id \<Rightarrow> ('w, (H256 \<times> vault_id replace_request) list, runtime_error) action" where
  "get_old_vault_replace_requests N acc =
     get_requests (at_head N (n_old_vault_replace_requests N acc)) (get_replace_request N)"

definition get_replace_period :: "'w node \<Rightarrow> ('w, u32, runtime_error) action" where
  "get_replace_period N = at_head N (n_replace_period N)"

definition get_replace_dust_amount :: "'w node \<Rightarrow> ('w, u128, runtime_error) action" where
  "get_replace_dust_amount N = at_head N (n_replace_btc_dust_value N)"

definition get_time_now :: "'w node \<Rightarrow> ('w, u64, runtime_error) action" where
  "get_time_now N = at_head N (n_now N)"

section \<open>OraclePallet\<close>

definition get_exchange_rate :: "'w node \<Rightarrow> currency_id \<Rightarrow> ('w, u128, runtime_error) action" where
  "get_exchange_rate N currency_id =
     required Re_StorageItemNotFound (at_head N (n_aggregate N (ExchangeRate currency_id)))"

definition feed_values :: "'w node \<Rightarrow> (oracle_key \<times> u128) list \<Rightarrow> ('w, unit) pc_action" where
  "feed_values N vals = submit N (Tx_feed_values vals)"

definition set_bitcoin_fees :: "'w node \<Rightarrow> u128 \<Rightarrow> ('w, unit) pc_action" where
  "set_bitcoin_fees N v = submit N (Tx_feed_values [(FeeEstimation, v)])"

definition get_bitcoin_fees :: "'w node \<Rightarrow> ('w, u128, runtime_error) action" where
  "get_bitcoin_fees N = required Re_StorageItemNotFound (at_head N (n_aggregate N FeeEstimation))"

definition wrapped_to_collateral :: "'w node \<Rightarrow> u128 \<Rightarrow> currency_id \<Rightarrow> ('w, u128, runtime_error) action" where
  "wrapped_to_collateral N amount currency_id = at_head N (n_wrapped_to_collateral N amount currency_id)"

definition collateral_to_wrapped :: "'w node \<Rightarrow> u128 \<Rightarrow> currency_id \<Rightarrow> ('w, u128, runtime_error) action" where
  "collateral_to_wrapped N amount currency_id = at_head N (n_collateral_to_wrapped N amount currency_id)"

definition has_updated :: "'w node \<Rightarrow> oracle_key \<Rightarrow> ('w, bool, runtime_error) action" where
  "has_updated N key = a_bind (at_head N (n_raw_values_updated N key))
     (\<lambda>x. a_ret (case x of Some b \<Rightarrow> b | None \<Rightarrow> False))"

text \<open>\<open>listen_for_fee_rate_changes\<close>: the fee estimates of an event are broadcast, in order.\<close>

definition broadcast_fee_rates :: "client \<Rightarrow> (oracle_key \<times> u128) list \<Rightarrow> client" where
  "broadcast_fee_rates c vals =
     c\<lparr>cl_fee_updates := cl_fee_updates c @ filter_map (\<lambda>(key, v). if key = FeeEstimation then Some v else None) vals\<rparr>"

section \<open>SecurityPallet\<close>

definition get_parachain_status :: "'w node \<Rightarrow> ('w, status_code, runtime_error) action" where
  "get_parachain_status N = at_head N (n_parachain_status N)"

definition get_current_active_block_number :: "'w node \<Rightarrow> ('w, u32, runtime_error) action" where
  "get_current_active_block_number N = at_head N (n_active_block_count N)"

section \<open>IssuePallet\<close>

text \<open>\<open>find_first\<close>: the first event of the wanted kind decides, also when it does not decode.\<close>

fun find_first_issue :: "tx_event list \<Rightarrow> (request_issue_event option, runtime_error) result" where
  "find_first_issue [] = Ok None"
| "find_first_issue (Ev_RequestIssue (Some e) # es) = Ok (Some e)"
| "find_first_issue (Ev_RequestIssue None # es) = Err (Re_CodecError ''event'')"
| "find_first_issue (_ # es) = find_first_issue es"

fun find_first_redeem :: "tx_event list \<Rightarrow> (H256 option, runtime_error) result" where
  "find_first_redeem [] = Ok None"
| "find_first_redeem (Ev_RequestRedeem (Some e) # es) = Ok (Some e)"
| "find_first_redeem (Ev_RequestRedeem None # es) = Err (Re_CodecError ''event'')"
| "find_first_redeem (_ # es) = find_first_redeem es"

definition request_issue :: "'w node \<Rightarrow> u128 \<Rightarrow> vault_id \<Rightarrow> ('w, request_issue_event) pc_action" where
  "request_issue N amount v =
     a_bind (with_unique_signer N (Tx_request_issue amount v)) (\<lambda>evs.
     a_lift (rbind (find_first_issue evs) (ok_or Re_RequestIssueIDNotFound)))"

definition execute_issue :: "'w node \<Rightarrow> H256 \<Rightarrow> bytes \<Rightarrow> bytes \<Rightarrow> ('w, unit) pc_action" where
  "execute_issue N issue_id merkle_proof raw_tx = submit N (Tx_execute_issue issue_id merkle_proof raw_tx)"

definition cancel_issue :: "'w node \<Rightarrow> H256 \<Rightarrow> ('w, unit) pc_action" where
  "cancel_issue N issue_id = submit N (Tx_cancel_issue issue_id)"

definition get_issue_request :: "'w node \<Rightarrow> H256 \<Rightarrow> ('w, vault_id issue_request, runtime_error) action" where
  "get_issue_request N issue_id = required Re_StorageItemNotFound (at_head N (n_issue_requests N issue_id))"

definition get_vault_issue_requests ::
  "'w node \<Rightarrow> account_id \<Rightarrow> ('w, (H256 \<times> vault_id issue_request) list, runtime_error) action" where
  "get_vault_issue_requests N acc =
     get_requests (at_head N (n_vault_issue_requests N acc)) (get_issue_request N)"

definition get_issue_period :: "'w node \<Rightarrow> ('w, u32, runtime_error) action" where
  "get_issue_period N = at_head N (n_issue_period N)"

text \<open>The loop of \<open>get_all_active_issues\<close>; \<open>opentime + issue_period\<close> is a plain addition.\<close>

fun active_issues ::
  "bool \<Rightarrow> u32 \<Rightarrow> u32 \<Rightarrow> (bytes \<times> vault_id issue_request) list
    \<Rightarrow> ((H256 \<times> vault_id issue_request) list, runtime_error) result" where
  "active_issues oc issue_period current_height [] = Ok []"
| "active_issues oc issue_period current_height ((raw_key, request) # entries) =
     (if is_status request = Is_Pending
      then rbind (plain_add oc (is_opentime request) issue_period) (\<lambda>end_height.
           if current_height < end_height
           then rbind (last_bytes 32 raw_key) (\<lambda>key.
                rbind (active_issues oc issue_period current_height entries) (\<lambda>rest. Ok ((key, request) # rest)))
           else active_issues oc issue_period current_height entries)
      else active_issues oc issue_period current_height entries)"

definition get_all_active_issues ::
  "bool \<Rightarrow> 'w node \<Rightarrow> ('w, (H256 \<times> vault_id issue_request) list, runtime_error) action" where
  "get_all_active_issues oc N =
     a_bind (get_current_active_block_number N) (\<lambda>current_height.
     a_bind (get_issue_period N) (\<lambda>issue_period.
     a_bind (at_head N (n_issue_requests_iter N)) (\<lambda>entries.
     a_lift (active_issues oc issue_period current_height entries))))"

section \<open>RedeemPallet\<close>

definition request_redeem :: "'w node \<Rightarrow> u128 \<Rightarrow> btc_address \<Rightarrow> vault_id \<Rightarrow> ('w, H256) pc_action" where
  "request_redeem N amount btc_address v =
     a_bind (with_unique_signer N (Tx_request_redeem amount btc_address v)) (\<lambda>evs.
     a_lift (rbind (find_first_redeem evs) (ok_or Re_RequestRedeemIDNotFound)))"

definition execute_redeem :: "'w node \<Rightarrow> H256 \<Rightarrow> bytes \<Rightarrow> bytes \<Rightarrow> ('w, unit) pc_action" where
  "execute_redeem N redeem_id merkle_proof raw_tx = submit N (Tx_execute_redeem redeem_id merkle_proof raw_tx)"

definition cancel_redeem :: "'w node \<Rightarrow> H256 \<Rightarrow> bool \<Rightarrow> ('w, unit) pc_action" where
  "cancel_redeem N redeem_id reimburse = submit N (Tx_cancel_redeem redeem_id reimburse)"

definition get_redeem_request :: "'w node \<Rightarrow> H256 \<Rightarrow> ('w, vault_id redeem_request, runtime_error) action" where
  "get_redeem_request N redeem_id = required Re_StorageItemNotFound (at_head N (n_redeem_requests N redeem_id))"

definition get_vault_redeem_requests ::
  "'w node \<Rightarrow> account_id \<Rightarrow> ('w, (H256 \<times> vault_id redeem_request) list, runtime_error) action" where
  "get_vault_redeem_requests N acc =
     get_requests (at_head N (n_vault_redeem_requests N acc)) (get_redeem_request N)"

definition get_redeem_period :: "'w node \<Rightarrow> ('w, u32, runtime_error) action" where
  "get_redeem_period N = at_head N (n_redeem_period N)"

section \<open>BtcRelayPallet\<close>

definition get_best_block :: "'w node \<Rightarrow> ('w, H256, runtime_error) action" where
  "get_best_block N = at_head N (n_best_block N)"

definition get_best_block_height :: "'w node \<Rightarrow> ('w, u32, runtime_error) action" where
  "get_best_block_height N = at_head N (n_best_block_height N)"

text \<open>The main chain is chain 0.\<close>

definition relay_get_block_hash :: "'w node \<Rightarrow> u32 \<Rightarrow> ('w, H256, runtime_error) action" where
  "relay_get_block_hash N height = at_head N (n_chains_hashes N 0 height)"

definition relay_get_block_header :: "'w node \<Rightarrow> H256 \<Rightarrow> ('w, rich_block_header, runtime_error) action" where
  "relay_get_block_header N hash = at_head N (n_block_headers N hash)"

definition get_bitcoin_confirmations :: "'w node \<Rightarrow> ('w, u32, runtime_error) action" where
  "get_bitcoin_confirmations N = at_head N (n_stable_bitcoin_confirmations N)"

definition get_parachain_confirmations :: "'w node \<Rightarrow> ('w, u32, runtime_error) action" where
  "get_parachain_confirmations N = at_head N (n_stable_parachain_confirmations N)"

definition verify_block_header_inclusion :: "'w node \<Rightarrow> H256 \<Rightarrow> ('w, unit, runtime_error) action" where
  "verify_block_header_inclusion N block_hash =
     a_bind (at_head N (n_verify_inclusion N block_hash)) (\<lambda>res.
     case res of None \<Rightarrow> a_ret () | Some err \<Rightarrow> a_err (Re_SubxtRuntimeError err))"

definition BLOCK_WAIT_TIMEOUT :: nat where "BLOCK_WAIT_TIMEOUT = 6000"

text \<open>
  The loop has no bound of its own: \<open>wait_for_block_in_relay N h n\<close> polls at most \<open>n\<close> times
  and is \<open>None\<close> when it would poll on.
\<close>

fun wait_for_block_in_relay ::
  "'w node \<Rightarrow> H256 \<Rightarrow> nat \<Rightarrow> 'w \<Rightarrow> ((unit, runtime_error) result \<times> 'w) option" where
  "wait_for_block_in_relay N block_hash 0 w = None"
| "wait_for_block_in_relay N block_hash (Suc n) w =
     (case verify_block_header_inclusion N block_hash w of
        (Ok _, w1) \<Rightarrow> Some (Ok (), w1)
      | (Panic, w1) \<Rightarrow> Some (Panic, w1)
      | (Err e, w1) \<Rightarrow>
          if is_invalid_chain_id e then Some (Err e, w1)
          else wait_for_block_in_relay N block_hash n (n_sleep N BLOCK_WAIT_TIMEOUT w1))"

definition initialize_btc_relay :: "'w node \<Rightarrow> bytes \<Rightarrow> u32 \<Rightarrow> ('w, unit) pc_action" where
  "initialize_btc_relay N header height = submit N (Tx_initialize header height)"

definition store_block_header :: "'w node \<Rightarrow> bytes \<Rightarrow> ('w, unit) pc_action" where
  "store_block_header N header = submit N (Tx_store_block_header header)"

definition store_block_headers :: "'w node \<Rightarrow> bytes list \<Rightarrow> ('w, unit) pc_action" where
  "store_block_headers N headers = batch N (map Call_store_block_header headers)"

section \<open>VaultRegistryPallet\<close>

definition get_vault :: "'w node \<Rightarrow> vault_id \<Rightarrow> ('w, vault, runtime_error) action" where
  "get_vault N v = a_bind (at_head N (n_vaults N v)) (\<lambda>res.
     case res of
       Some vt \<Rightarrow> (if v_status vt = Liquidated then a_err Re_VaultLiquidated
                   else if v_id vt = v then a_ret vt else a_err Re_VaultNotFound)
     | None \<Rightarrow> a_err Re_VaultNotFound)"

definition get_vaults_by_account_id :: "'w node \<Rightarrow> account_id \<Rightarrow> ('w, vault_id list, runtime_error) action" where
  "get_vaults_by_account_id N acc = at_head N (n_vaults_by_account_id N acc)"

definition get_all_vaults :: "'w node \<Rightarrow> ('w, vault list, runtime_error) action" where
  "get_all_vaults N = a_bind (at_head N (n_vaults_iter N)) (\<lambda>vs.
     a_ret (filter (\<lambda>vt. case v_status vt of VaultActive _ \<Rightarrow> True | _ \<Rightarrow> False) vs))"

definition register_vault :: "'w node \<Rightarrow> vault_id \<Rightarrow> u128 \<Rightarrow> ('w, unit) pc_action" where
  "register_vault N v coll =
     (if coll = 0 then a_err Re_InsufficientFunds
      else submit N (Tx_register_vault (currencies v) coll))"

definition deposit_collateral :: "'w node \<Rightarrow> vault_id \<Rightarrow> u128 \<Rightarrow> ('w, unit) pc_action" where
  "deposit_collateral N v amount = submit N (Tx_deposit_collateral (currencies v) amount)"

definition withdraw_collateral :: "'w node \<Rightarrow> vault_id \<Rightarrow> u128 \<Rightarrow> ('w, unit) pc_action" where
  "withdraw_collateral N v amount = submit N (Tx_withdraw_collateral (currencies v) amount)"

definition get_public_key :: "'w node \<Rightarrow> client \<Rightarrow> ('w, bytes option, runtime_error) action" where
  "get_public_key N c = at_head N (n_vault_bitcoin_public_key N (cl_account_id c))"

definition register_public_key :: "'w node \<Rightarrow> bytes \<Rightarrow> ('w, unit) pc_action" where
  "register_public_key N public_key = submit N (Tx_register_public_key public_key)"

definition get_required_collateral_for_wrapped :: "'w node \<Rightarrow> u128 \<Rightarrow> currency_id \<Rightarrow> ('w, u128, runtime_error) action" where
  "get_required_collateral_for_wrapped N amount_btc cur = at_head N (n_required_collateral_for_wrapped N amount_btc cur)"

definition get_required_collateral_for_vault :: "'w node \<Rightarrow> vault_id \<Rightarrow> ('w, u128, runtime_error) action" where
  "get_required_collateral_for_vault N v = at_head N (n_required_collateral_for_vault N v)"

definition get_vault_total_collateral :: "'w node \<Rightarrow> vault_id \<Rightarrow> ('w, u128, runtime_error) action" where
  "get_vault_total_collateral N v = at_head N (n_vault_total_collateral N v)"

definition get_collateralization_from_vault :: "'w node \<Rightarrow> vault_id \<Rightarrow> bool \<Rightarrow> ('w, u128, runtime_error) action" where
  "get_collateralization_from_vault N v only_issued = at_head N (n_collateralization_from_vault N v only_issued)"

definition set_current_client_release :: "'w node \<Rightarrow> bytes \<Rightarrow> H256 \<Rightarrow> ('w, unit) pc_action" where
  "set_current_client_release N uri checksum =
     submit N (Tx_set_current_client_release uri \<lparr>cr_uri = uri, cr_checksum = checksum\<rparr>)"

definition set_pending_client_release :: "'w node \<Rightarrow> bytes \<Rightarrow> H256 \<Rightarrow> ('w, unit) pc_action" where
  "set_pending_client_release N uri checksum =
     submit N (Tx_set_pending_client_release uri \<lparr>cr_uri = uri, cr_checksum = checksum\<rparr>)"

section \<open>FeePallet and SudoPallet\<close>

definition get_issue_griefing_collateral :: "'w node \<Rightarrow> ('w, u128, runtime_error) action" where
  "get_issue_griefing_collateral N = at_head N (n_issue_griefing_collateral N)"

definition get_issue_fee :: "'w node \<Rightarrow> ('w, u128, runtime_error) action" where
  "get_issue_fee N = at_head N (n_issue_fee N)"

definition get_replace_griefing_collateral :: "'w node \<Rightarrow> ('w, u128, runtime_error) action" where
  "get_replace_griefing_collateral N = at_head N (n_replace_griefing_collateral N)"

definition sudo :: "'w node \<Rightarrow> encoded_call \<Rightarrow> ('w, unit) pc_action" where
  "sudo N call = submit N (Tx_sudo call)"

text \<open>The storage hash \<open>twox_128\<close> and the value's SCALE encoding are the caller's.\<close>

definition set_storage :: "(bytes \<Rightarrow> bytes) \<Rightarrow> 'w node \<Rightarrow> bytes \<Rightarrow> bytes \<Rightarrow> bytes \<Rightarrow> ('w, unit) pc_action" where
  "set_storage twox_128 N module key v =
     sudo N (Call_set_storage [(concat [twox_128 module, twox_128 key], v)])"

definition set_redeem_period :: "'w node \<Rightarrow> u32 \<Rightarrow> ('w, unit) pc_action" where
  "set_redeem_period N period = sudo N (Call_set_redeem_period period)"

definition set_issue_period :: "'w node \<Rightarrow> u32 \<Rightarrow> ('w, unit) pc_action" where
  "set_issue_period N period = sudo N (Call_set_issue_period period)"

definition set_replace_period :: "'w node \<Rightarrow> u32 \<Rightarrow> ('w, unit) pc_action" where
  "set_replace_period N period = sudo N (Call_set_replace_period period)"

definition insert_authorized_oracle :: "'w node \<Rightarrow> account_id \<Rightarrow> bytes \<Rightarrow> ('w, unit) pc_action" where
  "insert_authorized_oracle N acc name = sudo N (Call_insert_authorized_oracle acc name)"

end
