(* ===== verification/Submission.thy ===== *)
theory Submission
  imports Pallets
begin

text \<open>
  What the parachain client's operations guarantee: the nonces of \<open>with_unique_signer\<close> (an
  instance of the retry loop's contract), the active issues, request lists and the relay wait.
\<close>

section \<open>Nonces\<close>

lemma refresh_nonce_state:
  "refresh_nonce N (w, c) = (r, (w', c')) \<Longrightarrow>
     \<exists>n. c' = c\<lparr>cl_nonce := n\<rparr> \<or> c' = c"
  by (auto simp: refresh_nonce_def split: prod.splits result.splits)

lemma refresh_nonce_not_Err [simp]: "refresh_nonce N wc \<noteq> (Err e, wc')"
  by (auto simp: refresh_nonce_def split: prod.splits result.splits)

lemma submit_once_state:
  "submit_once N tx (w, c) = (r, (w', c')) \<Longrightarrow>
     cl_sent c' = cl_sent c @ [(cl_nonce c, tx)] \<and> cl_nonce c' = cl_nonce c + 1"
  by (auto simp: submit_once_def Let_def split: prod.splits option.splits)

text \<open>Verification sends nothing; it changes the nonce only when it asks for a retry.\<close>

lemma verify_submission_sent:
  "verify_submission N x (w, c) = (y, (w', c')) \<Longrightarrow> cl_sent c' = cl_sent c"
  by (auto simp: verify_submission_def action_defs split: result.splits option.splits if_splits prod.splits
      dest!: refresh_nonce_state)

lemma verify_submission_Ok:
  "verify_submission N x wc = (Ok u, wc') \<Longrightarrow> wc' = wc"
  by (auto simp: verify_submission_def action_defs split: result.splits option.splits if_splits prod.splits)

lemma not_Some_unit [simp]: "x \<noteq> Some () \<longleftrightarrow> x = None"
  by (cases x) simp_all

lemma verify_submission_Throw:
  "verify_submission N x wc = (Err (Throw e), wc') \<Longrightarrow>
     wc' = wc \<and> is_invalid_transaction e = None \<and> is_pool_too_low_priority e = None
     \<and> \<not> is_block_hash_not_found_error e"
  by (auto simp: verify_submission_def action_defs split: result.splits option.splits if_splits prod.splits)

definition sends_only :: "extrinsic \<Rightarrow> 'w \<times> client \<Rightarrow> 'w \<times> client \<Rightarrow> bool" where
  "sends_only tx wc wc' \<longleftrightarrow> (\<exists>ns. ns \<noteq> [] \<and> hd ns = cl_nonce (snd wc) \<and>
     cl_sent (snd wc') = cl_sent (snd wc) @ map (\<lambda>n. (n, tx)) ns)"

definition nonce_advanced :: "client \<Rightarrow> bool" where
  "nonce_advanced c \<longleftrightarrow> cl_sent c \<noteq> [] \<and> cl_nonce c = fst (last (cl_sent c)) + 1"

definition not_retried :: "'w \<times> client \<Rightarrow> runtime_error \<Rightarrow> bool" where
  "not_retried wc e \<longleftrightarrow> nonce_advanced (snd wc) \<and> is_invalid_transaction e = None \<and>
     is_pool_too_low_priority e = None \<and> \<not> is_block_hash_not_found_error e"

lemma attempt_sends:
  assumes "submit_once N tx wc = (x, wc1)" "verify_submission N x wc1 = (y, wc2)"
  shows "cl_sent (snd wc2) = cl_sent (snd wc) @ [(cl_nonce (snd wc), tx)]"
  using assms submit_once_state [of N tx "fst wc" "snd wc" x "fst wc1" "snd wc1"]
    verify_submission_sent [of N x "fst wc1" "snd wc1" y "fst wc2" "snd wc2"] by simp

interpretation us: retried "pc_sleep N" "submit_once N tx" "verify_submission N" "sends_only tx"
  "\<lambda>wc u. nonce_advanced (snd wc)" not_retried for N tx
proof (unfold_locales, goal_cases)
  case (1 a b c)
  then obtain ms ns where "ms \<noteq> []" "hd ms = cl_nonce (snd a)"
    "cl_sent (snd b) = cl_sent (snd a) @ map (\<lambda>n. (n, tx)) ms"
    "cl_sent (snd c) = cl_sent (snd b) @ map (\<lambda>n. (n, tx)) ns"
    by (auto simp: sends_only_def)
  then show ?case by (auto simp: sends_only_def intro!: exI [of _ "ms @ ns"])
next
  case (2 wc x wc1 y wc2)
  then show ?case
    by (auto simp: sends_only_def attempt_sends intro!: exI [of _ "[cl_nonce (snd wc)]"])
next
  case (3 w w1 t) then show ?case by (simp add: sends_only_def pc_sleep_def)
next
  case (4 wc x wc1 u wc2)
  then show ?case
    using submit_once_state [of N tx "fst wc" "snd wc" x "fst wc1" "snd wc1"]
    by (auto simp: nonce_advanced_def dest: verify_submission_Ok)
next
  case (5 wc x wc1 e wc2)
  then show ?case
    using submit_once_state [of N tx "fst wc" "snd wc" x "fst wc1" "snd wc1"]
    by (auto simp: nonce_advanced_def not_retried_def dest: verify_submission_Throw)
qed

text \<open>At most one attempt more than the backoff yields waits.\<close>

lemma attempts_bounded:
  "retry_loop g waits (pc_sleep N) (submit_once N tx) (verify_submission N) wc = (r, wc') \<Longrightarrow>
   length (cl_sent (snd wc')) \<le> length (cl_sent (snd wc)) + Suc (length waits)"
proof (induction waits arbitrary: wc)
  case Nil
  then show ?case
    by (subst (asm) retry_loop.simps)
       (auto split: prod.splits result.splits retry_policy.splits dest: attempt_sends)
next
  case (Cons t ts)
  obtain x wc1 where c: "submit_once N tx wc = (x, wc1)" by (meson surj_pair)
  obtain y wc2 where v: "verify_submission N x wc1 = (y, wc2)" by (meson surj_pair)
  have len: "length (cl_sent (snd wc2)) = Suc (length (cl_sent (snd wc)))"
    by (simp add: attempt_sends [OF c v])
  show ?case
  proof (cases "\<exists>e. y = Err (Skip e)")
    case True
    with Cons.prems c v have
      "retry_loop g ts (pc_sleep N) (submit_once N tx) (verify_submission N) (pc_sleep N t wc2) = (r, wc')"
      by (subst (asm) retry_loop.simps) auto
    from Cons.IH [OF this] len show ?thesis by (simp add: pc_sleep_def)
  next
    case False
    with Cons.prems c v len show ?thesis
      by (subst (asm) retry_loop.simps) (auto split: result.splits retry_policy.splits)
  qed
qed

section \<open>A concrete node\<close>

text \<open>
  A node for the examples: its world is a clock, every submission with nonce 4 loses its block,
  the account's nonce is 5, the relay knows every block, and the storage is empty.
\<close>

definition demo_node :: "nat node" where
  "demo_node = \<lparr>n_testing_utils = False,
     n_finalized_head = a_ret [],
     n_waits = (\<lambda>w. [1000, 2000]),
     n_sleep = (\<lambda>t w. w + t),
     n_account_nonce = (\<lambda>a. a_ret 5),
     n_submit = (\<lambda>n tx w. (Some (if n = 4 then Err (Re_SubxtRuntimeError Sx_TransactionBlockHashNotFound) else Ok []), w)),
     n_subscribe_blocks = (\<lambda>x0. a_err Re_StorageItemNotFound),
     n_number = (\<lambda>x0. a_err Re_StorageItemNotFound),
     n_asset_metadata = (\<lambda>x0 x1. a_err Re_StorageItemNotFound),
     n_asset_metadata_iter = (\<lambda>x0. a_err Re_StorageItemNotFound),
     n_token_accounts = (\<lambda>x0 x1 x2. a_err Re_StorageItemNotFound),
     n_new_vault_replace_requests = (\<lambda>x0 x1. a_err Re_StorageItemNotFound),
     n_old_vault_replace_requests = (\<lambda>x0 x1. a_err Re_StorageItemNotFound),
     n_replace_requests = (\<lambda>x0 x1. a_err Re_StorageItemNotFound),
     n_replace_period = (\<lambda>x0. a_err Re_StorageItemNotFound),
     n_replace_btc_dust_value = (\<lambda>x0. a_err Re_StorageItemNotFound),
     n_now = (\<lambda>x0. a_err Re_StorageItemNotFound),
     n_aggregate = (\<lambda>x0 x1. a_err Re_StorageItemNotFound),
     n_raw_values_updated = (\<lambda>x0 x1. a_err Re_StorageItemNotFound),
     n_wrapped_to_collateral = (\<lambda>x0 x1 x2. a_err Re_StorageItemNotFound),
     n_collateral_to_wrapped = (\<lambda>x0 x1 x2. a_err Re_StorageItemNotFound),
     n_parachain_status = (\<lambda>x0. a_err Re_StorageItemNotFound),
     n_active_block_count = (\<lambda>x0. a_err Re_StorageItemNotFound),
     n_issue_requests = (\<lambda>x0 x1. a_err Re_StorageItemNotFound),
     n_vault_issue_requests = (\<lambda>a h. a_ret []),
     n_issue_period = (\<lambda>x0. a_err Re_StorageItemNotFound),
     n_issue_requests_iter = (\<lambda>x0. a_err Re_StorageItemNotFound),
     n_redeem_requests = (\<lambda>x0 x1. a_err Re_StorageItemNotFound),
     n_vault_redeem_requests = (\<lambda>x0 x1. a_err Re_StorageItemNotFound),
     n_redeem_period = (\<lambda>x0. a_err Re_StorageItemNotFound),
     n_best_block = (\<lambda>x0. a_err Re_StorageItemNotFound),
     n_best_block_height = (\<lambda>x0. a_err Re_StorageItemNotFound),
     n_chains_hashes = (\<lambda>x0 x1 x2. a_err Re_StorageItemNotFound),
     n_block_headers = (\<lambda>x0 x1. a_err Re_StorageItemNotFound),
     n_stable_bitcoin_confirmations = (\<lambda>x0. a_err Re_StorageItemNotFound),
     n_stable_parachain_confirmations = (\<lambda>x0. a_err Re_StorageItemNotFound),
     n_verify_inclusion = (\<lambda>h x. a_ret None),
     n_vaults = (\<lambda>x0 x1. a_err Re_StorageItemNotFound),
     n_vaults_by_account_id = (\<lambda>x0 x1. a_err Re_StorageItemNotFound),
     n_vaults_iter = (\<lambda>x0. a_err Re_StorageItemNotFound),
     n_vault_bitcoin_public_key = (\<lambda>x0 x1. a_err Re_StorageItemNotFound),
     n_required_collateral_for_wrapped = (\<lambda>x0 x1 x2. a_err Re_StorageItemNotFound),
     n_required_collateral_for_vault = (\<lambda>x0 x1. a_err Re_StorageItemNotFound),
     n_vault_total_collateral = (\<lambda>x0 x1. a_err Re_StorageItemNotFound),
     n_collateralization_from_vault = (\<lambda>x0 x1 x2. a_err Re_StorageItemNotFound),
     n_issue_griefing_collateral = (\<lambda>x0. a_err Re_StorageItemNotFound),
     n_issue_fee = (\<lambda>x0. a_err Re_StorageItemNotFound),
     n_replace_griefing_collateral = (\<lambda>x0. a_err Re_StorageItemNotFound)\<rparr>"

definition demo_client :: client where
  "demo_client = \<lparr>cl_account_id = [], cl_nonce = 4, cl_shutdowns = 0, cl_fee_updates = [],
     cl_native_currency = Token KINT, cl_sent = []\<rparr>"

lemma demo_submission:
  "with_unique_signer demo_node (Tx_cancel_issue []) (0, demo_client) =
     (Ok [], (1000, demo_client\<lparr>cl_nonce := 6,
        cl_sent := [(4, Tx_cancel_issue []), (5, Tx_cancel_issue [])]\<rparr>))"
  by (simp add: with_unique_signer_def retry_loop.simps notify_retry_def demo_node_def demo_client_def submit_once_def
      verify_submission_def refresh_nonce_def pc_sleep_def action_defs Let_def is_invalid_transaction_def
      is_pool_too_low_priority_def)

section \<open>Nonces: the properties\<close>

text \<open>
  C20. One call of \<open>with_unique_signer\<close> submits only its own extrinsic: the first attempt uses the
  nonce at hand, there are at most one more attempts than the backoff has waits, and after a
  success the client's next nonce is the one after the last used, so that no later call reuses it.
\<close>

theorem submission_nonces:
  assumes "with_unique_signer N tx (w, c) = (r, (w', c'))"
  shows "\<exists>ns. ns \<noteq> [] \<and> hd ns = cl_nonce c \<and> length ns \<le> Suc (length (n_waits N w)) \<and>
           cl_sent c' = cl_sent c @ map (\<lambda>n. (n, tx)) ns \<and> (is_ok r \<longrightarrow> cl_nonce c' = last ns + 1)"
proof -
  from assms have run: "retry_loop Re_Timeout (n_waits N w) (pc_sleep N) (submit_once N tx) (verify_submission N) (w, c)
      = (r, (w', c'))" by (simp add: with_unique_signer_def notify_retry_def)
  from us.retry_R [OF run] obtain ns where ns: "ns \<noteq> []" "hd ns = cl_nonce c"
    "cl_sent c' = cl_sent c @ map (\<lambda>n. (n, tx)) ns" by (auto simp: sends_only_def)
  moreover have "length ns \<le> Suc (length (n_waits N w))"
    using attempts_bounded [OF run] ns(3) by simp
  moreover have "is_ok r \<longrightarrow> cl_nonce c' = last ns + 1"
  proof
    assume "is_ok r"
    then obtain u where "r = Ok u" by (auto simp: is_ok_iff)
    with us.retry_Ok run have "nonce_advanced c'" by fastforce
    with ns show "cl_nonce c' = last ns + 1" by (simp add: nonce_advanced_def last_map)
  qed
  ultimately show ?thesis by blast
qed

lemma submission_nonces_witness:
  "\<exists>ns. ns \<noteq> [] \<and> hd ns = 4 \<and> length ns \<le> 3 \<and>
     [(4, Tx_cancel_issue []), (5, Tx_cancel_issue [])] = map (\<lambda>n. (n, Tx_cancel_issue [])) ns \<and>
     (6 :: u32) = last ns + 1"
  using submission_nonces [OF demo_submission] by (simp add: demo_node_def demo_client_def numeral_3_eq_3)

text \<open>
  An error that \<open>with_unique_signer\<close> reports is the timeout (of the submission or of all
  retries) or one that is not worth a retry: it is no invalid transaction, no low priority and no
  lost block, for each of which the nonce is refreshed and the extrinsic sent again.
\<close>

theorem submission_errors:
  assumes "with_unique_signer N tx (w, c) = (Err e, (w', c'))"
  shows "e = Re_Timeout \<or> (is_invalid_transaction e = None \<and> is_pool_too_low_priority e = None \<and>
           \<not> is_block_hash_not_found_error e \<and> cl_nonce c' = fst (last (cl_sent c')) + 1)"
  using us.retry_Err assms
  by (fastforce simp: with_unique_signer_def notify_retry_def not_retried_def nonce_advanced_def)

text \<open>A node that filters every call.\<close>

definition closed_node :: "nat node" where
  "closed_node = demo_node\<lparr>n_submit := (\<lambda>n tx w. (Some (Err (Re_SubxtRuntimeError (Sx_Module SYSTEM_MODULE ''CallFiltered''))), w))\<rparr>"

lemma closed_submission:
  "with_unique_signer closed_node (Tx_cancel_issue []) (0, demo_client) =
     (Err (Re_SubxtRuntimeError (Sx_Module SYSTEM_MODULE ''CallFiltered'')), (0, demo_client\<lparr>cl_nonce := 5,
        cl_sent := [(4, Tx_cancel_issue [])]\<rparr>))"
  by (simp add: with_unique_signer_def retry_loop.simps notify_retry_def closed_node_def demo_node_def demo_client_def
      submit_once_def verify_submission_def action_defs Let_def is_invalid_transaction_def
      is_pool_too_low_priority_def)

lemma submission_errors_witness:
  "\<not> is_block_hash_not_found_error (Re_SubxtRuntimeError (Sx_Module SYSTEM_MODULE ''CallFiltered''))"
  using submission_errors [OF closed_submission] by blast

section \<open>Active issues\<close>

text \<open>
  Unless an open time plus the period passes \<open>u32\<close>, \<open>get_all_active_issues\<close> lists, in
  storage order and under the last 32 bytes of their keys, exactly the pending issues that
  have not expired at the current active block.
\<close>

theorem active_issues_spec:
  assumes "\<forall>(k, i) \<in> set entries. 32 \<le> length k \<and> unat (is_opentime i) + unat period < 2 ^ 32"
  shows "active_issues oc period height entries =
      Ok (map (\<lambda>(k, i). (drop (length k - 32) k, i))
            (filter (\<lambda>(k, i). is_status i = Is_Pending \<and> unat height < unat (is_opentime i) + unat period) entries))"
  using assms
proof (induction entries)
  case Nil
  then show ?case by simp
next
  case (Cons e entries)
  obtain k i where e: "e = (k, i)" by fastforce
  have fits: "unat (is_opentime i) + unat period < 2 ^ 32" and k: "32 \<le> length k"
    using Cons.prems e by auto
  then have sum: "(plain_add oc (is_opentime i) period :: (u32, runtime_error) result) = Ok (is_opentime i + period)"
    by (intro plain_add_exact) simp
  have "unat (is_opentime i + period) = unat (is_opentime i) + unat period"
    using fits by (intro unat_add_lem [THEN iffD1]) simp
  then have "height < is_opentime i + period \<longleftrightarrow> unat height < unat (is_opentime i) + unat period"
    by (simp add: word_less_nat_alt)
  with Cons e sum k show ?case by (auto simp: last_bytes_def)
qed

definition demo_issue :: "u32 \<Rightarrow> issue_status \<Rightarrow> vault_id issue_request" where
  "demo_issue opentime st = \<lparr>is_vault = vault_id_new [] (Token KSM) (Token KBTC), is_requester = [],
     is_btc_public_key = [], is_opentime = opentime, is_period = 10, is_amount = 1000, is_fee = 5,
     is_btc_address = P2PKH [], is_btc_height = 100, is_status = st\<rparr>"

lemma active_issues_spec_witness:
  "active_issues True 10 15 [(replicate 40 1, demo_issue 6 Is_Pending), (replicate 40 2, demo_issue 5 Is_Pending),
       (replicate 40 3, demo_issue 9 Is_Completed)] = Ok [(replicate 32 1, demo_issue 6 Is_Pending)]"
  by (subst active_issues_spec) (simp_all add: demo_issue_def)

section \<open>Lists of requests\<close>

lemma join_all_length: "join_all ms w = (rs, w') \<Longrightarrow> length rs = length ms"
  by (induction ms arbitrary: w rs w') (auto split: prod.splits)

lemma join_all_keys:
  "join_all (map (\<lambda>key. a_bind (get key) (\<lambda>v. a_ret (key, v))) ks) w = (map Ok kvs, w') \<Longrightarrow>
   map fst kvs = ks \<and> (\<forall>(k, v) \<in> set kvs. \<exists>w1 w2. get k w1 = (Ok v, w2))"
proof (induction ks arbitrary: w kvs w')
  case Nil
  then show ?case by simp
next
  case (Cons k ks)
  then obtain kv kvs' w1 where kvs: "kvs = kv # kvs'"
    and one: "a_bind (get k) (\<lambda>v. a_ret (k, v)) w = (Ok kv, w1)"
    and rest: "join_all (map (\<lambda>key. a_bind (get key) (\<lambda>v. a_ret (key, v))) ks) w1 = (map Ok kvs', w')"
    by (auto simp: Cons_eq_map_conv split: prod.splits)
  from one obtain v w2 where "get k w = (Ok v, w2)" "kv = (k, v)"
    by (auto simp: a_bind_eq_Ok)
  with Cons.IH [OF rest] kvs show ?case by auto
qed

text \<open>
  The lists of requests of a vault: when \<open>get_requests\<close> succeeds, every id the node named is
  in the list with the request read for it, in the node's order.
\<close>

theorem get_requests_spec:
  assumes "get_requests keys get w = (Ok kvs, w')"
  shows "\<exists>w1. keys w = (Ok (map fst kvs), w1) \<and> (\<forall>(k, v) \<in> set kvs. \<exists>w2 w3. get k w2 = (Ok v, w3))"
proof -
  from assms obtain ks w1 where keys: "keys w = (Ok ks, w1)"
    and rest: "(case join_all (map (\<lambda>key. a_bind (get key) (\<lambda>v. a_ret (key, v))) ks) w1 of
                 (rs, w') \<Rightarrow> (collect rs, w')) = (Ok kvs, w')"
    unfolding get_requests_def a_bind_eq_Ok by blast
  obtain rs w2 where run: "join_all (map (\<lambda>key. a_bind (get key) (\<lambda>v. a_ret (key, v))) ks) w1 = (rs, w2)"
    by (meson surj_pair)
  with keys rest have "keys w = (Ok ks, w1)" "collect rs = Ok kvs"
    and "join_all (map (\<lambda>key. a_bind (get key) (\<lambda>v. a_ret (key, v))) ks) w1 = (rs, w')" by auto
  moreover from this have "rs = map Ok kvs" by (simp add: collect_eq_Ok)
  ultimately have "join_all (map (\<lambda>key. a_bind (get key) (\<lambda>v. a_ret (key, v))) ks) w1 = (map Ok kvs, w')"
    by simp
  from join_all_keys [OF this] keys show ?thesis by auto
qed

lemma get_requests_spec_witness:
  "\<exists>w1. (a_ret [[1], [2]] :: (unit, H256 list, runtime_error) action) () =
     (Ok (map fst [([1 :: u8], 1 :: nat), ([2], 1)]), w1)"
proof -
  have "get_requests (a_ret [[1], [2]] :: (unit, H256 list, runtime_error) action) (\<lambda>k. a_ret (length k)) ()
      = (Ok [([1], 1), ([2], 1)], ())"
    by (simp add: get_requests_def action_defs)
  from get_requests_spec [OF this] show ?thesis by auto
qed

section \<open>Waiting for the relay\<close>

text \<open>The worlds in which the \<open>i\<close>-th poll of \<open>wait_for_block_in_relay\<close> runs.\<close>

fun poll_world :: "'w node \<Rightarrow> H256 \<Rightarrow> 'w \<Rightarrow> nat \<Rightarrow> 'w" where
  "poll_world N h w 0 = w"
| "poll_world N h w (Suc i) =
     poll_world N h (n_sleep N BLOCK_WAIT_TIMEOUT (snd (verify_block_header_inclusion N h w))) i"

definition keeps_waiting :: "'w node \<Rightarrow> H256 \<Rightarrow> 'w \<Rightarrow> bool" where
  "keeps_waiting N h w \<longleftrightarrow>
     (case fst (verify_block_header_inclusion N h w) of Err e \<Rightarrow> \<not> is_invalid_chain_id e | _ \<Rightarrow> False)"

text \<open>
  \<open>wait_for_block_in_relay\<close> returns success exactly when some poll finds the block included
  with enough confirmations and every poll before it failed with an error other than
  \<open>InvalidChainID\<close>; then it returns after that poll, whatever larger bound it is given.
\<close>

theorem relay_wait_spec:
  "wait_for_block_in_relay N h n w = Some (Ok (), w') \<longleftrightarrow>
     (\<exists>i<n. verify_block_header_inclusion N h (poll_world N h w i) = (Ok (), w') \<and>
            (\<forall>j<i. keeps_waiting N h (poll_world N h w j)))"
proof (induction n arbitrary: w)
  case 0
  then show ?case by simp
next
  case (Suc n)
  obtain r w1 where v: "verify_block_header_inclusion N h w = (r, w1)" by fastforce
  have split: "(\<exists>i<Suc n. P i \<and> (\<forall>j<i. K j)) \<longleftrightarrow> P 0 \<or> K 0 \<and> (\<exists>i<n. P (Suc i) \<and> (\<forall>j<i. K (Suc j)))"
    for P K :: "nat \<Rightarrow> bool"
    by (auto simp: Ex_less_Suc2 All_less_Suc2)
  show ?case
  proof (cases r)
    case (Err e)
    with v Suc.IH show ?thesis
      by (subst split) (simp add: keeps_waiting_def)
  qed (use v in \<open>subst split, simp add: keeps_waiting_def\<close>)+
qed

text \<open>A node whose relay stores the block during the first pause.\<close>

definition relay_node :: "nat node" where
  "relay_node = demo_node\<lparr>n_verify_inclusion :=
     (\<lambda>h x w. (Ok (if w = 0 then Some (Sx_Module BTC_RELAY_MODULE ''BlockNotFound'') else None), w))\<rparr>"

lemma relay_node_polls:
  "verify_block_header_inclusion relay_node h 0 = (Err (Re_SubxtRuntimeError (Sx_Module BTC_RELAY_MODULE ''BlockNotFound'')), 0)"
  "0 < w \<Longrightarrow> verify_block_header_inclusion relay_node h w = (Ok (), w)"
  by (simp_all add: verify_block_header_inclusion_def relay_node_def demo_node_def at_head_def
      get_latest_block_hash_def action_defs)

lemma relay_wait_spec_witness:
  "wait_for_block_in_relay relay_node [] 3 0 = Some (Ok (), BLOCK_WAIT_TIMEOUT)"
proof (subst relay_wait_spec, intro exI conjI)
  have sleep: "n_sleep relay_node t w = w + t" for t w
    by (simp add: relay_node_def demo_node_def)
  show "(1::nat) < 3" by simp
  show "verify_block_header_inclusion relay_node [] (poll_world relay_node [] 0 1) = (Ok (), BLOCK_WAIT_TIMEOUT)"
    by (simp add: relay_node_polls sleep BLOCK_WAIT_TIMEOUT_def)
  show "\<forall>j<1. keeps_waiting relay_node [] (poll_world relay_node [] 0 j)"
    by (simp add: keeps_waiting_def relay_node_polls is_invalid_chain_id_def)
qed

end
