(* ===== verification/Events.thy ===== *)
theory Events
  imports Pallets
begin

text \<open>
  The event loop \<open>on_event\<close> of \<open>runtime/src/rpc.rs\<close>: one task reads the subscription and
  queues the events that decode, another calls the callback on them one at a time; the two are
  joined, so that the end of the subscription ends both. The order in which the two tasks run
  is not fixed: the model is a step relation. And \<open>on_event_error\<close>, its sequential sibling.
\<close>

section \<open>The two tasks\<close>

text \<open>
  \<open>ol_sub\<close> is what the subscription still yields before it closes, \<open>ol_busy\<close> the event whose
  callback is running; \<open>ol_handled\<close> and \<open>ol_errors\<close> record the calls of \<open>on_event\<close> that ended
  and of \<open>on_error\<close>. \<open>ol_closed\<close>: the whole loop has returned \<open>Err(ChannelClosed)\<close>.
\<close>

record ('e, 'x) event_loop =
  ol_sub :: "('e, 'x) result list"
  ol_queue :: "'e list"
  ol_busy :: "'e option"
  ol_handled :: "'e list"
  ol_errors :: "'x list"
  ol_closed :: bool

definition event_loop_start :: "('e, 'x) result list \<Rightarrow> ('e, 'x) event_loop" where
  "event_loop_start sub = \<lparr>ol_sub = sub, ol_queue = [], ol_busy = None, ol_handled = [],
     ol_errors = [], ol_closed = False\<rparr>"

inductive loop_step :: "('e, 'x) event_loop \<Rightarrow> ('e, 'x) event_loop \<Rightarrow> bool" where
  receive: "\<not> ol_closed s \<Longrightarrow> ol_sub s = Ok e # sub \<Longrightarrow>
    loop_step s (s\<lparr>ol_sub := sub, ol_queue := ol_queue s @ [e]\<rparr>)"
| receive_err: "\<not> ol_closed s \<Longrightarrow> ol_sub s = Err x # sub \<Longrightarrow>
    loop_step s (s\<lparr>ol_sub := sub, ol_errors := ol_errors s @ [x]\<rparr>)"
| take_event: "\<not> ol_closed s \<Longrightarrow> ol_busy s = None \<Longrightarrow> ol_queue s = e # q \<Longrightarrow>
    loop_step s (s\<lparr>ol_queue := q, ol_busy := Some e\<rparr>)"
| callback_done: "\<not> ol_closed s \<Longrightarrow> ol_busy s = Some e \<Longrightarrow>
    loop_step s (s\<lparr>ol_busy := None, ol_handled := ol_handled s @ [e]\<rparr>)"
| closed: "\<not> ol_closed s \<Longrightarrow> ol_sub s = [] \<Longrightarrow> loop_step s (s\<lparr>ol_closed := True\<rparr>)"

inductive_cases loop_stepE: "loop_step s s'"

inductive loop_reaches :: "('e, 'x) event_loop \<Rightarrow> ('e, 'x) event_loop \<Rightarrow> bool" where
  refl: "loop_reaches s s"
| step: "loop_reaches s t \<Longrightarrow> loop_step t u \<Longrightarrow> loop_reaches s u"

definition oks :: "('e, 'x) result list \<Rightarrow> 'e list" where
  "oks sub = filter_map ok_opt sub"

definition errs :: "('e, 'x) result list \<Rightarrow> 'x list" where
  "errs sub = filter_map (\<lambda>r. case r of Err x \<Rightarrow> Some x | _ \<Rightarrow> None) sub"

lemma oks_simps [simp]:
  "oks [] = []" "oks (Ok e # sub) = e # oks sub" "oks (Err x # sub) = oks sub"
  "errs [] = []" "errs (Ok e # sub) = errs sub" "errs (Err x # sub) = x # errs sub"
  by (simp_all add: oks_def errs_def)

definition pending_events :: "('e, 'x) event_loop \<Rightarrow> 'e list" where
  "pending_events s = (case ol_busy s of Some e \<Rightarrow> [e] | None \<Rightarrow> []) @ ol_queue s @ oks (ol_sub s)"

lemma loop_step_events:
  "loop_step s s' \<Longrightarrow> ol_handled s' @ pending_events s' = ol_handled s @ pending_events s"
  by (induction rule: loop_step.induct) (auto simp: pending_events_def split: option.splits)

lemma loop_step_errors:
  "loop_step s s' \<Longrightarrow> ol_errors s' @ errs (ol_sub s') = ol_errors s @ errs (ol_sub s)"
  by (induction rule: loop_step.induct) auto

lemma loop_reaches_events:
  "loop_reaches s s' \<Longrightarrow> ol_handled s' @ pending_events s' = ol_handled s @ pending_events s"
  by (induction rule: loop_reaches.induct) (auto dest: loop_step_events)

lemma loop_reaches_errors:
  "loop_reaches s s' \<Longrightarrow> ol_errors s' @ errs (ol_sub s') = ol_errors s @ errs (ol_sub s)"
  by (induction rule: loop_reaches.induct) (auto dest: loop_step_errors)

lemma loop_closed_sub:
  "loop_reaches s s' \<Longrightarrow> \<not> ol_closed s \<Longrightarrow> ol_closed s' \<Longrightarrow> ol_sub s' = []"
  by (induction rule: loop_reaches.induct) (auto elim!: loop_stepE)

text \<open>An open loop can always move: it never waits for ever on its own queue.\<close>

lemma loop_never_stuck:
  assumes "\<not> ol_closed s" "Panic \<notin> set (ol_sub s)"
  shows "\<exists>s'. loop_step s s'"
proof (cases "ol_sub s")
  case Nil
  then show ?thesis using assms(1) closed by blast
next
  case (Cons r sub)
  then show ?thesis using assms receive receive_err by (cases r) fastforce+
qed

text \<open>The sequential loop of \<open>on_event_error\<close>: errors are reported until the stream ends.\<close>

fun on_event_error :: "('x \<Rightarrow> 's \<Rightarrow> 's) \<Rightarrow> ('e, 'x) result list \<Rightarrow> 's \<Rightarrow> 's" where
  "on_event_error on_error [] s = s"
| "on_event_error on_error (r # sub) s =
     on_event_error on_error sub (case r of Err x \<Rightarrow> on_error x s | _ \<Rightarrow> s)"

lemma on_event_error_reports: "on_event_error (\<lambda>x s. s @ [x]) sub s = s @ errs sub"
  by (induction sub arbitrary: s) (auto simp: errs_def split: result.splits)

section \<open>Delays before executing an issue\<close>

text \<open>
  \<open>vault/src/delay.rs\<close>: the vaults are ordered by the hash of their account xored with the
  seed, and the vault of rank \<open>n\<close> (from 1) waits \<open>log2 n\<close> blocks. SHA-256 is a parameter.
\<close>

definition hash_vault :: "(bytes \<Rightarrow> bytes) \<Rightarrow> bytes \<Rightarrow> account_id \<Rightarrow> bytes" where
  "hash_vault sha256 data acc = sha256 (map (\<lambda>(a, b). xor a b) (zip data acc))"

fun bytes_less :: "bytes \<Rightarrow> bytes \<Rightarrow> bool" where
  "bytes_less xs [] = False"
| "bytes_less [] (y # ys) = True"
| "bytes_less (x # xs) (y # ys) = (x < y \<or> (x = y \<and> bytes_less xs ys))"

fun log2 :: "nat \<Rightarrow> nat" where
  "log2 n = (if n < 2 then 0 else Suc (log2 (n div 2)))"

declare log2.simps [simp del]

definition vault_delay :: "(bytes \<Rightarrow> bytes) \<Rightarrow> account_id list \<Rightarrow> account_id \<Rightarrow> bytes \<Rightarrow> nat" where
  "vault_delay sha256 vaults self seed_data =
     (let self_hash = hash_vault sha256 seed_data self;
          random_ordering = length (filter (\<lambda>acc. bytes_less (hash_vault sha256 seed_data acc) self_hash) vaults)
      in log2 (random_ordering + 1))"

definition ordered_vaults :: "'w node \<Rightarrow> ('w, account_id list, runtime_error) action" where
  "ordered_vaults N = a_bind (get_all_vaults N) (\<lambda>vs. a_ret (map (\<lambda>v. account (v_id v)) vs))"

definition ordered_delay ::
  "(bytes \<Rightarrow> bytes) \<Rightarrow> bool \<Rightarrow> 'w node \<Rightarrow> account_id list \<Rightarrow> account_id \<Rightarrow> bytes \<Rightarrow> ('w, unit, runtime_error) action" where
  "ordered_delay sha256 oc N vaults self seed_data =
     delay_for_blocks oc N (word_of_nat (vault_delay sha256 vaults self seed_data))"

definition zero_delay :: "bytes \<Rightarrow> ('w, unit, runtime_error) action" where
  "zero_delay seed_data = a_ret ()"

lemma log2_bounds: "0 < n \<Longrightarrow> 2 ^ log2 n \<le> n \<and> n < 2 ^ Suc (log2 n)"
proof (induction n rule: log2.induct)
  case (1 n)
  show ?case
  proof (cases "n < 2")
    case True
    with 1 show ?thesis by (simp add: log2.simps)
  next
    case False
    then have "2 ^ log2 (n div 2) \<le> n div 2 \<and> n div 2 < 2 ^ Suc (log2 (n div 2))"
      using 1 by simp
    with False show ?thesis by (subst (1 2) log2.simps) auto
  qed
qed

lemma bytes_less_trans: "bytes_less xs ys \<Longrightarrow> bytes_less ys zs \<Longrightarrow> bytes_less xs zs"
proof (induction xs arbitrary: ys zs)
  case Nil
  then show ?case by (cases ys; cases zs) auto
next
  case (Cons x xs)
  then show ?case by (cases ys; cases zs) auto
qed

lemma bytes_less_irrefl [simp]: "\<not> bytes_less xs xs"
  by (induction xs) auto

lemma bytes_less_linear: "xs \<noteq> ys \<Longrightarrow> bytes_less xs ys \<or> bytes_less ys xs"
  by (induction xs ys rule: bytes_less.induct) (auto simp: neq_Nil_conv)

section \<open>Properties\<close>

text \<open>
  C31. \<open>on_event\<close> calls its callback in the order of the events and never twice: at every moment
  the calls that ended are a prefix of the events that decode, however the tasks interleave;
  and the decoding errors are reported in their order.
\<close>

theorem on_event_in_order:
  assumes "loop_reaches (event_loop_start sub) s"
  shows "oks sub = ol_handled s @ pending_events s \<and> errs sub = ol_errors s @ errs (ol_sub s)"
  using loop_reaches_events [OF assms] loop_reaches_errors [OF assms]
  by (simp add: event_loop_start_def pending_events_def)

lemma on_event_in_order_witness:
  "oks [Ok 1, Err False, Ok (2::nat)] = [] @ [1, 2]"
proof -
  let ?s = "event_loop_start [Ok 1, Err False, Ok (2::nat)]"
  have "loop_step ?s (?s\<lparr>ol_sub := [Err False, Ok 2], ol_queue := [1]\<rparr>)"
    using receive [of ?s 1 "[Err False, Ok 2]"] by (simp add: event_loop_start_def)
  then have "loop_reaches ?s (?s\<lparr>ol_sub := [Err False, Ok 2], ol_queue := [1]\<rparr>)"
    by (rule loop_reaches.step [OF loop_reaches.refl])
  from on_event_in_order [OF this] show ?thesis
    by (simp add: pending_events_def event_loop_start_def)
qed

text \<open>
  Events are lost when the subscription ends: a loop that has closed will never call the
  callback again, although events it received may still be queued.
\<close>

theorem on_event_drops_queue:
  assumes "loop_reaches (event_loop_start sub) s" and "ol_closed s" and "loop_reaches s s'"
  shows "s' = s \<and> oks sub = ol_handled s' @ (case ol_busy s of Some e \<Rightarrow> [e] | None \<Rightarrow> []) @ ol_queue s"
proof -
  from assms(3,2) have "s' = s"
    by (induction rule: loop_reaches.induct) (auto elim!: loop_stepE)
  moreover have "ol_sub s = []"
    using loop_closed_sub [OF assms(1)] assms(2) by (simp add: event_loop_start_def)
  ultimately show ?thesis
    using loop_reaches_events [OF assms(1)] by (simp add: event_loop_start_def pending_events_def)
qed

lemma on_event_drops_queue_witness:
  "oks [Ok (1::nat) :: (nat, bool) result] = [] @ [] @ [1]"
proof -
  let ?s = "event_loop_start [Ok (1::nat) :: (nat, bool) result]"
  let ?t = "?s\<lparr>ol_sub := [], ol_queue := [1]\<rparr>"
  have "loop_step ?s ?t"
    using receive [of ?s 1 "[]"] by (simp add: event_loop_start_def)
  moreover have "loop_step ?t (?t\<lparr>ol_closed := True\<rparr>)"
    by (rule closed) (simp_all add: event_loop_start_def)
  ultimately have "loop_reaches ?s (?t\<lparr>ol_closed := True\<rparr>)"
    by (meson loop_reaches.intros)
  from on_event_drops_queue [OF this _ loop_reaches.refl] show ?thesis
    by (simp add: event_loop_start_def)
qed

lemma vault_rank_card:
  assumes "distinct vaults"
  shows "length (filter (\<lambda>acc. bytes_less (h acc) x) vaults) = card {acc \<in> set vaults. bytes_less (h acc) x}"
  using distinct_card [of "filter (\<lambda>acc. bytes_less (h acc) x) vaults"] assms by simp

lemma vault_rank_inj:
  assumes "inj_on h (set vaults)"
  shows "inj_on (\<lambda>v. card {acc \<in> set vaults. bytes_less (h acc) (h v)}) (set vaults)"
proof -
  have less: "card {acc \<in> set vaults. bytes_less (h acc) (h a)} < card {acc \<in> set vaults. bytes_less (h acc) (h b)}"
    if "a \<in> set vaults" "bytes_less (h a) (h b)" for a b
  proof (rule psubset_card_mono)
    show "{acc \<in> set vaults. bytes_less (h acc) (h a)} \<subset> {acc \<in> set vaults. bytes_less (h acc) (h b)}"
    proof (rule psubsetI)
      show "{acc \<in> set vaults. bytes_less (h acc) (h a)} \<subseteq> {acc \<in> set vaults. bytes_less (h acc) (h b)}"
        using that(2) bytes_less_trans by blast
      have "a \<in> {acc \<in> set vaults. bytes_less (h acc) (h b)}" using that by simp
      moreover have "a \<notin> {acc \<in> set vaults. bytes_less (h acc) (h a)}" by simp
      ultimately show "{acc \<in> set vaults. bytes_less (h acc) (h a)} \<noteq> {acc \<in> set vaults. bytes_less (h acc) (h b)}"
        by blast
    qed
  qed simp
  show ?thesis
  proof (rule inj_onI, rule ccontr)
    fix a b
    assume ab: "a \<in> set vaults" "b \<in> set vaults" "a \<noteq> b"
      and eq: "card {acc \<in> set vaults. bytes_less (h acc) (h a)} = card {acc \<in> set vaults. bytes_less (h acc) (h b)}"
    with assms have "h a \<noteq> h b" by (auto dest: inj_onD)
    with ab less [of a b] less [of b a] eq show False
      by (auto dest!: bytes_less_linear)
  qed
qed

text \<open>
  The delays spread the vaults: when their hashes for the seed differ, at most \<open>2 ^ d\<close> vaults
  wait exactly \<open>d\<close> blocks (so only one of them submits at once).
\<close>

theorem delays_spread_vaults:
  assumes "distinct vaults" and "inj_on (hash_vault sha256 seed_data) (set vaults)"
  shows "card {v \<in> set vaults. vault_delay sha256 vaults v seed_data = d} \<le> 2 ^ d"
proof -
  let ?rank = "\<lambda>v. card {acc \<in> set vaults. bytes_less (hash_vault sha256 seed_data acc) (hash_vault sha256 seed_data v)}"
  have delay: "vault_delay sha256 vaults v seed_data = log2 (Suc (?rank v))" for v
    by (simp add: vault_delay_def Let_def vault_rank_card [OF assms(1)])
  have "2 ^ d \<le> Suc (?rank v) \<and> Suc (?rank v) < 2 ^ Suc d"
    if "vault_delay sha256 vaults v seed_data = d" for v
    using log2_bounds [of "Suc (?rank v)"] that delay by simp
  then have "(Suc \<circ> ?rank) ` {v \<in> set vaults. vault_delay sha256 vaults v seed_data = d} \<subseteq> {2 ^ d ..< 2 ^ Suc d}"
    by auto
  moreover have "inj_on (Suc \<circ> ?rank) {v \<in> set vaults. vault_delay sha256 vaults v seed_data = d}"
    using inj_on_subset [OF vault_rank_inj [OF assms(2)]] by (auto simp: inj_on_def)
  ultimately have "card {v \<in> set vaults. vault_delay sha256 vaults v seed_data = d} \<le> card {(2::nat) ^ d ..< 2 ^ Suc d}"
    by (intro card_inj_on_le [of "Suc \<circ> ?rank"]) simp_all
  then show ?thesis by simp
qed

lemma delays_spread_vaults_witness:
  "card {v \<in> set [[1], [2], [3]]. vault_delay (\<lambda>x. x) [[1], [2], [3]] v [0] = 1} \<le> 2 ^ 1"
  by (rule delays_spread_vaults) (simp_all add: hash_vault_def)

end
