(* ===== verification/BtcApi.thy ===== *)
theory BtcApi
  imports BtcTypes
begin

text \<open>
  The trait \<open>BitcoinCoreApi\<close> of \<open>bitcoin/src/lib.rs\<close> as a record of actions: what the vault
  and the block streams call. Its implementations are in \<open>BitcoinCore\<close> and \<open>Light\<close>. Only the
  fields of a block that the clients read are kept; hashing a block or a transaction is the
  library's, so a block carries its hash, and \<open>txid_of\<close> is a parameter where it is needed.
\<close>

record block_header =
  hdr_hash :: block_hash
  prev_blockhash :: block_hash
  hdr_bytes :: bytes

record block =
  blk_header :: block_header
  txdata :: "transaction list"

text \<open>\<open>SatPerVbyte\<close> is its \<open>u64\<close>; a \<open>SignedAmount\<close> is an integer of satoshis.\<close>

type_synonym sat_per_vbyte = u64

record transaction_metadata =
  tm_txid :: txid
  tm_proof :: bytes
  tm_raw_tx :: bytes
  tm_block_height :: u32
  tm_block_hash :: block_hash
  tm_fee :: "int option"

text \<open>
  An entry of the transaction list of the wallet; the fee is an \<open>i64\<close>, negative for what is sent, and
  \<open>lt_is_send\<close> says that its category is \<open>Send\<close>.
\<close>

record list_transaction =
  lt_txid :: txid
  lt_blockhash :: "block_hash option"
  lt_fee :: "int option"
  lt_is_send :: bool

record 'w btc_api =
  b_network :: network
  b_wait_for_block :: "u32 \<Rightarrow> u32 \<Rightarrow> ('w, block, bitcoin_error) action"
  b_get_block_count :: "('w, u64, bitcoin_error) action"
  b_get_balance :: "u32 option \<Rightarrow> ('w, u64, bitcoin_error) action"
  b_list_transactions :: "nat option \<Rightarrow> ('w, list_transaction list, bitcoin_error) action"
  b_get_raw_tx :: "txid \<Rightarrow> block_hash \<Rightarrow> ('w, bytes, bitcoin_error) action"
  b_get_transaction :: "txid \<Rightarrow> block_hash option \<Rightarrow> ('w, transaction, bitcoin_error) action"
  b_get_proof :: "txid \<Rightarrow> block_hash \<Rightarrow> ('w, bytes, bitcoin_error) action"
  b_get_block_hash :: "u32 \<Rightarrow> ('w, block_hash, bitcoin_error) action"
  b_get_new_address :: "('w, address, bitcoin_error) action"
  b_get_new_public_key :: "('w, bytes, bitcoin_error) action"
  b_dump_derivation_key :: "bytes \<Rightarrow> ('w, bytes, bitcoin_error) action"
  b_import_derivation_key :: "bytes \<Rightarrow> ('w, unit, bitcoin_error) action"
  b_add_new_deposit_key :: "bytes \<Rightarrow> bytes \<Rightarrow> ('w, unit, bitcoin_error) action"
  b_get_best_block_hash :: "('w, block_hash, bitcoin_error) action"
  b_get_pruned_height :: "('w, u64, bitcoin_error) action"
  b_get_block :: "block_hash \<Rightarrow> ('w, block, bitcoin_error) action"
  b_get_block_header :: "block_hash \<Rightarrow> ('w, block_header, bitcoin_error) action"
  b_get_mempool_transactions :: "('w, (transaction, bitcoin_error) result list, bitcoin_error) action"
  b_wait_for_transaction_metadata :: "txid \<Rightarrow> u32 \<Rightarrow> ('w, transaction_metadata, bitcoin_error) action"
  b_bump_fee :: "txid \<Rightarrow> address \<Rightarrow> sat_per_vbyte \<Rightarrow> ('w, txid, bitcoin_error) action"
  b_create_and_send_transaction ::
    "address \<Rightarrow> u64 \<Rightarrow> sat_per_vbyte \<Rightarrow> H256 option \<Rightarrow> ('w, txid, bitcoin_error) action"
  b_send_to_address ::
    "address \<Rightarrow> u64 \<Rightarrow> H256 option \<Rightarrow> sat_per_vbyte \<Rightarrow> u32 \<Rightarrow> ('w, transaction_metadata, bitcoin_error) action"
  b_create_or_load_wallet :: "('w, unit, bitcoin_error) action"
  b_rescan_blockchain :: "nat \<Rightarrow> nat \<Rightarrow> ('w, unit, bitcoin_error) action"
  b_rescan_electrs_for_addresses :: "address list \<Rightarrow> ('w, unit, bitcoin_error) action"
  b_get_utxo_count :: "('w, nat, bitcoin_error) action"
  b_is_in_mempool :: "txid \<Rightarrow> ('w, bool, bitcoin_error) action"
  b_fee_rate :: "txid \<Rightarrow> ('w, sat_per_vbyte, bitcoin_error) action"

text \<open>The same node for a caller that keeps a state of its own beside the world.\<close>

definition lift_btc :: "'w btc_api \<Rightarrow> ('w \<times> 's) btc_api" where
  "lift_btc B = \<lparr>b_network = b_network B,
     b_wait_for_block = (\<lambda>x y. on_world (b_wait_for_block B x y)),
     b_get_block_count = on_world (b_get_block_count B),
     b_get_balance = (\<lambda>x. on_world (b_get_balance B x)),
     b_list_transactions = (\<lambda>x. on_world (b_list_transactions B x)),
     b_get_raw_tx = (\<lambda>x y. on_world (b_get_raw_tx B x y)),
     b_get_transaction = (\<lambda>x y. on_world (b_get_transaction B x y)),
     b_get_proof = (\<lambda>x y. on_world (b_get_proof B x y)),
     b_get_block_hash = (\<lambda>x. on_world (b_get_block_hash B x)),
     b_get_new_address = on_world (b_get_new_address B),
     b_get_new_public_key = on_world (b_get_new_public_key B),
     b_dump_derivation_key = (\<lambda>x. on_world (b_dump_derivation_key B x)),
     b_import_derivation_key = (\<lambda>x. on_world (b_import_derivation_key B x)),
     b_add_new_deposit_key = (\<lambda>x y. on_world (b_add_new_deposit_key B x y)),
     b_get_best_block_hash = on_world (b_get_best_block_hash B),
     b_get_pruned_height = on_world (b_get_pruned_height B),
     b_get_block = (\<lambda>x. on_world (b_get_block B x)),
     b_get_block_header = (\<lambda>x. on_world (b_get_block_header B x)),
     b_get_mempool_transactions = on_world (b_get_mempool_transactions B),
     b_wait_for_transaction_metadata = (\<lambda>x y. on_world (b_wait_for_transaction_metadata B x y)),
     b_bump_fee = (\<lambda>x y z. on_world (b_bump_fee B x y z)),
     b_create_and_send_transaction = (\<lambda>x y z u. on_world (b_create_and_send_transaction B x y z u)),
     b_send_to_address = (\<lambda>x y z u v. on_world (b_send_to_address B x y z u v)),
     b_create_or_load_wallet = on_world (b_create_or_load_wallet B),
     b_rescan_blockchain = (\<lambda>x y. on_world (b_rescan_blockchain B x y)),
     b_rescan_electrs_for_addresses = (\<lambda>x. on_world (b_rescan_electrs_for_addresses B x)),
     b_get_utxo_count = on_world (b_get_utxo_count B),
     b_is_in_mempool = (\<lambda>x. on_world (b_is_in_mempool B x)),
     b_fee_rate = (\<lambda>x. on_world (b_fee_rate B x))\<rparr>"

lemma lift_btc_simps [simp]:
  "b_network (lift_btc B) = b_network B"
  "b_wait_for_block (lift_btc B) = (\<lambda>x y. on_world (b_wait_for_block B x y))"
  "b_get_block_count (lift_btc B) = on_world (b_get_block_count B)"
  "b_get_balance (lift_btc B) = (\<lambda>x. on_world (b_get_balance B x))"
  "b_list_transactions (lift_btc B) = (\<lambda>x. on_world (b_list_transactions B x))"
  "b_get_raw_tx (lift_btc B) = (\<lambda>x y. on_world (b_get_raw_tx B x y))"
  "b_get_transaction (lift_btc B) = (\<lambda>x y. on_world (b_get_transaction B x y))"
  "b_get_proof (lift_btc B) = (\<lambda>x y. on_world (b_get_proof B x y))"
  "b_get_block_hash (lift_btc B) = (\<lambda>x. on_world (b_get_block_hash B x))"
  "b_get_new_address (lift_btc B) = on_world (b_get_new_address B)"
  "b_get_new_public_key (lift_btc B) = on_world (b_get_new_public_key B)"
  "b_dump_derivation_key (lift_btc B) = (\<lambda>x. on_world (b_dump_derivation_key B x))"
  "b_import_derivation_key (lift_btc B) = (\<lambda>x. on_world (b_import_derivation_key B x))"
  "b_add_new_deposit_key (lift_btc B) = (\<lambda>x y. on_world (b_add_new_deposit_key B x y))"
  "b_get_best_block_hash (lift_btc B) = on_world (b_get_best_block_hash B)"
  "b_get_pruned_height (lift_btc B) = on_world (b_get_pruned_height B)"
  "b_get_block (lift_btc B) = (\<lambda>x. on_world (b_get_block B x))"
  "b_get_block_header (lift_btc B) = (\<lambda>x. on_world (b_get_block_header B x))"
  "b_get_mempool_transactions (lift_btc B) = on_world (b_get_mempool_transactions B)"
  "b_wait_for_transaction_metadata (lift_btc B) = (\<lambda>x y. on_world (b_wait_for_transaction_metadata B x y))"
  "b_bump_fee (lift_btc B) = (\<lambda>x y z. on_world (b_bump_fee B x y z))"
  "b_create_and_send_transaction (lift_btc B) = (\<lambda>x y z u. on_world (b_create_and_send_transaction B x y z u))"
  "b_send_to_address (lift_btc B) = (\<lambda>x y z u v. on_world (b_send_to_address B x y z u v))"
  "b_create_or_load_wallet (lift_btc B) = on_world (b_create_or_load_wallet B)"
  "b_rescan_blockchain (lift_btc B) = (\<lambda>x y. on_world (b_rescan_blockchain B x y))"
  "b_rescan_electrs_for_addresses (lift_btc B) = (\<lambda>x. on_world (b_rescan_electrs_for_addresses B x))"
  "b_get_utxo_count (lift_btc B) = on_world (b_get_utxo_count B)"
  "b_is_in_mempool (lift_btc B) = (\<lambda>x. on_world (b_is_in_mempool B x))"
  "b_fee_rate (lift_btc B) = (\<lambda>x. on_world (b_fee_rate B x))"
  by (simp_all add: lift_btc_def)

end
