(* ===== verification/BlockStream.thy ===== *)
theory BlockStream
  imports BtcApi
begin

text \<open>
  The block and transaction streams of \<open>bitcoin/src/iter.rs\<close>. A stream made by
  \<open>stream::unfold\<close> is its step function: from a state and the world, the next item and state,
  or \<open>None\<close> at its end. \<open>pull n\<close> is what a consumer sees that asks for \<open>n\<close> items.
\<close>

type_synonym ('w, 's, 'a) stream_step = "'s \<Rightarrow> 'w \<Rightarrow> (('a \<times> 's) option, bitcoin_error) result \<times> 'w"

text \<open>The items, and whether the stream ended within the \<open>n\<close> requests.\<close>

fun pull :: "('w, 's, 'a) stream_step \<Rightarrow> nat \<Rightarrow> 's \<Rightarrow> 'w \<Rightarrow> ('a list \<times> bool, bitcoin_error) result \<times> 'w" where
  "pull step 0 s w = (Ok ([], False), w)"
| "pull step (Suc n) s w = (case step s w of
      (Ok None, w1) \<Rightarrow> (Ok ([], True), w1)
    | (Ok (Some (a, s')), w1) \<Rightarrow> (case pull step n s' w1 of
          (Ok (as, e), w2) \<Rightarrow> (Ok (a # as, e), w2)
        | (Err x, w2) \<Rightarrow> (Err x, w2)
        | (Panic, w2) \<Rightarrow> (Panic, w2))
    | (Err x, w1) \<Rightarrow> (Err x, w1)
    | (Panic, w1) \<Rightarrow> (Panic, w1))"

section \<open>Backwards\<close>

definition get_best_block_info :: "'w btc_api \<Rightarrow> ('w, u32 \<times> block_hash, bitcoin_error) action" where
  "get_best_block_info rpc =
     a_bind (b_get_block_count rpc) (\<lambda>count.
     let height = ucast count in
     a_bind (b_get_block_hash rpc height) (\<lambda>hash. a_ret (height, hash)))"

record reverse_state =
  rs_height :: "u32 option"
  rs_prev_block :: "block option"

definition reverse_start :: reverse_state where
  "reverse_start = \<lparr>rs_height = None, rs_prev_block = None\<rparr>"

text \<open>An RPC error of the kind a pruned node gives ends the stream; others are items of it.\<close>

definition reverse_next ::
  "'w btc_api \<Rightarrow> u32 \<Rightarrow> ('w, reverse_state, (block, bitcoin_error) result) stream_step" where
  "reverse_next rpc stop_height st =
     (let fetch = (\<lambda>(next_height, next_hash).
            if next_height < stop_height then a_ret None
            else a_match (b_get_block rpc next_hash)
              (\<lambda>block. a_ret (Some (Ok block, \<lparr>rs_height = Some next_height, rs_prev_block = Some block\<rparr>)))
              (\<lambda>e. if rpc_error_is RpcMiscError e then a_ret None else a_ret (Some (Err e, st))))
      in (case (rs_height st, rs_prev_block st) of
            (Some height, Some block) \<Rightarrow> fetch (saturating_sub height 1, prev_blockhash (blk_header block))
          | _ \<Rightarrow> a_match (get_best_block_info rpc) fetch (\<lambda>e. a_ret (Some (Err e, st)))))"

definition reverse_stream_blocks ::
  "'w btc_api \<Rightarrow> u32 \<Rightarrow> nat \<Rightarrow> ('w, (block, bitcoin_error) result list \<times> bool, bitcoin_error) action" where
  "reverse_stream_blocks rpc stop_height n = pull (reverse_next rpc stop_height) n reverse_start"

definition block_transactions :: "(block, bitcoin_error) result \<Rightarrow> (transaction, bitcoin_error) result list" where
  "block_transactions b = (case b of Ok blk \<Rightarrow> map Ok (txdata blk) | Err e \<Rightarrow> [Err e] | Panic \<Rightarrow> [Panic])"

text \<open>The transactions of the first \<open>n\<close> blocks of the stream.\<close>

definition reverse_stream_in_chain_transactions ::
  "'w btc_api \<Rightarrow> u32 \<Rightarrow> nat \<Rightarrow> ('w, (transaction, bitcoin_error) result list \<times> bool, bitcoin_error) action" where
  "reverse_stream_in_chain_transactions rpc stop_height n =
     a_bind (reverse_stream_blocks rpc stop_height n) (\<lambda>(blocks, e). a_ret (concat (map block_transactions blocks), e))"

definition reverse_stream_transactions ::
  "'w btc_api \<Rightarrow> u32 \<Rightarrow> nat \<Rightarrow> ('w, (transaction, bitcoin_error) result list \<times> bool, bitcoin_error) action" where
  "reverse_stream_transactions rpc stop_height n =
     a_bind (b_get_mempool_transactions rpc) (\<lambda>mempool.
     a_bind (reverse_stream_in_chain_transactions rpc stop_height n) (\<lambda>(txs, e). a_ret (mempool @ txs, e)))"

section \<open>Forwards\<close>

text \<open>The state is \<open>next_height\<close>; \<open>next_height += 1\<close> is a plain addition.\<close>

definition forward_next ::
  "bool \<Rightarrow> 'w btc_api \<Rightarrow> u32 \<Rightarrow> ('w, u32, (block, bitcoin_error) result) stream_step" where
  "forward_next oc rpc num_confirmations height =
     a_match (b_wait_for_block rpc height num_confirmations)
       (\<lambda>block. a_bind (a_lift (plain_add oc height 1)) (\<lambda>next_height. a_ret (Some (Ok block, next_height))))
       (\<lambda>e. a_ret (Some (Err e, height)))"

lemma forward_next_Ok:
  "b_wait_for_block rpc h c w = (Ok b, w1) \<Longrightarrow>
   forward_next oc rpc c h w = (Ok (Some (Ok b, h + 1)), w1) \<or> forward_next oc rpc c h w = (Panic, w1)"
  by (simp add: forward_next_def action_defs plain_add_def)

lemma forward_next_Err:
  "b_wait_for_block rpc h c w = (Err e, w1) \<Longrightarrow> forward_next oc rpc c h w = (Ok (Some (Err e, h)), w1)"
  by (simp add: forward_next_def action_defs)

definition stream_blocks ::
  "bool \<Rightarrow> 'w btc_api \<Rightarrow> u32 \<Rightarrow> u32 \<Rightarrow> nat \<Rightarrow> ('w, (block, bitcoin_error) result list \<times> bool, bitcoin_error) action" where
  "stream_blocks oc rpc from_height num_confirmations n = pull (forward_next oc rpc num_confirmations) n from_height"

definition hashed_transactions :: "(block, bitcoin_error) result \<Rightarrow> (block_hash \<times> transaction, bitcoin_error) result list" where
  "hashed_transactions b = (case b of
      Ok blk \<Rightarrow> map (\<lambda>tx. Ok (hdr_hash (blk_header blk), tx)) (txdata blk)
    | Err e \<Rightarrow> [Err e]
    | Panic \<Rightarrow> [Panic])"

definition stream_in_chain_transactions ::
  "bool \<Rightarrow> 'w btc_api \<Rightarrow> u32 \<Rightarrow> u32 \<Rightarrow> nat \<Rightarrow> ('w, (block_hash \<times> transaction, bitcoin_error) result list \<times> bool, bitcoin_error) action" where
  "stream_in_chain_transactions oc rpc from_height num_confirmations n =
     a_bind (stream_blocks oc rpc from_height num_confirmations n)
       (\<lambda>(blocks, e). a_ret (concat (map hashed_transactions blocks), e))"

section \<open>Nodes that hold a chain\<close>

text \<open>
  The abstract view: the chain as a list of blocks, each naming the hash of the one before.
  \<open>serves rpc chain w\<close>: the node answers from that chain, and asking changes nothing.
\<close>

definition linked :: "block list \<Rightarrow> bool" where
  "linked chain \<longleftrightarrow> (\<forall>i. Suc i < length chain \<longrightarrow>
     prev_blockhash (blk_header (chain ! Suc i)) = hdr_hash (blk_header (chain ! i)))"

definition serves :: "'w btc_api \<Rightarrow> block list \<Rightarrow> 'w \<Rightarrow> bool" where
  "serves rpc chain w \<longleftrightarrow> chain \<noteq> [] \<and> length chain < 2 ^ 32 \<and> linked chain \<and>
     b_get_block_count rpc w = (Ok (of_nat (length chain - 1)), w) \<and>
     (\<forall>i < length chain. b_get_block_hash rpc (of_nat i) w = (Ok (hdr_hash (blk_header (chain ! i))), w) \<and>
        b_get_block rpc (hdr_hash (blk_header (chain ! i))) w = (Ok (chain ! i), w))"

lemma serves_block:
  "serves rpc chain w \<Longrightarrow> i < length chain \<Longrightarrow>
     b_get_block rpc (hdr_hash (blk_header (chain ! i))) w = (Ok (chain ! i), w)"
  by (simp add: serves_def)

lemma serves_prev:
  "serves rpc chain w \<Longrightarrow> Suc i < length chain \<Longrightarrow>
     prev_blockhash (blk_header (chain ! Suc i)) = hdr_hash (blk_header (chain ! i))"
  by (simp add: serves_def linked_def)

definition at_block :: "block list \<Rightarrow> nat \<Rightarrow> reverse_state" where
  "at_block chain i = \<lparr>rs_height = Some (of_nat i), rs_prev_block = Some (chain ! i)\<rparr>"

lemma unat_height: "i < 2 ^ 32 \<Longrightarrow> unat (of_nat i :: u32) = i"
  by (simp add: unat_of_nat take_bit_nat_eq_self)

lemma serves_best:
  assumes "serves rpc chain w"
  shows "get_best_block_info rpc w =
     (Ok (of_nat (length chain - 1), hdr_hash (blk_header (chain ! (length chain - 1)))), w)"
proof -
  obtain n where len: "length chain = Suc n" and n: "n < 2 ^ 32"
    using assms by (cases "length chain") (auto simp: serves_def)
  then have count: "b_get_block_count rpc w = (Ok (of_nat n), w)"
    and hash: "b_get_block_hash rpc (of_nat n) w = (Ok (hdr_hash (blk_header (chain ! n))), w)"
    using assms by (auto simp: serves_def)
  have "(ucast (of_nat n :: u64) :: u32) = of_nat n"
    using n by (intro word_unat_eq_iff [THEN iffD2]) (simp add: unsigned_ucast_eq unat_of_nat take_bit_nat_eq_self)
  with count hash len show ?thesis
    by (simp add: get_best_block_info_def action_defs Let_def)
qed

text \<open>One step down the chain, and the end below \<open>stop_height\<close>.\<close>

lemma reverse_step_down:
  assumes s: "serves rpc chain w" and i: "Suc i < length chain" and stop: "unat stop \<le> i"
  shows "reverse_next rpc stop (at_block chain (Suc i)) w = (Ok (Some (Ok (chain ! i), at_block chain i)), w)"
proof -
  have "unat (of_nat (Suc i) :: u32) = Suc i"
    using s i by (intro unat_height) (auto simp: serves_def)
  then have "unat (saturating_sub (of_nat (Suc i)) 1 :: u32) = i"
    by (simp add: unat_saturating_sub)
  moreover have "unat (of_nat i :: u32) = i"
    using s i by (intro unat_height) (auto simp: serves_def)
  ultimately have "saturating_sub (of_nat (Suc i)) 1 = (of_nat i :: u32)" "\<not> (of_nat i :: u32) < stop"
    using stop by (simp_all add: word_unat_eq_iff word_less_nat_alt)
  with s i show ?thesis
    by (simp add: reverse_next_def at_block_def serves_prev serves_block action_defs del: of_nat_Suc)
qed

lemma reverse_step_end:
  assumes s: "serves rpc chain w" and i: "i < length chain" and stop: "unat stop = i" "0 < i"
  shows "reverse_next rpc stop (at_block chain i) w = (Ok None, w)"
proof -
  have "unat (of_nat i :: u32) = i"
    using s i by (intro unat_height) (auto simp: serves_def)
  then have "saturating_sub (of_nat i) 1 < stop"
    using stop by (simp add: unat_saturating_sub word_less_nat_alt)
  then show ?thesis
    by (simp add: reverse_next_def at_block_def action_defs)
qed

lemma pull_down:
  assumes s: "serves rpc chain w" and stop: "0 < unat stop" "unat stop + k < length chain"
  shows "pull (reverse_next rpc stop) (Suc k + m) (at_block chain (unat stop + k)) w =
      (Ok (map Ok (rev (take k (drop (unat stop) chain))), True), w)"
  using stop
proof (induction k arbitrary: m)
  case 0
  then show ?case using reverse_step_end [OF s] by simp
next
  case (Suc k)
  let ?i = "unat stop + k"
  have "take (Suc k) (drop (unat stop) chain) = take k (drop (unat stop) chain) @ [chain ! ?i]"
    using Suc.prems by (subst take_Suc_conv_app_nth) auto
  moreover have "reverse_next rpc stop (at_block chain (Suc ?i)) w = (Ok (Some (Ok (chain ! ?i), at_block chain ?i)), w)"
    using Suc.prems by (intro reverse_step_down [OF s]) auto
  ultimately show ?case
    using Suc.IH [of m] Suc.prems by simp
qed

lemma reverse_first:
  assumes s: "serves rpc chain w" and stop: "unat stop < length chain"
  shows "reverse_next rpc stop reverse_start w =
     (Ok (Some (Ok (chain ! (length chain - 1)), at_block chain (length chain - 1))), w)"
proof -
  have len: "length chain - 1 < length chain" using s by (simp add: serves_def)
  have "unat (of_nat (length chain - 1) :: u32) = length chain - 1"
    using s by (intro unat_height) (auto simp: serves_def)
  then have "\<not> (of_nat (length chain - 1) :: u32) < stop"
    using stop by (simp add: word_less_nat_alt)
  with len show ?thesis
    using serves_best [OF s] serves_block [OF s len]
    by (simp add: reverse_next_def reverse_start_def at_block_def action_defs)
qed

section \<open>Properties\<close>

lemma reverse_stream_chain:
  assumes "serves rpc chain w" and "0 < unat stop" and "unat stop < length chain"
    and "length chain - unat stop < n"
  shows "reverse_stream_blocks rpc stop n w = (Ok (map Ok (rev (drop (unat stop) chain)), True), w)"
proof -
  define k where "k = length chain - 1 - unat stop"
  have len: "unat stop + k = length chain - 1" "unat stop + k < length chain"
    using assms(3) by (auto simp: k_def)
  define m where "m = n - Suc (Suc k)"
  have n: "n = Suc (Suc k + m)" using assms(3,4) by (simp add: m_def k_def)
  have "drop (unat stop) chain = take (Suc k) (drop (unat stop) chain)"
    using len by simp
  also have "\<dots> = take k (drop (unat stop) chain) @ [chain ! (unat stop + k)]"
    using len by (subst take_Suc_conv_app_nth) auto
  finally have "drop (unat stop) chain = take k (drop (unat stop) chain) @ [chain ! (unat stop + k)]" .
  then have d: "rev (drop (unat stop) chain) = chain ! (unat stop + k) # rev (take k (drop (unat stop) chain))"
    by (metis rev_eq_Cons_iff rev_rev_ident)
  have "reverse_next rpc stop reverse_start w = (Ok (Some (Ok (chain ! (unat stop + k)), at_block chain (unat stop + k))), w)"
    using reverse_first [OF assms(1,3)] len(1) by simp
  then show ?thesis
    using pull_down [OF assms(1,2) len(2), of m] by (simp add: reverse_stream_blocks_def n d)
qed

text \<open>
  C30. On a node that holds a chain, \<open>reverse_stream_blocks\<close> yields every block from the tip down
  to \<open>stop_height\<close>, in that order and without gaps, and then ends, for a stop height of at
  least 1 within the chain.
\<close>

theorem reverse_stream_complete:
  assumes "serves rpc chain w" and "0 < unat stop" and "unat stop < length chain"
    and "length chain - unat stop < n"
  shows "reverse_stream_blocks rpc stop n w = (Ok (map Ok (rev (drop (unat stop) chain)), True), w)"
  by (rule reverse_stream_chain [OF assms])

text \<open>A node with the chain of three blocks 100, 101, 102, which never changes.\<close>

definition demo_block :: "u8 \<Rightarrow> block" where
  "demo_block i = \<lparr>blk_header = \<lparr>hdr_hash = [i], prev_blockhash = [i - 1], hdr_bytes = [i]\<rparr>, txdata = []\<rparr>"

definition demo_chain :: "block list" where
  "demo_chain = [demo_block 100, demo_block 101, demo_block 102]"

definition block_by_hash :: "block_hash \<Rightarrow> (block, bitcoin_error) result" where
  "block_by_hash h = (case filter (\<lambda>b. hdr_hash (blk_header b) = h) demo_chain of
      b # _ \<Rightarrow> Ok b
    | [] \<Rightarrow> Err (Be_BitcoinError (Ce_JsonRpc (Jr_Rpc (rpc_code RpcInvalidAddressOrKey)))))"

definition demo_btc_api :: "'w btc_api" where
  "demo_btc_api = \<lparr>b_network = Regtest,
     b_wait_for_block = (\<lambda>h c. if unat h < 3 then a_ret (demo_chain ! unat h) else a_err Be_ConnectionRefused),
     b_get_block_count = a_ret 2, b_get_balance = (\<lambda>x. a_ret 0), b_list_transactions = (\<lambda>x. a_ret []),
     b_get_raw_tx = (\<lambda>x y. a_ret []), b_get_transaction = (\<lambda>x y. a_err Be_ConnectionRefused),
     b_get_proof = (\<lambda>x y. a_ret []),
     b_get_block_hash = (\<lambda>h. if unat h < 3 then a_ret (hdr_hash (blk_header (demo_chain ! unat h))) else a_err Be_InvalidBitcoinHeight),
     b_get_new_address = a_err Be_ConnectionRefused, b_get_new_public_key = a_ret [],
     b_dump_derivation_key = (\<lambda>x. a_ret []), b_import_derivation_key = (\<lambda>x. a_ret ()),
     b_add_new_deposit_key = (\<lambda>x y. a_ret ()), b_get_best_block_hash = a_ret [102], b_get_pruned_height = a_ret 0,
     b_get_block = (\<lambda>h. a_lift (block_by_hash h)),
     b_get_block_header = (\<lambda>h. a_err Be_ConnectionRefused), b_get_mempool_transactions = a_ret [],
     b_wait_for_transaction_metadata = (\<lambda>x y. a_err Be_ConfirmationError),
     b_bump_fee = (\<lambda>x y z. a_err Be_ConnectionRefused),
     b_create_and_send_transaction = (\<lambda>a s f r. a_ret []),
     b_send_to_address = (\<lambda>a s r f n. a_err Be_ConfirmationError),
     b_create_or_load_wallet = a_ret (), b_rescan_blockchain = (\<lambda>a b. a_ret ()),
     b_rescan_electrs_for_addresses = (\<lambda>a. a_ret ()), b_get_utxo_count = a_ret 0,
     b_is_in_mempool = (\<lambda>t. a_ret False), b_fee_rate = (\<lambda>t. a_err Be_MissingBitcoinFeeInfo)\<rparr>"

lemma demo_serves: "serves demo_btc_api demo_chain w"
  by (auto simp: serves_def linked_def demo_btc_api_def demo_chain_def demo_block_def block_by_hash_def
      action_defs less_Suc_eq numeral_3_eq_3)

lemma reverse_stream_complete_witness:
  "reverse_stream_blocks demo_btc_api 1 5 () = (Ok ([Ok (demo_block 102), Ok (demo_block 101)], True), ())"
  using reverse_stream_complete [OF demo_serves, of 1 5 "()"] by (simp add: demo_chain_def)

text \<open>
  With a stop height of 0 the stream does not end at the genesis block: it asks for the hash
  the genesis block names as its predecessor, at height 0 again, and when the node answers that
  it knows no such block, the stream yields this error again and again.
\<close>

theorem reverse_stream_past_genesis:
  assumes "b_get_block rpc (prev_blockhash (blk_header (chain ! 0))) w = (Err e, w)"
    and "\<not> rpc_error_is RpcMiscError e"
  shows "pull (reverse_next rpc 0) n (at_block chain 0) w = (Ok (replicate n (Err e), False), w)"
proof (induction n)
  case 0
  then show ?case by simp
next
  case (Suc n)
  have "reverse_next rpc 0 (at_block chain 0) w = (Ok (Some (Err e, at_block chain 0)), w)"
    using assms by (simp add: reverse_next_def at_block_def action_defs saturating_sub_def)
  with Suc show ?case by simp
qed

lemma reverse_stream_past_genesis_witness:
  "pull (reverse_next demo_btc_api 0) 2 (at_block demo_chain 0) () =
     (Ok (replicate 2 (Err (Be_BitcoinError (Ce_JsonRpc (Jr_Rpc (rpc_code RpcInvalidAddressOrKey))))), False), ())"
  by (rule reverse_stream_past_genesis)
     (simp_all add: demo_btc_api_def demo_chain_def demo_block_def block_by_hash_def action_defs
        from_rpc_error_def from_i32_def all_rpc_errors_def)

text \<open>
  \<open>stream_blocks\<close> asks for the heights in order: each request is for \<open>from_height\<close> plus the
  number of blocks it has yielded so far, so a failed request is repeated for the same height
  and none is skipped; and the stream never ends. \<open>asked\<close> observes the requests in the world.
\<close>

theorem stream_blocks_in_order:
  assumes "\<And>h w r w'. b_wait_for_block rpc h confs w = (r, w') \<Longrightarrow> asked w' = asked w @ [h]"
    and "stream_blocks oc rpc from confs n w = (Ok (items, ended), w')"
  shows "\<not> ended \<and> length items = n \<and>
     asked w' = asked w @ map (\<lambda>k. from + of_nat (length (filter is_ok (take k items)))) [0..<n]"
  using assms(2) unfolding stream_blocks_def
proof (induction n arbitrary: "from" w items)
  case 0
  then show ?case by simp
next
  case (Suc n)
  obtain r w1 where wait: "b_wait_for_block rpc from confs w = (r, w1)" by (meson surj_pair)
  note asked1 = assms(1) [OF wait]
  have upt: "map f [0..<Suc n] = f 0 # map (\<lambda>k. f (Suc k)) [0..<n]" for f :: "nat \<Rightarrow> u32"
    by (simp add: upt_conv_Cons map_Suc_upt [symmetric] del: upt_Suc)
  show ?case
  proof (cases r)
    case (Ok b)
    then obtain items' where items: "items = Ok b # items'"
      and rest: "pull (forward_next oc rpc confs) n (from + 1) w1 = (Ok (items', ended), w')"
      using Suc.prems forward_next_Ok [of rpc "from" confs w b w1 oc] wait Ok
      by (auto split: prod.splits result.splits)
    from Suc.IH [OF rest] asked1 show ?thesis
      by (simp only: upt) (simp add: items add.assoc)
  next
    case (Err e)
    then obtain items' where items: "items = Err e # items'"
      and rest: "pull (forward_next oc rpc confs) n from w1 = (Ok (items', ended), w')"
      using Suc.prems forward_next_Err [of rpc "from" confs w e w1 oc] wait Err
      by (auto split: prod.splits result.splits)
    from Suc.IH [OF rest] asked1 show ?thesis
      by (simp only: upt) (simp add: items)
  next
    case Panic
    with Suc.prems wait show ?thesis by (auto simp: forward_next_def action_defs)
  qed
qed

definition asking_api :: "u32 list btc_api" where
  "asking_api = demo_btc_api\<lparr>b_wait_for_block := (\<lambda>h c w. (if length w = 1 then Err Be_ConnectionRefused
     else Ok (demo_block (ucast h)), w @ [h]))\<rparr>"

lemma stream_blocks_in_order_witness:
  "\<exists>items. stream_blocks True asking_api 7 1 3 [] = (Ok (items, False), [7, 8, 8]) \<and> length items = 3"
proof -
  let ?items = "[Ok (demo_block 7), Err Be_ConnectionRefused, Ok (demo_block 8)]"
  have run: "stream_blocks True asking_api 7 1 3 [] = (Ok (?items, False), [7, 8, 8])"
    by (simp add: stream_blocks_def asking_api_def forward_next_def action_defs plain_add_def checked_add_def
        numeral_3_eq_3)
  have "length ?items = 3"
    using stream_blocks_in_order [where asked = "\<lambda>w. w", OF _ run] by (auto simp: asking_api_def)
  with run show ?thesis by blast
qed

end
