(* ===== verification/Issue.thy ===== *)
theory Issue
  imports IssueMap Submission Cancellation BlockStream
begin

text \<open>
  The vault's issue handling (\<open>vault/src/issue.rs\<close>): the set of watched issues at start-up, the
  deposit keys and rescans of past issues, the execution of an issue whose payment is found on
  the Bitcoin chain, and the handlers of the request, execute and cancel events. The issue set
  is the \<open>rmap\<close> of \<open>IssueMap\<close>; the code holds its lock while it handles one transaction.
\<close>

type_synonym issue_set = "(H256, btc_address) rmap"

text \<open>The parachain calls of this component, and the random delay it is given.\<close>

record 'w issue_calls =
  ic_get_all_active_issues :: "('w, (H256 \<times> vault_id issue_request) list, runtime_error) action"
  ic_get_vault_issue_requests :: "account_id \<Rightarrow> ('w, (H256 \<times> vault_id issue_request) list, runtime_error) action"
  ic_get_issue_request :: "H256 \<Rightarrow> ('w, vault_id issue_request, runtime_error) action"
  ic_wait_for_block_in_relay :: "block_hash \<Rightarrow> u32 option \<Rightarrow> ('w, unit, runtime_error) action"
  ic_delay :: "H256 \<Rightarrow> ('w, unit, runtime_error) action"
  ic_execute_issue :: "H256 \<Rightarrow> bytes \<Rightarrow> bytes \<Rightarrow> ('w, unit, runtime_error) action"

section \<open>Start-up\<close>

definition insert_all :: "issue_set \<Rightarrow> (H256 \<times> vault_id issue_request) list \<Rightarrow> issue_set" where
  "insert_all m requests =
     foldl (\<lambda>m (issue_id, request). snd (rmap_insert m issue_id (is_btc_address request))) m requests"

definition btc_start_height ::
  "'w btc_api \<Rightarrow> (H256 \<times> vault_id issue_request) list \<Rightarrow> ('w, u32, vault_error) action" where
  "btc_start_height B requests =
     (case requests of
        [] \<Rightarrow> a_bind (on_bitcoin (b_get_block_count B)) (\<lambda>c. a_ret (ucast c))
      | _ \<Rightarrow> a_ret (Min (set (map (\<lambda>(_, r). is_btc_height r) requests))))"

definition initialize_issue_set ::
  "'w btc_api \<Rightarrow> 'w issue_calls \<Rightarrow> ('w \<times> issue_set, u32, vault_error) action" where
  "initialize_issue_set B C =
     a_bind (on_world (on_runtime (ic_get_all_active_issues C))) (\<lambda>requests.
     a_bind (on_world (btc_start_height B requests)) (\<lambda>start.
     a_bind (modify_state (\<lambda>m. insert_all m requests)) (\<lambda>_. a_ret start)))"

section \<open>Deposit keys of past issues\<close>

text \<open>SHA-256 and the parsing of a public key are parameters.\<close>

definition add_new_deposit_key ::
  "(bytes \<Rightarrow> bytes) \<Rightarrow> (bytes \<Rightarrow> bool) \<Rightarrow> 'w btc_api \<Rightarrow> H256 \<Rightarrow> bytes \<Rightarrow> ('w, unit, vault_error) action" where
  "add_new_deposit_key sha256 valid_key B secure_id public_key =
     (if valid_key public_key
      then on_bitcoin (b_add_new_deposit_key B public_key (sha256 (public_key @ secure_id)))
      else a_err (Ve_BitcoinError (Be_KeyError ''invalid public key'')))"

fun add_deposit_keys ::
  "(bytes \<Rightarrow> bytes) \<Rightarrow> (bytes \<Rightarrow> bool) \<Rightarrow> 'w btc_api \<Rightarrow> (H256 \<times> vault_id issue_request) list
    \<Rightarrow> ('w, unit, vault_error) action" where
  "add_deposit_keys sha256 valid_key B [] = a_ret ()"
| "add_deposit_keys sha256 valid_key B ((issue_id, request) # requests) =
     a_bind (a_ignore (add_new_deposit_key sha256 valid_key B issue_id (is_btc_public_key request)))
       (\<lambda>_. add_deposit_keys sha256 valid_key B requests)"

text \<open>The addresses looked up in electrs: those of requests from before the pruned height.\<close>

definition electrs_addresses ::
  "script_lib \<Rightarrow> network \<Rightarrow> nat \<Rightarrow> (H256 \<times> vault_id issue_request) list \<Rightarrow> address list" where
  "electrs_addresses L net pruned requests =
     filter_map (\<lambda>(_, request). if unat (is_btc_height request) < pruned
       then ok_opt (to_address L (is_btc_address request) net) else None) requests"

definition add_keys_from_past_issue_request ::
  "bool \<Rightarrow> script_lib \<Rightarrow> (bytes \<Rightarrow> bytes) \<Rightarrow> (bytes \<Rightarrow> bool) \<Rightarrow> 'w btc_api \<Rightarrow> 'w issue_calls
    \<Rightarrow> account_id \<Rightarrow> vault_id \<Rightarrow> ('w, unit, vault_error) action" where
  "add_keys_from_past_issue_request oc L sha256 valid_key B C self vid =
     a_bind (on_runtime (ic_get_vault_issue_requests C self)) (\<lambda>all_requests.
     let issue_requests = filter (\<lambda>(_, issue). is_vault issue = vid) all_requests in
     if issue_requests = [] then a_ret ()
     else let start = unat (Min (set (map (\<lambda>(_, r). is_btc_height r) issue_requests))) in
     a_bind (add_deposit_keys sha256 valid_key B issue_requests) (\<lambda>_.
     a_bind (on_bitcoin (b_get_block_count B)) (\<lambda>count.
     a_bind (a_lift (plain_sub oc count 1)) (\<lambda>end_height.
     a_bind (on_bitcoin (b_get_pruned_height B)) (\<lambda>pruned_height.
     let pruned = unat pruned_height in
     a_bind (on_bitcoin (b_rescan_blockchain B (max start pruned) (unat end_height))) (\<lambda>_.
     if start < pruned
     then on_bitcoin (b_rescan_electrs_for_addresses B
            (electrs_addresses L (b_network B) pruned issue_requests))
     else a_ret ()))))))"

section \<open>Executing an issue\<close>

definition payable_addresses :: "script_lib \<Rightarrow> transaction \<Rightarrow> btc_address list" where
  "payable_addresses L tx = filter_map (\<lambda>p. ok_opt (from_payload p)) (extract_output_addresses L tx)"

definition watched_output :: "issue_set \<Rightarrow> btc_address list \<Rightarrow> (H256 \<times> btc_address) option" where
  "watched_output m addresses =
     find_map (\<lambda>a. map_option (\<lambda>issue_id. (issue_id, a)) (get_key_for_value m a)) addresses"

text \<open>From the removal of the address to the end.\<close>

definition submit_issue_proof ::
  "'w btc_api \<Rightarrow> 'w issue_calls \<Rightarrow> u32 \<Rightarrow> block_hash \<Rightarrow> txid \<Rightarrow> H256 \<Rightarrow> ('w, unit, vault_error) action" where
  "submit_issue_proof B C num_confirmations block_hash tx_id issue_id =
     a_bind (on_runtime (ic_wait_for_block_in_relay C block_hash (Some num_confirmations))) (\<lambda>_.
     a_bind (on_runtime (ic_delay C issue_id)) (\<lambda>_.
     a_bind (on_runtime (ic_get_issue_request C issue_id)) (\<lambda>issue.
     if is_status issue = Is_Completed then a_ret ()
     else a_bind (on_bitcoin (b_get_raw_tx B tx_id block_hash)) (\<lambda>raw_tx.
          a_bind (on_bitcoin (b_get_proof B tx_id block_hash)) (\<lambda>proof.
          a_match (ic_execute_issue C issue_id proof raw_tx)
            (\<lambda>_. a_ret ())
            (\<lambda>err. if is_issue_completed err then a_ret () else a_err (Ve_RuntimeError err)))))))"

definition process_transaction_and_execute_issue ::
  "bool \<Rightarrow> script_lib \<Rightarrow> (transaction \<Rightarrow> txid) \<Rightarrow> 'w btc_api \<Rightarrow> 'w issue_calls \<Rightarrow> u32 \<Rightarrow> block_hash
    \<Rightarrow> transaction \<Rightarrow> ('w \<times> issue_set, unit, vault_error) action" where
  "process_transaction_and_execute_issue oc L txid_of B C num_confirmations block_hash tx =
     a_bind get_state (\<lambda>issue_requests.
     case watched_output issue_requests (payable_addresses L tx) of
       None \<Rightarrow> a_ret ()
     | Some (issue_id, addr) \<Rightarrow>
         a_bind (on_world (on_runtime (ic_get_issue_request C issue_id))) (\<lambda>issue.
         case to_payload L addr of
           Ok payload \<Rightarrow>
             (case get_payment_amount_to L tx payload of
                None \<Rightarrow> a_ret ()
              | Some transferred \<Rightarrow>
                  a_bind (a_lift (plain_add oc (is_amount issue) (is_fee issue))) (\<lambda>expected.
                  if ucast transferred < expected then a_ret ()
                  else a_bind (modify_state (\<lambda>m. snd (remove_value m addr))) (\<lambda>_.
                       on_world (submit_issue_proof B C num_confirmations block_hash (txid_of tx) issue_id))))
         | _ \<Rightarrow> a_ret ()))"

text \<open>
  \<open>process_issue_requests\<close>: each transaction of the stream is handled in a task of its own whose
  error is only logged; an error of the stream itself, or its end, ends the loop. The tasks
  take the lock one after the other; here in the order of the stream.
\<close>

fun process_issue_requests ::
  "bool \<Rightarrow> script_lib \<Rightarrow> (transaction \<Rightarrow> txid) \<Rightarrow> 'w btc_api \<Rightarrow> 'w issue_calls \<Rightarrow> u32
    \<Rightarrow> (block_hash \<times> transaction, bitcoin_error) result list
    \<Rightarrow> ('w \<times> issue_set, unit, service_error) action" where
  "process_issue_requests oc L txid_of B C nc [] = a_err Se_ClientShutdown"
| "process_issue_requests oc L txid_of B C nc (r # stream) = (case r of
      Ok (block_hash, tx) \<Rightarrow> a_bind
        (a_ignore (process_transaction_and_execute_issue oc L txid_of B C nc block_hash tx))
        (\<lambda>_. process_issue_requests oc L txid_of B C nc stream)
    | Err err \<Rightarrow> a_err (Se_BitcoinError err)
    | Panic \<Rightarrow> a_lift Panic)"

section \<open>The event handlers\<close>

record issue_listener =
  il_set :: issue_set
  il_channel :: "event list"

text \<open>
  The handler of \<open>RequestIssue\<close>: \<open>manager\<close> is the vault id manager, which knows the Bitcoin
  wallet of each of our vaults. \<open>publish\<close> updates a metric; its result is dropped.
\<close>

definition send_event :: "event \<Rightarrow> ('w \<times> issue_listener, unit, 'e) action" where
  "send_event ev = modify_state (\<lambda>s. s\<lparr>il_channel := il_channel s @ [ev]\<rparr>)"

definition watch_issue :: "H256 \<Rightarrow> btc_address \<Rightarrow> ('w \<times> issue_listener, unit, 'e) action" where
  "watch_issue i a = modify_state (\<lambda>s. s\<lparr>il_set := snd (rmap_insert (il_set s) i a)\<rparr>)"

definition unwatch_issue :: "H256 \<Rightarrow> ('w \<times> issue_listener, unit, 'e) action" where
  "unwatch_issue i = modify_state (\<lambda>s. s\<lparr>il_set := snd (remove_key (il_set s) i)\<rparr>)"

definition on_request_issue ::
  "(bytes \<Rightarrow> bytes) \<Rightarrow> (bytes \<Rightarrow> bool) \<Rightarrow> account_id \<Rightarrow> (vault_id \<rightharpoonup> 'w btc_api)
    \<Rightarrow> ('w, unit, service_error) action \<Rightarrow> request_issue_event \<Rightarrow> ('w \<times> issue_listener, unit, service_error) action" where
  "on_request_issue sha256 valid_key self manager publish event =
     (if account (ri_vault_id event) = self
      then (case manager (ri_vault_id event) of
          None \<Rightarrow> a_ret ()
        | Some btc_rpc \<Rightarrow>
            a_bind (send_event Opened) (\<lambda>_.
            a_bind (a_ignore (on_world publish)) (\<lambda>_.
            a_bind (a_ignore (on_world (add_new_deposit_key sha256 valid_key btc_rpc (ri_issue_id event)
                      (ri_vault_public_key event)))) (\<lambda>_.
            watch_issue (ri_issue_id event) (ri_vault_address event)))))
      else watch_issue (ri_issue_id event) (ri_vault_address event))"

definition on_execute_issue ::
  "account_id \<Rightarrow> vault_id \<Rightarrow> H256 \<Rightarrow> ('w \<times> issue_listener, unit, service_error) action" where
  "on_execute_issue self vid issue_id =
     a_bind (if account vid = self then send_event (Executed issue_id) else a_ret ())
       (\<lambda>_. unwatch_issue issue_id)"

definition on_cancel_issue :: "H256 \<Rightarrow> ('w \<times> issue_listener, unit, service_error) action" where
  "on_cancel_issue issue_id = unwatch_issue issue_id"

section \<open>What is executed\<close>

text \<open>The parachain calls with a record of the executions asked for.\<close>

definition logged_issue :: "'w issue_calls \<Rightarrow> ('w \<times> (H256 \<times> bytes \<times> bytes) list) issue_calls" where
  "logged_issue C = \<lparr>
     ic_get_all_active_issues = on_world (ic_get_all_active_issues C),
     ic_get_vault_issue_requests = (\<lambda>a. on_world (ic_get_vault_issue_requests C a)),
     ic_get_issue_request = (\<lambda>i. on_world (ic_get_issue_request C i)),
     ic_wait_for_block_in_relay = (\<lambda>h n. on_world (ic_wait_for_block_in_relay C h n)),
     ic_delay = (\<lambda>i. on_world (ic_delay C i)),
     ic_execute_issue = (\<lambda>i p t. log_action [(i, p, t)] (ic_execute_issue C i p t))\<rparr>"

lemma logged_issue_simps [simp]:
  "ic_get_issue_request (logged_issue C) = (\<lambda>i. on_world (ic_get_issue_request C i))"
  "ic_wait_for_block_in_relay (logged_issue C) = (\<lambda>h n. on_world (ic_wait_for_block_in_relay C h n))"
  "ic_delay (logged_issue C) = (\<lambda>i. on_world (ic_delay C i))"
  "ic_execute_issue (logged_issue C) = (\<lambda>i p t. log_action [(i, p, t)] (ic_execute_issue C i p t))"
  by (simp_all add: logged_issue_def)

lemma submit_issue_proof_logs:
  "logs_at_most (\<lambda>new. \<exists>p t. new = [(i, p, t)])
     (submit_issue_proof (lift_btc B) (logged_issue C) nc h t i)"
proof -
  have exec: "logs_at_most (\<lambda>new. \<exists>p t. new = [(i, p, t)])
      (a_match (log_action [(i, p, t)] (ic_execute_issue C i p t)) a_ret
        (\<lambda>err. if is_issue_completed err then a_ret () else a_err (Ve_RuntimeError err)))" for p t
    by (auto simp: logs_at_most_def log_action_def action_defs split: prod.splits result.splits if_splits)
  show ?thesis
    unfolding submit_issue_proof_def by (intro logs_at_most_bind) (auto intro!: logs_at_most_bind exec)
qed

lemma issue_execution_facts:
  assumes run: "process_transaction_and_execute_issue oc L txid_of (lift_btc B) (logged_issue C) nc h tx
      ((w, []), m) = (r, ((w', log), m'))"
    and "log \<noteq> []"
  shows "\<exists>i addr issue payload paid w1 p t.
      log = [(i, p, t)] \<and> get_key_for_value m addr = Some i \<and> addr \<in> set (payable_addresses L tx) \<and>
      ic_get_issue_request C i w = (Ok issue, w1) \<and> to_payload L addr = Ok payload \<and>
      get_payment_amount_to L tx payload = Some paid \<and> is_amount issue + is_fee issue \<le> ucast paid \<and>
      m' = snd (remove_value m addr)"
proof -
  obtain i addr where out: "watched_output m (payable_addresses L tx) = Some (i, addr)"
    using assms by (cases "watched_output m (payable_addresses L tx)")
      (auto simp: process_transaction_and_execute_issue_def action_defs state_defs)
  obtain x w1 where issue: "ic_get_issue_request C i w = (x, w1)" by (meson surj_pair)
  obtain issue where x: "x = Ok issue"
    using assms out issue by (cases x)
      (auto simp: process_transaction_and_execute_issue_def action_defs state_defs on_runtime_def)
  obtain payload where pl: "to_payload L addr = Ok payload"
    using assms out issue x by (cases "to_payload L addr")
      (auto simp: process_transaction_and_execute_issue_def action_defs state_defs on_runtime_def)
  obtain paid where paid: "get_payment_amount_to L tx payload = Some paid"
    using assms out issue x pl by (cases "get_payment_amount_to L tx payload")
      (auto simp: process_transaction_and_execute_issue_def action_defs state_defs on_runtime_def)
  have "\<not> ucast paid < is_amount issue + is_fee issue"
    and "\<exists>r1 w2. submit_issue_proof (lift_btc B) (logged_issue C) nc h (txid_of tx) i (w1, []) = (r1, (w2, log))
      \<and> m' = snd (remove_value m addr)"
    using assms out issue x pl paid
    by (auto simp: process_transaction_and_execute_issue_def action_defs state_defs on_runtime_def plain_add_def
        split: if_splits prod.splits)
  moreover from this(2) submit_issue_proof_logs [of i B C nc h "txid_of tx"] assms(2)
  obtain p t where "log = [(i, p, t)]" by (fastforce simp: logs_at_most_def)
  moreover have "addr \<in> set (payable_addresses L tx)" "get_key_for_value m addr = Some i"
    using find_map_Some [OF out [unfolded watched_output_def]] by auto
  ultimately show ?thesis using issue x pl paid by (auto simp: not_less)
qed


section \<open>Properties\<close>

text \<open>
  C1. Handling one Bitcoin transaction executes at most one issue, and only an issue whose watched
  address is among the outputs of the transaction, for a payment to it of at least the amount
  plus the fee that the parachain reports for the issue; the address is then watched no more.
\<close>

theorem issue_executed_only_if_paid:
  assumes run: "process_transaction_and_execute_issue oc L txid_of (lift_btc B) (logged_issue C) nc h tx
      ((w, []), m) = (r, ((w', log), m'))"
    and "log \<noteq> []"
  shows "\<exists>i addr issue payload paid w1 p t.
      log = [(i, p, t)] \<and> get_key_for_value m addr = Some i \<and> addr \<in> set (payable_addresses L tx) \<and>
      ic_get_issue_request C i w = (Ok issue, w1) \<and> to_payload L addr = Ok payload \<and>
      get_payment_amount_to L tx payload = Some paid \<and> is_amount issue + is_fee issue \<le> ucast paid \<and>
      m' = snd (remove_value m addr)"
  by (rule issue_execution_facts [OF assms])

definition demo_key :: bytes where "demo_key = replicate 20 1"

definition demo_payment :: "u64 \<Rightarrow> transaction" where
  "demo_payment amount = \<lparr>tx_version = 2, lock_time = 0, tx_input = [],
     tx_output = [\<lparr>out_value = amount, script_pubkey = new_p2pkh std_lib demo_key\<rparr>]\<rparr>"

definition demo_watched :: issue_set where
  "demo_watched = \<lparr>fwd = [[7] \<mapsto> P2PKH demo_key], bwd = [P2PKH demo_key \<mapsto> [7]]\<rparr>"

definition demo_issue_calls :: "'w issue_calls" where
  "demo_issue_calls = \<lparr>ic_get_all_active_issues = a_ret [([7], demo_issue 5 Is_Pending)],
     ic_get_vault_issue_requests = (\<lambda>a. a_ret [([7], demo_issue 5 Is_Pending)]),
     ic_get_issue_request = (\<lambda>i. a_ret (demo_issue 5 Is_Pending)),
     ic_wait_for_block_in_relay = (\<lambda>h n. a_ret ()), ic_delay = (\<lambda>i. a_ret ()),
     ic_execute_issue = (\<lambda>i p t. a_ret ())\<rparr>"

lemma demo_payable: "payable_addresses std_lib (demo_payment 1005) = [P2PKH demo_key]"
proof -
  have "from_script std_lib (new_p2pkh std_lib demo_key) = Some (PubkeyHash demo_key)"
    using std_lib_laws by (simp add: script_laws_def demo_key_def)
  then show ?thesis
    by (simp add: payable_addresses_def extract_output_addresses_def extract_indexed_output_addresses_def
        demo_payment_def enumerate_eq_zip)
qed

lemma demo_paid: "get_payment_amount_to std_lib (demo_payment 1005) (PubkeyHash demo_key) = Some 1005"
proof -
  have "from_script std_lib (new_p2pkh std_lib demo_key) = Some (PubkeyHash demo_key)"
    using std_lib_laws by (simp add: script_laws_def demo_key_def)
  then show ?thesis by (simp add: get_payment_amount_to_def demo_payment_def)
qed

lemma demo_to_payload: "to_payload std_lib (P2PKH demo_key) = Ok (PubkeyHash demo_key)"
  by (subst to_payload_wf [OF std_lib_laws]) (simp_all add: demo_key_def)

lemma demo_execution:
  "process_transaction_and_execute_issue True std_lib (\<lambda>tx. [9]) (lift_btc demo_btc_api) (logged_issue demo_issue_calls)
     6 [100] (demo_payment 1005) (((), []), demo_watched) =
   (Ok (), (((), [([7], [], [])]), snd (remove_value demo_watched (P2PKH demo_key))))"
  by (simp add: process_transaction_and_execute_issue_def submit_issue_proof_def demo_payable demo_paid demo_to_payload
      watched_output_def get_key_for_value_def demo_watched_def demo_issue_calls_def demo_btc_api_def demo_issue_def
      action_defs state_defs on_runtime_def on_bitcoin_def log_action_def plain_add_def checked_add_def)

lemma issue_executed_only_if_paid_witness:
  "\<exists>i p t addr. [([7], [], [])] = [(i :: H256, p :: bytes, t :: bytes)] \<and> get_key_for_value demo_watched addr = Some i"
  using issue_executed_only_if_paid [OF demo_execution] by blast

text \<open>
  C32. An issue is executed once: after an execution neither the address nor the id is watched any
  more (and the issue set stays consistent), so that no later transaction to the address is
  matched to the issue again.
\<close>

theorem issue_not_watched_after_execution:
  assumes "rmap_inv m"
    and "process_transaction_and_execute_issue oc L txid_of (lift_btc B) (logged_issue C) nc h tx
      ((w, []), m) = (r, ((w', log), m'))"
    and "log \<noteq> []"
  shows "rmap_inv m' \<and> (\<exists>i addr p t. log = [(i, p, t)] \<and> get_key_for_value m addr = Some i \<and>
           fwd m' i = None \<and> get_key_for_value m' addr = None)"
proof -
  obtain i addr p t where log: "log = [(i, p, t)]" and key: "get_key_for_value m addr = Some i"
    and m': "m' = snd (remove_value m addr)"
    using issue_execution_facts [OF assms(2,3)] by blast
  have "fwd m' i = None" using iss.watched_drop_value [OF assms(1)] key m' by simp
  moreover have "get_key_for_value m' addr = None"
    using iss.dropped_value_unwatched [OF assms(1)] m' by simp
  moreover have "rmap_inv m'" using iss.invar_drop_value [OF assms(1)] m' by simp
  ultimately show ?thesis using log key by blast
qed

lemma issue_not_watched_after_execution_witness:
  "\<exists>i addr. [([7], [], [])] = [(i :: H256, [] :: bytes, [] :: bytes)] \<and> get_key_for_value demo_watched addr = Some i"
proof -
  have "rmap_inv demo_watched" by (auto simp: rmap_inv_def demo_watched_def split: if_splits)
  from issue_not_watched_after_execution [OF this demo_execution] show ?thesis by auto
qed

text \<open>The rescans a node is asked for.\<close>

datatype rescan_call = RescanChain nat nat | RescanElectrs "address list"

definition logged_rescans :: "'w btc_api \<Rightarrow> ('w \<times> rescan_call list) btc_api" where
  "logged_rescans B = (lift_btc B)\<lparr>
     b_rescan_blockchain := (\<lambda>s e. log_action [RescanChain s e] (b_rescan_blockchain B s e)),
     b_rescan_electrs_for_addresses := (\<lambda>as. log_action [RescanElectrs as] (b_rescan_electrs_for_addresses B as))\<rparr>"

lemma logged_rescans_simps [simp]:
  "b_rescan_blockchain (logged_rescans B) = (\<lambda>s e. log_action [RescanChain s e] (b_rescan_blockchain B s e))"
  "b_rescan_electrs_for_addresses (logged_rescans B) = (\<lambda>as. log_action [RescanElectrs as] (b_rescan_electrs_for_addresses B as))"
  "b_get_block_count (logged_rescans B) = on_world (b_get_block_count B)"
  "b_get_pruned_height (logged_rescans B) = on_world (b_get_pruned_height B)"
  "b_add_new_deposit_key (logged_rescans B) = (\<lambda>x y. on_world (b_add_new_deposit_key B x y))"
  "b_network (logged_rescans B) = b_network B"
  by (simp_all add: logged_rescans_def)

lemma log_action_Ok:
  "log_action new m (w, l) = (Ok a, (w', l')) \<longleftrightarrow> m w = (Ok a, w') \<and> l' = l @ new"
  by (auto simp: log_action_def split: prod.splits)

lemma add_deposit_keys_log:
  fixes B :: "'w btc_api"
  shows "add_deposit_keys sha256 vk (logged_rescans B) reqs (w, l) = (Ok u, (w', l')) \<Longrightarrow> l' = l"
proof (induction reqs arbitrary: w l)
  case Nil
  then show ?case by simp
next
  case (Cons r reqs)
  obtain i q where r: "r = (i, q)" by fastforce
  from Cons.prems r obtain w1 l1
    where one: "(a_ignore (add_new_deposit_key sha256 vk (logged_rescans B) i (is_btc_public_key q))
                  :: ('w \<times> rescan_call list, unit, vault_error) action) (w, l) = (Ok (), (w1, l1))"
      and rest: "add_deposit_keys sha256 vk (logged_rescans B) reqs (w1, l1) = (Ok u, (w', l'))"
    by (auto simp: a_bind_eq_Ok)
  from one have "l1 = l"
    by (auto simp: a_ignore_def a_match_def add_new_deposit_key_def on_bitcoin_def a_map_err_def a_ret_def a_err_def
        on_world_def split: prod.splits result.splits if_splits)
  with Cons.IH [OF rest] show ?case by simp
qed

text \<open>
  The rescan of past issues leaves no request out: when it succeeds, each request of the vault
  either lies within the one range rescanned by the node, whose end is the block before the
  tip, or beyond it, or its address is among those looked up in electrs, as far as it is an
  address at all.
\<close>

theorem past_issues_rescanned:
  assumes run: "add_keys_from_past_issue_request oc L sha256 vk (logged_rescans B) C self vid (w, []) = (Ok (), (w', log))"
    and reqs: "ic_get_vault_issue_requests C self (w, []) = (Ok requests, (w1, []))"
    and mem: "(i, req) \<in> set requests" "is_vault req = vid"
  shows "\<exists>from to. RescanChain from to \<in> set log \<and> (\<exists>count. to = unat (count - 1 :: u64)) \<and>
     (from \<le> unat (is_btc_height req) \<or>
      (\<exists>addrs. RescanElectrs addrs \<in> set log \<and>
         (\<forall>a. to_address L (is_btc_address req) (b_network B) = Ok a \<longrightarrow> a \<in> set addrs)))"
proof -
  define own where "own = filter (\<lambda>(_, issue). is_vault issue = vid) requests"
  have own: "(i, req) \<in> set own" using mem by (simp add: own_def)
  then have ne: "own \<noteq> []" by auto
  let ?start = "unat (Min (set (map (\<lambda>(_, r). is_btc_height r) own)))"
  from run reqs ne have "\<exists>w2 l2 count pruned w5 w6.
      add_deposit_keys sha256 vk (logged_rescans B) own (w1, []) = (Ok (), (w2, l2)) \<and>
      b_rescan_blockchain B (max ?start (unat (pruned :: u64))) (unat (count - 1 :: u64)) w5 = (Ok (), w6) \<and>
      (if ?start < unat pruned then on_bitcoin (b_rescan_electrs_for_addresses (logged_rescans B)
           (electrs_addresses L (b_network B) (unat pruned) own)) else a_ret ())
        (w6, l2 @ [RescanChain (max ?start (unat pruned)) (unat (count - 1))]) = (Ok (), (w', log))"
    unfolding add_keys_from_past_issue_request_def
    by (fastforce simp: a_bind_eq_Ok own_def [symmetric] Let_def on_world_state log_action_Ok a_lift_def plain_sub_def
        split: if_split_asm)
  then obtain l2 count pruned w6 where
      rest: "(if ?start < unat pruned then on_bitcoin (b_rescan_electrs_for_addresses (logged_rescans B)
           (electrs_addresses L (b_network B) (unat pruned) own)) else a_ret ())
        (w6, l2 @ [RescanChain (max ?start (unat (pruned :: u64))) (unat (count - 1 :: u64))]) = (Ok (), (w', log))"
    by blast
  have le: "?start \<le> unat (is_btc_height req)"
  proof -
    have "is_btc_height req \<in> set (map (\<lambda>(_, r). is_btc_height r) own)" using own by force
    then have "Min (set (map (\<lambda>(_, r). is_btc_height r) own)) \<le> is_btc_height req" by (intro Min_le) auto
    then show ?thesis by (simp add: word_le_nat_alt)
  qed
  show ?thesis
  proof (cases "?start < unat pruned")
    case True
    with rest have log: "log = l2 @ [RescanChain (max ?start (unat pruned)) (unat (count - 1)),
        RescanElectrs (electrs_addresses L (b_network B) (unat pruned) own)]"
      by (simp add: log_action_Ok)
    have "a \<in> set (electrs_addresses L (b_network B) (unat pruned) own)"
      if "unat (is_btc_height req) < unat pruned" "to_address L (is_btc_address req) (b_network B) = Ok a" for a
      using own that by (auto simp: electrs_addresses_def set_filter_map intro!: bexI [of _ "(i, req)"])
    with log le show ?thesis
      by (cases "unat (is_btc_height req) < unat pruned") (force simp: not_less)+
  next
    case False
    with rest have "log = l2 @ [RescanChain (max ?start (unat pruned)) (unat (count - 1))]" by simp
    with False le show ?thesis by force
  qed
qed

lemma past_issues_rescanned_witness:
  "\<exists>from to. RescanChain from to \<in> {RescanChain 100 1} \<and> from \<le> unat (is_btc_height (demo_issue 5 Is_Pending))"
proof -
  have run: "add_keys_from_past_issue_request True std_lib (\<lambda>b. b) (\<lambda>k. True) (logged_rescans demo_btc_api)
      demo_issue_calls [] (vault_id_new [] (Token KSM) (Token KBTC)) ((), []) = (Ok (), ((), [RescanChain 100 1]))"
    by (simp add: add_keys_from_past_issue_request_def demo_issue_calls_def demo_issue_def Let_def action_defs
        on_runtime_def on_bitcoin_def add_new_deposit_key_def state_defs demo_btc_api_def log_action_def
        plain_sub_def checked_sub_def)
  have "ic_get_vault_issue_requests demo_issue_calls [] ((), []) =
      (Ok [([7], demo_issue 5 Is_Pending)], ((), [] :: rescan_call list))"
    by (simp add: demo_issue_calls_def a_ret_def)
  from past_issues_rescanned [OF run this, of "[7]" "demo_issue 5 Is_Pending"]
  show ?thesis by (auto simp: demo_issue_def)
qed

text \<open>
  A requested issue is watched under its deposit address, whoever's vault it is for, except
  when it is for one of our own vaults that the manager does not know: then the handler
  returns without watching it.
\<close>

theorem request_issue_watched:
  assumes "\<And>w. fst (publish w) \<noteq> Panic" and "\<And>b x y w. manager (ri_vault_id ev) = Some b \<Longrightarrow> fst (b_add_new_deposit_key b x y w) \<noteq> Panic"
  shows "\<exists>w' s'. on_request_issue sha256 vk self manager publish ev (w, s) = (Ok (), (w', s')) \<and>
     il_set s' = (if account (ri_vault_id ev) = self \<and> manager (ri_vault_id ev) = None then il_set s
                  else snd (rmap_insert (il_set s) (ri_issue_id ev) (ri_vault_address ev)))"
proof (cases "account (ri_vault_id ev) = self")
  case False
  then show ?thesis
    by (simp add: on_request_issue_def watch_issue_def modify_state_def)
next
  case own: True
  show ?thesis
  proof (cases "manager (ri_vault_id ev)")
    case None
    with own show ?thesis by (simp add: on_request_issue_def a_ret_def)
  next
    case (Some b)
    obtain r1 w1 where p: "publish w = (r1, w1)" "r1 \<noteq> Panic" using assms(1) [of w] by (cases "publish w") auto
    obtain r2 w2 where k: "add_new_deposit_key sha256 vk b (ri_issue_id ev) (ri_vault_public_key ev) w1 = (r2, w2)"
      by (meson surj_pair)
    have "r2 \<noteq> Panic"
      using k assms(2) [OF Some, of "ri_vault_public_key ev" "sha256 (ri_vault_public_key ev @ ri_issue_id ev)" w1]
      by (auto simp: add_new_deposit_key_def on_bitcoin_def a_map_err_def a_err_def split: if_splits prod.splits)
    with own Some p k show ?thesis
      by (cases r1; cases r2)
         (simp_all add: on_request_issue_def watch_issue_def send_event_def state_defs action_defs)
  qed
qed

definition demo_request_event :: request_issue_event where
  "demo_request_event = \<lparr>ri_issue_id = [7], ri_vault_id = vault_id_new [1] (Token KSM) (Token KBTC),
     ri_vault_address = P2PKH demo_key, ri_vault_public_key = []\<rparr>"

lemma request_issue_watched_witness:
  "\<exists>w' s'. on_request_issue (\<lambda>b. b) (\<lambda>k. True) [1] (\<lambda>v. None) (a_ret ()) demo_request_event
      ((), \<lparr>il_set = rmap_new, il_channel = []\<rparr>) = (Ok (), (w', s')) \<and> il_set s' = rmap_new"
  using request_issue_watched [of "a_ret ()" "\<lambda>v. None" demo_request_event "\<lambda>b. b" "\<lambda>k. True" "[1]" "()"
      "\<lparr>il_set = rmap_new, il_channel = []\<rparr>"]
  by (simp add: a_ret_def demo_request_event_def vault_id_new_def)

text \<open>
  At start-up the issue set holds exactly the active issues of the parachain, provided their
  ids and their addresses are distinct.
\<close>

theorem initial_issue_set:
  assumes "initialize_issue_set B C (w, rmap_new) = (Ok start, (w', m))"
    and "ic_get_all_active_issues C w = (Ok requests, w1)"
    and "distinct (map fst requests)" and "distinct (map (\<lambda>(_, r). is_btc_address r) requests)"
  shows "rmap_inv m \<and> fwd m = map_of (map (\<lambda>(i, r). (i, is_btc_address r)) requests) \<and>
     (\<forall>(_, r) \<in> set requests. start \<le> is_btc_height r)"
proof -
  from assms(1,2) have m: "m = insert_all rmap_new requests"
    and start: "\<exists>w2. btc_start_height B requests w1 = (Ok start, w2)"
    by (auto simp: initialize_issue_set_def a_bind_eq_Ok on_world_state modify_state_def)
  let ?xs = "map (\<lambda>(i, r). (i, is_btc_address r)) requests"
  have "insert_all rmap_new requests = foldl (\<lambda>m (k, v). snd (rmap_insert m k v)) rmap_new ?xs"
    by (simp add: insert_all_def foldl_map case_prod_unfold)
  moreover have "rmap_inv (foldl (\<lambda>m (k, v). snd (rmap_insert m k v)) rmap_new ?xs) \<and>
      fwd (foldl (\<lambda>m (k, v). snd (rmap_insert m k v)) rmap_new ?xs) = fwd rmap_new ++ map_of ?xs"
    using assms(3,4)
    by (intro iss.add_all) (simp_all add: rmap_inv_new get_key_for_value_def comp_def case_prod_unfold)
  moreover have "start \<le> is_btc_height r" if "(j, r) \<in> set requests" for j r
  proof -
    from that start have "start = Min (set (map (\<lambda>(_, r). is_btc_height r) requests))"
      by (auto simp: btc_start_height_def split: list.splits)
    moreover have "is_btc_height r \<in> set (map (\<lambda>(_, r). is_btc_height r) requests)" using that by force
    ultimately show ?thesis by (auto intro: Min_le)
  qed
  ultimately show ?thesis using m by auto
qed

lemma initial_issue_set_witness:
  "rmap_inv (insert_all rmap_new [([7], demo_issue 5 Is_Pending)])"
proof -
  have run: "initialize_issue_set demo_btc_api demo_issue_calls ((), rmap_new) =
      (Ok 100, ((), insert_all rmap_new [([7], demo_issue 5 Is_Pending)]))"
    by (simp add: initialize_issue_set_def demo_issue_calls_def btc_start_height_def demo_issue_def
        action_defs state_defs on_runtime_def)
  have "ic_get_all_active_issues demo_issue_calls () = (Ok [([7], demo_issue 5 Is_Pending)], ())"
    by (simp add: demo_issue_calls_def a_ret_def)
  from initial_issue_set [OF run this] show ?thesis by simp
qed

end
