(* ===== verification/BitcoinCore.thy ===== *)
theory BitcoinCore
  imports BtcApi Retry
begin

text \<open>
  The Bitcoin Core client of \<open>bitcoin/src/lib.rs\<close>: connecting, the retry loops around wallet
  calls, creating and sending transactions, fee bumps, waiting for blocks and confirmations,
  and the rescans. The JSON-RPC client of the \<open>bitcoincore_rpc\<close> crate is the record
  \<open>core_rpc\<close>. A loop that polls without a bound of its own takes the number of polls it may
  make and is \<open>None\<close> when it would go on.
\<close>

section \<open>The RPC client\<close>

record blockchain_info =
  bi_chain :: string
  bi_initial_block_download :: bool
  bi_fully_verified :: bool
  bi_prune_height :: "u64 option"

text \<open>What \<open>gettransaction\<close> of the wallet reports.\<close>

record wallet_tx =
  wt_confirmations :: int
  wt_blockhash :: "block_hash option"
  wt_blockheight :: "u32 option"
  wt_fee :: "int option"

datatype json_output = JAmount u64 | JData bytes

record funding_options =
  fo_fee_rate_per_kvb :: u64
  fo_change_address :: "address option"
  fo_replaceable :: bool

text \<open>An esplora transaction: its id, status and the addresses its outputs pay.\<close>

record electrs_tx =
  et_txid :: string
  et_status_confirmed :: "bool option"
  et_vout :: "string option list option"

record 'w core_rpc =
  r_get_blockchain_info :: "('w, blockchain_info, core_error) action"
  r_get_network_version :: "('w, nat, core_error) action"
  r_get_block_count :: "('w, u64, core_error) action"
  r_get_block_hash :: "u64 \<Rightarrow> ('w, block_hash, core_error) action"
  r_get_block_confirmations :: "block_hash \<Rightarrow> ('w, int, core_error) action"
  r_get_block :: "block_hash \<Rightarrow> ('w, block, core_error) action"
  r_get_block_header :: "block_hash \<Rightarrow> ('w, block_header, core_error) action"
  r_get_best_block_hash :: "('w, block_hash, core_error) action"
  r_get_balance :: "nat option \<Rightarrow> ('w, u64, core_error) action"
  r_list_transactions :: "nat \<Rightarrow> ('w, list_transaction list, core_error) action"
  r_get_raw_transaction :: "txid \<Rightarrow> block_hash option \<Rightarrow> ('w, transaction, core_error) action"
  r_get_tx_out_proof :: "txid \<Rightarrow> block_hash \<Rightarrow> ('w, bytes, core_error) action"
  r_get_transaction :: "txid \<Rightarrow> ('w, wallet_tx, core_error) action"
  r_get_raw_mempool :: "('w, txid list, core_error) action"
  r_get_new_address :: "string option \<Rightarrow> ('w, address, core_error) action"
  r_get_address_pubkey :: "address \<Rightarrow> ('w, bytes option, core_error) action"
  r_dump_private_key :: "address \<Rightarrow> ('w, bytes, core_error) action"
  r_import_private_key :: "bytes \<Rightarrow> string option \<Rightarrow> bool option \<Rightarrow> ('w, unit, core_error) action"
  r_create_raw_transaction :: "(string \<rightharpoonup> json_output) \<Rightarrow> ('w, bytes, core_error) action"
  r_fund_raw_transaction :: "bytes \<Rightarrow> funding_options \<Rightarrow> ('w, transaction, core_error) action"
  r_sign_raw_transaction :: "transaction \<Rightarrow> ('w, bool \<times> transaction, core_error) action"
  r_send_raw_transaction :: "transaction \<Rightarrow> ('w, txid, core_error) action"
  r_list_wallets :: "('w, string list, core_error) action"
  r_list_wallet_dir :: "('w, string list, core_error) action"
  r_load_wallet :: "string \<Rightarrow> ('w, unit, core_error) action"
  r_create_wallet :: "string \<Rightarrow> ('w, unit, core_error) action"
  r_wallet_scanning :: "('w, bool, core_error) action"
  r_rescan_blockchain :: "nat \<Rightarrow> nat \<Rightarrow> ('w, unit, core_error) action"
  r_list_unspent_count :: "('w, nat, core_error) action"
  r_import_pruned_funds :: "string \<Rightarrow> string \<Rightarrow> ('w, unit, core_error) action"

text \<open>
  The client: besides its RPC handle, the waits its backoffs yield, the sleep, the wallet
  reload (\<open>create_or_load_wallet\<close>, which retries timeouts without bound), the electrs requests
  it makes, and the library functions it calls.
\<close>

record 'w bitcoin_core =
  bc_rpc :: "'w core_rpc"
  bc_wallet_name :: "string option"
  bc_network :: network
  bc_waits :: "'w \<Rightarrow> nat list"
  bc_sleep :: "nat \<Rightarrow> 'w \<Rightarrow> 'w"
  bc_load_wallet :: "('w, unit, bitcoin_error) action"
  bc_electrs_history :: "string \<Rightarrow> ('w, electrs_tx list, electrs_error) action"
  bc_electrs_tx_hex :: "string \<Rightarrow> ('w, string, electrs_error) action"
  bc_electrs_merkle_proof :: "string \<Rightarrow> ('w, string, electrs_error) action"
  bc_address_string :: "address \<Rightarrow> string"
  bc_p2wpkh :: "bytes \<Rightarrow> network \<Rightarrow> (address, conversion_error) result"
  bc_deposit_secret_key :: "bytes \<Rightarrow> bytes \<Rightarrow> (bytes, bitcoin_error) result"
  bc_serialize :: "transaction \<Rightarrow> bytes"
  bc_weight :: "transaction \<Rightarrow> nat"

definition on_core :: "('w, 'a, core_error) action \<Rightarrow> ('w, 'a, bitcoin_error) action" where
  "on_core m = a_map_err Be_BitcoinError m"

definition on_electrs :: "('w, 'a, electrs_error) action \<Rightarrow> ('w, 'a, bitcoin_error) action" where
  "on_electrs m = a_map_err Be_ElectrsError m"

lemma on_core_Ok [simp]: "on_core m w = (Ok a, w') \<longleftrightarrow> m w = (Ok a, w')"
  by (auto simp: on_core_def a_map_err_def split: prod.splits)

lemma on_electrs_Ok [simp]: "on_electrs m w = (Ok a, w') \<longleftrightarrow> m w = (Ok a, w')"
  by (auto simp: on_electrs_def a_map_err_def split: prod.splits)

definition RETRY_DURATION :: nat where "RETRY_DURATION = 1000"
definition RESCAN_POLL_INTERVAL :: nat where "RESCAN_POLL_INTERVAL = 10 * 1000"
definition TRANSPORT_TIMEOUT :: nat where "TRANSPORT_TIMEOUT = 15 * 1000"
definition DEFAULT_MAX_TX_COUNT :: nat where "DEFAULT_MAX_TX_COUNT = 100000000"
definition BITCOIN_CORE_VERSION_23 :: nat where "BITCOIN_CORE_VERSION_23 = 230000"
definition DERIVATION_KEY_LABEL :: string where "DERIVATION_KEY_LABEL = ''derivation-key''"
definition DEPOSIT_LABEL :: string where "DEPOSIT_LABEL = ''deposit''"

definition btc_exponential_backoff :: exponential_backoff where
  "btc_exponential_backoff =
     \<lparr>max_elapsed_time = Some (24 * 60 * 60 * 1000), max_interval = 5 * 60 * 1000,
      initial_interval = 1000, current_interval = 1000,
      multiplier_permille = 2000, randomization_permille = 250\<rparr>"

section \<open>Connecting\<close>

definition parse_bitcoin_network :: "string \<Rightarrow> (network, bitcoin_error) result" where
  "parse_bitcoin_network src =
     (if src = ''main'' then Ok Bitcoin else if src = ''test'' then Ok Testnet
      else if src = ''regtest'' then Ok Regtest else Err Be_InvalidBitcoinNetwork)"

definition get_info :: "'w core_rpc \<Rightarrow> ('w, string \<times> nat, bitcoin_error) action" where
  "get_info rpc =
     a_bind (on_core (r_get_blockchain_info rpc)) (\<lambda>bi.
     a_bind (on_core (r_get_network_version rpc)) (\<lambda>version. a_ret (bi_chain bi, version)))"

definition is_json_syntax_error :: "bitcoin_error \<Rightarrow> bool" where
  "is_json_syntax_error e = (e = Be_BitcoinError (Ce_JsonRpc (Jr_Json CatSyntax)))"

text \<open>\<open>attempts\<close> is the number of rounds that fit into the connection timeout.\<close>

fun connect :: "'w core_rpc \<Rightarrow> (nat \<Rightarrow> 'w \<Rightarrow> 'w) \<Rightarrow> nat \<Rightarrow> ('w, network, bitcoin_error) action" where
  "connect rpc sleep 0 w = (Err Be_TimeElapsed, w)"
| "connect rpc sleep (Suc attempts) w = (case get_info rpc w of
      (Ok (chain, version), w1) \<Rightarrow>
        (if BITCOIN_CORE_VERSION_23 \<le> version then Err (Be_IncompatibleVersion version)
         else parse_bitcoin_network chain, w1)
    | (Err err, w1) \<Rightarrow>
        if is_transport_error err \<or> rpc_error_is RpcInWarmup err \<or> is_json_syntax_error err
        then connect rpc sleep attempts (sleep RETRY_DURATION w1)
        else (Err err, w1)
    | (Panic, w1) \<Rightarrow> (Panic, w1))"

record core_builder =
  cb_url :: string
  cb_wallet_name :: "string option"
  cb_electrs_url :: "string option"

definition builder_new :: "string \<Rightarrow> core_builder" where
  "builder_new url = \<lparr>cb_url = url, cb_wallet_name = None, cb_electrs_url = None\<rparr>"

definition client_url :: "core_builder \<Rightarrow> string" where
  "client_url b = (case cb_wallet_name b of Some x \<Rightarrow> cb_url b @ ''/wallet/'' @ x | None \<Rightarrow> cb_url b)"

fun sync :: "'w bitcoin_core \<Rightarrow> nat \<Rightarrow> 'w \<Rightarrow> ((unit, bitcoin_error) result \<times> 'w) option" where
  "sync B 0 w = None"
| "sync B (Suc n) w = (case on_core (r_get_blockchain_info (bc_rpc B)) w of
      (Ok info, w1) \<Rightarrow> (if \<not> bi_initial_block_download info \<or> bi_fully_verified info then Some (Ok (), w1)
                        else sync B n (bc_sleep B RETRY_DURATION w1))
    | (Err e, w1) \<Rightarrow> Some (Err e, w1)
    | (Panic, w1) \<Rightarrow> Some (Panic, w1))"

section \<open>Retries\<close>

text \<open>A transport error after at least the transport timeout is a timed-out call; \<open>elapsed\<close> reads the clock.\<close>

fun with_retry_on_timeout ::
  "('w \<Rightarrow> 'w \<Rightarrow> nat) \<Rightarrow> ('w, 'a, bitcoin_error) action \<Rightarrow> nat \<Rightarrow> 'w \<Rightarrow> (('a, bitcoin_error) result \<times> 'w) option" where
  "with_retry_on_timeout elapsed call 0 w = None"
| "with_retry_on_timeout elapsed call (Suc n) w = (case call w of
      (Err inner, w1) \<Rightarrow>
        if is_transport_error inner \<and> TRANSPORT_TIMEOUT \<le> elapsed w w1
        then with_retry_on_timeout elapsed call n w1 else Some (Err inner, w1)
    | (r, w1) \<Rightarrow> Some (r, w1))"

fun wallet_loop ::
  "'w bitcoin_core \<Rightarrow> nat list \<Rightarrow> bool \<Rightarrow> ('w, 'a, bitcoin_error) action \<Rightarrow> ('w, 'a, bitcoin_error) action" where
  "wallet_loop B waits retry_on_wallet_error call w =
     (let again = (\<lambda>w2. case waits of
            wait # rest \<Rightarrow> wallet_loop B rest retry_on_wallet_error call (bc_sleep B wait w2)
          | [] \<Rightarrow> (Err Be_ConnectionRefused, w2))
      in (case call w of
            (Err inner, w1) \<Rightarrow>
              if is_wallet_not_found inner
              then (case bc_load_wallet B w1 of
                  (Ok _, w2) \<Rightarrow> again w2
                | (Err e, w2) \<Rightarrow> (Err e, w2)
                | (Panic, w2) \<Rightarrow> (Panic, w2))
              else if retry_on_wallet_error \<and> is_wallet_error inner then again w1
              else (Err inner, w1)
          | (r, w1) \<Rightarrow> (r, w1)))"

declare wallet_loop.simps [simp del]

definition with_wallet_inner ::
  "'w bitcoin_core \<Rightarrow> bool \<Rightarrow> ('w, 'a, bitcoin_error) action \<Rightarrow> ('w, 'a, bitcoin_error) action" where
  "with_wallet_inner B retry_on_wallet_error call w = wallet_loop B (bc_waits B w) retry_on_wallet_error call w"

definition with_wallet :: "'w bitcoin_core \<Rightarrow> ('w, 'a, bitcoin_error) action \<Rightarrow> ('w, 'a, bitcoin_error) action" where
  "with_wallet B call = with_wallet_inner B True call"

text \<open>The \<open>retry\<close> of the backoff crate: every error is transient; the last one is returned.\<close>

fun backoff_retry :: "nat list \<Rightarrow> (nat \<Rightarrow> 'w \<Rightarrow> 'w) \<Rightarrow> ('w, 'a, 'e) action \<Rightarrow> ('w, 'a, 'e) action" where
  "backoff_retry waits sleep call w = (case call w of
      (Err e, w1) \<Rightarrow> (case waits of
          wait # rest \<Rightarrow> backoff_retry rest sleep call (sleep wait w1)
        | [] \<Rightarrow> (Err e, w1))
    | (r, w1) \<Rightarrow> (r, w1))"

declare backoff_retry.simps [simp del]

definition with_backoff :: "'w bitcoin_core \<Rightarrow> ('w, 'a, 'e) action \<Rightarrow> ('w, 'a, 'e) action" where
  "with_backoff B call w = backoff_retry (bc_waits B w) (bc_sleep B) call w"

section \<open>Wallets\<close>

definition create_or_load_wallet_once :: "'w bitcoin_core \<Rightarrow> string \<Rightarrow> ('w, unit, bitcoin_error) action" where
  "create_or_load_wallet_once B wallet_name =
     a_bind (on_core (r_list_wallets (bc_rpc B))) (\<lambda>loaded.
     if wallet_name \<in> set loaded then a_ret ()
     else a_bind (on_core (r_list_wallet_dir (bc_rpc B))) (\<lambda>dir.
       if wallet_name \<in> set dir then on_core (r_load_wallet (bc_rpc B) wallet_name)
       else on_core (r_create_wallet (bc_rpc B) wallet_name)))"

definition create_or_load_wallet ::
  "'w bitcoin_core \<Rightarrow> ('w \<Rightarrow> 'w \<Rightarrow> nat) \<Rightarrow> nat \<Rightarrow> 'w \<Rightarrow> ((unit, bitcoin_error) result \<times> 'w) option" where
  "create_or_load_wallet B elapsed n w = (case bc_wallet_name B of
      None \<Rightarrow> Some (Err Be_WalletNotFound, w)
    | Some wallet_name \<Rightarrow> with_retry_on_timeout elapsed (create_or_load_wallet_once B wallet_name) n w)"

definition wallet_has_public_key :: "'w bitcoin_core \<Rightarrow> bytes \<Rightarrow> ('w, bool, bitcoin_error) action" where
  "wallet_has_public_key B public_key = with_wallet B
     (a_bind (a_lift (map_err Be_ConversionError (bc_p2wpkh B public_key (bc_network B)))) (\<lambda>addr.
      a_bind (on_core (r_get_address_pubkey (bc_rpc B) addr)) (\<lambda>pubkey.
      a_bind (a_lift (ok_or Be_MissingPublicKey pubkey)) (\<lambda>wallet_pubkey. a_ret (wallet_pubkey = public_key)))))"

definition import_private_key :: "'w bitcoin_core \<Rightarrow> bytes \<Rightarrow> ('w, unit, bitcoin_error) action" where
  "import_private_key B privkey = with_wallet B (on_core (r_import_private_key (bc_rpc B) privkey None None))"

fun wait_for_rescan :: "'w bitcoin_core \<Rightarrow> nat \<Rightarrow> 'w \<Rightarrow> ((unit, bitcoin_error) result \<times> 'w) option" where
  "wait_for_rescan B 0 w = None"
| "wait_for_rescan B (Suc n) w = (case on_core (r_wallet_scanning (bc_rpc B)) w of
      (Ok scanning, w1) \<Rightarrow> (if scanning then wait_for_rescan B n (bc_sleep B RESCAN_POLL_INTERVAL w1)
                            else Some (Ok (), w1))
    | (Err e, w1) \<Rightarrow> Some (Err e, w1)
    | (Panic, w1) \<Rightarrow> Some (Panic, w1))"

definition rescan_blockchain ::
  "'w bitcoin_core \<Rightarrow> nat \<Rightarrow> nat \<Rightarrow> nat \<Rightarrow> 'w \<Rightarrow> ((unit, bitcoin_error) result \<times> 'w) option" where
  "rescan_blockchain B start_height end_height n w = (case wait_for_rescan B n w of
      None \<Rightarrow> None
    | Some (Ok _, w1) \<Rightarrow> (case on_core (r_rescan_blockchain (bc_rpc B) start_height end_height) w1 of
          (Err e, w2) \<Rightarrow> if is_transport_error e then wait_for_rescan B n w2 else Some (Err e, w2)
        | x \<Rightarrow> Some x)
    | Some x \<Rightarrow> Some x)"

section \<open>Transactions\<close>

definition create_raw_transaction_hex ::
  "'w bitcoin_core \<Rightarrow> string \<Rightarrow> u64 \<Rightarrow> H256 option \<Rightarrow> ('w, bytes, bitcoin_error) action" where
  "create_raw_transaction_hex B addr amount request_id =
     (let outputs = [addr \<mapsto> JAmount amount];
          outputs = (case request_id of Some rid \<Rightarrow> outputs(''data'' \<mapsto> JData rid) | None \<Rightarrow> outputs)
      in on_core (r_create_raw_transaction (bc_rpc B) outputs))"

text \<open>
  The result is the transaction with the recipient; the lock taken before funding is the
  guard inside \<open>LockedTransaction\<close>, held until the transaction is dropped.
\<close>

definition fund_and_sign_transaction ::
  "'w bitcoin_core \<Rightarrow> sat_per_vbyte \<Rightarrow> bytes \<Rightarrow> address option \<Rightarrow> bool \<Rightarrow> ('w, transaction, bitcoin_error) action" where
  "fund_and_sign_transaction B fee_rate raw_tx return_to_self_address auto_retry =
     with_wallet_inner B auto_retry
       (let funding_opts = \<lparr>fo_fee_rate_per_kvb = saturating_mul fee_rate 1000,
              fo_change_address = return_to_self_address, fo_replaceable = True\<rparr> in
        a_bind (on_core (r_fund_raw_transaction (bc_rpc B) raw_tx funding_opts)) (\<lambda>funded.
        a_bind (on_core (r_sign_raw_transaction (bc_rpc B) funded)) (\<lambda>(errors, signed).
        if errors then a_err Be_TransactionSigningError else a_ret signed)))"

definition create_transaction ::
  "'w bitcoin_core \<Rightarrow> address \<Rightarrow> u64 \<Rightarrow> sat_per_vbyte \<Rightarrow> H256 option \<Rightarrow> ('w, transaction, bitcoin_error) action" where
  "create_transaction B addr sat fee_rate request_id =
     a_bind (with_wallet B (create_raw_transaction_hex B (bc_address_string B addr) sat request_id)) (\<lambda>raw_tx.
     fund_and_sign_transaction B fee_rate raw_tx None True)"

definition send_transaction :: "'w bitcoin_core \<Rightarrow> transaction \<Rightarrow> ('w, txid, bitcoin_error) action" where
  "send_transaction B tx = with_wallet B (on_core (r_send_raw_transaction (bc_rpc B) tx))"

definition create_and_send_transaction ::
  "'w bitcoin_core \<Rightarrow> address \<Rightarrow> u64 \<Rightarrow> sat_per_vbyte \<Rightarrow> H256 option \<Rightarrow> ('w, txid, bitcoin_error) action" where
  "create_and_send_transaction B addr sat fee_rate request_id =
     a_bind (create_transaction B addr sat fee_rate request_id) (send_transaction B)"

text \<open>\<open>Vec::remove\<close>\<close>

definition remove_nth :: "nat \<Rightarrow> 'a list \<Rightarrow> 'a list" where
  "remove_nth i xs = take i xs @ drop (Suc i) xs"

definition prepare_bump ::
  "script_lib \<Rightarrow> network \<Rightarrow> transaction \<Rightarrow> address \<Rightarrow> (transaction \<times> address option, bitcoin_error) result" where
  "prepare_bump L net existing addr =
     rbind (extract_return_to_self_address L existing (addr_payload addr)) (\<lambda>ret.
     case ret of
       Some (idx, payload) \<Rightarrow>
         Ok (existing\<lparr>tx_output := remove_nth idx (tx_output existing)\<rparr>,
             Some \<lparr>addr_payload = payload, addr_network = net\<rparr>)
     | None \<Rightarrow> Ok (existing, None))"

definition bump_fee ::
  "script_lib \<Rightarrow> 'w bitcoin_core \<Rightarrow> txid \<Rightarrow> address \<Rightarrow> sat_per_vbyte \<Rightarrow> ('w, txid, bitcoin_error) action" where
  "bump_fee L B tx_id addr fee_rate =
     a_bind (with_wallet_inner B False
       (a_bind (on_core (r_get_raw_transaction (bc_rpc B) tx_id None)) (\<lambda>existing.
        a_bind (a_lift (prepare_bump L (bc_network B) existing addr)) (\<lambda>(tx, return_to_self).
        a_ret (bc_serialize B tx, return_to_self))))) (\<lambda>(raw_tx, return_to_self).
     a_bind (fund_and_sign_transaction B fee_rate raw_tx return_to_self False) (\<lambda>tx.
     with_wallet_inner B False (on_core (r_send_raw_transaction (bc_rpc B) tx))))"

section \<open>Blocks and confirmations\<close>

definition NOT_IN_MEMPOOL_ERROR_CODE :: int where
  "NOT_IN_MEMPOOL_ERROR_CODE = rpc_code RpcInvalidAddressOrKey"

definition err_not_in_mempool :: "core_error \<Rightarrow> bool" where
  "err_not_in_mempool err = (err = Ce_JsonRpc (Jr_Rpc NOT_IN_MEMPOOL_ERROR_CODE))"

text \<open>\<open>num_confirmations as i32\<close> is the signed reading of the 32 bits.\<close>

fun wait_for_block ::
  "'w bitcoin_core \<Rightarrow> u32 \<Rightarrow> u32 \<Rightarrow> nat \<Rightarrow> 'w \<Rightarrow> ((block, bitcoin_error) result \<times> 'w) option" where
  "wait_for_block B height num_confirmations 0 w = None"
| "wait_for_block B height num_confirmations (Suc n) w =
     (case on_core (r_get_block_hash (bc_rpc B) (ucast height)) w of
        (Ok hash, w1) \<Rightarrow> (case on_core (r_get_block_confirmations (bc_rpc B) hash) w1 of
            (Ok confirmations, w2) \<Rightarrow>
              if sint num_confirmations \<le> confirmations
              then Some (on_core (r_get_block (bc_rpc B) hash) w2)
              else wait_for_block B height num_confirmations n (bc_sleep B RETRY_DURATION w2)
          | (Err e, w2) \<Rightarrow> Some (Err e, w2)
          | (Panic, w2) \<Rightarrow> Some (Panic, w2))
      | (Err err, w1) \<Rightarrow>
          if is_invalid_parameter err
          then wait_for_block B height num_confirmations n (bc_sleep B RETRY_DURATION w1)
          else Some (Err err, w1)
      | (Panic, w1) \<Rightarrow> Some (Panic, w1))"

definition get_block_count :: "'w bitcoin_core \<Rightarrow> ('w, u64, bitcoin_error) action" where
  "get_block_count B = on_core (r_get_block_count (bc_rpc B))"

text \<open>\<open>try_into().unwrap_or_default()\<close> from \<open>u32\<close> to \<open>usize\<close> always fits.\<close>

definition get_balance :: "'w bitcoin_core \<Rightarrow> u32 option \<Rightarrow> ('w, u64, bitcoin_error) action" where
  "get_balance B min_confirmations = on_core (r_get_balance (bc_rpc B) (map_option unat min_confirmations))"

definition list_transactions :: "'w bitcoin_core \<Rightarrow> nat option \<Rightarrow> ('w, list_transaction list, bitcoin_error) action" where
  "list_transactions B max_count = on_core (r_list_transactions (bc_rpc B)
     (case max_count of Some n \<Rightarrow> n | None \<Rightarrow> DEFAULT_MAX_TX_COUNT))"

definition get_raw_tx :: "'w bitcoin_core \<Rightarrow> txid \<Rightarrow> block_hash \<Rightarrow> ('w, bytes, bitcoin_error) action" where
  "get_raw_tx B tx_id hash =
     a_bind (on_core (r_get_raw_transaction (bc_rpc B) tx_id (Some hash))) (\<lambda>tx. a_ret (bc_serialize B tx))"

definition get_transaction :: "'w bitcoin_core \<Rightarrow> txid \<Rightarrow> block_hash option \<Rightarrow> ('w, transaction, bitcoin_error) action" where
  "get_transaction B tx_id hash = on_core (r_get_raw_transaction (bc_rpc B) tx_id hash)"

definition get_proof :: "'w bitcoin_core \<Rightarrow> txid \<Rightarrow> block_hash \<Rightarrow> ('w, bytes, bitcoin_error) action" where
  "get_proof B tx_id hash = on_core (r_get_tx_out_proof (bc_rpc B) tx_id hash)"

definition get_block_hash :: "'w bitcoin_core \<Rightarrow> u32 \<Rightarrow> ('w, block_hash, bitcoin_error) action" where
  "get_block_hash B height =
     a_match (on_core (r_get_block_hash (bc_rpc B) (ucast height))) a_ret
       (\<lambda>err. if is_invalid_parameter err then a_err Be_InvalidBitcoinHeight else a_err err)"

definition get_new_address :: "'w bitcoin_core \<Rightarrow> ('w, address, bitcoin_error) action" where
  "get_new_address B = on_core (r_get_new_address (bc_rpc B) None)"

definition get_new_public_key :: "'w bitcoin_core \<Rightarrow> ('w, bytes, bitcoin_error) action" where
  "get_new_public_key B =
     a_bind (on_core (r_get_new_address (bc_rpc B) (Some DERIVATION_KEY_LABEL))) (\<lambda>addr.
     a_bind (on_core (r_get_address_pubkey (bc_rpc B) addr)) (\<lambda>pubkey.
     a_lift (ok_or Be_MissingPublicKey pubkey)))"

definition dump_derivation_key :: "'w bitcoin_core \<Rightarrow> bytes \<Rightarrow> ('w, bytes, bitcoin_error) action" where
  "dump_derivation_key B public_key =
     a_bind (a_lift (map_err Be_ConversionError (bc_p2wpkh B public_key (bc_network B)))) (\<lambda>addr.
     on_core (r_dump_private_key (bc_rpc B) addr))"

definition import_derivation_key :: "'w bitcoin_core \<Rightarrow> bytes \<Rightarrow> ('w, unit, bitcoin_error) action" where
  "import_derivation_key B private_key =
     on_core (r_import_private_key (bc_rpc B) private_key (Some DERIVATION_KEY_LABEL) (Some False))"

definition core_add_new_deposit_key :: "'w bitcoin_core \<Rightarrow> bytes \<Rightarrow> bytes \<Rightarrow> ('w, unit, bitcoin_error) action" where
  "core_add_new_deposit_key B public_key secret_key =
     a_bind (a_lift (map_err Be_ConversionError (bc_p2wpkh B public_key (bc_network B)))) (\<lambda>addr.
     a_bind (on_core (r_dump_private_key (bc_rpc B) addr)) (\<lambda>private_key.
     a_bind (a_lift (bc_deposit_secret_key B private_key secret_key)) (\<lambda>deposit_secret_key.
     on_core (r_import_private_key (bc_rpc B) deposit_secret_key (Some DEPOSIT_LABEL) (Some False)))))"

definition get_best_block_hash :: "'w bitcoin_core \<Rightarrow> ('w, block_hash, bitcoin_error) action" where
  "get_best_block_hash B = on_core (r_get_best_block_hash (bc_rpc B))"

definition get_pruned_height :: "'w bitcoin_core \<Rightarrow> ('w, u64, bitcoin_error) action" where
  "get_pruned_height B = a_bind (on_core (r_get_blockchain_info (bc_rpc B)))
     (\<lambda>bi. a_ret (case bi_prune_height bi of Some h \<Rightarrow> h | None \<Rightarrow> 0))"

definition get_block :: "'w bitcoin_core \<Rightarrow> block_hash \<Rightarrow> ('w, block, bitcoin_error) action" where
  "get_block B hash = on_core (r_get_block (bc_rpc B) hash)"

definition get_block_header :: "'w bitcoin_core \<Rightarrow> block_hash \<Rightarrow> ('w, block_header, bitcoin_error) action" where
  "get_block_header B hash = on_core (r_get_block_header (bc_rpc B) hash)"

text \<open>The lazy iterator over the mempool, run to its end.\<close>

fun mempool_items :: "'w bitcoin_core \<Rightarrow> txid list \<Rightarrow> 'w \<Rightarrow> (transaction, bitcoin_error) result list \<times> 'w" where
  "mempool_items B [] w = ([], w)"
| "mempool_items B (t # ts) w = (case r_get_raw_transaction (bc_rpc B) t None w of
      (r, w1) \<Rightarrow> (case mempool_items B ts w1 of (rest, w2) \<Rightarrow>
        ((case r of
            Ok x \<Rightarrow> Ok x # rest
          | Err e \<Rightarrow> if err_not_in_mempool e then rest else Err (Be_BitcoinError e) # rest
          | Panic \<Rightarrow> Panic # rest), w2)))"

definition get_mempool_transactions ::
  "'w bitcoin_core \<Rightarrow> ('w, (transaction, bitcoin_error) result list, bitcoin_error) action" where
  "get_mempool_transactions B = a_bind (on_core (r_get_raw_mempool (bc_rpc B)))
     (\<lambda>txids w. case mempool_items B txids w of (items, w') \<Rightarrow> (Ok items, w'))"

definition confirmed_once :: "'w bitcoin_core \<Rightarrow> txid \<Rightarrow> u32 \<Rightarrow> ('w, u32 \<times> block_hash \<times> int option, bitcoin_error) action" where
  "confirmed_once B tx_id num_confirmations =
     a_bind (on_core (r_get_transaction (bc_rpc B) tx_id)) (\<lambda>t.
     case (wt_blockhash t, wt_blockheight t) of
       (Some hash, Some height) \<Rightarrow>
         if 0 \<le> wt_confirmations t \<and> num_confirmations \<le> word_of_int (wt_confirmations t)
         then a_ret (height, hash, wt_fee t) else a_err Be_ConfirmationError
     | _ \<Rightarrow> a_err Be_ConfirmationError)"

definition wait_for_transaction_metadata ::
  "'w bitcoin_core \<Rightarrow> txid \<Rightarrow> u32 \<Rightarrow> ('w, transaction_metadata, bitcoin_error) action" where
  "wait_for_transaction_metadata B tx_id num_confirmations =
     a_bind (with_backoff B (confirmed_once B tx_id num_confirmations)) (\<lambda>(block_height, block_hash, fee).
     a_bind (with_backoff B (get_proof B tx_id block_hash)) (\<lambda>proof.
     a_bind (with_backoff B (get_raw_tx B tx_id block_hash)) (\<lambda>raw_tx.
     a_ret \<lparr>tm_txid = tx_id, tm_proof = proof, tm_raw_tx = raw_tx, tm_block_height = block_height,
            tm_block_hash = block_hash, tm_fee = fee\<rparr>)))"

definition send_to_address ::
  "'w bitcoin_core \<Rightarrow> address \<Rightarrow> u64 \<Rightarrow> H256 option \<Rightarrow> sat_per_vbyte \<Rightarrow> u32 \<Rightarrow> ('w, transaction_metadata, bitcoin_error) action" where
  "send_to_address B addr sat request_id fee_rate num_confirmations =
     a_bind (create_and_send_transaction B addr sat fee_rate request_id) (\<lambda>tx_id.
     wait_for_transaction_metadata B tx_id num_confirmations)"

section \<open>Pruned payments, counts and fees\<close>

definition confirmed_payment_to :: "string \<Rightarrow> electrs_tx \<Rightarrow> bool" where
  "confirmed_payment_to addr tx \<longleftrightarrow> et_status_confirmed tx \<noteq> Some False \<and>
     Some addr \<in> set (case et_vout tx of Some outs \<Rightarrow> outs | None \<Rightarrow> [])"

fun import_payments :: "'w bitcoin_core \<Rightarrow> electrs_tx list \<Rightarrow> ('w, unit, bitcoin_error) action" where
  "import_payments B [] = a_ret ()"
| "import_payments B (t # ts) =
     a_bind (on_electrs (bc_electrs_tx_hex B (et_txid t))) (\<lambda>raw_tx.
     a_bind (on_electrs (bc_electrs_merkle_proof B (et_txid t))) (\<lambda>proof.
     a_bind (on_core (r_import_pruned_funds (bc_rpc B) raw_tx proof)) (\<lambda>_. import_payments B ts)))"

fun rescan_electrs_for_addresses :: "'w bitcoin_core \<Rightarrow> address list \<Rightarrow> ('w, unit, bitcoin_error) action" where
  "rescan_electrs_for_addresses B [] = a_ret ()"
| "rescan_electrs_for_addresses B (a # addrs) =
     (let addr = bc_address_string B a in
      a_bind (on_electrs (bc_electrs_history B addr)) (\<lambda>all_transactions.
      a_bind (import_payments B (filter (confirmed_payment_to addr) all_transactions)) (\<lambda>_.
      rescan_electrs_for_addresses B addrs)))"

definition get_utxo_count :: "'w bitcoin_core \<Rightarrow> ('w, nat, bitcoin_error) action" where
  "get_utxo_count B = on_core (r_list_unspent_count (bc_rpc B))"

definition is_in_mempool :: "'w bitcoin_core \<Rightarrow> txid \<Rightarrow> ('w, bool, bitcoin_error) action" where
  "is_in_mempool B tx_id = a_bind (on_core (r_get_transaction (bc_rpc B) tx_id)) (\<lambda>t. a_ret (wt_confirmations t = 0))"

text \<open>
  The fee in sat/vB from a weight and the reported fee; \<open>usize\<close> is 64 bits, \<open>fee\<close> an \<open>i64\<close>,
  whose absolute value overflows for the smallest one.
\<close>

definition rate_of :: "nat \<Rightarrow> int option \<Rightarrow> (sat_per_vbyte, bitcoin_error) result" where
  "rate_of weight fee =
     rbind (if weight + 3 < 2 ^ 64 then Ok ((weight + 3) div 4) else Err Be_ArithmeticError) (\<lambda>vsize.
     rbind (ok_or Be_MissingBitcoinFeeInfo fee) (\<lambda>sat.
     rbind (if sat = - (2 ^ 63) then Err Be_ArithmeticError else Ok (nat \<bar>sat\<bar>)) (\<lambda>abs_fee.
     if vsize = 0 then Err Be_ArithmeticError else Ok (of_nat (abs_fee div vsize)))))"

definition fee_rate :: "'w bitcoin_core \<Rightarrow> txid \<Rightarrow> ('w, sat_per_vbyte, bitcoin_error) action" where
  "fee_rate B tx_id =
     a_bind (on_core (r_get_raw_transaction (bc_rpc B) tx_id None)) (\<lambda>tx.
     a_bind (on_core (r_get_transaction (bc_rpc B) tx_id)) (\<lambda>t.
     a_lift (rate_of (bc_weight B tx) (wt_fee t))))"

end
