(* ===== verification/ActionLogic.thy ===== *)
theory ActionLogic
  imports Prelude
begin

text \<open>
  Reasoning about actions by pre- and postconditions. \<open>triple Z P m Q E\<close>: started in a world
  with \<open>P\<close>, the action \<open>m\<close> ends in one with \<open>Q\<close> of its value, with \<open>E\<close> of its error, or
  panics in one with \<open>Z\<close>. The rules below take an action apart along its definition; \<open>polling\<close>
  is the interface of the loops that poll until a step decides.
\<close>

named_theorems triple_intro \<open>rules that decompose an action\<close>

definition triple ::
  "('w \<Rightarrow> bool) \<Rightarrow> ('w \<Rightarrow> bool) \<Rightarrow> ('w, 'a, 'e) action \<Rightarrow> ('a \<Rightarrow> 'w \<Rightarrow> bool) \<Rightarrow> ('e \<Rightarrow> 'w \<Rightarrow> bool) \<Rightarrow> bool" where
  "triple Z P m Q E \<longleftrightarrow> (\<forall>w. P w \<longrightarrow> (case m w of
      (Ok a, w') \<Rightarrow> Q a w' | (Err e, w') \<Rightarrow> E e w' | (Panic, w') \<Rightarrow> Z w'))"

lemma tripleI:
  assumes "\<And>w a w'. P w \<Longrightarrow> m w = (Ok a, w') \<Longrightarrow> Q a w'"
    and "\<And>w e w'. P w \<Longrightarrow> m w = (Err e, w') \<Longrightarrow> E e w'"
    and "\<And>w w'. P w \<Longrightarrow> m w = (Panic, w') \<Longrightarrow> Z w'"
  shows "triple Z P m Q E"
  using assms by (auto simp: triple_def split: prod.splits result.splits)

lemma tripleD:
  assumes "triple Z P m Q E" and "P w" and "m w = (r, w')"
  shows "r = Ok a \<Longrightarrow> Q a w'" and "r = Err e \<Longrightarrow> E e w'" and "r = Panic \<Longrightarrow> Z w'"
  using assms by (auto simp: triple_def split: prod.splits result.splits)

lemma triple_any:
  assumes "triple Z P m (\<lambda>_. Z) (\<lambda>_. Z)" and "P w" and "m w = (r, w')"
  shows "Z w'"
  using tripleD [OF assms] by (cases r) auto

lemma triple_conseq:
  assumes "triple Z P m Q E" and "\<And>w. P' w \<Longrightarrow> P w" and "\<And>a w. Q a w \<Longrightarrow> Q' a w"
    and "\<And>e w. E e w \<Longrightarrow> E' e w" and "\<And>w. Z w \<Longrightarrow> Z' w"
  shows "triple Z' P' m Q' E'"
  using assms by (fastforce simp: triple_def split: prod.splits result.splits)

lemma triple_pre: "triple Z P m Q E \<Longrightarrow> (\<And>w. P' w \<Longrightarrow> P w) \<Longrightarrow> triple Z P' m Q E"
  by (rule triple_conseq)

lemma triple_conj_fact: "(A \<Longrightarrow> triple Z P m Q E) \<Longrightarrow> triple Z (\<lambda>w. A \<and> P w) m Q E"
  by (auto simp: triple_def)

lemma triple_ret [triple_intro]: "(\<And>w. P w \<Longrightarrow> Q a w) \<Longrightarrow> triple Z P (a_ret a) Q E"
  by (simp add: triple_def a_ret_def)

lemma triple_err [triple_intro]: "(\<And>w. P w \<Longrightarrow> E e w) \<Longrightarrow> triple Z P (a_err e) Q E"
  by (simp add: triple_def a_err_def)

lemma triple_lift [triple_intro]:
  "(\<And>a w. r = Ok a \<Longrightarrow> P w \<Longrightarrow> Q a w) \<Longrightarrow> (\<And>e w. r = Err e \<Longrightarrow> P w \<Longrightarrow> E e w) \<Longrightarrow>
   (\<And>w. r = Panic \<Longrightarrow> P w \<Longrightarrow> Z w) \<Longrightarrow> triple Z P (a_lift r) Q E"
  by (cases r) (simp_all add: triple_def a_lift_def)

lemma triple_match [triple_intro]:
  assumes "triple Z P m R F" and "\<And>a. triple Z (R a) (f a) Q E" and "\<And>e. triple Z (F e) (g e) Q E"
  shows "triple Z P (a_match m f g) Q E"
  using assms by (fastforce simp: triple_def a_match_def split: prod.splits result.splits)

lemma triple_bind [triple_intro]:
  assumes "triple Z P m R E" and "\<And>a. triple Z (R a) (f a) Q E"
  shows "triple Z P (a_bind m f) Q E"
  unfolding a_bind_def by (rule triple_match [OF assms]) (simp add: triple_def a_err_def)

lemma triple_map_err [triple_intro]:
  "triple Z P m Q (\<lambda>e. E (h e)) \<Longrightarrow> triple Z P (a_map_err h m) Q E"
  unfolding triple_def a_map_err_def by (force split: prod.splits result.splits elim: map_err.elims)

lemma triple_ignore [triple_intro]:
  assumes "triple Z P m (\<lambda>_. Q ()) (\<lambda>_. Q ())"
  shows "triple Z P (a_ignore m) Q E"
  unfolding a_ignore_def by (rule triple_match [OF assms]) (rule triple_ret, assumption)+

lemma triple_if [triple_intro]:
  "(b \<Longrightarrow> triple Z P m Q E) \<Longrightarrow> (\<not> b \<Longrightarrow> triple Z P m' Q E) \<Longrightarrow> triple Z P (if b then m else m') Q E"
  by simp

lemma triple_option [triple_intro]:
  "(x = None \<Longrightarrow> triple Z P m Q E) \<Longrightarrow> (\<And>a. x = Some a \<Longrightarrow> triple Z P (f a) Q E) \<Longrightarrow>
   triple Z P (case x of None \<Rightarrow> m | Some a \<Rightarrow> f a) Q E"
  by (cases x) simp_all

text \<open>An action on the world alone keeps what is said of the state beside it.\<close>

lemma triple_world [triple_intro]:
  assumes "\<And>w s a w'. P (w, s) \<Longrightarrow> m w = (Ok a, w') \<Longrightarrow> Q a (w', s)"
    and "\<And>w s e w'. P (w, s) \<Longrightarrow> m w = (Err e, w') \<Longrightarrow> E e (w', s)"
    and "\<And>w s w'. P (w, s) \<Longrightarrow> m w = (Panic, w') \<Longrightarrow> Z (w', s)"
  shows "triple Z P (on_world m) Q E"
  by (rule tripleI) (auto simp: on_world_def split: prod.splits intro: assms)

text \<open>The state beside the world: a predicate on it, read and changed.\<close>

lemma triple_on_state:
  assumes "\<And>w s r w' s'. P s \<Longrightarrow> m (w, s) = (r, (w', s')) \<Longrightarrow>
    (case r of Ok a \<Rightarrow> Q a s' | Err e \<Rightarrow> E e s' | Panic \<Rightarrow> Z s')"
  shows "triple (\<lambda>ws. Z (snd ws)) (\<lambda>ws. P (snd ws)) m (\<lambda>a ws. Q a (snd ws)) (\<lambda>e ws. E e (snd ws))"
  unfolding triple_def using assms by (fastforce split: prod.splits result.splits)

lemma triple_get_state [triple_intro]:
  assumes "\<And>s. P s \<Longrightarrow> triple Z (\<lambda>ws. snd ws = s) (f s) Q E"
  shows "triple Z (\<lambda>ws. P (snd ws)) (a_bind get_state f) Q E"
  using assms by (fastforce simp: triple_def a_bind_def a_match_def get_state_def split: prod.splits result.splits)

lemma triple_modify_state [triple_intro]:
  "(\<And>s. P s \<Longrightarrow> Q () (f s)) \<Longrightarrow> triple Z (\<lambda>ws. P (snd ws)) (modify_state f) (\<lambda>u ws. Q u (snd ws)) E"
  by (auto simp: triple_def modify_state_def)

lemma triple_world_state:
  assumes "\<And>a s. P s \<Longrightarrow> Q a s" "\<And>e s. P s \<Longrightarrow> E e s" "\<And>s. P s \<Longrightarrow> Z s"
  shows "triple (\<lambda>ws. Z (snd ws)) (\<lambda>ws. P (snd ws)) (on_world m) (\<lambda>a ws. Q a (snd ws)) (\<lambda>e ws. E e (snd ws))"
  by (rule triple_world) (auto intro: assms)

text \<open>A call that succeeds with \<open>a\<close> in some world.\<close>

definition may_return :: "('w, 'a, 'e) action \<Rightarrow> 'a \<Rightarrow> bool" where
  "may_return m a \<longleftrightarrow> (\<exists>w w'. m w = (Ok a, w'))"

lemma triple_reads:
  assumes "\<And>a s. P s \<Longrightarrow> may_return m a \<Longrightarrow> Q a s" "\<And>e s. P s \<Longrightarrow> E e s" "\<And>s. P s \<Longrightarrow> Z s"
  shows "triple (\<lambda>ws. Z (snd ws)) (\<lambda>ws. P (snd ws)) (on_world m) (\<lambda>a ws. Q a (snd ws)) (\<lambda>e ws. E e (snd ws))"
proof (rule triple_world)
  fix w s a w'
  assume "P (snd (w, s))" "m w = (Ok a, w')"
  then show "Q a (snd (w', s))" using assms(1) [of s a] unfolding may_return_def by auto
qed (simp_all add: assms(2,3))

text \<open>\<open>log_result f m\<close> appends \<open>f r\<close> to the log, \<open>r\<close> being the result of the call.\<close>

definition log_result :: "(('a, 'e) result \<Rightarrow> 'l list) \<Rightarrow> ('w, 'a, 'e) action \<Rightarrow> ('w \<times> 'l list, 'a, 'e) action" where
  "log_result f m wl = (case wl of (w, log) \<Rightarrow> case m w of (r, w') \<Rightarrow> (r, (w', log @ f r)))"

lemma triple_log [triple_intro]:
  assumes "\<And>w l a w'. P (w, l) \<Longrightarrow> m w = (Ok a, w') \<Longrightarrow> Q a (w', l @ f (Ok a))"
    and "\<And>w l e w'. P (w, l) \<Longrightarrow> m w = (Err e, w') \<Longrightarrow> E e (w', l @ f (Err e))"
    and "\<And>w l w'. P (w, l) \<Longrightarrow> m w = (Panic, w') \<Longrightarrow> Z (w', l @ f Panic)"
  shows "triple Z P (log_result f m) Q E"
  by (rule tripleI) (auto simp: log_result_def split: prod.splits intro: assms)

section \<open>Invariants\<close>

text \<open>An action that keeps \<open>I\<close>, however it ends.\<close>

named_theorems keeps_intro \<open>rules for actions that keep an invariant\<close>

definition keeps :: "('w \<Rightarrow> bool) \<Rightarrow> ('w, 'a, 'e) action \<Rightarrow> bool" where
  "keeps I m \<longleftrightarrow> triple I I m (\<lambda>_. I) (\<lambda>_. I)"

lemma keeps_triple: "keeps I m \<Longrightarrow> triple I I m (\<lambda>_. I) (\<lambda>_. I)"
  by (simp add: keeps_def)

lemma keepsI: "(\<And>w r w'. I w \<Longrightarrow> m w = (r, w') \<Longrightarrow> I w') \<Longrightarrow> keeps I m"
  by (auto simp: keeps_def intro: tripleI)

lemma keepsD: "keeps I m \<Longrightarrow> I w \<Longrightarrow> m w = (r, w') \<Longrightarrow> I w'"
  unfolding keeps_def by (rule triple_any)

lemma triple_from_keeps:
  assumes "\<And>w. P w \<Longrightarrow> \<exists>I. keeps I m \<and> I w \<and> (\<forall>w'. I w' \<longrightarrow> Z w')"
  shows "triple Z P m (\<lambda>_. Z) (\<lambda>_. Z)"
proof -
  have "Z w'" if w: "P w" and m: "m w = (r, w')" for w r w'
  proof -
    from assms [OF w] obtain I where I: "keeps I m" "I w" and Z: "\<forall>w'. I w' \<longrightarrow> Z w'" by blast
    from Z keepsD [OF I m] show ?thesis by blast
  qed
  then show ?thesis by (intro tripleI) blast+
qed

lemma keeps_simple [keeps_intro]: "keeps I (a_ret a)" "keeps I (a_err e)" "keeps I (a_lift r)"
  by (auto intro!: keepsI simp: action_defs)

lemma keeps_match [keeps_intro]:
  "keeps I m \<Longrightarrow> (\<And>a. keeps I (f a)) \<Longrightarrow> (\<And>e. keeps I (g e)) \<Longrightarrow> keeps I (a_match m f g)"
  unfolding keeps_def by (rule triple_match)

lemma keeps_bind [keeps_intro]: "keeps I m \<Longrightarrow> (\<And>a. keeps I (f a)) \<Longrightarrow> keeps I (a_bind m f)"
  unfolding keeps_def by (rule triple_bind)

lemma keeps_wrapped [keeps_intro]:
  "keeps I m \<Longrightarrow> keeps I (a_map_err h m)" "keeps I m \<Longrightarrow> keeps I (a_ignore m)"
  unfolding keeps_def by (rule triple_map_err triple_ignore, assumption)+

lemma keeps_cases [keeps_intro]:
  "keeps I m \<Longrightarrow> keeps I m' \<Longrightarrow> keeps I (if b then m else m')"
  "keeps I m \<Longrightarrow> (\<And>a. keeps I (f a)) \<Longrightarrow> keeps I (case x of None \<Rightarrow> m | Some a \<Rightarrow> f a)"
  "(\<And>a b. keeps I (h a b)) \<Longrightarrow> keeps I (case p of (a, b) \<Rightarrow> h a b)"
  by (auto split: option.splits prod.splits)

text \<open>What is said of the state beside the world is kept by an action on the world alone.\<close>

abbreviation on_log :: "('s \<Rightarrow> bool) \<Rightarrow> 'w \<times> 's \<Rightarrow> bool" where
  "on_log I ws \<equiv> I (snd ws)"

lemma keeps_world [keeps_intro]: "keeps (on_log I) (on_world m)"
  by (rule keepsI) (auto simp: on_world_def split: prod.splits)

lemma keeps_log_result [keeps_intro]:
  "(\<And>l r. I l \<Longrightarrow> I (l @ f r)) \<Longrightarrow> keeps (on_log I) (log_result f m)"
  by (rule keepsI) (auto simp: log_result_def split: prod.splits)

lemma keeps_mapM [keeps_intro]: "(\<And>x. keeps I (f x)) \<Longrightarrow> keeps I (a_mapM f xs)"
  by (induction xs) (auto intro!: keeps_intro)

section \<open>Loops\<close>

text \<open>
  A loop of an asynchronous task, run for at most \<open>n\<close> rounds: \<open>step\<close> goes on from a new state
  (\<open>Inl\<close>) or ends with a value (\<open>Inr\<close>); \<open>None\<close> is a loop that is still running.
\<close>

fun a_loop :: "('s \<Rightarrow> ('w, 's + 'r, 'e) action) \<Rightarrow> nat \<Rightarrow> 's \<Rightarrow> ('w, 'r option, 'e) action" where
  "a_loop step 0 s = a_ret None"
| "a_loop step (Suc n) s =
     a_bind (step s) (\<lambda>x. case x of Inl s' \<Rightarrow> a_loop step n s' | Inr r \<Rightarrow> a_ret (Some r))"

lemma triple_loop:
  assumes "\<And>s. triple Z (I s) (step s) (\<lambda>x. case x of Inl s' \<Rightarrow> I s' | Inr r \<Rightarrow> Q (Some r)) E"
    and "\<And>s w. I s w \<Longrightarrow> Q None w"
  shows "triple Z (I s) (a_loop step n s) Q E"
proof (induction n arbitrary: s)
  case 0
  show ?case by (simp, rule triple_ret) (rule assms(2))
next
  case (Suc n)
  show ?case
    by (simp only: a_loop.simps, rule triple_bind [OF assms(1)])
      (auto split: sum.splits intro: Suc triple_ret)
qed

lemma keeps_loop [keeps_intro]: "(\<And>s. keeps I (step s)) \<Longrightarrow> keeps I (a_loop step n s)"
  unfolding keeps_def by (rule triple_loop) (auto intro!: triple_conseq [of I I] split: sum.splits)

text \<open>
  A \<open>for\<close> loop with an early return: \<open>step x\<close> goes on from a new state (\<open>Inl\<close>) or returns (\<open>Inr\<close>).
\<close>

fun a_fold :: "('x \<Rightarrow> 's \<Rightarrow> ('w, 's + 'r, 'e) action) \<Rightarrow> 'x list \<Rightarrow> 's \<Rightarrow> ('w, 's + 'r, 'e) action" where
  "a_fold step [] s = a_ret (Inl s)"
| "a_fold step (x # xs) s =
     a_bind (step x s) (\<lambda>y. case y of Inl s' \<Rightarrow> a_fold step xs s' | Inr r \<Rightarrow> a_ret (Inr r))"

lemma triple_fold:
  assumes "\<And>x s. triple Z (I s) (step x s) (\<lambda>y. case y of Inl s' \<Rightarrow> I s' | Inr r \<Rightarrow> Q r) E"
  shows "triple Z (I s) (a_fold step xs s) (\<lambda>y. case y of Inl s' \<Rightarrow> I s' | Inr r \<Rightarrow> Q r) E"
proof (induction xs arbitrary: s)
  case Nil
  show ?case by (simp, rule triple_ret) simp
next
  case (Cons x xs)
  show ?case
    by (simp only: a_fold.simps, rule triple_bind [OF assms])
      (auto split: sum.splits intro: Cons triple_ret)
qed

lemma keeps_fold [keeps_intro]: "(\<And>x s. keeps I (step x s)) \<Longrightarrow> keeps I (a_fold step xs s)"
  unfolding keeps_def
  by (rule triple_conseq [OF triple_fold [where I = "\<lambda>_. I" and Q = "\<lambda>_. I" and E = "\<lambda>_. I"]])
    (auto intro!: triple_conseq [of I I] split: sum.splits)

text \<open>A loop that has ended has ended: more rounds do not change what it did.\<close>

lemma a_loop_more:
  assumes "a_loop step n s w = (r, w')" and "r \<noteq> Ok None" and "n \<le> m"
  shows "a_loop step m s w = (r, w')"
  using assms
proof (induction n arbitrary: m s w)
  case 0
  then show ?case by (simp add: a_ret_def)
next
  case (Suc n)
  then obtain m' where m: "m = Suc m'" "n \<le> m'" by (cases m) auto
  obtain x w1 where s: "step s w = (x, w1)" by fastforce
  show ?case
  proof (cases "\<exists>s'. x = Ok (Inl s')")
    case True
    with Suc.prems s have "\<exists>s'. x = Ok (Inl s') \<and> a_loop step n s' w1 = (r, w')"
      by (auto simp: action_defs)
    with Suc.IH [OF _ Suc.prems(2) m(2)] m(1) s show ?thesis by (auto simp: action_defs)
  next
    case False
    with Suc.prems s m(1) show ?thesis
      by (auto simp: action_defs split: result.splits sum.splits)
  qed
qed

section \<open>Polling\<close>

text \<open>
  A loop that runs \<open>step\<close> until it decides (\<open>Inr\<close>), from the world the last step left (\<open>Inl\<close>),
  at most \<open>n\<close> times. Its clients learn exactly when it returns, and with what.
\<close>

locale polling =
  fixes step :: "'w \<Rightarrow> 'w + 'r" and loop :: "nat \<Rightarrow> 'w \<Rightarrow> 'r option"
  assumes loop_0: "loop 0 w = None"
    and loop_Suc: "loop (Suc n) w = (case step w of Inl w1 \<Rightarrow> loop n w1 | Inr r \<Rightarrow> Some r)"
begin

inductive polled :: "nat \<Rightarrow> 'w \<Rightarrow> 'w \<Rightarrow> bool" where
  polled_0: "polled 0 w w"
| polled_Suc: "step w = Inl w1 \<Longrightarrow> polled i w1 w2 \<Longrightarrow> polled (Suc i) w w2"

lemma loop_SomeD: "loop n w = Some r \<Longrightarrow> \<exists>i<n. \<exists>v. polled i w v \<and> step v = Inr r"
proof (induction n arbitrary: w)
  case 0
  then show ?case by (simp add: loop_0)
next
  case (Suc n)
  show ?case
  proof (cases "step w")
    case (Inl w1)
    with Suc.prems have "loop n w1 = Some r" by (simp add: loop_Suc)
    then obtain i v where "i < n" "polled i w1 v" "step v = Inr r"
      using Suc.IH by blast
    moreover from Inl this(2) have "polled (Suc i) w v" by (rule polled_Suc)
    ultimately show ?thesis by (intro exI [of _ "Suc i"]) auto
  next
    case (Inr r')
    with Suc.prems have "r' = r" by (simp add: loop_Suc)
    with Inr polled_0 show ?thesis by (intro exI [of _ 0]) auto
  qed
qed

lemma loop_SomeI: "polled i w v \<Longrightarrow> step v = Inr r \<Longrightarrow> i < n \<Longrightarrow> loop n w = Some r"
proof (induction i w v arbitrary: n rule: polled.induct)
  case (polled_0 w)
  then show ?case by (cases n) (simp_all add: loop_Suc)
next
  case (polled_Suc w w1 i w2)
  then show ?case by (cases n) (simp_all add: loop_Suc)
qed

lemma loop_iff: "loop n w = Some r \<longleftrightarrow> (\<exists>i<n. \<exists>v. polled i w v \<and> step v = Inr r)"
  using loop_SomeD loop_SomeI by blast

lemma loop_more: "loop n w = Some r \<Longrightarrow> n \<le> m \<Longrightarrow> loop m w = Some r"
  by (meson loop_iff order_less_le_trans)

end

end
