(* ===== verification/CoreFacts.thy ===== *)
theory CoreFacts
  imports BitcoinCore ActionLogic
begin

text \<open>
  What the Bitcoin Core client guarantees: its wallet retries are an instance of the retry
  loop, its unbounded polls of one polling interface, fee bumps keep the payment, and under the lock
  around funding only the transactions of one payment share inputs.
\<close>

section \<open>Polling loops\<close>

text \<open>The unbounded loops of the client, each an instance of \<open>polling\<close>.\<close>

definition block_poll ::
  "'w bitcoin_core \<Rightarrow> u32 \<Rightarrow> u32 \<Rightarrow> 'w \<Rightarrow> 'w + ((block, bitcoin_error) result \<times> 'w)" where
  "block_poll B height nc w = (case on_core (r_get_block_hash (bc_rpc B) (ucast height)) w of
      (Ok hash, w1) \<Rightarrow> (case on_core (r_get_block_confirmations (bc_rpc B) hash) w1 of
          (Ok confirmations, w2) \<Rightarrow>
            if sint nc \<le> confirmations then Inr (on_core (r_get_block (bc_rpc B) hash) w2)
            else Inl (bc_sleep B RETRY_DURATION w2)
        | (Err e, w2) \<Rightarrow> Inr (Err e, w2)
        | (Panic, w2) \<Rightarrow> Inr (Panic, w2))
    | (Err err, w1) \<Rightarrow>
        if is_invalid_parameter err then Inl (bc_sleep B RETRY_DURATION w1) else Inr (Err err, w1)
    | (Panic, w1) \<Rightarrow> Inr (Panic, w1))"

definition rescan_poll :: "'w bitcoin_core \<Rightarrow> 'w \<Rightarrow> 'w + ((unit, bitcoin_error) result \<times> 'w)" where
  "rescan_poll B w = (case on_core (r_wallet_scanning (bc_rpc B)) w of
      (Ok scanning, w1) \<Rightarrow> if scanning then Inl (bc_sleep B RESCAN_POLL_INTERVAL w1) else Inr (Ok (), w1)
    | (Err e, w1) \<Rightarrow> Inr (Err e, w1)
    | (Panic, w1) \<Rightarrow> Inr (Panic, w1))"

definition timeout_poll ::
  "('w \<Rightarrow> 'w \<Rightarrow> nat) \<Rightarrow> ('w, 'a, bitcoin_error) action \<Rightarrow> 'w \<Rightarrow> 'w + (('a, bitcoin_error) result \<times> 'w)" where
  "timeout_poll elapsed call w = (case call w of
      (Err e, w1) \<Rightarrow> if is_transport_error e \<and> TRANSPORT_TIMEOUT \<le> elapsed w w1 then Inl w1 else Inr (Err e, w1)
    | (r, w1) \<Rightarrow> Inr (r, w1))"

interpretation wb: polling "block_poll B h nc" "wait_for_block B h nc" for B h nc
  by unfold_locales (auto simp: block_poll_def split: prod.splits result.splits)

interpretation wr: polling "rescan_poll B" "wait_for_rescan B" for B
  by unfold_locales (auto simp: rescan_poll_def split: prod.splits result.splits)

interpretation rt: polling "timeout_poll elapsed call" "with_retry_on_timeout elapsed call" for elapsed call
  by unfold_locales (auto simp: timeout_poll_def split: prod.splits result.splits)

section \<open>Wallet retries\<close>

definition wallet_verify ::
  "'w bitcoin_core \<Rightarrow> bool \<Rightarrow> ('a, bitcoin_error) result \<Rightarrow> ('w, 'a, bitcoin_error retry_policy) action" where
  "wallet_verify B retry_on_wallet_error r = (case r of
      Ok a \<Rightarrow> a_ret a
    | Panic \<Rightarrow> a_lift Panic
    | Err inner \<Rightarrow>
        if is_wallet_not_found inner
        then a_match (bc_load_wallet B) (\<lambda>_. a_err (Skip inner)) (\<lambda>e. a_err (Throw e))
        else if retry_on_wallet_error \<and> is_wallet_error inner then a_err (Skip inner)
        else a_err (Throw inner))"

lemma wallet_verify_simps:
  "wallet_verify B flag (Ok a) = a_ret a"
  "wallet_verify B flag Panic = a_lift Panic"
  "wallet_verify B flag (Err e) =
     (if is_wallet_not_found e then a_match (bc_load_wallet B) (\<lambda>_. a_err (Skip e)) (\<lambda>e. a_err (Throw e))
      else if flag \<and> is_wallet_error e then a_err (Skip e) else a_err (Throw e))"
  by (simp_all add: wallet_verify_def)

lemma wallet_loop_retry:
  "wallet_loop B waits flag call w =
     retry_loop Be_ConnectionRefused waits (bc_sleep B) call (wallet_verify B flag) w"
proof (induction waits arbitrary: w)
  case Nil
  show ?case
    by (subst wallet_loop.simps, subst retry_loop.simps)
       (auto simp: wallet_verify_simps action_defs Let_def split: prod.splits result.splits)
next
  case (Cons t ts)
  then show ?case
    by (subst wallet_loop.simps, subst retry_loop.simps)
       (auto simp: wallet_verify_simps action_defs Let_def split: prod.splits result.splits)
qed

definition wallet_failure :: "'w bitcoin_core \<Rightarrow> bool \<Rightarrow> ('w, 'a, bitcoin_error) action \<Rightarrow> 'w \<Rightarrow> bitcoin_error \<Rightarrow> bool" where
  "wallet_failure B flag call w e \<longleftrightarrow>
     (\<exists>w0. call w0 = (Err e, w) \<and> \<not> is_wallet_not_found e \<and> \<not> (flag \<and> is_wallet_error e)) \<or>
     (\<exists>w0. bc_load_wallet B w0 = (Err e, w))"

interpretation ww: retried "bc_sleep B" call "wallet_verify B flag" "\<lambda>_ _. True"
  "\<lambda>w a. \<exists>w0. call w0 = (Ok a, w)" "wallet_failure B flag call" for B flag call
  by unfold_locales
     (auto simp: wallet_verify_def action_defs wallet_failure_def split: result.splits if_splits prod.splits)

section \<open>Fee bumps\<close>

lemma set_remove_nth: "i < length xs \<Longrightarrow> xs = take i (remove_nth i xs) @ xs ! i # drop i (remove_nth i xs)"
  by (simp add: remove_nth_def id_take_nth_drop [symmetric] min_def)

lemma find_map_remove_nth:
  "i < length xs \<Longrightarrow> f (xs ! i) = None \<Longrightarrow> find_map f (remove_nth i xs) = find_map f xs"
  by (subst (3) id_take_nth_drop) (auto simp: remove_nth_def find_map_append split: option.splits)

lemma find_map_take_remove_nth:
  assumes "i < length xs" "f (xs ! i) = None" "find_map f (take n xs) = Some a"
  shows "find_map f (take n (remove_nth i xs)) = Some a"
proof (cases "i < n")
  case True
  then obtain k where n: "n = Suc (i + k)" using less_imp_Suc_add by blast
  let ?ys = "drop (Suc i) xs"
  have "take n xs = take i xs @ xs ! i # take k ?ys"
    by (subst id_take_nth_drop [OF assms(1)]) (use assms(1) in \<open>simp add: n min_def\<close>)
  with assms(2,3) have "find_map f (take i xs @ take k ?ys) = Some a"
    by (auto simp: find_map_append split: option.splits)
  moreover have "take n (remove_nth i xs) = (take i xs @ take k ?ys) @ take 1 (drop k ?ys)"
    using assms(1) take_add [of k 1 ?ys] by (simp add: remove_nth_def n min_def)
  ultimately show ?thesis by (simp add: find_map_append split: option.splits)
next
  case False
  then show ?thesis using assms by (simp add: remove_nth_def min_def)
qed

lemma prepare_bump_cases:
  assumes "prepare_bump L net tx addr = Ok (tx', ret)"
  shows "(ret = None \<and> tx' = tx) \<or>
    (\<exists>i p. ret = Some \<lparr>addr_payload = p, addr_network = net\<rparr> \<and> p \<noteq> addr_payload addr \<and> i < length (tx_output tx) \<and>
       from_script L (script_pubkey (tx_output tx ! i)) = Some p \<and>
       tx' = tx\<lparr>tx_output := remove_nth i (tx_output tx)\<rparr>)"
proof -
  from assms obtain r where r: "extract_return_to_self_address L tx (addr_payload addr) = Ok r"
    by (auto simp: prepare_bump_def)
  show ?thesis
  proof (cases r)
    case None
    with assms r show ?thesis by (simp add: prepare_bump_def)
  next
    case (Some ip)
    obtain i p where ip: "ip = (i, p)" by fastforce
    from r Some ip have "filter (\<lambda>(_, x). x \<noteq> addr_payload addr) (extract_indexed_output_addresses L tx) = [(i, p)]"
      by (auto simp: extract_return_to_self_address_def split: list.splits)
    then have "(i, p) \<in> set (filter (\<lambda>(_, x). x \<noteq> addr_payload addr) (extract_indexed_output_addresses L tx))"
      by (simp only: list.set_intros)
    then have "p \<noteq> addr_payload addr" "i < length (tx_output tx)"
      "from_script L (script_pubkey (tx_output tx ! i)) = Some p"
      by (auto simp: extract_indexed_output_addresses_def set_filter_map in_set_enumerate_eq)
    with assms r Some ip show ?thesis by (auto simp: prepare_bump_def)
  qed
qed

section \<open>The funding lock\<close>

text \<open>
  Tasks that create transactions with one wallet. \<open>fund_and_sign_transaction\<close> takes
  \<open>transaction_creation_lock\<close> and lets the wallet fund the transaction; the guard stays in the
  \<open>LockedTransaction\<close> and is dropped when that has been sent or given up. For a new payment
  (\<open>create_transaction\<close>) the raw transaction has no inputs; for a fee bump (\<open>bump_fee\<close>) it has those
  of a transaction that was sent, read before the lock is taken. \<open>fundrawtransaction\<close> keeps the
  inputs it is given and adds coins that no transaction sent by the wallet spends, at least one if
  there were none. Payments are numbered in the order in which they are funded.
\<close>

record 'i wallet_tx_inputs =
  sx_payment :: nat
  sx_inputs :: "'i set"

datatype 'i tx_phase = Idle | Bumping "'i wallet_tx_inputs" | Funded "'i wallet_tx_inputs"

record 'i funding =
  fu_lock :: "nat option"
  fu_phase :: "nat \<Rightarrow> 'i tx_phase"
  fu_sent :: "'i wallet_tx_inputs set"
  fu_next :: nat

definition funding_start :: "'i funding" where
  "funding_start = \<lparr>fu_lock = None, fu_phase = (\<lambda>_. Idle), fu_sent = {}, fu_next = 0\<rparr>"

definition fu_spent :: "'i funding \<Rightarrow> 'i set" where
  "fu_spent s = \<Union> (sx_inputs ` fu_sent s)"

inductive funding_step :: "'i funding \<Rightarrow> 'i funding \<Rightarrow> bool" where
  fund: "fu_lock s = None \<Longrightarrow> fu_phase s t = Idle \<Longrightarrow> ins \<noteq> {} \<Longrightarrow> ins \<inter> fu_spent s = {} \<Longrightarrow>
    funding_step s (s\<lparr>fu_lock := Some t, fu_next := Suc (fu_next s),
      fu_phase := (fu_phase s)(t := Funded \<lparr>sx_payment = fu_next s, sx_inputs = ins\<rparr>)\<rparr>)"
| read_existing: "fu_phase s t = Idle \<Longrightarrow> x \<in> fu_sent s \<Longrightarrow>
    funding_step s (s\<lparr>fu_phase := (fu_phase s)(t := Bumping x)\<rparr>)"
| fund_bump: "fu_lock s = None \<Longrightarrow> fu_phase s t = Bumping x \<Longrightarrow> added \<inter> fu_spent s = {} \<Longrightarrow>
    funding_step s (s\<lparr>fu_lock := Some t,
      fu_phase := (fu_phase s)(t := Funded (x\<lparr>sx_inputs := sx_inputs x \<union> added\<rparr>))\<rparr>)"
| send: "fu_lock s = Some t \<Longrightarrow> fu_phase s t = Funded x \<Longrightarrow>
    funding_step s (s\<lparr>fu_lock := None, fu_phase := (fu_phase s)(t := Idle), fu_sent := insert x (fu_sent s)\<rparr>)"
| give_up: "fu_lock s = Some t \<Longrightarrow> fu_phase s t = Funded x \<Longrightarrow>
    funding_step s (s\<lparr>fu_lock := None, fu_phase := (fu_phase s)(t := Idle)\<rparr>)"
| give_up_bump: "fu_phase s t = Bumping x \<Longrightarrow> funding_step s (s\<lparr>fu_phase := (fu_phase s)(t := Idle)\<rparr>)"

inductive funding_reaches :: "'i funding \<Rightarrow> 'i funding \<Rightarrow> bool" where
  start: "funding_reaches s s"
| next_step: "funding_reaches s t \<Longrightarrow> funding_step t u \<Longrightarrow> funding_reaches s u"

text \<open>
  The invariant: of the transactions that were sent, and the one that is funded, two share an input
  exactly if they are of the same payment; only the holder of the lock has a funded transaction.
\<close>

definition one_payment :: "'i wallet_tx_inputs \<Rightarrow> 'i wallet_tx_inputs \<Rightarrow> bool" where
  "one_payment x y \<longleftrightarrow> (sx_payment x = sx_payment y \<longleftrightarrow> sx_inputs x \<inter> sx_inputs y \<noteq> {})"

definition funded :: "'i funding \<Rightarrow> 'i wallet_tx_inputs set" where
  "funded s = {x. \<exists>t. fu_phase s t = Funded x}"

definition funding_inv :: "'i funding \<Rightarrow> bool" where
  "funding_inv s \<longleftrightarrow>
     (\<forall>t x. fu_phase s t = Funded x \<longrightarrow> fu_lock s = Some t) \<and>
     (\<forall>t x. fu_phase s t = Bumping x \<longrightarrow> x \<in> fu_sent s) \<and>
     (\<forall>x \<in> fu_sent s \<union> funded s. sx_payment x < fu_next s) \<and>
     (\<forall>x \<in> fu_sent s \<union> funded s. \<forall>y \<in> fu_sent s \<union> funded s. one_payment x y)"

lemma funding_invI:
  assumes "\<And>t x. fu_phase s t = Funded x \<Longrightarrow> fu_lock s = Some t"
    and "\<And>t x. fu_phase s t = Bumping x \<Longrightarrow> x \<in> fu_sent s"
    and "fu_sent s \<union> funded s \<subseteq> X"
    and "\<And>x. x \<in> X \<Longrightarrow> sx_payment x < fu_next s"
    and "\<And>x y. x \<in> X \<Longrightarrow> y \<in> X \<Longrightarrow> one_payment x y"
  shows "funding_inv s"
  unfolding funding_inv_def using assms by (intro conjI ballI allI impI; blast)

lemma funding_invD:
  assumes "funding_inv s"
  shows "fu_phase s t = Funded x \<Longrightarrow> fu_lock s = Some t" "fu_phase s t = Bumping x \<Longrightarrow> x \<in> fu_sent s"
    and "x \<in> fu_sent s \<union> funded s \<Longrightarrow> sx_payment x < fu_next s"
    and "x \<in> fu_sent s \<union> funded s \<Longrightarrow> y \<in> fu_sent s \<union> funded s \<Longrightarrow> one_payment x y"
  using assms unfolding funding_inv_def by blast+

lemma one_payment_sym: "one_payment x y \<longleftrightarrow> one_payment y x"
  by (auto simp: one_payment_def)

lemma one_payment_refl: "one_payment x x \<longleftrightarrow> sx_inputs x \<noteq> {}"
  by (simp add: one_payment_def)

lemma one_payment_more:
  "one_payment x y \<Longrightarrow> added \<inter> sx_inputs y = {} \<Longrightarrow> one_payment (x\<lparr>sx_inputs := sx_inputs x \<union> added\<rparr>) y"
  by (auto simp: one_payment_def)

lemma spent_sent: "ins \<inter> fu_spent s = {} \<Longrightarrow> y \<in> fu_sent s \<Longrightarrow> ins \<inter> sx_inputs y = {}"
  by (auto simp: fu_spent_def)

text \<open>When a transaction is funded there is no other that is funded and not sent.\<close>

lemma funding_inv_fund:
  assumes inv: "funding_inv s" and free: "fu_lock s = None" and fresh: "fu_next s \<le> n" "sx_payment x < n"
    and x: "sx_inputs x \<noteq> {}" "\<forall>y \<in> fu_sent s. one_payment x y"
  shows "funding_inv (s\<lparr>fu_lock := Some t, fu_next := n, fu_phase := (fu_phase s)(t := Funded x)\<rparr>)"
proof (rule funding_invI [where X = "insert x (fu_sent s)"])
  let ?s = "s\<lparr>fu_lock := Some t, fu_next := n, fu_phase := (fu_phase s)(t := Funded x)\<rparr>"
  note inv = funding_invD [OF inv]
  have none: "fu_phase s u \<noteq> Funded y" for u y using inv(1) free by fastforce
  then show "fu_phase ?s u = Funded y \<Longrightarrow> fu_lock ?s = Some u" for u y by (auto split: if_splits)
  show "fu_phase ?s u = Bumping y \<Longrightarrow> y \<in> fu_sent ?s" for u y using inv(2) by (auto split: if_splits)
  show "fu_sent ?s \<union> funded ?s \<subseteq> insert x (fu_sent s)" using none by (auto simp: funded_def split: if_splits)
  show "y \<in> insert x (fu_sent s) \<Longrightarrow> sx_payment y < fu_next ?s" for y using inv(3) [of y] fresh by auto
  show "y \<in> insert x (fu_sent s) \<Longrightarrow> z \<in> insert x (fu_sent s) \<Longrightarrow> one_payment y z" for y z
    using inv(4) [of y z] x one_payment_sym [of y x] by (auto simp: one_payment_refl)
qed

text \<open>A task that goes idle, having sent its transaction or not.\<close>

lemma funding_inv_idle:
  assumes inv: "funding_inv s" and lock: "\<And>u x. u \<noteq> t \<Longrightarrow> fu_phase s u = Funded x \<Longrightarrow> l = fu_lock s"
    and sent: "out \<subseteq> funded s"
  shows "funding_inv (s\<lparr>fu_lock := l, fu_phase := (fu_phase s)(t := Idle), fu_sent := out \<union> fu_sent s\<rparr>)"
proof (rule funding_invI [where X = "fu_sent s \<union> funded s"])
  let ?s = "s\<lparr>fu_lock := l, fu_phase := (fu_phase s)(t := Idle), fu_sent := out \<union> fu_sent s\<rparr>"
  note inv = funding_invD [OF inv]
  show "fu_phase ?s u = Funded y \<Longrightarrow> fu_lock ?s = Some u" for u y using inv(1) lock by (auto split: if_splits)
  show "fu_phase ?s u = Bumping y \<Longrightarrow> y \<in> fu_sent ?s" for u y using inv(2) by (auto split: if_splits)
  show "fu_sent ?s \<union> funded ?s \<subseteq> fu_sent s \<union> funded s" using sent by (auto simp: funded_def split: if_splits)
qed (use funding_invD(3,4) [OF inv] in simp_all)

lemma funding_inv_step: "funding_step s s' \<Longrightarrow> funding_inv s \<Longrightarrow> funding_inv s'"
proof (induction rule: funding_step.induct)
  case (fund s t ins)
  have "one_payment \<lparr>sx_payment = fu_next s, sx_inputs = ins\<rparr> y" if "y \<in> fu_sent s" for y
    using that fund.prems spent_sent [OF fund.hyps(4) that] by (auto simp: funding_inv_def one_payment_def)
  with funding_inv_fund [OF fund.prems fund.hyps(1), of "Suc (fu_next s)" "\<lparr>sx_payment = fu_next s, sx_inputs = ins\<rparr>" t] fund.hyps(3)
  show ?case by simp
next
  case (read_existing s t x)
  note inv = funding_invD [OF read_existing.prems]
  show ?case
    by (rule funding_invI [where X = "fu_sent s \<union> funded s"])
      (use inv read_existing.hyps in \<open>auto simp: funded_def split: if_splits\<close>)
next
  case (fund_bump s t x added)
  note inv = funding_invD [OF fund_bump.prems]
  have x: "x \<in> fu_sent s" using inv(2) fund_bump.hyps(2) .
  let ?x = "x\<lparr>sx_inputs := sx_inputs x \<union> added\<rparr>"
  have "one_payment ?x y" if "y \<in> fu_sent s" for y
    using that x inv(4) spent_sent [OF fund_bump.hyps(3) that] by (intro one_payment_more) auto
  moreover have "sx_inputs x \<noteq> {}" "sx_payment x < fu_next s"
    using x inv(3) inv(4) [of x x] by (auto simp: one_payment_refl)
  ultimately show ?case
    using funding_inv_fund [OF fund_bump.prems fund_bump.hyps(1), of "fu_next s" ?x t] by simp
next
  case (send s t x)
  have "{x} \<subseteq> funded s" using send.hyps(2) by (auto simp: funded_def)
  from funding_inv_idle [OF send.prems _ this, of t None] funding_invD(1) [OF send.prems] send.hyps(1)
  show ?case by fastforce
next
  case (give_up s t x)
  from funding_inv_idle [OF give_up.prems, of t None "{}"] funding_invD(1) [OF give_up.prems] give_up.hyps(1)
  show ?case by fastforce
next
  case (give_up_bump s t x)
  from funding_inv_idle [OF give_up_bump.prems, of t "fu_lock s" "{}"] show ?case by simp
qed

lemma funding_inv_reaches: "funding_reaches s s' \<Longrightarrow> funding_inv s \<Longrightarrow> funding_inv s'"
  by (induction rule: funding_reaches.induct) (auto dest: funding_inv_step)

section \<open>Properties\<close>



text \<open>
  C25. A fee bump keeps the payment: the transaction that is funded anew pays the recipient the
  same amount and carries the same OP_RETURN as the one it replaces; at most one output is
  gone, which paid another address, and the change goes back to that address.
\<close>

theorem bump_keeps_payment:
  assumes "prepare_bump L net tx addr = Ok (tx', ret)"
    and "\<forall>s. length s = 34 \<and> take 2 s = [0x6a, 32] \<longrightarrow> from_script L s = None"
  shows "get_payment_amount_to L tx' (addr_payload addr) = get_payment_amount_to L tx (addr_payload addr) \<and>
     (get_op_return tx = Some h \<longrightarrow> get_op_return tx' = Some h) \<and>
     tx_input tx' = tx_input tx \<and> length (tx_output tx) \<le> Suc (length (tx_output tx')) \<and>
     (\<forall>a. ret = Some a \<longrightarrow> addr_payload a \<noteq> addr_payload addr)"
proof -
  from prepare_bump_cases [OF assms(1)] consider "ret = None" "tx' = tx"
    | i p where "ret = Some \<lparr>addr_payload = p, addr_network = net\<rparr>" "p \<noteq> addr_payload addr"
      "i < length (tx_output tx)" "from_script L (script_pubkey (tx_output tx ! i)) = Some p"
      "tx' = tx\<lparr>tx_output := remove_nth i (tx_output tx)\<rparr>" by blast
  then show ?thesis
  proof cases
    case 1
    then show ?thesis by simp
  next
    case 2
    have no_op: "op_return_arr (tx_output tx ! i) = None"
    proof (rule ccontr)
      assume "op_return_arr (tx_output tx ! i) \<noteq> None"
      then have "length (script_pubkey (tx_output tx ! i)) = 34" "take 2 (script_pubkey (tx_output tx ! i)) = [0x6a, 32]"
        by (auto simp: op_return_arr_def Let_def take_Suc_conv_app_nth numeral_2_eq_2 split: if_splits)
      with assms(2) 2(4) show False by auto
    qed
    have pay: "get_payment_amount_to L tx' (addr_payload addr) = get_payment_amount_to L tx (addr_payload addr)"
      using 2 by (simp add: get_payment_amount_to_def) (rule find_map_remove_nth, simp_all)
    have ret: "get_op_return tx = Some h \<Longrightarrow> get_op_return tx' = Some h"
      using 2(3,5) no_op find_map_take_remove_nth [of i "tx_output tx" op_return_arr 3]
      by (auto simp: get_op_return_def get_op_return_bytes_def)
    have "length (tx_output tx) = Suc (length (tx_output tx'))"
      using 2(3,5) by (simp add: remove_nth_def)
    with pay ret 2 show ?thesis by simp
  qed
qed

lemma bump_keeps_payment_witness:
  "get_payment_amount_to std_lib \<lparr>tx_version = 2, lock_time = 0, tx_input = [],
     tx_output = [\<lparr>out_value = 5, script_pubkey = new_p2pkh std_lib (replicate 20 1)\<rparr>]\<rparr> (PubkeyHash (replicate 20 1)) = Some 5"
proof -
  let ?out = "\<lambda>v k. \<lparr>out_value = v, script_pubkey = new_p2pkh std_lib (replicate 20 k)\<rparr>"
  let ?tx = "\<lparr>tx_version = 2, lock_time = 0, tx_input = [], tx_output = [?out 5 1, ?out 7 2]\<rparr>"
  let ?addr = "\<lparr>addr_payload = PubkeyHash (replicate 20 1), addr_network = Regtest\<rparr>"
  have p2pkh: "from_script std_lib (new_p2pkh std_lib (replicate 20 k)) = Some (PubkeyHash (replicate 20 k))" for k
    using std_lib_laws by (simp add: script_laws_def)
  have ne: "replicate 20 (2 :: u8) \<noteq> replicate 20 1" by (simp add: numeral_eq_Suc)
  have bump: "prepare_bump std_lib Regtest ?tx ?addr =
      Ok (?tx\<lparr>tx_output := [?out 5 1]\<rparr>, Some \<lparr>addr_payload = PubkeyHash (replicate 20 2), addr_network = Regtest\<rparr>)"
    using ne by (simp add: prepare_bump_def extract_return_to_self_address_def extract_indexed_output_addresses_def
        p2pkh enumerate_eq_zip remove_nth_def)
  have std: "\<forall>s. length s = 34 \<and> take 2 s = [0x6a, 32] \<longrightarrow> from_script std_lib s = None"
    by (auto simp: std_lib_def std_from_script_def)
  from bump_keeps_payment [OF bump std, of "[]"]
  have "get_payment_amount_to std_lib (?tx\<lparr>tx_output := [?out 5 1]\<rparr>) (PubkeyHash (replicate 20 1))
      = get_payment_amount_to std_lib ?tx (PubkeyHash (replicate 20 1))" by simp
  then show ?thesis by (simp add: get_payment_amount_to_def p2pkh)
qed

text \<open>
  \<open>wait_for_block\<close> returns after a poll at which the node knows the height's block with at
  least the wanted confirmations (read as a signed number), or fails otherwise than with
  \<open>RpcInvalidParameter\<close>, every poll before it having found no such block; a larger bound on
  the polls changes nothing.
\<close>

theorem wait_for_block_spec:
  "wait_for_block B height nc n w = Some r \<longleftrightarrow>
     (\<exists>i<n. \<exists>v. wb.polled B height nc i w v \<and> block_poll B height nc v = Inr r)"
  by (rule wb.loop_iff)

text \<open>
  A wallet call retried by \<open>with_wallet_inner\<close> succeeds only with the value of the call
  itself; it fails with \<open>ConnectionRefused\<close> when the backoff is used up, with an error of the
  call that is no wallet error to be retried, or with the error of reloading the wallet.
\<close>

theorem with_wallet_outcome:
  assumes "with_wallet_inner B flag call w = (r, w')"
  shows "(\<forall>a. r = Ok a \<longrightarrow> (\<exists>w0. call w0 = (Ok a, w'))) \<and>
         (\<forall>e. r = Err e \<longrightarrow> e = Be_ConnectionRefused \<or> wallet_failure B flag call w' e)"
proof -
  from assms have run: "retry_loop Be_ConnectionRefused (bc_waits B w) (bc_sleep B) call (wallet_verify B flag) w = (r, w')"
    by (simp add: with_wallet_inner_def wallet_loop_retry)
  show ?thesis
  proof (intro conjI allI impI)
    fix a
    assume "r = Ok a"
    with run show "\<exists>w0. call w0 = (Ok a, w')" by (simp only:) (rule ww.retry_Ok)
  next
    fix e
    assume "r = Err e"
    with run show "e = Be_ConnectionRefused \<or> wallet_failure B flag call w' e"
      by (simp only:) (rule ww.retry_Err)
  qed
qed

text \<open>A client whose node answers nothing, and a call that finds its wallet missing once.\<close>

definition offline_rpc :: "nat core_rpc" where
  "offline_rpc = \<lparr>r_get_blockchain_info = a_err (Ce_Other ''offline''),
     r_get_network_version = a_err (Ce_Other ''offline''),
     r_get_block_count = a_err (Ce_Other ''offline''),
     r_get_block_hash = (\<lambda>x0. a_err (Ce_Other ''offline'')),
     r_get_block_confirmations = (\<lambda>x0. a_err (Ce_Other ''offline'')),
     r_get_block = (\<lambda>x0. a_err (Ce_Other ''offline'')),
     r_get_block_header = (\<lambda>x0. a_err (Ce_Other ''offline'')),
     r_get_best_block_hash = a_err (Ce_Other ''offline''),
     r_get_balance = (\<lambda>x0. a_err (Ce_Other ''offline'')),
     r_list_transactions = (\<lambda>x0. a_err (Ce_Other ''offline'')),
     r_get_raw_transaction = (\<lambda>x0 x1. a_err (Ce_Other ''offline'')),
     r_get_tx_out_proof = (\<lambda>x0 x1. a_err (Ce_Other ''offline'')),
     r_get_transaction = (\<lambda>x0. a_err (Ce_Other ''offline'')),
     r_get_raw_mempool = a_err (Ce_Other ''offline''),
     r_get_new_address = (\<lambda>x0. a_err (Ce_Other ''offline'')),
     r_get_address_pubkey = (\<lambda>x0. a_err (Ce_Other ''offline'')),
     r_dump_private_key = (\<lambda>x0. a_err (Ce_Other ''offline'')),
     r_import_private_key = (\<lambda>x0 x1 x2. a_err (Ce_Other ''offline'')),
     r_create_raw_transaction = (\<lambda>x0. a_err (Ce_Other ''offline'')),
     r_fund_raw_transaction = (\<lambda>x0 x1. a_err (Ce_Other ''offline'')),
     r_sign_raw_transaction = (\<lambda>x0. a_err (Ce_Other ''offline'')),
     r_send_raw_transaction = (\<lambda>x0. a_err (Ce_Other ''offline'')),
     r_list_wallets = a_err (Ce_Other ''offline''),
     r_list_wallet_dir = a_err (Ce_Other ''offline''),
     r_load_wallet = (\<lambda>x0. a_err (Ce_Other ''offline'')),
     r_create_wallet = (\<lambda>x0. a_err (Ce_Other ''offline'')),
     r_wallet_scanning = a_err (Ce_Other ''offline''),
     r_rescan_blockchain = (\<lambda>x0 x1. a_err (Ce_Other ''offline'')),
     r_list_unspent_count = a_err (Ce_Other ''offline''),
     r_import_pruned_funds = (\<lambda>x0 x1. a_err (Ce_Other ''offline''))\<rparr>"

definition demo_core :: "nat bitcoin_core" where
  "demo_core = \<lparr>bc_rpc = offline_rpc,
     bc_wallet_name = Some ''w'',
     bc_network = Regtest,
     bc_waits = (\<lambda>w. [1000, 2000]),
     bc_sleep = (\<lambda>t w. w + t),
     bc_load_wallet = a_ret (),
     bc_electrs_history = (\<lambda>x0. a_err El_NoPrevOut),
     bc_electrs_tx_hex = (\<lambda>x0. a_err El_NoPrevOut),
     bc_electrs_merkle_proof = (\<lambda>x0. a_err El_NoPrevOut),
     bc_address_string = (\<lambda>a. ''addr''),
     bc_p2wpkh = (\<lambda>k n. Ok \<lparr>addr_payload = WitnessProgram 0 k, addr_network = n\<rparr>),
     bc_deposit_secret_key = (\<lambda>a b. Ok (a @ b)),
     bc_serialize = (\<lambda>t. []),
     bc_weight = (\<lambda>t. 561)\<rparr>"

definition flaky_call :: "(nat, nat, bitcoin_error) action" where
  "flaky_call w = (if w = 0 then Err (Be_BitcoinError (Ce_JsonRpc (Jr_Rpc (rpc_code RpcWalletNotFound)))) else Ok w, w)"

lemma with_wallet_outcome_witness: "\<exists>w0. flaky_call w0 = (Ok 1000, 1000)"
proof -
  have "with_wallet_inner demo_core True flaky_call 0 = (Ok 1000, 1000)"
    by (simp add: with_wallet_inner_def demo_core_def wallet_loop.simps flaky_call_def is_wallet_not_found_def
        a_ret_def Let_def from_rpc_error_code [of RpcWalletNotFound, simplified])
  from with_wallet_outcome [OF this] show ?thesis by blast
qed

text \<open>
  The fee rate reported for a transaction is its fee divided by its virtual size, rounded
  down, the virtual size being the weight divided by four, rounded up; it fails only without
  fee information or for an empty transaction.
\<close>

theorem fee_rate_spec:
  assumes "0 < weight" and "weight < 2 ^ 63" and "\<bar>sat\<bar> < 2 ^ 63"
  shows "\<exists>r. rate_of weight (Some sat) = Ok r \<and>
     int (unat r) * int ((weight + 3) div 4) \<le> \<bar>sat\<bar> \<and>
     \<bar>sat\<bar> < (int (unat r) + 1) * int ((weight + 3) div 4)"
proof -
  let ?v = "(weight + 3) div 4"
  have v: "0 < ?v" using assms(1) by simp
  have "nat \<bar>sat\<bar> div ?v \<le> nat \<bar>sat\<bar>" by (rule div_le_dividend)
  also have "nat \<bar>sat\<bar> < 2 ^ 63" using assms(3) by (simp add: nat_less_iff)
  finally have "nat \<bar>sat\<bar> div ?v < 2 ^ 64" by simp
  then have u: "unat (of_nat (nat \<bar>sat\<bar> div ?v) :: u64) = nat \<bar>sat\<bar> div ?v"
    by (simp add: unat_of_nat take_bit_nat_eq_self)
  have "sat \<noteq> - (2 ^ 63)" using assms(3) by auto
  moreover have "weight + 3 < 2 ^ 64" using assms(2) by simp
  ultimately have r: "rate_of weight (Some sat) = Ok (of_nat (nat \<bar>sat\<bar> div ?v))"
    using v by (simp add: rate_of_def)
  have n1: "(nat \<bar>sat\<bar> div ?v) * ?v \<le> nat \<bar>sat\<bar>" by simp
  have n2: "nat \<bar>sat\<bar> < (nat \<bar>sat\<bar> div ?v + 1) * ?v"
    using v by (metis Suc_eq_plus1 dividend_less_div_times add.commute mult_Suc)
  have "int ((nat \<bar>sat\<bar> div ?v) * ?v) \<le> \<bar>sat\<bar>" using n1 by linarith
  moreover have "\<bar>sat\<bar> < int ((nat \<bar>sat\<bar> div ?v + 1) * ?v)" using n2 by linarith
  ultimately show ?thesis
    by (intro exI [of _ "of_nat (nat \<bar>sat\<bar> div ?v)"]) (simp only: r u of_nat_mult of_nat_add of_nat_1 simp_thms)
qed

lemma fee_rate_spec_witness: "\<exists>r. rate_of 561 (Some (- 1411)) = Ok r \<and> int (unat r) * 141 \<le> 1411"
  using fee_rate_spec [of 561 "- 1411"] by auto

end
