(* ===== verification/Futures.thy ===== *)
theory Futures
  imports ActionLogic
begin

text \<open>
  Concurrent futures, as \<open>join_all\<close> polls them: a \<open>future\<close> is ready with its result or has a step to
  take, the next call that it awaits. An order of the steps, a list of indices, stands for the order in which
  the runtime makes the calls; \<open>join_futures\<close> runs all futures to their ends under such an order, and the
  lemmas hold for all of them. \<open>logs\<close> is what a future records in a log, whatever the others do to
  the world between its steps.
\<close>

section \<open>Futures\<close>

datatype ('w, 'a, 'e) future = Ready "('a, 'e) result" | Step "'w \<Rightarrow> ('w, 'a, 'e) future \<times> 'w"

lemma future_steps [case_names Ready Step]:
  assumes "\<And>r. P (Ready r)" and "\<And>k. (\<And>w t w'. k w = (t, w') \<Longrightarrow> P t) \<Longrightarrow> P (Step k)"
  shows "P t"
proof (induction t)
  case (Step k)
  show ?case
  proof (rule assms(2))
    fix w t w'
    assume "k w = (t, w')"
    then have "t \<in> Basic_BNFs.fsts (k w)" by (simp add: prod_set_defs)
    then show "P t" by (rule Step.IH [OF rangeI])
  qed
qed (rule assms(1))

text \<open>One call, a step of its own.\<close>

definition f_call :: "('w, 'a, 'e) action \<Rightarrow> ('w, 'a, 'e) future" where
  "f_call m = Step (\<lambda>w. case m w of (r, w') \<Rightarrow> (Ready r, w'))"

definition f_ret :: "'a \<Rightarrow> ('w, 'a, 'e) future" where "f_ret a = Ready (Ok a)"

definition f_err :: "'e \<Rightarrow> ('w, 'a, 'e) future" where "f_err e = Ready (Err e)"

definition f_lift :: "('a, 'e) result \<Rightarrow> ('w, 'a, 'e) future" where "f_lift r = Ready r"

primrec f_match ::
  "('a \<Rightarrow> ('w, 'b, 'f) future) \<Rightarrow> ('e \<Rightarrow> ('w, 'b, 'f) future) \<Rightarrow> ('w, 'a, 'e) future \<Rightarrow> ('w, 'b, 'f) future" where
  "f_match f g (Ready r) = (case r of Ok a \<Rightarrow> f a | Err e \<Rightarrow> g e | Panic \<Rightarrow> Ready Panic)"
| "f_match f g (Step k) = Step (\<lambda>w. map_prod (f_match f g) id (k w))"

definition f_bind :: "('w, 'a, 'e) future \<Rightarrow> ('a \<Rightarrow> ('w, 'b, 'e) future) \<Rightarrow> ('w, 'b, 'e) future" where
  "f_bind t f = f_match f f_err t"

text \<open>A future on its own, without other steps between its steps.\<close>

primrec run_future :: "('w, 'a, 'e) future \<Rightarrow> ('w, 'a, 'e) action" where
  "run_future (Ready r) = (\<lambda>w. (r, w))"
| "run_future (Step k) = (\<lambda>w. case map_prod run_future id (k w) of (m, w') \<Rightarrow> m w')"

section \<open>Joining\<close>

text \<open>
  A panic ends all of them. The steps of \<open>order\<close> that name no future, or one that is ready, are
  empty; the futures that it leaves unfinished are then run to their ends, so that every order is a run.
\<close>

fun panicked :: "('w, 'a, 'e) future \<Rightarrow> bool" where
  "panicked (Ready Panic) = True"
| "panicked _ = False"

fun poll_future :: "('w, 'a, 'e) future \<Rightarrow> 'w \<Rightarrow> ('w, 'a, 'e) future \<times> 'w" where
  "poll_future (Ready r) w = (Ready r, w)"
| "poll_future (Step k) w = k w"

fun poll_futures :: "nat list \<Rightarrow> ('w, 'a, 'e) future list \<Rightarrow> 'w \<Rightarrow> ('w, 'a, 'e) future list \<times> 'w" where
  "poll_futures [] ts w = (ts, w)"
| "poll_futures (i # order) ts w =
     (if i < length ts \<and> \<not> list_ex panicked ts
      then case poll_future (ts ! i) w of (t, w') \<Rightarrow> poll_futures order (ts[i := t]) w'
      else poll_futures order ts w)"

text \<open>The result of a future, an error included, as a value.\<close>

definition settle :: "('w, 'a, 'e) future \<Rightarrow> ('w, ('a, 'e) result, 'f) action" where
  "settle t = a_match (run_future t) (\<lambda>a. a_ret (Ok a)) (\<lambda>e. a_ret (Err e))"

definition join_futures :: "nat list \<Rightarrow> ('w, 'a, 'e) future list \<Rightarrow> ('w, ('a, 'e) result list, 'f) action" where
  "join_futures order ts w = (case poll_futures order ts w of (ts', w') \<Rightarrow>
     if list_ex panicked ts' then (Panic, w') else a_mapM settle ts' w')"

section \<open>What a future records\<close>

text \<open>
  \<open>logs t P\<close>: whatever the worlds at its steps, the entries \<open>cs\<close> that \<open>t\<close> appends to the log and its
  result \<open>r\<close> satisfy \<open>P cs r\<close>.
\<close>

primrec logs :: "('w \<times> 'l list, 'a, 'e) future \<Rightarrow> ('l list \<Rightarrow> ('a, 'e) result \<Rightarrow> bool) \<Rightarrow> bool" where
  "logs (Ready r) = (\<lambda>P. P [] r)"
| "logs (Step k) = (\<lambda>P. \<forall>w l. case map_prod logs id (k (w, l)) of (t_logs, (w', l')) \<Rightarrow>
     \<exists>new. l' = l @ new \<and> t_logs (\<lambda>cs. P (new @ cs)))"

lemma logs_Step:
  "logs (Step k) P \<longleftrightarrow> (\<forall>w l t w' l'. k (w, l) = (t, (w', l')) \<longrightarrow> (\<exists>new. l' = l @ new \<and> logs t (\<lambda>cs. P (new @ cs))))"
proof -
  have "(case map_prod logs id (k (w, l)) of (t_logs, (w', l')) \<Rightarrow> \<exists>new. l' = l @ new \<and> t_logs (\<lambda>cs. P (new @ cs))) \<longleftrightarrow>
     (\<forall>t w' l'. k (w, l) = (t, (w', l')) \<longrightarrow> (\<exists>new. l' = l @ new \<and> logs t (\<lambda>cs. P (new @ cs))))" for w l
    by (cases "k (w, l)") auto
  then show ?thesis by simp
qed

named_theorems logs_intro \<open>rules that decompose a future\<close>

lemma logs_mono:
  assumes "logs t P" and "\<And>cs r. P cs r \<Longrightarrow> Q cs r"
  shows "logs t Q"
  using assms
proof (induction t arbitrary: P Q rule: future_steps)
  case (Step k)
  have "logs t (\<lambda>cs. Q (new @ cs))" if "k ws = (t, ws')" "logs t (\<lambda>cs. P (new @ cs))" for ws t ws' new
    by (rule Step.IH [OF that]) (rule Step.prems(2))
  with Step.prems(1) show ?case unfolding logs_Step by blast
qed auto

lemma logs_match:
  assumes "logs t (\<lambda>cs r. case r of Ok a \<Rightarrow> logs (f a) (\<lambda>cs'. P (cs @ cs')) | Err e \<Rightarrow> logs (g e) (\<lambda>cs'. P (cs @ cs')) | Panic \<Rightarrow> P cs Panic)"
  shows "logs (f_match f g t) P"
  using assms
proof (induction t arbitrary: P rule: future_steps)
  case (Step k)
  have "\<exists>new. l' = l @ new \<and> logs t' (\<lambda>cs. P (new @ cs))" if k: "map_prod (f_match f g) id (k (w, l)) = (t', (w', l'))" for w l t' w' l'
  proof -
    obtain t where t: "k (w, l) = (t, (w', l'))" "t' = f_match f g t" using k by (cases "k (w, l)") auto
    with Step.prems obtain new where new: "l' = l @ new"
      "logs t (\<lambda>cs r. case r of Ok a \<Rightarrow> logs (f a) (\<lambda>cs'. P ((new @ cs) @ cs')) | Err e \<Rightarrow> logs (g e) (\<lambda>cs'. P ((new @ cs) @ cs')) | Panic \<Rightarrow> P (new @ cs) Panic)"
      unfolding logs_Step by blast
    have "logs (f_match f g t) (\<lambda>cs. P (new @ cs))" by (rule Step.IH [OF t(1)], rule logs_mono [OF new(2)]) (auto split: result.splits)
    with t new(1) show ?thesis by blast
  qed
  then show ?case unfolding f_match.simps logs_Step by blast
qed (auto split: result.splits)

lemma logs_bind [logs_intro]:
  "logs t (\<lambda>cs r. case r of Ok a \<Rightarrow> logs (f a) (\<lambda>cs'. P (cs @ cs')) | Err e \<Rightarrow> P cs (Err e) | Panic \<Rightarrow> P cs Panic) \<Longrightarrow> logs (f_bind t f) P"
  unfolding f_bind_def f_err_def by (rule logs_match) (auto elim!: logs_mono split: result.splits)

lemma logs_call:
  assumes "\<And>w l r w' l'. m (w, l) = (r, (w', l')) \<Longrightarrow> \<exists>new. l' = l @ new \<and> P new r"
  shows "logs (f_call m) P"
  using assms unfolding f_call_def logs_Step by (fastforce split: prod.splits)

lemma logs_ready [simp]: "logs (f_ret a) P = P [] (Ok a)" "logs (f_err e) P = P [] (Err e)" "logs (f_lift r) P = P [] r"
  by (simp_all add: f_ret_def f_err_def f_lift_def)

text \<open>A call that leaves every log as it is.\<close>

lemma logs_silent:
  assumes "\<And>I. keeps (on_log I) m" and "\<And>w r w'. m w = (r, w') \<Longrightarrow> P [] r"
  shows "logs (f_call m) P"
proof (rule logs_call)
  fix w l r w' l'
  assume m: "m (w, l) = (r, (w', l'))"
  from keepsD [OF assms(1) [of "\<lambda>l'. l' = l"] _ m] assms(2) [OF m] show "\<exists>new. l' = l @ new \<and> P new r" by simp
qed

lemma logs_poll:
  assumes "logs t P" and "poll_future t (w, l) = (t', (w', l'))"
  shows "\<exists>new. l' = l @ new \<and> logs t' (\<lambda>cs. P (new @ cs))"
proof (cases t)
  case (Step k)
  with assms show ?thesis unfolding Step logs_Step by auto
qed (use assms in auto)

lemma logs_run:
  assumes "logs t P" and "run_future t (w, l) = (r, (w', l'))"
  shows "\<exists>new. l' = l @ new \<and> P new r"
  using assms
proof (induction t arbitrary: P w l rule: future_steps)
  case (Step k)
  obtain t w1 l1 where k: "k (w, l) = (t, (w1, l1))" by (metis surj_pair)
  with Step.prems(1) obtain new where new: "l1 = l @ new" "logs t (\<lambda>cs. P (new @ cs))" unfolding logs_Step by blast
  have "\<exists>new'. l' = l1 @ new' \<and> P (new @ new') r"
    using k Step.prems(2) by (intro Step.IH [OF k new(2)]) simp
  with new(1) show ?case by auto
qed auto

section \<open>What joined futures record\<close>

text \<open>The lists of \<open>parts\<close>, one entry at a time from any of them, each in its own order.\<close>

inductive interleaved :: "'a list list \<Rightarrow> 'a list \<Rightarrow> bool" where
  interleaved_none: "\<forall>p \<in> set parts. p = [] \<Longrightarrow> interleaved parts []"
| interleaved_next: "i < length parts \<Longrightarrow> parts ! i = x # p \<Longrightarrow> interleaved (parts[i := p]) xs \<Longrightarrow> interleaved parts (x # xs)"

inductive_simps interleaved_Nil [simp]: "interleaved parts []"

lemma interleaved_append:
  assumes "interleaved parts xs" and "i < length parts"
  shows "interleaved (parts[i := new @ parts ! i]) (new @ xs)"
  using assms(2)
proof (induction new)
  case Nil
  then show ?case using assms(1) by simp
next
  case (Cons x new)
  then show ?case by (auto intro: interleaved_next [where i = i and p = "new @ parts ! i"])
qed

lemma interleaved_skip: "interleaved parts xs \<Longrightarrow> interleaved ([] # parts) xs"
proof (induction rule: interleaved.induct)
  case (interleaved_next i parts x p xs)
  then show ?case by (intro interleaved.interleaved_next [where i = "Suc i" and p = p]) auto
qed auto

lemma interleaved_concat: "interleaved parts (concat parts)"
proof (induction parts)
  case (Cons p parts)
  from interleaved_append [OF interleaved_skip [OF Cons.IH], of 0 p] show ?case by simp
qed simp

lemma settle_Ok: "settle t w = (Ok r, w') \<longleftrightarrow> run_future t w = (r, w') \<and> r \<noteq> Panic"
  by (cases r) (auto simp: settle_def a_match_eq_Ok)

lemma logs_settled:
  fixes ts :: "('w \<times> 'l list, 'a, 'e) future list"
  assumes "a_mapM settle ts (w, l) = (Ok rs :: (('a, 'e) result list, 'f) result, (w', l'))" and "\<And>i. i < length ts \<Longrightarrow> logs (ts ! i) (P i)"
  shows "\<exists>parts. l' = l @ concat parts \<and> length parts = length ts \<and> (\<forall>i < length ts. P i (parts ! i) (rs ! i))"
  using assms
proof (induction ts arbitrary: P w l rs)
  case (Cons t ts)
  from Cons.prems(1) [unfolded a_mapM.simps] obtain r w1 l1 rs' where r: "run_future t (w, l) = (r, (w1, l1))"
    and rest: "a_mapM settle ts (w1, l1) = (Ok rs' :: (('a, 'e) result list, 'f) result, (w', l'))" "rs = r # rs'"
    by (auto simp: a_bind_eq_Ok settle_Ok)
  from logs_run [OF _ r, of "P 0"] Cons.prems(2) [of 0] obtain new where new: "l1 = l @ new" "P 0 new r" by auto
  from Cons.IH [OF rest(1), of "\<lambda>i. P (Suc i)"] Cons.prems(2) [of "Suc _"] obtain parts where
    "l' = l1 @ concat parts" "length parts = length ts" "\<forall>i < length ts. P (Suc i) (parts ! i) (rs' ! i)" by auto
  with new rest(2) show ?case by (intro exI [of _ "new # parts"]) (auto simp: nth_Cons split: nat.splits)
qed auto

text \<open>
  Under any order the log gets the entries of all futures and no others, each future's part as
  on its own.
\<close>

lemma logs_joined:
  fixes ts :: "('w \<times> 'l list, 'a, 'e) future list"
  assumes "join_futures order ts (w, l) = (Ok rs :: (('a, 'e) result list, 'f) result, (w', l'))"
    and "\<And>i. i < length ts \<Longrightarrow> logs (ts ! i) (P i)"
  shows "\<exists>new parts. l' = l @ new \<and> interleaved parts new \<and> length parts = length ts \<and> (\<forall>i < length ts. P i (parts ! i) (rs ! i))"
  using assms
proof (induction order arbitrary: ts P w l)
  case Nil
  then have "a_mapM settle ts (w, l) = (Ok rs :: (('a, 'e) result list, 'f) result, (w', l'))"
    by (auto simp: join_futures_def split: if_splits)
  from logs_settled [OF this Nil.prems(2)] show ?case using interleaved_concat by blast
next
  case (Cons i order)
  show ?case
  proof (cases "i < length ts \<and> \<not> list_ex panicked ts")
    case True
    obtain t w1 l1 where t: "poll_future (ts ! i) (w, l) = (t, (w1, l1))" by (metis surj_pair)
    from True Cons.prems(2) logs_poll [OF _ t] obtain new where new: "l1 = l @ new" "logs t (\<lambda>cs. P i (new @ cs))" by blast
    let ?P = "P(i := \<lambda>cs. P i (new @ cs))"
    have "\<exists>new' parts. l' = l1 @ new' \<and> interleaved parts new' \<and> length parts = length (ts[i := t]) \<and>
       (\<forall>j < length (ts[i := t]). ?P j (parts ! j) (rs ! j))"
    proof (rule Cons.IH)
      show "join_futures order (ts[i := t]) (w1, l1) = (Ok rs :: (('a, 'e) result list, 'f) result, (w', l'))"
        using Cons.prems(1) True t by (simp add: join_futures_def)
      show "logs (ts[i := t] ! j) (?P j)" if "j < length (ts[i := t])" for j
        using that Cons.prems(2) new(2) by (cases "j = i") auto
    qed
    then obtain new' parts where parts: "l' = l1 @ new'" "interleaved parts new'" "length parts = length ts"
      "\<And>j. j < length ts \<Longrightarrow> ?P j (parts ! j) (rs ! j)" by auto
    let ?parts = "parts[i := new @ parts ! i]"
    have "P j (?parts ! j) (rs ! j)" if "j < length ts" for j using parts(3) parts(4) [OF that] that by (cases "j = i") auto
    moreover have "interleaved ?parts (new @ new')" using interleaved_append parts(2,3) True by metis
    ultimately show ?thesis using new(1) parts(1,3) by (intro exI [of _ "new @ new'"] exI [of _ ?parts]) simp
  next
    case False
    with Cons.prems(1) have "join_futures order ts (w, l) = (Ok rs :: (('a, 'e) result list, 'f) result, (w', l'))"
      by (auto simp: join_futures_def)
    from Cons.IH [OF this Cons.prems(2)] show ?thesis by blast
  qed
qed

lemma polled_length: "poll_futures order ts w = (ts', w') \<Longrightarrow> length ts' = length ts"
  by (induction order arbitrary: ts w) (auto split: if_splits prod.splits)

lemma joined_length: "join_futures order ts w = (Ok rs, w') \<Longrightarrow> length rs = length ts"
  by (auto simp: join_futures_def dest!: polled_length a_mapM_length split: prod.splits if_splits)

text \<open>Polled in their order to their ends, the futures run one after the other.\<close>

lemma join_in_order [simp]: "join_futures [] ts w = (if list_ex panicked ts then (Panic, w) else a_mapM settle ts w)"
  by (simp add: join_futures_def)

end
