(* ===== verification/Execution.thy ===== *)
theory Execution
  imports Requests BlockStream ActionLogic Retry Parachain "HOL-Library.AList"
begin

text \<open>
  Paying and executing redeem and replace requests (\<open>vault/src/execution.rs\<close>, from
  \<open>get_fee_rate\<close> on). The parachain calls are the record \<open>exec_calls\<close>, the Bitcoin wallet is a
  \<open>btc_api\<close>. While a payment waits for its inclusion the code selects between two futures; which
  of the two is ready next is the world's choice (\<open>xc_next_wake\<close>).
\<close>

section \<open>Interfaces\<close>

text \<open>
  What the select wakes up with: the result of \<open>wait_for_transaction_metadata\<close> for the
  transaction waited for, the next item of the fee rate subscription (an item of the broadcast
  channel, or the error of a receiver that lags), or the end of that channel.
\<close>

datatype wake =
    Metadata_ready "(transaction_metadata, bitcoin_error) result"
  | Fee_update "(u128, ext_error) result"
  | Fee_closed

record 'w exec_calls =
  xc_get_current_active_block_number :: "('w, u32, runtime_error) action"
  xc_get_bitcoin_fees :: "('w, u128, runtime_error) action"
  xc_next_wake :: "txid \<Rightarrow> u32 \<Rightarrow> 'w \<Rightarrow> wake \<times> 'w"
  xc_wait_for_block_in_relay :: "block_hash \<Rightarrow> u32 option \<Rightarrow> ('w, unit, runtime_error) action"
  xc_execute_redeem :: "H256 \<Rightarrow> bytes \<Rightarrow> bytes \<Rightarrow> ('w, unit, runtime_error) action"
  xc_execute_replace :: "H256 \<Rightarrow> bytes \<Rightarrow> bytes \<Rightarrow> ('w, unit, runtime_error) action"
  xc_get_vault_redeem_requests :: "account_id \<Rightarrow> ('w, (H256 \<times> vault_id redeem_request) list, runtime_error) action"
  xc_get_old_vault_replace_requests :: "account_id \<Rightarrow> ('w, (H256 \<times> vault_id replace_request) list, runtime_error) action"
  xc_waits :: "'w \<Rightarrow> nat list"
  xc_sleep :: "nat \<Rightarrow> 'w \<Rightarrow> 'w"

definition ON_FORK_RETRY_DELAY :: nat where "ON_FORK_RETRY_DELAY = 10 * 1000"

text \<open>\<open>FixedU128::accuracy()\<close>\<close>

definition fixed_u128_accuracy :: u128 where "fixed_u128_accuracy = 10 ^ 18"

definition sleeping :: "'w exec_calls \<Rightarrow> nat \<Rightarrow> ('w, unit, 'e) action" where
  "sleeping C t w = (Ok (), xc_sleep C t w)"

section \<open>Fee rates\<close>

definition sat_per_vbyte_of :: "u128 \<Rightarrow> (sat_per_vbyte, vault_error) result" where
  "sat_per_vbyte_of fee_rate =
     rbind (ok_or Ve_ArithmeticUnderflow (checked_div fee_rate fixed_u128_accuracy)) (\<lambda>rate.
     ok_or Ve_TryIntoIntError (try_ucast rate))"

definition get_fee_rate :: "'w exec_calls \<Rightarrow> ('w, sat_per_vbyte, vault_error) action" where
  "get_fee_rate C = a_bind (on_runtime (xc_get_bitcoin_fees C)) (\<lambda>fee_rate. a_lift (sat_per_vbyte_of fee_rate))"

section \<open>Waiting for the inclusion of a payment\<close>

text \<open>
  The pipeline of the fee rate subscription, for one item: the conversion, the filter on
  \<open>auto_rbf\<close>, the comparison with the current fee rate of the transaction, and the filter on
  the mempool, which sees errors as well as updates. \<open>None\<close> is an item that is dropped.
\<close>

definition compare_fee ::
  "'w btc_api \<Rightarrow> txid \<Rightarrow> (sat_per_vbyte, vault_error) result
    \<Rightarrow> ('w, (sat_per_vbyte \<times> sat_per_vbyte, vault_error) result option, vault_error) action" where
  "compare_fee B tx_id item = (case item of
      Ok x \<Rightarrow> a_match (b_fee_rate B tx_id)
        (\<lambda>current_fee. a_ret (if x > current_fee then Some (Ok (current_fee, x)) else None))
        (\<lambda>e. a_ret None)
    | Err e \<Rightarrow> a_ret (Some (Err e))
    | Panic \<Rightarrow> a_lift Panic)"

definition still_in_mempool ::
  "'w btc_api \<Rightarrow> txid \<Rightarrow> (sat_per_vbyte \<times> sat_per_vbyte, vault_error) result
    \<Rightarrow> ('w, (sat_per_vbyte \<times> sat_per_vbyte, vault_error) result option, vault_error) action" where
  "still_in_mempool B tx_id item =
     a_match (b_is_in_mempool B tx_id)
       (\<lambda>present. a_ret (if present then Some item else None))
       (\<lambda>e. a_ret (Some (Err (Ve_BitcoinError e))))"

definition fee_item ::
  "bool \<Rightarrow> 'w btc_api \<Rightarrow> txid \<Rightarrow> (u128, ext_error) result
    \<Rightarrow> ('w, (sat_per_vbyte \<times> sat_per_vbyte, vault_error) result option, vault_error) action" where
  "fee_item auto_rbf B tx_id update =
     (let converted = rbind (map_err Ve_BroadcastStreamRecvError update) sat_per_vbyte_of in
      if auto_rbf
      then a_bind (compare_fee B tx_id converted) (\<lambda>filtered.
           case filtered of None \<Rightarrow> a_ret None | Some item \<Rightarrow> still_in_mempool B tx_id item)
      else a_ret None)"

text \<open>
  One wake-up: \<open>Inl\<close> goes on waiting, for the transaction of the fee bump if one succeeded;
  \<open>Inr\<close> is the metadata of a payment that is included and relayed. A failed bump of whatever
  kind is only logged.
\<close>

definition to_btc_address :: "script_lib \<Rightarrow> 'w btc_api \<Rightarrow> 'v request \<Rightarrow> (address, vault_error) result" where
  "to_btc_address L B rq =
     map_err (\<lambda>e. Ve_BitcoinError (Be_ConversionError e)) (to_address L (rq_btc_address rq) (b_network B))"

definition try_bump ::
  "script_lib \<Rightarrow> 'w btc_api \<Rightarrow> 'v request \<Rightarrow> txid \<Rightarrow> sat_per_vbyte \<Rightarrow> ('w, txid + transaction_metadata, vault_error) action" where
  "try_bump L B rq tx_id new_fee =
     a_bind (a_lift (to_btc_address L B rq)) (\<lambda>addr.
     a_match (b_bump_fee B tx_id addr new_fee) (\<lambda>new_txid. a_ret (Inl new_txid)) (\<lambda>x. a_ret (Inl tx_id)))"

definition await_relay ::
  "'w exec_calls \<Rightarrow> u32 \<Rightarrow> txid \<Rightarrow> transaction_metadata \<Rightarrow> ('w, txid + transaction_metadata, vault_error) action" where
  "await_relay C num_confirmations tx_id tx_metadata =
     a_match (xc_wait_for_block_in_relay C (tm_block_hash tx_metadata) (Some num_confirmations))
       (\<lambda>_. a_ret (Inr tx_metadata))
       (\<lambda>e. if is_invalid_chain_id e
            then a_bind (sleeping C ON_FORK_RETRY_DELAY) (\<lambda>_. a_ret (Inl tx_id))
            else a_err (Ve_RuntimeError e))"

definition next_wake :: "'w exec_calls \<Rightarrow> txid \<Rightarrow> u32 \<Rightarrow> ('w, wake, 'e) action" where
  "next_wake C tx_id num_confirmations w = (case xc_next_wake C tx_id num_confirmations w of (x, w') \<Rightarrow> (Ok x, w'))"

definition inclusion_step ::
  "script_lib \<Rightarrow> 'w exec_calls \<Rightarrow> 'w btc_api \<Rightarrow> u32 \<Rightarrow> bool \<Rightarrow> 'v request \<Rightarrow> txid
    \<Rightarrow> ('w, txid + transaction_metadata, vault_error) action" where
  "inclusion_step L C B num_confirmations auto_rbf rq tx_id =
     a_bind (next_wake C tx_id num_confirmations) (\<lambda>wake. case wake of
       Metadata_ready result \<Rightarrow>
         a_bind (a_lift (map_err Ve_BitcoinError result)) (await_relay C num_confirmations tx_id)
     | Fee_closed \<Rightarrow> a_err (Ve_RuntimeError Re_ChannelClosed)
     | Fee_update update \<Rightarrow>
         a_bind (fee_item auto_rbf B tx_id update) (\<lambda>item. case item of
             Some (Ok (old_fee, new_fee)) \<Rightarrow> try_bump L B rq tx_id new_fee
           | Some Panic \<Rightarrow> a_lift Panic
           | _ \<Rightarrow> a_ret (Inl tx_id)))"

text \<open>The first \<open>n\<close> wake-ups; \<open>None\<close> is a payment still waited for.\<close>

definition wait_for_inclusion ::
  "script_lib \<Rightarrow> 'w exec_calls \<Rightarrow> 'w btc_api \<Rightarrow> u32 \<Rightarrow> bool \<Rightarrow> 'v request \<Rightarrow> nat \<Rightarrow> txid
    \<Rightarrow> ('w, transaction_metadata option, vault_error) action" where
  "wait_for_inclusion L C B num_confirmations auto_rbf rq n tx_id =
     a_loop (inclusion_step L C B num_confirmations auto_rbf rq) n tx_id"

section \<open>Paying and executing\<close>

definition transfer_btc ::
  "script_lib \<Rightarrow> 'w exec_calls \<Rightarrow> 'w btc_api \<Rightarrow> u32 \<Rightarrow> bool \<Rightarrow> nat \<Rightarrow> 'v request
    \<Rightarrow> ('w, transaction_metadata option, vault_error) action" where
  "transfer_btc L C B num_confirmations auto_rbf n rq =
     a_bind (get_fee_rate C) (\<lambda>fee_rate.
     a_bind (a_lift (to_btc_address L B rq)) (\<lambda>addr.
     a_bind (on_bitcoin (b_create_and_send_transaction B addr (ucast (rq_amount rq)) fee_rate (Some (rq_hash rq))))
       (wait_for_inclusion L C B num_confirmations auto_rbf rq n)))"

text \<open>The result of an attempt is final, thrown, or worth another attempt.\<close>

definition verify_execution :: "(unit, runtime_error) result \<Rightarrow> ('w, unit, runtime_error retry_policy) action" where
  "verify_execution result = (case result of
      Ok ok \<Rightarrow> a_ret ok
    | Panic \<Rightarrow> a_lift Panic
    | Err err \<Rightarrow>
        if is_rpc_disconnect_error err then a_err (Throw err)
        else if is_invalid_chain_id err then a_err (Throw err)
        else a_err (Skip err))"

definition execute_call :: "'w exec_calls \<Rightarrow> 'v request \<Rightarrow> transaction_metadata \<Rightarrow> ('w, unit, runtime_error) action" where
  "execute_call C rq tx_metadata = (case rq_request_type rq of
      Redeem \<Rightarrow> xc_execute_redeem C (rq_hash rq) (tm_proof tx_metadata) (tm_raw_tx tx_metadata)
    | Replace \<Rightarrow> xc_execute_replace C (rq_hash rq) (tm_proof tx_metadata) (tm_raw_tx tx_metadata))"

text \<open>The comparison of the spent fee with the budget only logs a warning.\<close>

definition execute ::
  "'w exec_calls \<Rightarrow> 'v request \<Rightarrow> transaction_metadata \<Rightarrow> ('w, unit, vault_error) action" where
  "execute C rq tx_metadata w =
     on_runtime (notify_retry (xc_waits C w) (xc_sleep C) (execute_call C rq tx_metadata) verify_execution) w"

definition deadline_expired ::
  "'w exec_calls \<Rightarrow> 'w btc_api \<Rightarrow> deadline \<Rightarrow> ('w, bool, vault_error) action" where
  "deadline_expired C B deadline =
     a_bind (on_runtime (xc_get_current_active_block_number C)) (\<lambda>height.
     if height \<ge> dl_parachain deadline
     then a_bind (on_bitcoin (b_get_block_count B)) (\<lambda>count. a_ret (count \<ge> ucast (dl_bitcoin deadline)))
     else a_ret False)"

text \<open>\<open>update_metrics\<close> is \<open>update_bitcoin_metrics\<close>, whose result is dropped.\<close>

definition pay_and_execute ::
  "script_lib \<Rightarrow> 'w exec_calls \<Rightarrow> 'w btc_api \<Rightarrow> (int option \<Rightarrow> u128 option \<Rightarrow> ('w, unit, service_error) action)
    \<Rightarrow> u32 \<Rightarrow> bool \<Rightarrow> nat \<Rightarrow> 'v request \<Rightarrow> ('w, unit option, vault_error) action" where
  "pay_and_execute L C B update_metrics num_confirmations auto_rbf n rq =
     a_bind (case rq_deadline rq of
         Some deadline \<Rightarrow> a_bind (deadline_expired C B deadline)
           (\<lambda>expired. if expired then a_err Ve_DeadlineExpired else a_ret ())
       | None \<Rightarrow> a_ret ()) (\<lambda>_.
     a_bind (transfer_btc L C B num_confirmations auto_rbf n rq) (\<lambda>included. case included of
         None \<Rightarrow> a_ret None
       | Some tx_metadata \<Rightarrow>
           a_bind (a_ignore (update_metrics (tm_fee tx_metadata) (rq_fee_budget rq))) (\<lambda>_.
           a_bind (execute C rq tx_metadata) (\<lambda>_. a_ret (Some ())))))"

section \<open>Open requests at start-up\<close>

text \<open>
  The hash map of open requests is an association list without duplicate keys: a later request
  with the same id replaces the earlier one. Its order stands for the map's iteration order,
  which the code does not know.
\<close>

definition open_requests ::
  "(H256 \<times> vault_id redeem_request) list \<Rightarrow> (H256 \<times> vault_id replace_request) list \<Rightarrow> u128
    \<Rightarrow> (H256 \<times> vault_id request) list" where
  "open_requests redeem_requests replace_requests payment_margin =
     (let open_redeems = filter_map (\<lambda>(hash, request). ok_opt (from_redeem_request hash request payment_margin))
            (filter (\<lambda>(_, request). rd_status request = Rd_Pending) redeem_requests);
          open_replaces = filter_map (\<lambda>(hash, request). ok_opt (from_replace_request hash request payment_margin))
            (filter (\<lambda>(_, request). rp_status request = Rp_Pending) replace_requests)
      in fold (\<lambda>x. AList.update (rq_hash x) x) (open_redeems @ open_replaces) [])"

text \<open>A spawned task: confirm and execute a payment that was found, or pay and execute.\<close>

datatype 'v task = Confirm_and_execute "'v request" txid | Pay_and_execute "'v request"

primrec task_request :: "'v task \<Rightarrow> 'v request" where
  "task_request (Confirm_and_execute r t) = r"
| "task_request (Pay_and_execute r) = r"

fun match_payments ::
  "script_lib \<Rightarrow> (transaction \<Rightarrow> txid) \<Rightarrow> (transaction, bitcoin_error) result list
    \<Rightarrow> (H256 \<times> 'v request) list \<Rightarrow> 'v task list \<times> (H256 \<times> 'v request) list" where
  "match_payments L txid_of [] reqs = ([], reqs)"
| "match_payments L txid_of (result # rest) reqs = (case result of
      Ok tx \<Rightarrow> (case get_request_for_btc_tx L tx (map_of reqs) of
          Some request \<Rightarrow>
            (case match_payments L txid_of rest (filter (\<lambda>(key, _). key \<noteq> rq_hash request) reqs) of
               (tasks, left) \<Rightarrow> (Confirm_and_execute request (txid_of tx) # tasks, left))
        | None \<Rightarrow> match_payments L txid_of rest reqs)
    | _ \<Rightarrow> match_payments L txid_of rest reqs)"

text \<open>The height the search starts from; \<open>- 1\<close> is \<open>u32::MAX\<close>.\<close>

definition earliest_btc_height :: "(H256 \<times> 'v request) list \<Rightarrow> u32" where
  "earliest_btc_height reqs =
     Min (set (map (\<lambda>(_, r). case rq_btc_height r of Some h \<Rightarrow> h | None \<Rightarrow> - 1) reqs))"

text \<open>
  The tasks spawned, and whether all of them are: \<open>n\<close> bounds the blocks read from the stream,
  and as long as it has not ended no request is paid. A panic of the stream is not modelled.
\<close>

definition execute_open_requests ::
  "script_lib \<Rightarrow> (transaction \<Rightarrow> txid) \<Rightarrow> 'w exec_calls \<Rightarrow> 'w btc_api \<Rightarrow> account_id \<Rightarrow> u128 \<Rightarrow> nat
    \<Rightarrow> ('w, vault_id task list \<times> bool, service_error) action" where
  "execute_open_requests L txid_of C read_only_btc_rpc self payment_margin n =
     a_bind (a_map_err Se_RuntimeError (xc_get_vault_redeem_requests C self)) (\<lambda>redeem_requests.
     a_bind (a_map_err Se_RuntimeError (xc_get_old_vault_replace_requests C self)) (\<lambda>replace_requests.
     let reqs = open_requests redeem_requests replace_requests payment_margin in
     if reqs = [] then a_ret ([], True)
     else a_bind (a_map_err Se_BitcoinError
         (reverse_stream_transactions read_only_btc_rpc (earliest_btc_height reqs) n)) (\<lambda>(txs, ended).
     case match_payments L txid_of txs reqs of (tasks, left) \<Rightarrow>
       if ended then a_ret (tasks @ map (\<lambda>(_, request). Pay_and_execute request) left, True)
       else a_ret (tasks, False))))"

text \<open>The bodies of the tasks; \<open>manager\<close> knows the wallet of each of our vaults.\<close>

definition run_task ::
  "script_lib \<Rightarrow> 'w exec_calls \<Rightarrow> (vault_id \<rightharpoonup> 'w btc_api) \<Rightarrow> (int option \<Rightarrow> u128 option \<Rightarrow> ('w, unit, service_error) action)
    \<Rightarrow> u32 \<Rightarrow> bool \<Rightarrow> nat \<Rightarrow> vault_id task \<Rightarrow> ('w, unit, service_error) action" where
  "run_task L C manager update_metrics num_confirmations auto_rbf n task =
     (case manager (rq_vault_id (task_request task)) of
        None \<Rightarrow> a_ret ()
      | Some B \<Rightarrow> (case task of
            Confirm_and_execute request tx_id \<Rightarrow>
              a_ignore (a_bind (wait_for_inclusion L C B num_confirmations auto_rbf request n tx_id)
                (\<lambda>included. case included of
                     None \<Rightarrow> a_ret ()
                   | Some tx_metadata \<Rightarrow> execute C request tx_metadata))
          | Pay_and_execute request \<Rightarrow>
              a_ignore (pay_and_execute L C B update_metrics num_confirmations auto_rbf n request)))"

end
