(* ===== verification/ExecutionFacts.thy ===== *)
theory ExecutionFacts
  imports Execution
begin

text \<open>
  What the execution of requests guarantees, over a record of the calls that matter: the
  payments and fee bumps asked of the wallet and the executions submitted to the parachain.
\<close>

section \<open>Recording payments and executions\<close>

datatype act =
    Create address u64 sat_per_vbyte "H256 option" "txid option"
  | Bump txid address sat_per_vbyte "txid option"
  | Submit request_type H256 bytes bytes

definition logged_wallet :: "'w btc_api \<Rightarrow> ('w \<times> act list) btc_api" where
  "logged_wallet B = (lift_btc B)\<lparr>
     b_create_and_send_transaction := (\<lambda>a v f h.
       log_result (\<lambda>r. [Create a v f h (ok_opt r)]) (b_create_and_send_transaction B a v f h)),
     b_bump_fee := (\<lambda>t a f. log_result (\<lambda>r. [Bump t a f (ok_opt r)]) (b_bump_fee B t a f))\<rparr>"

definition logged_exec :: "'w exec_calls \<Rightarrow> ('w \<times> act list) exec_calls" where
  "logged_exec C = \<lparr>
     xc_get_current_active_block_number = on_world (xc_get_current_active_block_number C),
     xc_get_bitcoin_fees = on_world (xc_get_bitcoin_fees C),
     xc_next_wake = (\<lambda>t nc (w, l). case xc_next_wake C t nc w of (x, w') \<Rightarrow> (x, (w', l))),
     xc_wait_for_block_in_relay = (\<lambda>h nc. on_world (xc_wait_for_block_in_relay C h nc)),
     xc_execute_redeem = (\<lambda>h p t. log_result (\<lambda>_. [Submit Redeem h p t]) (xc_execute_redeem C h p t)),
     xc_execute_replace = (\<lambda>h p t. log_result (\<lambda>_. [Submit Replace h p t]) (xc_execute_replace C h p t)),
     xc_get_vault_redeem_requests = (\<lambda>a. on_world (xc_get_vault_redeem_requests C a)),
     xc_get_old_vault_replace_requests = (\<lambda>a. on_world (xc_get_old_vault_replace_requests C a)),
     xc_waits = (\<lambda>(w, l). xc_waits C w),
     xc_sleep = (\<lambda>t (w, l). (xc_sleep C t w, l))\<rparr>"

lemma logged_wallet_simps [simp]:
  "b_network (logged_wallet B) = b_network B"
  "b_get_block_count (logged_wallet B) = on_world (b_get_block_count B)"
  "b_fee_rate (logged_wallet B) = (\<lambda>t. on_world (b_fee_rate B t))"
  "b_is_in_mempool (logged_wallet B) = (\<lambda>t. on_world (b_is_in_mempool B t))"
  "b_create_and_send_transaction (logged_wallet B) = (\<lambda>a v f h.
     log_result (\<lambda>r. [Create a v f h (ok_opt r)]) (b_create_and_send_transaction B a v f h))"
  "b_bump_fee (logged_wallet B) = (\<lambda>t a f. log_result (\<lambda>r. [Bump t a f (ok_opt r)]) (b_bump_fee B t a f))"
  by (simp_all add: logged_wallet_def)

lemma logged_exec_simps [simp]:
  "xc_get_current_active_block_number (logged_exec C) = on_world (xc_get_current_active_block_number C)"
  "xc_get_bitcoin_fees (logged_exec C) = on_world (xc_get_bitcoin_fees C)"
  "xc_wait_for_block_in_relay (logged_exec C) = (\<lambda>h nc. on_world (xc_wait_for_block_in_relay C h nc))"
  "xc_execute_redeem (logged_exec C) = (\<lambda>h p t. log_result (\<lambda>_. [Submit Redeem h p t]) (xc_execute_redeem C h p t))"
  "xc_execute_replace (logged_exec C) = (\<lambda>h p t. log_result (\<lambda>_. [Submit Replace h p t]) (xc_execute_replace C h p t))"
  by (simp_all add: logged_exec_def)

lemma logged_next_wake:
  "next_wake (logged_exec C) t nc (w, l) =
     (case xc_next_wake C t nc w of (x, w') \<Rightarrow> (Ok x, (w', l)))"
  by (simp add: next_wake_def logged_exec_def split: prod.splits)

text \<open>
  \<open>current addr t bumps\<close> follows a chain of fee bumps from the transaction \<open>t\<close>: each must
  replace the transaction then current and pay the same address; \<open>None\<close> if one does not.
\<close>

fun current :: "address \<Rightarrow> txid \<Rightarrow> act list \<Rightarrow> txid option" where
  "current addr t [] = Some t"
| "current addr t (Bump old a rate new # rest) =
     (if old = t \<and> a = addr then current addr (case new of None \<Rightarrow> t | Some t' \<Rightarrow> t') rest else None)"
| "current addr t (_ # rest) = None"

lemma current_append: "current addr t (l @ l') = Option.bind (current addr t l) (\<lambda>u. current addr u l')"
  by (induction addr t l rule: current.induct) auto

text \<open>The waiting for a transaction reports the metadata of that transaction.\<close>

definition reports_own :: "'w exec_calls \<Rightarrow> bool" where
  "reports_own C \<longleftrightarrow> (\<forall>t nc w m w'. xc_next_wake C t nc w = (Metadata_ready (Ok m), w') \<longrightarrow> tm_txid m = t)"

lemma reports_ownD: "reports_own C \<Longrightarrow> xc_next_wake C t nc w = (Metadata_ready (Ok m), w') \<Longrightarrow> tm_txid m = t"
  unfolding reports_own_def by blast

section \<open>The parts of an execution\<close>

lemma triple_runtime [triple_intro]: "triple Z P m Q (\<lambda>e. E (Ve_RuntimeError e)) \<Longrightarrow> triple Z P (on_runtime m) Q E"
  unfolding on_runtime_def by (rule triple_map_err)

lemma triple_bitcoin [triple_intro]: "triple Z P m Q (\<lambda>e. E (Ve_BitcoinError e)) \<Longrightarrow> triple Z P (on_bitcoin m) Q E"
  unfolding on_bitcoin_def by (rule triple_map_err)

lemma keeps_errors [keeps_intro]: "keeps I m \<Longrightarrow> keeps I (on_runtime m)" "keeps I m' \<Longrightarrow> keeps I (on_bitcoin m')"
  unfolding on_runtime_def on_bitcoin_def by (rule keeps_wrapped, assumption)+

text \<open>
  The state of a payment that waits: after \<open>pre\<close> nothing but a chain of bumps from \<open>t\<close> to the
  transaction \<open>u\<close> was asked for, and none without \<open>auto_rbf\<close>.
\<close>

definition chain :: "bool \<Rightarrow> act list \<Rightarrow> address \<Rightarrow> txid \<Rightarrow> txid \<Rightarrow> act list \<Rightarrow> bool" where
  "chain rbf pre addr t u l \<longleftrightarrow>
     (\<exists>bumps. l = pre @ bumps \<and> current addr t bumps = Some u \<and> (\<not> rbf \<longrightarrow> bumps = []))"

lemma chain_start: "chain rbf pre addr t t pre"
  by (simp add: chain_def)

lemma chain_bump:
  "chain rbf pre addr t u l \<Longrightarrow> rbf \<Longrightarrow>
   chain rbf pre addr t (case new of None \<Rightarrow> u | Some t' \<Rightarrow> t') (l @ [Bump u addr f new])"
  by (auto simp: chain_def current_append split: option.splits)

lemma chain_bumped:
  "chain rbf pre addr t u l \<Longrightarrow> rbf \<Longrightarrow> chain rbf pre addr t u' (l @ [Bump u addr f (Some u')])"
  "chain rbf pre addr t u l \<Longrightarrow> rbf \<Longrightarrow> chain rbf pre addr t u (l @ [Bump u addr f None])"
  using chain_bump [of rbf pre addr t u l "Some u'"] chain_bump [of rbf pre addr t u l None] by simp_all

lemma chain_bumped_ex:
  "chain rbf pre addr t u l \<Longrightarrow> rbf \<Longrightarrow> \<exists>u'. chain rbf pre addr t u' (l @ [Bump u addr f None])"
  by (rule exI) (rule chain_bumped(2))

lemma fee_item_triple:
  "triple (on_log I) (on_log I) (fee_item rbf (logged_wallet B) u upd)
     (\<lambda>item wl. I (snd wl) \<and> (item \<noteq> None \<longrightarrow> rbf)) (\<lambda>_. on_log I)"
proof -
  have k: "keeps (on_log I) (fee_item rbf (logged_wallet B) u upd)"
    unfolding fee_item_def compare_fee_def still_in_mempool_def Let_def logged_wallet_simps
    by (auto split: result.splits intro!: keeps_intro)
  show ?thesis
  proof (cases rbf)
    case True
    with keeps_triple [OF k] show ?thesis by simp
  next
    case False
    then show ?thesis by (simp add: fee_item_def Let_def triple_ret)
  qed
qed

lemma try_bump_triple:
  assumes "to_btc_address L (logged_wallet B) rq = Ok addr" and rbf
  shows "triple (on_log (\<lambda>l. \<exists>u. chain rbf pre addr t u l)) (on_log (chain rbf pre addr t u))
     (try_bump L (logged_wallet B) rq u f)
     (\<lambda>x wl. \<exists>u'. x = Inl u' \<and> chain rbf pre addr t u' (snd wl)) (\<lambda>_. on_log (\<lambda>l. \<exists>u. chain rbf pre addr t u l))"
  unfolding try_bump_def assms(1)
  by (rule tripleI)
     (auto simp: action_defs log_result_def split: prod.splits result.splits
       intro: chain_bumped [OF _ assms(2)] chain_bumped_ex [OF _ assms(2)])

lemma inclusion_step_triple:
  assumes "to_btc_address L (logged_wallet B) rq = Ok addr"
  shows "triple (on_log (\<lambda>l. \<exists>u. chain rbf pre addr t u l)) (on_log (chain rbf pre addr t u))
     (inclusion_step L (logged_exec C) (logged_wallet B) nc rbf rq u)
     (\<lambda>x wl. case x of
         Inl u' \<Rightarrow> chain rbf pre addr t u' (snd wl)
       | Inr md \<Rightarrow> (reports_own C \<longrightarrow> tm_txid md = u) \<and> chain rbf pre addr t u (snd wl))
     (\<lambda>_. on_log (\<lambda>l. \<exists>u. chain rbf pre addr t u l))"
    (is "triple ?Z ?P ?m ?Q ?E")
proof -
  define R where "R wake wl \<longleftrightarrow> chain rbf pre addr t u (snd wl) \<and>
    (\<forall>md. wake = Metadata_ready (Ok md) \<longrightarrow> reports_own C \<longrightarrow> tm_txid md = u)" for wake and wl :: "'a \<times> act list"
  have wake: "triple ?Z ?P (next_wake (logged_exec C) u nc) R ?E"
    by (rule tripleI) (auto simp: logged_next_wake R_def reports_ownD split: prod.splits)
  have relay: "triple ?Z (\<lambda>wl. (reports_own C \<longrightarrow> tm_txid md = u) \<and> ?P wl) (await_relay (logged_exec C) nc u md) ?Q ?E" for md
    unfolding await_relay_def logged_exec_simps
    by (rule triple_match [where R = "\<lambda>_ wl. (reports_own C \<longrightarrow> tm_txid md = u) \<and> ?P wl" and F = "\<lambda>_. ?P"])
       (auto intro!: tripleI simp: on_world_state sleeping_def logged_exec_def action_defs split: if_splits)
  have ready: "triple ?Z (R (Metadata_ready res)) (a_bind (a_lift (map_err Ve_BitcoinError res)) (await_relay (logged_exec C) nc u)) ?Q ?E" for res
    by (rule triple_bind [where R = "\<lambda>md wl. (reports_own C \<longrightarrow> tm_txid md = u) \<and> ?P wl"], rule triple_lift)
       (auto simp: R_def intro: relay)
  have bump: "triple ?Z ?P (try_bump L (logged_wallet B) rq u f) ?Q ?E" if rbf for f
    by (rule triple_conseq [OF try_bump_triple [OF assms that]]) (auto split: sum.splits)
  have update: "triple ?Z (R (Fee_update upd)) (a_bind (fee_item rbf (logged_wallet B) u upd)
       (\<lambda>item. case item of Some (Ok (old_fee, new_fee)) \<Rightarrow> try_bump L (logged_wallet B) rq u new_fee
           | Some Panic \<Rightarrow> a_lift Panic | _ \<Rightarrow> a_ret (Inl u))) ?Q ?E" for upd
  proof (rule triple_bind)
    show "triple ?Z (R (Fee_update upd)) (fee_item rbf (logged_wallet B) u upd)
        (\<lambda>item wl. ?P wl \<and> (item \<noteq> None \<longrightarrow> rbf)) ?E"
      by (rule triple_conseq [OF fee_item_triple [of "chain rbf pre addr t u"]]) (auto simp: R_def)
    show "triple ?Z (\<lambda>wl. ?P wl \<and> (item \<noteq> None \<longrightarrow> rbf))
       (case item of Some (Ok (old_fee, new_fee)) \<Rightarrow> try_bump L (logged_wallet B) rq u new_fee
           | Some Panic \<Rightarrow> a_lift Panic | _ \<Rightarrow> a_ret (Inl u)) ?Q ?E" for item
    proof (cases "\<exists>old new. item = Some (Ok (old, new))")
      case True
      then obtain old new where i: "item = Some (Ok (old, new))" by blast
      show ?thesis
      proof (cases rbf)
        case True
        have "triple ?Z (\<lambda>wl. ?P wl \<and> (item \<noteq> None \<longrightarrow> rbf)) (try_bump L (logged_wallet B) rq u new) ?Q ?E"
          by (rule triple_pre [OF bump [OF True]]) simp
        with i show ?thesis by simp
      next
        case False
        with i show ?thesis by (simp add: triple_def)
      qed
    qed (auto split: option.splits result.splits intro!: triple_ret triple_lift)
  qed
  have closed: "triple ?Z (R Fee_closed) (a_err (Ve_RuntimeError Re_ChannelClosed)) ?Q ?E"
    by (rule triple_err) (auto simp: R_def)
  show ?thesis
    unfolding inclusion_step_def
    by (rule triple_bind [OF wake]) (auto split: wake.splits intro: ready update closed)
qed

text \<open>The retries of an execution submit the same proof again and nothing else.\<close>

lemma keeps_retry [keeps_intro]:
  assumes "keeps I call" and "\<And>x. keeps I (verify x)" and "\<And>t w. I w \<Longrightarrow> I (sleep t w)"
  shows "keeps I (retry_loop g waits sleep call verify)"
proof (rule keepsI)
  fix w r w'
  show "I w \<Longrightarrow> retry_loop g waits sleep call verify w = (r, w') \<Longrightarrow> I w'"
  proof (induction waits arbitrary: w)
    case Nil
    then show ?case
      by (subst (asm) retry_loop.simps)
         (auto split: prod.splits result.splits retry_policy.splits dest: keepsD [OF assms(1)] keepsD [OF assms(2)])
  next
    case (Cons t ts)
    obtain x w1 where c: "call w = (x, w1)" by fastforce
    obtain y w2 where v: "verify x w1 = (y, w2)" by fastforce
    have "I w2" using keepsD [OF assms(2) keepsD [OF assms(1) Cons.prems(1) c] v] .
    with Cons.prems(2) c v Cons.IH [OF assms(3)] show ?case
      by (subst (asm) retry_loop.simps) (auto split: result.splits retry_policy.splits)
  qed
qed

definition submissions :: "'v request \<Rightarrow> transaction_metadata \<Rightarrow> act list \<Rightarrow> act list \<Rightarrow> bool" where
  "submissions rq md pre l \<longleftrightarrow>
     (\<exists>k. l = pre @ replicate k (Submit (rq_request_type rq) (rq_hash rq) (tm_proof md) (tm_raw_tx md)))"

lemma submissions_more:
  "submissions rq md pre l \<Longrightarrow>
   submissions rq md pre (l @ [Submit (rq_request_type rq) (rq_hash rq) (tm_proof md) (tm_raw_tx md)])"
  unfolding submissions_def by (metis append_assoc replicate_append_same replicate_Suc)

lemma execute_keeps: "keeps (on_log (submissions rq md pre)) (execute (logged_exec C) rq md)"
proof -
  have call: "keeps (on_log (submissions rq md pre)) (execute_call (logged_exec C) rq md)"
    by (cases "rq_request_type rq")
       (auto simp: execute_call_def intro!: keeps_intro dest: submissions_more)
  have "keeps (on_log (submissions rq md pre)) (notify_retry waits (xc_sleep (logged_exec C)) (execute_call (logged_exec C) rq md) verify_execution)"
    for waits
    unfolding notify_retry_def
    by (intro keeps_retry call)
       (auto simp: verify_execution_def logged_exec_def split: result.splits intro!: keeps_intro)
  from keeps_errors(1) [OF this] show ?thesis
    by (intro keepsI) (auto simp: execute_def dest: keepsD)
qed

section \<open>The whole run\<close>

definition paid :: "'v request \<Rightarrow> address \<Rightarrow> sat_per_vbyte \<Rightarrow> txid \<Rightarrow> act list" where
  "paid rq addr rate t = [Create addr (ucast (rq_amount rq)) rate (Some (rq_hash rq)) (Some t)]"

text \<open>
  The runs of a request: nothing, a payment that failed, or a payment, a chain of bumps that
  starts with it, and submissions of one proof, that of the last transaction of the chain.
\<close>

definition request_run :: "'w exec_calls \<Rightarrow> 'v request \<Rightarrow> address \<Rightarrow> bool \<Rightarrow> act list \<Rightarrow> bool" where
  "request_run C rq addr rbf l \<longleftrightarrow> l = [] \<or>
     (\<exists>rate. l = [Create addr (ucast (rq_amount rq)) rate (Some (rq_hash rq)) None]) \<or>
     (\<exists>rate t u pre. chain rbf (paid rq addr rate t) addr t u pre \<and>
        (l = pre \<or> (\<exists>md. (reports_own C \<longrightarrow> tm_txid md = u) \<and> submissions rq md pre l)))"

lemma request_runI:
  "request_run C rq addr rbf []"
  "request_run C rq addr rbf [Create addr (ucast (rq_amount rq)) rate (Some (rq_hash rq)) None]"
  "chain rbf (paid rq addr rate t) addr t u l \<Longrightarrow> request_run C rq addr rbf l"
  "chain rbf (paid rq addr rate t) addr t u pre \<Longrightarrow> reports_own C \<longrightarrow> tm_txid md = u \<Longrightarrow>
   submissions rq md pre l \<Longrightarrow> request_run C rq addr rbf l"
  unfolding request_run_def by blast+

lemma wait_triple:
  assumes "to_btc_address L (logged_wallet B) rq = Ok addr"
  shows "triple (on_log (request_run C rq addr rbf)) (on_log (chain rbf (paid rq addr rate t) addr t t))
     (wait_for_inclusion L (logged_exec C) (logged_wallet B) nc rbf rq n t)
     (\<lambda>x wl. case x of
         None \<Rightarrow> request_run C rq addr rbf (snd wl)
       | Some md \<Rightarrow> \<exists>u. (reports_own C \<longrightarrow> tm_txid md = u) \<and> chain rbf (paid rq addr rate t) addr t u (snd wl))
     (\<lambda>_. on_log (request_run C rq addr rbf))"
  unfolding wait_for_inclusion_def
  by (rule triple_loop [where I = "\<lambda>u. on_log (chain rbf (paid rq addr rate t) addr t u)"],
      rule triple_conseq [OF inclusion_step_triple [OF assms]])
     (auto split: sum.splits intro: request_runI(3))

lemma transfer_triple:
  assumes "to_btc_address L (logged_wallet B) rq = Ok addr"
  shows "triple (on_log (request_run C rq addr rbf)) (on_log (\<lambda>l. l = []))
     (transfer_btc L (logged_exec C) (logged_wallet B) nc rbf n rq)
     (\<lambda>x wl. case x of
         None \<Rightarrow> request_run C rq addr rbf (snd wl)
       | Some md \<Rightarrow> \<exists>rate t u. (reports_own C \<longrightarrow> tm_txid md = u) \<and> chain rbf (paid rq addr rate t) addr t u (snd wl))
     (\<lambda>_. on_log (request_run C rq addr rbf))" (is "triple ?Z ?P ?m ?Q ?E")
proof -
  have rate: "triple ?Z ?P (get_fee_rate (logged_exec C)) (\<lambda>_. ?P) ?E"
    by (rule triple_conseq [OF keeps_triple [where I = ?P]])
       (auto simp: get_fee_rate_def intro!: keeps_intro request_runI)
  have create: "triple ?Z ?P
      (on_bitcoin (b_create_and_send_transaction (logged_wallet B) addr (ucast (rq_amount rq)) rate (Some (rq_hash rq))))
      (\<lambda>t. on_log (chain rbf (paid rq addr rate t) addr t t)) ?E" for rate
    by (auto intro!: triple_bitcoin triple_log request_runI(2) simp: paid_def [symmetric] chain_start)
  have wait: "triple ?Z (on_log (chain rbf (paid rq addr rate t) addr t t))
      (wait_for_inclusion L (logged_exec C) (logged_wallet B) nc rbf rq n t) ?Q ?E" for rate t
    by (rule triple_conseq [OF wait_triple [OF assms]]) (auto split: option.splits)
  show ?thesis
    unfolding transfer_btc_def assms
    by (rule triple_bind [OF rate], rule triple_bind [where R = "\<lambda>a wl. a = addr \<and> ?P wl"], rule triple_lift,
        simp_all only: result.simps simp_thms)
       (rule triple_conj_fact, hypsubst, rule triple_bind [OF create], rule wait)
qed

text \<open>The start of a run: the deadline is looked at before anything is paid.\<close>

definition before_deadline :: "'w exec_calls \<Rightarrow> 'w btc_api \<Rightarrow> deadline \<Rightarrow> 'w \<Rightarrow> bool" where
  "before_deadline C B d w \<longleftrightarrow>
     (\<exists>h w1. xc_get_current_active_block_number C w = (Ok h, w1) \<and>
        (h < dl_parachain d \<or> (\<exists>c w2. b_get_block_count B w1 = (Ok c, w2) \<and> c < ucast (dl_bitcoin d))))"

abbreviation lifted_metrics where
  "lifted_metrics update \<equiv> (\<lambda>fee budget. on_world (update fee budget))"

lemma deadline_expired_logged:
  "deadline_expired (logged_exec C) (logged_wallet B) d (w, l) =
     (case deadline_expired C B d w of (r, w') \<Rightarrow> (r, (w', l)))"
  by (auto simp: deadline_expired_def on_runtime_def on_bitcoin_def action_defs state_defs
      split: prod.splits result.splits)

lemma not_expired: "deadline_expired C B d w = (Ok False, w') \<Longrightarrow> before_deadline C B d w"
  by (auto simp: deadline_expired_def before_deadline_def a_bind_eq_Ok not_le split: if_splits)

lemma submit_triple:
  "triple (on_log (request_run C rq addr rbf))
     (\<lambda>wl. \<exists>rate t u. (reports_own C \<longrightarrow> tm_txid md = u) \<and> chain rbf (paid rq addr rate t) addr t u (snd wl))
     (a_bind (a_ignore (lifted_metrics update (tm_fee md) (rq_fee_budget rq))) (\<lambda>_.
        a_bind (execute (logged_exec C) rq md) (\<lambda>_. a_ret (Some ()))))
     (\<lambda>_. on_log (request_run C rq addr rbf)) (\<lambda>_. on_log (request_run C rq addr rbf))"
proof (rule triple_from_keeps)
  fix wl :: "'a \<times> act list"
  let ?I = "on_log (submissions rq md (snd wl))"
  assume "\<exists>rate t u. (reports_own C \<longrightarrow> tm_txid md = u) \<and> chain rbf (paid rq addr rate t) addr t u (snd wl)"
  then have "\<forall>wl'. ?I wl' \<longrightarrow> request_run C rq addr rbf (snd wl')"
    by (blast intro: request_runI(4))
  moreover have "?I wl"
    unfolding submissions_def by (rule exI [of _ 0]) simp
  moreover have "keeps ?I (a_bind (a_ignore (lifted_metrics update (tm_fee md) (rq_fee_budget rq))) (\<lambda>_.
        a_bind (execute (logged_exec C) rq md) (\<lambda>_. a_ret (Some ()))))"
    by (intro keeps_intro execute_keeps)
  ultimately show "\<exists>I. keeps I (a_bind (a_ignore (lifted_metrics update (tm_fee md) (rq_fee_budget rq))) (\<lambda>_.
        a_bind (execute (logged_exec C) rq md) (\<lambda>_. a_ret (Some ())))) \<and>
      I wl \<and> (\<forall>wl'. I wl' \<longrightarrow> request_run C rq addr rbf (snd wl'))" by blast
qed

lemma pay_run:
  assumes "to_btc_address L (logged_wallet B) rq = Ok addr"
    and "pay_and_execute L (logged_exec C) (logged_wallet B) (lifted_metrics update) nc rbf n rq (w, []) = (r, (w', log))"
  shows "request_run C rq addr rbf log"
proof -
  let ?Z = "on_log (request_run C rq addr rbf)" and ?P = "on_log (\<lambda>l. l = ([] :: act list))"
  have deadline: "triple ?Z ?P (case rq_deadline rq of
         Some deadline \<Rightarrow> a_bind (deadline_expired (logged_exec C) (logged_wallet B) deadline)
           (\<lambda>expired. if expired then a_err Ve_DeadlineExpired else a_ret ())
       | None \<Rightarrow> a_ret ()) (\<lambda>_. ?P) (\<lambda>_. ?Z)"
    by (rule triple_conseq [OF keeps_triple [where I = ?P]])
       (auto simp: deadline_expired_def intro!: keeps_intro request_runI(1) split: option.splits)
  have "triple ?Z ?P (pay_and_execute L (logged_exec C) (logged_wallet B) (lifted_metrics update) nc rbf n rq)
      (\<lambda>_. ?Z) (\<lambda>_. ?Z)"
    unfolding pay_and_execute_def
  proof (rule triple_bind [OF deadline], rule triple_bind [OF transfer_triple [OF assms(1)]])
    fix included :: "transaction_metadata option"
    show "triple ?Z (\<lambda>wl. case included of
         None \<Rightarrow> request_run C rq addr rbf (snd wl)
       | Some md \<Rightarrow> \<exists>rate t u. (reports_own C \<longrightarrow> tm_txid md = u) \<and> chain rbf (paid rq addr rate t) addr t u (snd wl))
      (case included of None \<Rightarrow> a_ret None | Some tx_metadata \<Rightarrow>
           a_bind (a_ignore (lifted_metrics update (tm_fee tx_metadata) (rq_fee_budget rq))) (\<lambda>_.
           a_bind (execute (logged_exec C) rq tx_metadata) (\<lambda>_. a_ret (Some ())))) (\<lambda>_. ?Z) (\<lambda>_. ?Z)"
      by (cases included) (use submit_triple in \<open>auto intro!: triple_ret\<close>)
  qed
  from triple_any [OF this _ assms(2)] show ?thesis by simp
qed

text \<open>Nothing is recorded unless the deadline check let the request pass.\<close>

lemma pay_before_deadline:
  assumes "pay_and_execute L (logged_exec C) (logged_wallet B) (lifted_metrics update) nc rbf n rq (w, []) = (r, (w', log))"
    and "log \<noteq> []" and "rq_deadline rq = Some d"
  shows "before_deadline C B d w"
proof -
  obtain x w1 where c: "deadline_expired C B d w = (x, w1)" by fastforce
  with assms have "x = Ok False"
    by (cases x) (auto simp: pay_and_execute_def action_defs deadline_expired_logged split: if_splits)
  with c show ?thesis by (auto intro: not_expired)
qed

section \<open>Open requests\<close>

definition keyed :: "(H256 \<times> 'v request) list \<Rightarrow> bool" where
  "keyed reqs \<longleftrightarrow> distinct (map fst reqs) \<and> (\<forall>(k, r) \<in> set reqs. rq_hash r = k)"

lemma update_entries: "set (AList.update k v al) \<subseteq> insert (k, v) (set al)"
  by (induction al) auto

lemma keyed_update: "keyed reqs \<Longrightarrow> keyed (AList.update (rq_hash x) x reqs)"
  using update_entries [of "rq_hash x" x reqs] distinct_update [of reqs "rq_hash x" x]
  unfolding keyed_def by fast

lemma keyed_fold: "keyed reqs \<Longrightarrow> keyed (fold (\<lambda>x. AList.update (rq_hash x) x) xs reqs)"
  by (induction xs arbitrary: reqs) (auto intro: keyed_update)

lemma keyed_open: "keyed (open_requests redeems replaces margin)"
  unfolding open_requests_def Let_def by (rule keyed_fold) (simp add: keyed_def)

lemma keyed_filter: "keyed reqs \<Longrightarrow> keyed (filter P reqs)"
  by (auto simp: keyed_def distinct_map_filter)

lemma keyed_lookup: "keyed reqs \<Longrightarrow> map_of reqs k = Some r \<longleftrightarrow> (k, r) \<in> set reqs"
  by (simp add: keyed_def)

lemma keyed_mem: "keyed reqs \<Longrightarrow> (k, r) \<in> set reqs \<Longrightarrow> k = rq_hash r"
  by (auto simp: keyed_def)

lemma keyed_unique: "keyed reqs \<Longrightarrow> (k, r) \<in> set reqs \<Longrightarrow> (k, r') \<in> set reqs \<Longrightarrow> r' = r"
  using keyed_lookup [of reqs k r] keyed_lookup [of reqs k r'] by simp

text \<open>A transaction pays for a request.\<close>

definition pays_for :: "script_lib \<Rightarrow> transaction \<Rightarrow> 'v request \<Rightarrow> bool" where
  "pays_for L tx r \<longleftrightarrow> (\<exists>p v. get_op_return tx = Some (rq_hash r) \<and> to_payload L (rq_btc_address r) = Ok p \<and>
     get_payment_amount_to L tx p = Some v \<and> unat (rq_amount r) \<le> unat v)"

lemma get_request_keyed:
  "keyed reqs \<Longrightarrow> get_request_for_btc_tx L tx (map_of reqs) = Some r \<longleftrightarrow> (rq_hash r, r) \<in> set reqs \<and> pays_for L tx r"
  by (auto simp: get_request_Some keyed_lookup pays_for_def dest: keyed_mem)

text \<open>The task confirms a payment that is among the transactions.\<close>

definition found :: "script_lib \<Rightarrow> (transaction \<Rightarrow> txid) \<Rightarrow> (transaction, bitcoin_error) result list \<Rightarrow> 'v task \<Rightarrow> bool" where
  "found L txid_of txs t \<longleftrightarrow>
     (\<exists>r tx. t = Confirm_and_execute r (txid_of tx) \<and> Ok tx \<in> set txs \<and> pays_for L tx r)"

lemma found_Cons: "found L txid_of txs t \<Longrightarrow> found L txid_of (x # txs) t"
  by (auto simp: found_def)

lemma match_payments_settles:
  assumes "match_payments L txid_of txs reqs = (tasks, left)" and "keyed reqs"
  shows "keyed left \<and> distinct (map (rq_hash \<circ> task_request) tasks) \<and>
    set reqs = set left \<union> (\<lambda>t. (rq_hash (task_request t), task_request t)) ` set tasks \<and>
    (\<forall>t \<in> set tasks. rq_hash (task_request t) \<notin> fst ` set left) \<and>
    (\<forall>t \<in> set tasks. found L txid_of txs t) \<and>
    (\<forall>(k, r) \<in> set left. \<forall>tx. Ok tx \<in> set txs \<longrightarrow> \<not> pays_for L tx r)"
  using assms
proof (induction txs arbitrary: reqs tasks)
  case Nil
  then show ?case by simp
next
  case (Cons x txs)
  show ?case
  proof (cases "\<exists>tx r. x = Ok tx \<and> get_request_for_btc_tx L tx (map_of reqs) = Some r")
    case False
    then have m: "match_payments L txid_of txs reqs = (tasks, left)"
      using Cons.prems(1) by (auto split: result.splits option.splits)
    from Cons.IH [OF m Cons.prems(2)] have IH: "\<forall>(k, r) \<in> set left. \<forall>tx. Ok tx \<in> set txs \<longrightarrow> \<not> pays_for L tx r"
      and sub: "set left \<subseteq> set reqs" by auto
    have "\<not> pays_for L tx r" if "x = Ok tx" "(k, r) \<in> set left" for k r tx
      using that sub False get_request_keyed [OF Cons.prems(2), of L tx r] keyed_mem [OF Cons.prems(2)]
      by auto
    with Cons.IH [OF m Cons.prems(2)] show ?thesis by (auto intro: found_Cons)
  next
    case True
    then obtain tx r where x: "x = Ok tx" and g: "get_request_for_btc_tx L tx (map_of reqs) = Some r" by blast
    let ?rest = "filter (\<lambda>(key, _). key \<noteq> rq_hash r) reqs"
    from g have r: "(rq_hash r, r) \<in> set reqs" "pays_for L tx r"
      by (simp_all add: get_request_keyed [OF Cons.prems(2)])
    obtain ts where m: "match_payments L txid_of txs ?rest = (ts, left)" and t: "tasks = Confirm_and_execute r (txid_of tx) # ts"
      using Cons.prems(1) x g by (auto split: prod.splits)
    have kr: "keyed ?rest" by (rule keyed_filter [OF Cons.prems(2)])
    have split: "set reqs = insert (rq_hash r, r) (set ?rest)"
      using r(1) keyed_unique [OF Cons.prems(2) r(1)] by auto
    from Cons.IH [OF m kr] have IH: "keyed left" "distinct (map (rq_hash \<circ> task_request) ts)"
      "set ?rest = set left \<union> (\<lambda>t. (rq_hash (task_request t), task_request t)) ` set ts"
      "\<forall>t \<in> set ts. rq_hash (task_request t) \<notin> fst ` set left"
      "\<forall>t \<in> set ts. found L txid_of txs t"
      "\<forall>(k, r) \<in> set left. \<forall>tx. Ok tx \<in> set txs \<longrightarrow> \<not> pays_for L tx r" by blast+
    have other: "rq_hash r \<notin> fst ` set ?rest" by auto
    then have fresh: "rq_hash r \<notin> fst ` set left" "\<forall>t \<in> set ts. rq_hash (task_request t) \<noteq> rq_hash r"
      unfolding IH(3) by (simp_all add: image_Un image_image) (metis image_eqI)
    have unpaid: "\<not> pays_for L tx r'" if "(k, r') \<in> set left" for k r'
    proof -
      have "(k, r') \<in> set ?rest" unfolding IH(3) using that by simp
      with keyed_mem [OF kr this] have "rq_hash r' \<noteq> rq_hash r" by simp
      moreover have "get_op_return tx = Some (rq_hash r)" using r(2) by (auto simp: pays_for_def)
      ultimately show ?thesis by (auto simp: pays_for_def)
    qed
    show ?thesis
    proof (intro conjI)
      show "keyed left" by (rule IH(1))
      show "distinct (map (rq_hash \<circ> task_request) tasks)"
        using IH(2) fresh(2) by (auto simp: t)
      show "set reqs = set left \<union> (\<lambda>t. (rq_hash (task_request t), task_request t)) ` set tasks"
        unfolding split IH(3) t by simp
      show "\<forall>t \<in> set tasks. rq_hash (task_request t) \<notin> fst ` set left"
        using IH(4) fresh(1) by (simp add: t)
      have "found L txid_of (x # txs) (Confirm_and_execute r (txid_of tx))"
        using r(2) by (auto simp: found_def x)
      then show "\<forall>t \<in> set tasks. found L txid_of (x # txs) t"
        using IH(5) by (auto simp: t intro: found_Cons)
      show "\<forall>(k, r) \<in> set left. \<forall>tx. Ok tx \<in> set (x # txs) \<longrightarrow> \<not> pays_for L tx r"
        using IH(6) unpaid by (auto simp: x)
    qed
  qed
qed

section \<open>Properties\<close>

primrec is_create :: "act \<Rightarrow> bool" where
  "is_create (Create _ _ _ _ _) = True"
| "is_create (Bump _ _ _ _) = False"
| "is_create (Submit _ _ _ _) = False"

lemma current_no_create: "current addr t bumps = Some u \<Longrightarrow> filter is_create bumps = []"
  by (induction addr t bumps rule: current.induct) (auto split: if_splits)

lemma request_run_creates: "request_run C rq addr rbf l \<Longrightarrow> length (filter is_create l) \<le> 1"
  by (auto simp: request_run_def chain_def paid_def submissions_def current_no_create)

lemma chain_shape:
  assumes "chain rbf [c] addr t u pre"
  shows "\<exists>bumps. pre @ subs = c # bumps @ subs \<and> current addr t bumps = Some u \<and> (\<not> rbf \<longrightarrow> bumps = [])"
  using assms by (fastforce simp: chain_def)

definition one_proof :: "'w exec_calls \<Rightarrow> 'v request \<Rightarrow> txid \<Rightarrow> act list \<Rightarrow> bool" where
  "one_proof C rq u subs \<longleftrightarrow> subs = [] \<or> (\<exists>md :: transaction_metadata. \<exists>k. (reports_own C \<longrightarrow> tm_txid md = u) \<and>
     subs = replicate k (Submit (rq_request_type rq) (rq_hash rq) (tm_proof md) (tm_raw_tx md)))"

lemma submissions_one_proof:
  "submissions rq md pre l \<Longrightarrow> reports_own C \<longrightarrow> tm_txid md = u \<Longrightarrow> \<exists>subs. l = pre @ subs \<and> one_proof C rq u subs"
  unfolding submissions_def one_proof_def by blast

lemma request_run_forms:
  assumes "request_run C rq addr rbf l"
  shows "l = [] \<or> (\<exists>rate. l = [Create addr (ucast (rq_amount rq)) rate (Some (rq_hash rq)) None]) \<or>
    (\<exists>rate t u bumps subs. l = Create addr (ucast (rq_amount rq)) rate (Some (rq_hash rq)) (Some t) # bumps @ subs \<and>
        current addr t bumps = Some u \<and> (\<not> rbf \<longrightarrow> bumps = []) \<and> one_proof C rq u subs)"
proof -
  have *: ?thesis if c: "chain rbf (paid rq addr rate t) addr t u pre" and l: "l = pre @ subs" "one_proof C rq u subs"
    for rate t u pre subs
    using chain_shape [OF c [unfolded paid_def], of subs] l by blast
  from assms show ?thesis
    unfolding request_run_def
  proof (elim disjE exE conjE)
    fix rate t u pre assume "chain rbf (paid rq addr rate t) addr t u pre" "l = pre"
    then show ?thesis by (intro *[where subs = "[]"]) (auto simp: one_proof_def)
  next
    fix rate t u pre md
    assume c: "chain rbf (paid rq addr rate t) addr t u pre" and m: "reports_own C \<longrightarrow> tm_txid md = u"
      and s: "submissions rq md pre l"
    obtain subs where "l = pre @ subs" "one_proof C rq u subs"
      using submissions_one_proof [OF s m] by blast
    then show ?thesis by (rule *[OF c])
  qed simp_all
qed

text \<open>
  C2. A request is paid once: in a run of \<open>pay_and_execute\<close> of any length, the wallet is asked
  for at most one payment, of the amount, to the address and with the hash of the request; then
  only for fee bumps, each of the transaction the previous one left and to the same address (and
  none without \<open>auto_rbf\<close>); and what is submitted to the parachain is one proof, again and
  again, that of the last transaction of this chain.
\<close>

theorem request_paid_once:
  assumes addr: "to_btc_address L (logged_wallet B) rq = Ok addr"
    and run: "pay_and_execute L (logged_exec C) (logged_wallet B) (\<lambda>fee budget. on_world (update fee budget)) nc rbf n rq (w, []) =
      (r, (w', log))"
  shows "length (filter is_create log) \<le> 1 \<and>
    (log = [] \<or>
     (\<exists>rate. log = [Create addr (ucast (rq_amount rq)) rate (Some (rq_hash rq)) None]) \<or>
     (\<exists>rate t u bumps subs. log = Create addr (ucast (rq_amount rq)) rate (Some (rq_hash rq)) (Some t) # bumps @ subs \<and>
        current addr t bumps = Some u \<and> (\<not> rbf \<longrightarrow> bumps = []) \<and>
        (subs = [] \<or> (\<exists>md :: transaction_metadata. \<exists>k. (reports_own C \<longrightarrow> tm_txid md = u) \<and>
           subs = replicate k (Submit (rq_request_type rq) (rq_hash rq) (tm_proof md) (tm_raw_tx md))))))"
  using request_run_forms [OF pay_run [OF addr run]] request_run_creates [OF pay_run [OF addr run]]
  unfolding one_proof_def by blast

definition demo_request :: "vault_id request" where
  "demo_request = \<lparr>rq_hash = [7], rq_btc_height = Some 1, rq_deadline = Some \<lparr>dl_parachain = 9, dl_bitcoin = 1\<rparr>,
     rq_amount = 1005, rq_btc_address = P2PKH (replicate 20 1), rq_request_type = Redeem,
     rq_vault_id = vault_id_new [] (Token KSM) (Token KBTC), rq_fee_budget = Some 9\<rparr>"

definition demo_metadata :: "txid \<Rightarrow> transaction_metadata" where
  "demo_metadata t = \<lparr>tm_txid = t, tm_proof = [1], tm_raw_tx = [2], tm_block_height = 3, tm_block_hash = [4], tm_fee = Some 5\<rparr>"

text \<open>A wallet whose first transaction is [8] and whose bumps yield [9]; the fee rises once.\<close>

definition demo_wallet :: "nat btc_api" where
  "demo_wallet = demo_btc_api\<lparr>
     b_create_and_send_transaction := (\<lambda>a v f h. a_ret [8]), b_bump_fee := (\<lambda>t a f. a_ret [9]),
     b_is_in_mempool := (\<lambda>t. a_ret True), b_fee_rate := (\<lambda>t. a_ret 1)\<rparr>"

definition demo_exec :: "nat exec_calls" where
  "demo_exec = \<lparr>
     xc_get_current_active_block_number = a_ret 5,
     xc_get_bitcoin_fees = a_ret (10 ^ 18),
     xc_next_wake = (\<lambda>t nc w. (if w = 0 then Fee_update (Ok (3 * 10 ^ 18)) else Metadata_ready (Ok (demo_metadata t)), Suc w)),
     xc_wait_for_block_in_relay = (\<lambda>h nc. a_ret ()),
     xc_execute_redeem = (\<lambda>h p t. a_ret ()), xc_execute_replace = (\<lambda>h p t. a_ret ()),
     xc_get_vault_redeem_requests = (\<lambda>a. a_ret []), xc_get_old_vault_replace_requests = (\<lambda>a. a_ret []),
     xc_waits = (\<lambda>w. []), xc_sleep = (\<lambda>t w. w + t)\<rparr>"

definition demo_address :: address where
  "demo_address = \<lparr>addr_payload = PubkeyHash (replicate 20 1), addr_network = Regtest\<rparr>"

lemma demo_to_address: "to_btc_address std_lib (logged_wallet demo_wallet) demo_request = Ok demo_address"
proof -
  have "to_payload std_lib (P2PKH (replicate 20 1)) = Ok (PubkeyHash (replicate 20 1))"
    by (subst to_payload_wf [OF std_lib_laws]) simp_all
  then show ?thesis
    by (simp add: to_btc_address_def to_address_def demo_request_def demo_wallet_def demo_btc_api_def demo_address_def)
qed

lemma demo_fee_rates: "sat_per_vbyte_of 1000000000000000000 = Ok 1" "sat_per_vbyte_of 3000000000000000000 = Ok 3"
  by (simp_all add: sat_per_vbyte_of_def checked_div_def fixed_u128_accuracy_def try_ucast_def)

lemma demo_amount: "rq_amount demo_request = 1005" "rq_hash demo_request = [7]"
  by (simp_all add: demo_request_def)

lemma demo_wallet_simps [simp]:
  "b_create_and_send_transaction demo_wallet = (\<lambda>a v f h. a_ret [8])" "b_bump_fee demo_wallet = (\<lambda>t a f. a_ret [9])"
  "b_is_in_mempool demo_wallet = (\<lambda>t. a_ret True)" "b_fee_rate demo_wallet = (\<lambda>t. a_ret 1)"
  by (simp_all add: demo_wallet_def)

lemma demo_bumps:
  "inclusion_step std_lib (logged_exec demo_exec) (logged_wallet demo_wallet) 6 True demo_request [8] (0, l) =
     (Ok (Inl [9]), (1, l @ [Bump [8] demo_address 3 (Some [9])]))"
  unfolding inclusion_step_def try_bump_def demo_to_address
  by (simp add: fee_item_def compare_fee_def still_in_mempool_def logged_next_wake demo_exec_def demo_fee_rates
      action_defs state_defs log_result_def Let_def)

lemma demo_included:
  "inclusion_step std_lib (logged_exec demo_exec) (logged_wallet demo_wallet) 6 True demo_request [9] (1, l) =
     (Ok (Inr (demo_metadata [9])), (2, l))"
  by (simp add: inclusion_step_def await_relay_def logged_next_wake demo_exec_def action_defs state_defs numeral_2_eq_2)

lemma demo_waits:
  "wait_for_inclusion std_lib (logged_exec demo_exec) (logged_wallet demo_wallet) 6 True demo_request (Suc (Suc n)) [8] (0, l) =
     (Ok (Some (demo_metadata [9])), (2, l @ [Bump [8] demo_address 3 (Some [9])]))"
  by (simp add: wait_for_inclusion_def a_bind_def a_match_def demo_bumps demo_included a_ret_def del: One_nat_def)

lemma demo_executes:
  "execute (logged_exec demo_exec) demo_request (demo_metadata [9]) (2, l) = (Ok (), (2, l @ [Submit Redeem [7] [1] [2]]))"
  by (simp add: execute_def on_runtime_def notify_retry_def retry_loop.simps execute_call_def verify_execution_def
      demo_request_def demo_metadata_def demo_exec_def action_defs log_result_def)

lemma demo_pays:
  "pay_and_execute std_lib (logged_exec demo_exec) (logged_wallet demo_wallet) (\<lambda>fee budget. on_world (a_ret ())) 6 True (Suc (Suc n))
     demo_request (0, []) = (Ok (Some ()), (2, [Create demo_address 1005 1 (Some [7]) (Some [8]),
       Bump [8] demo_address 3 (Some [9]), Submit Redeem [7] [1] [2]]))"
proof -
  have fee: "get_fee_rate (logged_exec demo_exec) (w, l) = (Ok 1, (w, l))" for w l
    by (simp add: get_fee_rate_def on_runtime_def demo_exec_def demo_fee_rates action_defs state_defs)
  have create: "on_bitcoin (b_create_and_send_transaction (logged_wallet demo_wallet) a v f h) (w, l) =
      (Ok [8], (w, l @ [Create a v f h (Some [8])]))" for a v f h w l
    by (simp add: on_bitcoin_def action_defs log_result_def)
  have dl: "(case rq_deadline demo_request of
         Some deadline \<Rightarrow> a_bind (deadline_expired (logged_exec demo_exec) (logged_wallet demo_wallet) deadline)
           (\<lambda>expired. if expired then a_err Ve_DeadlineExpired else a_ret ())
       | None \<Rightarrow> a_ret ()) (w, l) = (Ok (), (w, l))" for w l
    by (simp add: demo_request_def deadline_expired_def demo_exec_def on_runtime_def action_defs state_defs)
  have tr: "transfer_btc std_lib (logged_exec demo_exec) (logged_wallet demo_wallet) 6 True (Suc (Suc n)) demo_request (0, []) =
     (Ok (Some (demo_metadata [9])), (2, [Create demo_address 1005 1 (Some [7]) (Some [8]), Bump [8] demo_address 3 (Some [9])]))"
    unfolding transfer_btc_def demo_to_address
    by (simp add: a_bind_def a_match_def fee create demo_waits a_lift_def demo_amount del: logged_wallet_simps)
  show ?thesis
    unfolding pay_and_execute_def
    by (simp add: a_bind_def a_match_def dl tr demo_executes a_ret_def a_ignore_def on_world_def
        del: logged_wallet_simps logged_exec_simps)
qed

lemma request_paid_once_witness:
  "length (filter is_create [Create demo_address 1005 1 (Some [7]) (Some [8]),
     Bump [8] demo_address 3 (Some [9]), Submit Redeem [7] [1] [2]]) \<le> 1"
  using request_paid_once [OF demo_to_address demo_pays [of 3]] by (rule conjunct1)

text \<open>
  C3. No payment after the deadline: if a run for a redeem request asked the wallet for anything,
  then at its start the active block plus the payment margin was before the end of the request's
  period, or the Bitcoin height plus the margin in Bitcoin blocks was before its Bitcoin end.
\<close>

theorem redeem_paid_before_deadline:
  assumes req: "from_redeem_request hash redeem margin = Ok rq"
    and run: "pay_and_execute L (logged_exec C) (logged_wallet B) (\<lambda>fee budget. on_world (update fee budget)) nc rbf n rq (w, []) =
      (r, (w', log))"
    and "log \<noteq> []"
  shows "\<exists>h w1. xc_get_current_active_block_number C w = (Ok h, w1) \<and>
    (unat h + unat margin div 12000 < unat (rd_opentime redeem) + unat (rd_period redeem) \<or>
     (\<exists>c w2. b_get_block_count B w1 = (Ok c, w2) \<and>
        unat c + (unat margin div 12000 + 49) div 50 < unat (rd_btc_height redeem) + (unat (rd_period redeem) + 49) div 50))"
proof -
  from req obtain d where cd: "calculate_deadline (rd_opentime redeem) (rd_btc_height redeem) (rd_period redeem) margin = Ok d"
    and d: "rq_deadline rq = Some d"
    by (auto simp: from_redeem_request_def)
  from calculate_deadline_Ok [OF cd] pay_before_deadline [OF run assms(3) d]
  show ?thesis
    by (fastforce simp: before_deadline_def word_less_nat_alt unat_ucast_up)
qed

definition demo_redeem :: "vault_id redeem_request" where
  "demo_redeem = \<lparr>rd_vault = vault_id_new [] (Token KSM) (Token KBTC), rd_opentime = 4, rd_period = 15, rd_amount_btc = 1005,
     rd_transfer_fee_btc = 9, rd_btc_address = P2PKH (replicate 20 1), rd_btc_height = 1, rd_status = Rd_Pending\<rparr>"

lemma demo_redeem_request: "from_redeem_request [7] demo_redeem 120000 = Ok demo_request"
proof -
  have "calculate_deadline 4 1 15 120000 = Ok \<lparr>dl_parachain = 9, dl_bitcoin = 1\<rparr>"
    by (simp add: calculate_deadline_value)
  then show ?thesis by (simp add: from_redeem_request_def demo_redeem_def demo_request_def)
qed

lemma redeem_paid_before_deadline_witness:
  "\<exists>h w1. xc_get_current_active_block_number demo_exec 0 = (Ok h, w1) \<and> unat h + 10 < 19"
  using redeem_paid_before_deadline [OF demo_redeem_request demo_pays]
  by (simp add: demo_exec_def demo_redeem_def a_ret_def)

interpretation ex: retried "xc_sleep C" "execute_call C rq md" verify_execution "\<lambda>_ _. True"
    "\<lambda>w' _. \<exists>w0. execute_call C rq md w0 = (Ok (), w')"
    "\<lambda>w' e. (is_rpc_disconnect_error e \<or> is_invalid_chain_id e) \<and> (\<exists>w0. execute_call C rq md w0 = (Err e, w'))"
  for C :: "'w exec_calls" and rq :: "'v request" and md
  by unfold_locales
    (auto simp: verify_execution_def action_defs split: result.splits if_splits)

text \<open>
  An execution ends as its last attempt did: with success if that attempt succeeded, with
  its error if that is a lost connection or an invalid chain id, which are not retried; any other
  error is retried until the waits are used up, which is the timeout.
\<close>

theorem execution_outcome:
  assumes "execute C rq md w = (r, w')"
  shows "(r = Ok () \<longrightarrow> (\<exists>w0. execute_call C rq md w0 = (Ok (), w'))) \<and>
    (\<forall>e. r = Err e \<longrightarrow> e = Ve_RuntimeError Re_Timeout \<or>
       (\<exists>x w0. e = Ve_RuntimeError x \<and> (is_rpc_disconnect_error x \<or> is_invalid_chain_id x) \<and>
          execute_call C rq md w0 = (Err x, w')))"
proof -
  obtain x where loop: "retry_loop Re_Timeout (xc_waits C w) (xc_sleep C) (execute_call C rq md) verify_execution w = (x, w')"
    and r: "r = map_err Ve_RuntimeError x"
    using assms by (auto simp: execute_def on_runtime_def notify_retry_def a_map_err_def split: prod.splits)
  show ?thesis
    using ex.retry_Ok [of Re_Timeout "xc_waits C w" C rq md w] ex.retry_Err [of Re_Timeout "xc_waits C w" C rq md w]
    by (cases x) (auto simp: r loop)
qed

lemma execution_outcome_witness:
  "\<exists>w0. execute_call demo_exec demo_request (demo_metadata [9]) w0 = (Ok (), 2)"
proof -
  have "execute demo_exec demo_request (demo_metadata [9]) 2 = (Ok (), 2)"
    by (simp add: execute_def on_runtime_def notify_retry_def retry_loop.simps execute_call_def verify_execution_def
        demo_request_def demo_exec_def action_defs)
  from execution_outcome [OF this] show ?thesis by simp
qed

text \<open>
  C6. No open request is forgotten and none is handled twice: when the node answers, the tasks
  spawned have different request ids; each confirms a transaction of the chain or the mempool
  that pays for its request; and once the search has ended every open request has its task, and
  those that are paid anew are the ones no transaction found pays for.
\<close>

theorem open_requests_settled:
  assumes "xc_get_vault_redeem_requests C self w = (Ok redeems, w1)"
    and "xc_get_old_vault_replace_requests C self w1 = (Ok replaces, w2)"
    and "open_requests redeems replaces margin \<noteq> []"
    and "reverse_stream_transactions B (earliest_btc_height (open_requests redeems replaces margin)) n w2 = (Ok (txs, ended), w3)"
  shows "\<exists>tasks. execute_open_requests L txid_of C B self margin n w = (Ok (tasks, ended), w3) \<and>
    distinct (map (rq_hash \<circ> task_request) tasks) \<and>
    task_request ` set tasks \<subseteq> snd ` set (open_requests redeems replaces margin) \<and>
    (ended \<longrightarrow> task_request ` set tasks = snd ` set (open_requests redeems replaces margin)) \<and>
    (\<forall>t \<in> set tasks. case t of
        Confirm_and_execute r i \<Rightarrow> \<exists>tx. Ok tx \<in> set txs \<and> i = txid_of tx \<and> pays_for L tx r
      | Pay_and_execute r \<Rightarrow> ended \<and> (\<forall>tx. Ok tx \<in> set txs \<longrightarrow> \<not> pays_for L tx r))"
proof -
  let ?reqs = "open_requests redeems replaces margin"
  obtain ts left where m: "match_payments L txid_of txs ?reqs = (ts, left)" by fastforce
  define tasks where "tasks = ts @ (if ended then map (\<lambda>(_, r). Pay_and_execute r) left else [])"
  note s = match_payments_settles [OF m keyed_open]
  have left_keys: "map (rq_hash \<circ> task_request) (map (\<lambda>(_, r). Pay_and_execute r) left) = map fst left"
    using s by (auto simp: keyed_def)
  have run: "execute_open_requests L txid_of C B self margin n w = (Ok (tasks, ended), w3)"
    using assms m by (simp add: execute_open_requests_def action_defs Let_def tasks_def)
  have dist: "distinct (map (rq_hash \<circ> task_request) tasks)"
  proof (cases ended)
    case True
    have "distinct (map fst left)" using s by (simp add: keyed_def)
    moreover have "set (map (rq_hash \<circ> task_request) ts) \<inter> set (map fst left) = {}" using s by auto
    ultimately show ?thesis using s True by (simp add: tasks_def left_keys del: map_map)
  qed (use s in \<open>simp add: tasks_def\<close>)
  have all: "snd ` set ?reqs = snd ` set left \<union> task_request ` set ts"
    using s by (simp add: image_Un image_image)
  have new: "task_request ` set (map (\<lambda>(_, r). Pay_and_execute r) left) = snd ` set left"
    by (auto simp: image_image split_beta)
  have part: "task_request ` set tasks = task_request ` set ts \<union> (if ended then snd ` set left else {})"
    using new by (cases ended) (simp_all add: tasks_def image_Un del: set_map)
  have kinds: "case t of Confirm_and_execute r i \<Rightarrow> \<exists>tx. Ok tx \<in> set txs \<and> i = txid_of tx \<and> pays_for L tx r
      | Pay_and_execute r \<Rightarrow> ended \<and> (\<forall>tx. Ok tx \<in> set txs \<longrightarrow> \<not> pays_for L tx r)" if "t \<in> set tasks" for t
  proof (cases "t \<in> set ts")
    case True
    then have "found L txid_of txs t" using s by blast
    then show ?thesis by (auto simp: found_def)
  next
    case False
    with that obtain k r where "ended" "t = Pay_and_execute r" "(k, r) \<in> set left"
      by (auto simp: tasks_def split: if_splits)
    with s show ?thesis by auto
  qed
  have sub: "task_request ` set tasks \<subseteq> snd ` set ?reqs" "ended \<longrightarrow> task_request ` set tasks = snd ` set ?reqs"
    unfolding all part by auto
  show ?thesis
    using run dist kinds sub by blast
qed

lemma open_requests_settled_witness:
  "\<exists>tasks. execute_open_requests std_lib (\<lambda>tx. [9]) (demo_exec\<lparr>xc_get_vault_redeem_requests := \<lambda>a. a_ret [([7], demo_redeem)]\<rparr>)
      demo_btc_api [] 120000 5 0 = (Ok (tasks, True), 0) \<and> task_request ` set tasks = {demo_request}"
proof -
  let ?C = "demo_exec\<lparr>xc_get_vault_redeem_requests := \<lambda>a. a_ret [([7], demo_redeem)]\<rparr>"
  have reqs: "open_requests [([7], demo_redeem)] [] 120000 = [([7], demo_request)]"
    by (simp add: open_requests_def demo_redeem_request demo_redeem_def [THEN arg_cong, of rd_status])
       (simp add: demo_request_def)
  have start: "earliest_btc_height [([7], demo_request)] = 1"
    by (simp add: earliest_btc_height_def demo_request_def)
  have q: "xc_get_vault_redeem_requests ?C [] 0 = (Ok [([7], demo_redeem)], 0)"
      "xc_get_old_vault_replace_requests ?C [] 0 = (Ok [], 0)"
    by (simp_all add: demo_exec_def a_ret_def)
  have blocks: "reverse_stream_blocks demo_btc_api 1 5 (0 :: nat) = (Ok ([Ok (demo_block 102), Ok (demo_block 101)], True), 0)"
    using reverse_stream_chain [OF demo_serves, of 1 5 "0 :: nat"] by (simp add: demo_chain_def)
  have "b_get_mempool_transactions demo_btc_api (0 :: nat) = (Ok [], 0)" by (simp add: demo_btc_api_def a_ret_def)
  with blocks have "reverse_stream_transactions demo_btc_api 1 5 (0 :: nat) = (Ok ([], True), 0)"
    by (simp add: reverse_stream_transactions_def reverse_stream_in_chain_transactions_def action_defs
        block_transactions_def demo_block_def)
  with open_requests_settled [OF q, of 120000 demo_btc_api 5 "[]" True 0 std_lib "\<lambda>tx. [9]"]
  show ?thesis by (auto simp: reqs start)
qed

end
