(* ===== verification/Relay.thy ===== *)
theory Relay
  imports Pallets Events BlockStream ActionLogic
begin

text \<open>
  The BTC relay client of the vault (\<open>vault/src/relay/\<close>): the traits \<open>Backing\<close> (the Bitcoin
  node, \<open>backing.rs\<close>) and \<open>Issuing\<close> (the parachain's light client, \<open>issuing.rs\<close>) with their
  implementations, the search for the height to submit from, and the loop that submits headers
  (\<open>mod.rs\<close>). Loops that wait for the Bitcoin node, or that run along a stored fork, are
  \<open>a_loop\<close>s with a bound on their rounds.
\<close>

datatype relay_error =
    Rl_AlreadyInitialized | Rl_NotInitialized | Rl_BlockExists | Rl_CannotFetchBestHeight
  | Rl_BlockHashNotFound | Rl_DecodeHash | Rl_SerializeHeader
  | Rl_BitcoinError bitcoin_error | Rl_InterBtcError runtime_error

section \<open>The interfaces\<close>

record 'w backing =
  bk_get_block_count :: "('w, u32, relay_error) action"
  bk_get_block_header :: "u32 \<Rightarrow> ('w, bytes option, relay_error) action"
  bk_get_block_hash :: "u32 \<Rightarrow> ('w, bytes, relay_error) action"

text \<open>The delay is the random delay the caller passes in.\<close>

record 'w issuing =
  iu_is_initialized :: "('w, bool, relay_error) action"
  iu_initialize :: "bytes \<Rightarrow> u32 \<Rightarrow> ('w, unit, relay_error) action"
  iu_submit_block_header :: "bytes \<Rightarrow> (bytes \<Rightarrow> ('w, unit, runtime_error) action) \<Rightarrow> ('w, unit, relay_error) action"
  iu_submit_block_header_batch :: "bytes list \<Rightarrow> ('w, unit, relay_error) action"
  iu_get_best_height :: "('w, u32, relay_error) action"
  iu_get_block_hash :: "u32 \<Rightarrow> ('w, bytes, relay_error) action"
  iu_is_block_stored :: "bytes \<Rightarrow> ('w, bool, relay_error) action"

section \<open>The Bitcoin node as backing\<close>

definition on_backing :: "('w, 'a, bitcoin_error) action \<Rightarrow> ('w, 'a, relay_error) action" where
  "on_backing m = a_map_err Rl_BitcoinError m"

definition backing_get_block_count :: "'w btc_api \<Rightarrow> ('w, u32, relay_error) action" where
  "backing_get_block_count B = a_bind (on_backing (b_get_block_count B)) (\<lambda>count. a_ret (ucast count))"

text \<open>Hashes and headers are their serialized bytes (\<open>hdr_bytes\<close>).\<close>

definition backing_get_block_header :: "'w btc_api \<Rightarrow> u32 \<Rightarrow> ('w, bytes option, relay_error) action" where
  "backing_get_block_header B height =
     a_match (b_get_block_hash B height)
       (\<lambda>block_hash. a_bind (on_backing (b_get_block_header B block_hash))
          (\<lambda>block_header. a_ret (Some (hdr_bytes block_header))))
       (\<lambda>err. if err = Be_InvalidBitcoinHeight then a_ret None else a_err (Rl_BitcoinError err))"

definition backing_get_block_hash :: "'w btc_api \<Rightarrow> u32 \<Rightarrow> ('w, bytes, relay_error) action" where
  "backing_get_block_hash B height = on_backing (b_get_block_hash B height)"

definition core_backing :: "'w btc_api \<Rightarrow> 'w backing" where
  "core_backing B = \<lparr>bk_get_block_count = backing_get_block_count B,
     bk_get_block_header = backing_get_block_header B, bk_get_block_hash = backing_get_block_hash B\<rparr>"

section \<open>The parachain as issuing chain\<close>

definition on_issuing :: "('w, 'a, runtime_error) action \<Rightarrow> ('w, 'a, relay_error) action" where
  "on_issuing m = a_map_err Rl_InterBtcError m"

definition encode_raw_header :: "bytes \<Rightarrow> (bytes, relay_error) result" where
  "encode_raw_header bs = (if length bs = 80 then Ok bs else Err Rl_SerializeHeader)"

definition issuing_is_initialized :: "'w node \<Rightarrow> ('w \<times> client, bool, relay_error) action" where
  "issuing_is_initialized N =
     a_bind (on_issuing (on_world (get_best_block N))) (\<lambda>hash. a_ret (\<not> list_all (\<lambda>b. b = 0) hash))"

definition issuing_initialize :: "'w node \<Rightarrow> bytes \<Rightarrow> u32 \<Rightarrow> ('w \<times> client, unit, relay_error) action" where
  "issuing_initialize N header height =
     a_bind (a_lift (encode_raw_header header)) (\<lambda>raw. on_issuing (initialize_btc_relay N raw height))"

definition issuing_is_block_stored :: "'w node \<Rightarrow> bytes \<Rightarrow> ('w \<times> client, bool, relay_error) action" where
  "issuing_is_block_stored N hash_le =
     a_bind (on_issuing (on_world (relay_get_block_header N hash_le))) (\<lambda>head. a_ret (bh_block_height head > 0))"

text \<open>\<open>header_hash\<close> is the double SHA-256 of a raw header, \<open>sha256\<close> the hash the delay is seeded with.\<close>

definition issuing_submit_block_header ::
  "(bytes \<Rightarrow> bytes) \<Rightarrow> (bytes \<Rightarrow> bytes) \<Rightarrow> 'w node \<Rightarrow> bytes
    \<Rightarrow> (bytes \<Rightarrow> ('w \<times> client, unit, runtime_error) action) \<Rightarrow> ('w \<times> client, unit, relay_error) action" where
  "issuing_submit_block_header sha256 header_hash N header random_delay =
     a_bind (a_lift (encode_raw_header header)) (\<lambda>raw_block_header.
     a_bind (on_issuing (random_delay (sha256 header))) (\<lambda>_.
     a_bind (issuing_is_block_stored N (header_hash raw_block_header)) (\<lambda>stored.
     if stored then a_ret () else on_issuing (store_block_header N raw_block_header))))"

definition issuing_submit_block_header_batch :: "'w node \<Rightarrow> bytes list \<Rightarrow> ('w \<times> client, unit, relay_error) action" where
  "issuing_submit_block_header_batch N headers =
     a_bind (a_lift (collect (map encode_raw_header headers))) (\<lambda>raws. on_issuing (store_block_headers N raws))"

definition issuing_get_best_height :: "'w node \<Rightarrow> ('w \<times> client, u32, relay_error) action" where
  "issuing_get_best_height N = on_issuing (on_world (get_best_block_height N))"

definition issuing_get_block_hash :: "'w node \<Rightarrow> u32 \<Rightarrow> ('w \<times> client, bytes, relay_error) action" where
  "issuing_get_block_hash N height = on_issuing (on_world (relay_get_block_hash N height))"

definition parachain_issuing :: "(bytes \<Rightarrow> bytes) \<Rightarrow> (bytes \<Rightarrow> bytes) \<Rightarrow> 'w node \<Rightarrow> ('w \<times> client) issuing" where
  "parachain_issuing sha256 header_hash N = \<lparr>
     iu_is_initialized = issuing_is_initialized N, iu_initialize = issuing_initialize N,
     iu_submit_block_header = issuing_submit_block_header sha256 header_hash N,
     iu_submit_block_header_batch = issuing_submit_block_header_batch N,
     iu_get_best_height = issuing_get_best_height N, iu_get_block_hash = issuing_get_block_hash N,
     iu_is_block_stored = issuing_is_block_stored N\<rparr>"

section \<open>The height to submit from\<close>

text \<open>The backwards pass counts down to the last height at which both chains agree.\<close>

function backwards_pass ::
  "'w backing \<Rightarrow> 'w issuing \<Rightarrow> u32 \<Rightarrow> bytes \<Rightarrow> bytes \<Rightarrow> ('w, u32, relay_error) action" where
  "backwards_pass backing issuing start_height relay_hash btc_hash =
     (if relay_hash = btc_hash then a_ret start_height
      else case checked_sub start_height 1 of
          None \<Rightarrow> a_err Rl_NotInitialized
        | Some height \<Rightarrow>
            a_bind (iu_get_block_hash issuing height) (\<lambda>relay_hash'.
            a_bind (bk_get_block_hash backing height) (\<lambda>btc_hash'.
            backwards_pass backing issuing height relay_hash' btc_hash')))"
  by pat_completeness auto

termination
  by (relation "measure (\<lambda>(_, _, h, _). unat h)") (auto simp: checked_sub_Some)

declare backwards_pass.simps [simp del]

text \<open>The forward pass skips the blocks of the Bitcoin chain that are stored, on whatever fork.\<close>

definition forward_step :: "'w backing \<Rightarrow> 'w issuing \<Rightarrow> u32 \<Rightarrow> ('w, u32 + u32, relay_error) action" where
  "forward_step backing issuing start_height =
     a_match (bk_get_block_hash backing start_height)
       (\<lambda>h. a_bind (iu_is_block_stored issuing h)
          (\<lambda>stored. a_ret (if stored then Inl (saturating_add start_height 1) else Inr start_height)))
       (\<lambda>e. a_ret (Inr start_height))"

definition compute_start_height ::
  "'w backing \<Rightarrow> 'w issuing \<Rightarrow> nat \<Rightarrow> ('w, u32 option, relay_error) action" where
  "compute_start_height backing issuing n =
     a_bind (iu_get_best_height issuing) (\<lambda>start_height.
     a_bind (iu_get_block_hash issuing start_height) (\<lambda>relay_hash.
     a_bind (bk_get_block_hash backing start_height) (\<lambda>btc_hash.
     a_bind (backwards_pass backing issuing start_height relay_hash btc_hash)
       (a_loop (forward_step backing issuing) n))))"

text \<open>\<open>header.unwrap()\<close> panics when the node has no block at the height.\<close>

definition unwrap_header :: "bytes option \<Rightarrow> (bytes, 'e) result" where
  "unwrap_header header = (case header of Some h \<Rightarrow> Ok h | None \<Rightarrow> Panic)"

definition collect_headers ::
  "bool \<Rightarrow> u32 \<Rightarrow> u32 \<Rightarrow> 'w backing \<Rightarrow> ('w, bytes list, relay_error) action" where
  "collect_headers oc height count cli =
     a_bind (a_lift (plain_add oc height count)) (\<lambda>end_height.
     a_mapM (\<lambda>h. a_bind (bk_get_block_header cli (of_nat h)) (\<lambda>header. a_lift (unwrap_header header)))
       [unat height ..< unat end_height])"

section \<open>The relayer\<close>

record relay_config =
  rc_start_height :: "u32 option"
  rc_max_batch_size :: u32
  rc_interval :: "nat option"
  rc_btc_confirmations :: u32

record 'w runner =
  rn_backing :: "'w backing"
  rn_issuing :: "'w issuing"
  rn_random_delay :: "bytes \<Rightarrow> ('w, unit, runtime_error) action"
  rn_start_height :: "u32 option"
  rn_max_batch_size :: u32
  rn_interval :: nat
  rn_btc_confirmations :: u32
  rn_sleep :: "nat \<Rightarrow> 'w \<Rightarrow> 'w"

definition SLEEP_TIME :: nat where "SLEEP_TIME = 600 * 1000"

definition runner_new ::
  "'w backing \<Rightarrow> 'w issuing \<Rightarrow> relay_config \<Rightarrow> (bytes \<Rightarrow> ('w, unit, runtime_error) action)
    \<Rightarrow> (nat \<Rightarrow> 'w \<Rightarrow> 'w) \<Rightarrow> 'w runner" where
  "runner_new backing issuing conf random_delay sleep = \<lparr>rn_backing = backing, rn_issuing = issuing,
     rn_random_delay = random_delay, rn_start_height = rc_start_height conf,
     rn_max_batch_size = rc_max_batch_size conf,
     rn_interval = (case rc_interval conf of Some i \<Rightarrow> i | None \<Rightarrow> SLEEP_TIME),
     rn_btc_confirmations = rc_btc_confirmations conf, rn_sleep = sleep\<rparr>"

definition runner_sleep :: "'w runner \<Rightarrow> ('w, unit, 'e) action" where
  "runner_sleep R w = (Ok (), rn_sleep R (rn_interval R) w)"

definition header_step :: "'w runner \<Rightarrow> u32 \<Rightarrow> unit \<Rightarrow> ('w, unit + bytes, relay_error) action" where
  "header_step R height _ =
     a_bind (bk_get_block_header (rn_backing R) height) (\<lambda>header. case header of
         Some h \<Rightarrow> a_ret (Inr h)
       | None \<Rightarrow> a_bind (runner_sleep R) (\<lambda>_. a_ret (Inl ())))"

definition runner_get_block_header :: "'w runner \<Rightarrow> nat \<Rightarrow> u32 \<Rightarrow> ('w, bytes option, relay_error) action" where
  "runner_get_block_header R n height = a_loop (header_step R height) n ()"

definition get_num_confirmed_blocks :: "'w runner \<Rightarrow> ('w, u32, relay_error) action" where
  "get_num_confirmed_blocks R =
     a_bind (bk_get_block_count (rn_backing R)) (\<lambda>count. a_ret (saturating_sub count (rn_btc_confirmations R)))"

definition initialize_relay :: "'w runner \<Rightarrow> ('w, unit, relay_error) action" where
  "initialize_relay R =
     a_bind (iu_is_initialized (rn_issuing R)) (\<lambda>initialized.
     if initialized then a_ret ()
     else a_bind (get_num_confirmed_blocks R) (\<lambda>confirmed.
          let start_height = (case rn_start_height R of Some h \<Rightarrow> h | None \<Rightarrow> confirmed) in
          a_bind (bk_get_block_header (rn_backing R) start_height) (\<lambda>header.
          a_bind (a_lift (unwrap_header header)) (\<lambda>h.
          iu_initialize (rn_issuing R) h start_height))))"

definition batch_size :: "u32 \<Rightarrow> u32 \<Rightarrow> u32 \<Rightarrow> u32" where
  "batch_size max_batch_size max_height current_height =
     (if saturating_add current_height max_batch_size > max_height
      then saturating_sub (saturating_add max_height 1) current_height
      else max_batch_size)"

text \<open>The log lines of the batch case compute \<open>current_height + batch_size\<close>, as \<open>collect_headers\<close> does.\<close>

definition submit_from :: "bool \<Rightarrow> 'w runner \<Rightarrow> nat \<Rightarrow> u32 \<Rightarrow> u32 \<Rightarrow> ('w, unit option, relay_error) action" where
  "submit_from oc R n current_height blocks =
     (if blocks = 0 then a_bind (runner_sleep R) (\<lambda>_. a_ret (Some ()))
      else if blocks = 1
      then a_bind (runner_get_block_header R n current_height) (\<lambda>header. case header of
             None \<Rightarrow> a_ret None
           | Some h \<Rightarrow> a_bind (iu_submit_block_header (rn_issuing R) h (rn_random_delay R)) (\<lambda>_. a_ret (Some ())))
      else a_bind (collect_headers oc current_height blocks (rn_backing R)) (\<lambda>headers.
           a_bind (iu_submit_block_header_batch (rn_issuing R) headers) (\<lambda>_. a_ret (Some ()))))"

definition submit_next :: "bool \<Rightarrow> 'w runner \<Rightarrow> nat \<Rightarrow> ('w, unit option, relay_error) action" where
  "submit_next oc R n =
     a_bind (initialize_relay R) (\<lambda>_.
     a_bind (get_num_confirmed_blocks R) (\<lambda>max_height.
     a_bind (compute_start_height (rn_backing R) (rn_issuing R) n) (\<lambda>start. case start of
         None \<Rightarrow> a_ret None
       | Some current_height \<Rightarrow>
           submit_from oc R n current_height (batch_size (rn_max_batch_size R) max_height current_height))))"

text \<open>
  One round of \<open>run_relayer\<close>: two kinds of errors end it, the others are logged. \<open>Inr ()\<close> is a
  round that is still running when its bound \<open>n\<close> is used up.
\<close>

definition relayer_step :: "bool \<Rightarrow> 'w runner \<Rightarrow> nat \<Rightarrow> unit \<Rightarrow> ('w, unit + unit, service_error) action" where
  "relayer_step oc R n _ =
     a_match (submit_next oc R n) (\<lambda>x. a_ret (case x of Some _ \<Rightarrow> Inl () | None \<Rightarrow> Inr ()))
       (\<lambda>err. case err of
           Rl_InterBtcError e \<Rightarrow>
             if is_duplicate_block e then a_ret (Inl ())
             else if is_rpc_disconnect_error e then a_err Se_ClientShutdown else a_ret (Inl ())
         | Rl_BitcoinError e \<Rightarrow> if is_transport_error e then a_err Se_ClientShutdown else a_ret (Inl ())
         | _ \<Rightarrow> a_ret (Inl ()))"

definition run_relayer :: "bool \<Rightarrow> 'w runner \<Rightarrow> nat \<Rightarrow> nat \<Rightarrow> ('w, unit option, service_error) action" where
  "run_relayer oc R n rounds = a_loop (relayer_step oc R n) rounds ()"

end
