(* ===== verification/RelayFacts.thy ===== *)
theory RelayFacts
  imports Relay
begin

text \<open>
  What the relay client does on chains: the Bitcoin node's chain \<open>bc\<close> and the relay's main chain
  \<open>rc\<close> as lists of block hashes by height, \<open>stored\<close> the hashes the relay has stored on any fork.
\<close>

section \<open>The batch\<close>

lemma batch_size_value:
  assumes "unat max_height < 2 ^ 32 - 1"
  shows "unat (batch_size max_batch max_height cur) = min (unat max_batch) (unat max_height + 1 - unat cur)"
proof -
  have m: "unat (saturating_add max_height 1) = unat max_height + 1"
    using assms by (simp add: unat_saturating_add)
  show ?thesis
    using assms unat_u32_less [of max_batch] unat_u32_less [of cur]
    by (simp add: batch_size_def word_less_nat_alt unat_saturating_add unat_saturating_sub m min_def) arith
qed

section \<open>Chains\<close>

record relay_view =
  rv_bc :: "bytes list"
  rv_rc :: "bytes list"
  rv_stored :: "bytes set"
  rv_header :: "bytes \<Rightarrow> bytes"

text \<open>Both sides answer from the chains, in the world \<open>w\<close>, which asking does not change.\<close>

definition backing_answers :: "'w backing \<Rightarrow> relay_view \<Rightarrow> 'w \<Rightarrow> bool" where
  "backing_answers B V w \<longleftrightarrow> rv_bc V \<noteq> [] \<and> length (rv_bc V) < 2 ^ 32 - 1 \<and>
     bk_get_block_count B w = (Ok (of_nat (length (rv_bc V) - 1)), w) \<and>
     (\<forall>h. if h < length (rv_bc V)
        then bk_get_block_hash B (of_nat h) w = (Ok (rv_bc V ! h), w) \<and>
             bk_get_block_header B (of_nat h) w = (Ok (Some (rv_header V (rv_bc V ! h))), w)
        else h < 2 ^ 32 \<longrightarrow> (\<exists>e. bk_get_block_hash B (of_nat h) w = (Err e, w)))"

definition issuing_answers :: "'w issuing \<Rightarrow> relay_view \<Rightarrow> 'w \<Rightarrow> bool" where
  "issuing_answers I V w \<longleftrightarrow> rv_rc V \<noteq> [] \<and> length (rv_rc V) \<le> length (rv_bc V) \<and>
     iu_is_initialized I w = (Ok True, w) \<and>
     iu_get_best_height I w = (Ok (of_nat (length (rv_rc V) - 1)), w) \<and>
     (\<forall>h < length (rv_rc V). iu_get_block_hash I (of_nat h) w = (Ok (rv_rc V ! h), w)) \<and>
     (\<forall>x. iu_is_block_stored I x w = (Ok (x \<in> rv_stored V), w))"

text \<open>The last height up to \<open>h\<close> at which the chains agree.\<close>

fun last_common :: "relay_view \<Rightarrow> nat \<Rightarrow> nat option" where
  "last_common V 0 = (if rv_rc V ! 0 = rv_bc V ! 0 then Some 0 else None)"
| "last_common V (Suc h) = (if rv_rc V ! Suc h = rv_bc V ! Suc h then Some (Suc h) else last_common V h)"

lemma last_common_Some:
  "last_common V h = Some a \<longleftrightarrow> a \<le> h \<and> rv_rc V ! a = rv_bc V ! a \<and> (\<forall>i. a < i \<and> i \<le> h \<longrightarrow> rv_rc V ! i \<noteq> rv_bc V ! i)"
  by (induction h) (auto simp: le_Suc_eq)

lemma last_common_None: "last_common V h = None \<longleftrightarrow> (\<forall>i \<le> h. rv_rc V ! i \<noteq> rv_bc V ! i)"
  by (induction h) (auto simp: le_Suc_eq)

lemma backwards_value:
  assumes "backing_answers B V w" and "issuing_answers I V w" and "h < length (rv_rc V)"
  shows "backwards_pass B I (of_nat h) (rv_rc V ! h) (rv_bc V ! h) w =
     (case last_common V h of Some a \<Rightarrow> (Ok (of_nat a), w) | None \<Rightarrow> (Err Rl_NotInitialized, w))"
  using assms(3)
proof (induction h)
  case 0
  then show ?case
    by (subst backwards_pass.simps) (simp add: checked_sub_def a_ret_def a_err_def)
next
  case (Suc h)
  have lt: "Suc h < 2 ^ 32" "h < length (rv_bc V)"
    using assms(1,2) Suc.prems by (auto simp: backing_answers_def issuing_answers_def)
  then have u: "unat (of_nat (Suc h) :: u32) = Suc h" by (intro unat_height) auto
  have "checked_sub (of_nat (Suc h)) 1 = Some (of_nat h :: u32)"
    using u by (simp add: checked_sub_def word_le_nat_alt)
  moreover have "iu_get_block_hash I (of_nat h) w = (Ok (rv_rc V ! h), w)"
    using assms(2) Suc.prems by (simp add: issuing_answers_def)
  moreover have "bk_get_block_hash B (of_nat h) w = (Ok (rv_bc V ! h), w)"
    using assms(1) lt(2) by (simp add: backing_answers_def)
  ultimately show ?case
    using Suc by (subst backwards_pass.simps) (simp add: action_defs)
qed

text \<open>The first height from \<open>a\<close> on whose block the relay has not stored.\<close>

definition first_missing :: "relay_view \<Rightarrow> nat \<Rightarrow> nat" where
  "first_missing V a = a + length (takeWhile (\<lambda>x. x \<in> rv_stored V) (drop a (rv_bc V)))"

lemma first_missing_step:
  "a < length (rv_bc V) \<Longrightarrow>
   first_missing V a = (if rv_bc V ! a \<in> rv_stored V then first_missing V (Suc a) else a)"
  by (simp add: first_missing_def Cons_nth_drop_Suc [symmetric])

lemma forward_value:
  assumes "backing_answers B V w" and "issuing_answers I V w"
    and "a \<le> length (rv_bc V)" and "length (rv_bc V) - a < n"
  shows "a_loop (forward_step B I) n (of_nat a) w = (Ok (Some (of_nat (first_missing V a))), w)"
  using assms(3,4)
proof (induction n arbitrary: a)
  case 0
  then show ?case by simp
next
  case (Suc n)
  show ?case
  proof (cases "a < length (rv_bc V)")
    case False
    then have "first_missing V a = a" by (simp add: first_missing_def)
    moreover obtain e where "bk_get_block_hash B (of_nat a) w = (Err e, w)"
      using assms(1) Suc.prems(1) False by (auto simp: backing_answers_def dest!: spec [of _ a])
    ultimately show ?thesis by (simp add: forward_step_def action_defs)
  next
    case True
    have sat: "saturating_add (of_nat a) 1 = (of_nat (Suc a) :: u32)"
      using True assms(1) by (simp add: saturating_add_def unat_height backing_answers_def)
    have "bk_get_block_hash B (of_nat a) w = (Ok (rv_bc V ! a), w)"
      using assms(1) True by (simp add: backing_answers_def)
    moreover have "iu_is_block_stored I (rv_bc V ! a) w = (Ok (rv_bc V ! a \<in> rv_stored V), w)"
      using assms(2) by (simp add: issuing_answers_def)
    ultimately show ?thesis
      using Suc.IH [of "Suc a"] Suc.prems True
      by (simp add: forward_step_def action_defs first_missing_step sat del: of_nat_Suc)
  qed
qed

lemma start_height_value:
  assumes "backing_answers B V w" and "issuing_answers I V w" and "length (rv_bc V) < n"
  shows "compute_start_height B I n w =
    (case last_common V (length (rv_rc V) - 1) of
       None \<Rightarrow> (Err Rl_NotInitialized, w)
     | Some a \<Rightarrow> (Ok (Some (of_nat (first_missing V a))), w))"
proof -
  let ?h = "length (rv_rc V) - 1"
  have h: "?h < length (rv_rc V)" "?h < length (rv_bc V)"
    using assms(2) by (cases "rv_rc V"; auto simp: issuing_answers_def)+
  have "iu_get_best_height I w = (Ok (of_nat ?h), w)" "iu_get_block_hash I (of_nat ?h) w = (Ok (rv_rc V ! ?h), w)"
    using assms(2) h(1) unfolding issuing_answers_def by blast+
  moreover have "bk_get_block_hash B (of_nat ?h) w = (Ok (rv_bc V ! ?h), w)"
    using assms(1) h(2) by (simp add: backing_answers_def)
  ultimately have *: "compute_start_height B I n w =
     a_bind (backwards_pass B I (of_nat ?h) (rv_rc V ! ?h) (rv_bc V ! ?h)) (a_loop (forward_step B I) n) w"
    by (simp add: compute_start_height_def action_defs)
  show ?thesis
  proof (cases "last_common V ?h")
    case None
    then show ?thesis unfolding * using backwards_value [OF assms(1,2) h(1)] by (simp add: action_defs)
  next
    case (Some a)
    then have "a \<le> length (rv_bc V)" using h by (auto simp: last_common_Some)
    with Some show ?thesis
      unfolding * using backwards_value [OF assms(1,2) h(1)] forward_value [OF assms(1,2), of a n] assms(3)
      by (simp add: action_defs)
  qed
qed

section \<open>Submission\<close>

text \<open>
  An issuing chain observed: the answers do not depend on the log, and what is submitted, by
  either call, is appended to it.
\<close>

definition logs_headers :: "('w \<times> bytes list) issuing \<Rightarrow> bool" where
  "logs_headers I \<longleftrightarrow>
     (\<forall>h d w l r w' l'. iu_submit_block_header I h d (w, l) = (r, (w', l')) \<longrightarrow> l' = l @ [h]) \<and>
     (\<forall>hs w l r w' l'. iu_submit_block_header_batch I hs (w, l) = (r, (w', l')) \<longrightarrow> l' = l @ hs)"

text \<open>The headers of \<open>k\<close> blocks from height \<open>s\<close> on.\<close>

definition headers_from :: "relay_view \<Rightarrow> nat \<Rightarrow> nat \<Rightarrow> bytes list" where
  "headers_from V s k = map (rv_header V) (take k (drop s (rv_bc V)))"

lemma collect_headers_value:
  assumes "backing_answers B V w" and "unat s + unat k \<le> length (rv_bc V)"
  shows "collect_headers oc s k B w = (Ok (headers_from V (unat s) (unat k)), w)"
proof -
  have small: "length (rv_bc V) < 2 ^ 32 - 1" using assms(1) by (simp add: backing_answers_def)
  have u: "unat (s + k) = unat s + unat k"
    using assms(2) small by (simp add: unat_add_lem [THEN iffD1])
  have mapM: "a_mapM (\<lambda>h. a_bind (bk_get_block_header B (of_nat h)) (\<lambda>header. a_lift (unwrap_header header))) [i ..< j] w =
      (Ok (map (\<lambda>h. rv_header V (rv_bc V ! h)) [i ..< j]), w)" if "j \<le> length (rv_bc V)" for i j
    using that
  proof (induction "j - i" arbitrary: i)
    case (Suc m)
    then have "[i ..< j] = i # [Suc i ..< j]" "i < length (rv_bc V)" by (simp_all add: upt_rec)
    moreover have "bk_get_block_header B (of_nat i) w = (Ok (Some (rv_header V (rv_bc V ! i))), w)"
      using assms(1) \<open>i < length (rv_bc V)\<close> by (simp add: backing_answers_def)
    ultimately show ?case
      using Suc.hyps(1) [of "Suc i"] Suc.hyps(2) Suc.prems by (simp add: action_defs unwrap_header_def)
  qed (simp add: action_defs)
  have "map (\<lambda>h. rv_header V (rv_bc V ! h)) [unat s ..< unat s + unat k] = headers_from V (unat s) (unat k)"
    using assms(2) by (auto simp: headers_from_def intro!: nth_equalityI)
  with mapM [of "unat s + unat k" "unat s"] assms(2) small u show ?thesis
    by (simp add: collect_headers_def a_bind_def a_match_def a_lift_def plain_add_exact)
qed

lemma submit_from_logs:
  assumes "backing_answers (rn_backing R) V (w, l)" and "logs_headers (rn_issuing R)"
    and "unat s + unat k \<le> length (rv_bc V)" and "\<And>t. snd (rn_sleep R t (w, l)) = l" and "0 < n"
    and "submit_from oc R n s k (w, l) = (r, (w', l'))"
  shows "l' = l @ headers_from V (unat s) (unat k)"
proof -
  consider "k = 0" | "k = 1" | "k \<noteq> 0" "k \<noteq> 1" by blast
  then show ?thesis
  proof cases
    case 1
    with assms(4) [of "rn_interval R"] assms(6) show ?thesis
      by (auto simp: submit_from_def runner_sleep_def action_defs headers_from_def)
  next
    case 2
    with assms(3) have s: "unat s < length (rv_bc V)" by simp
    then have "bk_get_block_header (rn_backing R) s (w, l) = (Ok (Some (rv_header V (rv_bc V ! unat s))), (w, l))"
      using assms(1) by (auto simp: backing_answers_def dest!: spec [of _ "unat s"])
    moreover obtain m where "n = Suc m" using assms(5) by (cases n) auto
    ultimately have "runner_get_block_header R n s (w, l) = (Ok (Some (rv_header V (rv_bc V ! unat s))), (w, l))"
      by (simp add: runner_get_block_header_def header_step_def action_defs)
    moreover have "headers_from V (unat s) 1 = [rv_header V (rv_bc V ! unat s)]"
      using s by (simp add: headers_from_def Cons_nth_drop_Suc [symmetric])
    ultimately show ?thesis
      using assms(2,6) 2 by (auto simp: submit_from_def action_defs logs_headers_def split: prod.splits result.splits)
  next
    case 3
    with collect_headers_value [OF assms(1,3), of oc] assms(2,6) show ?thesis
      by (auto simp: submit_from_def action_defs logs_headers_def split: prod.splits result.splits)
  qed
qed

text \<open>
  C7. The relayer submits confirmed headers in order and without gaps: with an initialized relay
  and at least one common block, one round submits exactly the headers from the first block that
  is not stored, above the last block both chains share, as many as the batch size allows, and
  only blocks with the wanted confirmations.
\<close>

theorem submit_next_in_order:
  assumes view: "backing_answers (rn_backing R) V (w, l)" "issuing_answers (rn_issuing R) V (w, l)"
    and logs: "logs_headers (rn_issuing R)" and sleep: "\<And>t. snd (rn_sleep R t (w, l)) = l"
    and fuel: "length (rv_bc V) < n" and deep: "unat (rn_btc_confirmations R) < length (rv_bc V)"
    and common: "last_common V (length (rv_rc V) - 1) = Some a"
    and run: "submit_next oc R n (w, l) = (r, (w', l'))"
  shows "l' = l @ headers_from V (first_missing V a)
     (min (unat (rn_max_batch_size R)) (length (rv_bc V) - unat (rn_btc_confirmations R) - first_missing V a))"
proof -
  let ?len = "length (rv_bc V)" and ?s = "first_missing V a"
  define tip :: u32 where "tip = saturating_sub (of_nat (?len - 1)) (rn_btc_confirmations R)"
  define k where "k = batch_size (rn_max_batch_size R) tip (of_nat ?s)"
  have small: "?len < 2 ^ 32 - 1" using view(1) by (simp add: backing_answers_def)
  have "a < ?len"
    using common view(2) by (cases "rv_rc V") (auto simp: last_common_Some issuing_answers_def)
  then have s: "?s \<le> ?len" using length_takeWhile_le [of "\<lambda>x. x \<in> rv_stored V" "drop a (rv_bc V)"]
    by (simp add: first_missing_def)
  have us: "unat (of_nat ?s :: u32) = ?s" using s small by (intro unat_height) simp
  have ut: "unat tip = ?len - 1 - unat (rn_btc_confirmations R)"
    using small by (simp add: tip_def unat_saturating_sub unat_height)
  have uk: "unat k = min (unat (rn_max_batch_size R)) (?len - unat (rn_btc_confirmations R) - ?s)"
    using deep small unfolding k_def by (subst batch_size_value) (simp_all add: us ut)
  have "initialize_relay R (w, l) = (Ok (), (w, l))"
    using view(2) by (simp add: initialize_relay_def issuing_answers_def action_defs)
  moreover have "get_num_confirmed_blocks R (w, l) = (Ok tip, (w, l))"
    using view(1) by (simp add: get_num_confirmed_blocks_def backing_answers_def action_defs tip_def)
  moreover have "compute_start_height (rn_backing R) (rn_issuing R) n (w, l) = (Ok (Some (of_nat ?s)), (w, l))"
    using start_height_value [OF view fuel] common by simp
  ultimately have "submit_from oc R n (of_nat ?s) k (w, l) = (r, (w', l'))"
    using run by (simp add: submit_next_def action_defs k_def)
  from submit_from_logs [OF view(1) logs _ sleep _ this] show ?thesis
    using s uk us fuel by simp
qed

text \<open>A Bitcoin chain of three blocks of which the relay has stored two.\<close>

definition demo_view :: relay_view where
  "demo_view = \<lparr>rv_bc = [[10], [11], [12]], rv_rc = [[10], [11]], rv_stored = {[10], [11]}, rv_header = (\<lambda>h. 80 # h)\<rparr>"

definition demo_backing :: "'w backing" where
  "demo_backing = \<lparr>bk_get_block_count = a_ret 2,
     bk_get_block_header = (\<lambda>h. a_ret (if unat h < 3 then Some (rv_header demo_view (rv_bc demo_view ! unat h)) else None)),
     bk_get_block_hash = (\<lambda>h. if unat h < 3 then a_ret (rv_bc demo_view ! unat h) else a_err (Rl_BitcoinError Be_InvalidBitcoinHeight))\<rparr>"

definition demo_issuing :: "('w \<times> bytes list) issuing" where
  "demo_issuing = \<lparr>iu_is_initialized = a_ret True, iu_initialize = (\<lambda>b h. a_ret ()),
     iu_submit_block_header = (\<lambda>h d. log_action [h] (a_ret ())),
     iu_submit_block_header_batch = (\<lambda>hs. log_action hs (a_ret ())),
     iu_get_best_height = a_ret 1, iu_get_block_hash = (\<lambda>h. a_ret (rv_rc demo_view ! unat h)),
     iu_is_block_stored = (\<lambda>x. a_ret (x \<in> rv_stored demo_view))\<rparr>"

lemma demo_backing_answers: "backing_answers demo_backing demo_view w"
  by (auto simp: backing_answers_def demo_backing_def demo_view_def unat_height action_defs)

lemma demo_issuing_answers: "issuing_answers demo_issuing demo_view w"
  by (auto simp: issuing_answers_def demo_issuing_def demo_view_def unat_height action_defs)

lemma demo_issuing_logs: "logs_headers demo_issuing"
  by (auto simp: logs_headers_def demo_issuing_def log_action_def action_defs)

definition demo_runner :: "(unit \<times> bytes list) runner" where
  "demo_runner = runner_new demo_backing demo_issuing
     \<lparr>rc_start_height = None, rc_max_batch_size = 16, rc_interval = None, rc_btc_confirmations = 0\<rparr>
     zero_delay (\<lambda>t w. w)"

lemma submit_next_in_order_witness:
  "\<exists>r w'. submit_next True demo_runner 4 ((), []) = (r, (w', [[80, 12]]))"
proof -
  obtain r w' l' where run: "submit_next True demo_runner 4 ((), []) = (r, (w', l'))" by (metis surj_pair)
  have runner: "rn_backing demo_runner = demo_backing" "rn_issuing demo_runner = demo_issuing"
      "rn_sleep demo_runner = (\<lambda>t w. w)" "rn_max_batch_size demo_runner = 16" "rn_btc_confirmations demo_runner = 0"
    by (simp_all add: demo_runner_def runner_new_def)
  have len: "length (rv_bc demo_view) = 3" and common: "last_common demo_view (length (rv_rc demo_view) - 1) = Some 1"
    by (simp_all add: demo_view_def)
  have "l' = [] @ headers_from demo_view (first_missing demo_view 1) (min 16 (3 - 0 - first_missing demo_view 1))"
    using submit_next_in_order [where V = demo_view and R = demo_runner, unfolded runner, OF demo_backing_answers
        demo_issuing_answers demo_issuing_logs _ _ _ common run] by (simp add: len)
  then have "l' = [[80, 12]]"
    by (simp add: first_missing_def headers_from_def demo_view_def)
  with run show ?thesis by blast
qed

text \<open>
  The start height is right on any pair of chains: with no common block the search ends with
  \<open>NotInitialized\<close>; otherwise it yields the first height, counted from the last common block on,
  whose Bitcoin block the relay has not stored, or the height after the tip.
\<close>

theorem start_height_spec:
  assumes "backing_answers B V w" and "issuing_answers I V w" and "length (rv_bc V) < n"
  shows "if \<forall>i < length (rv_rc V). rv_rc V ! i \<noteq> rv_bc V ! i
    then compute_start_height B I n w = (Err Rl_NotInitialized, w)
    else \<exists>a s. compute_start_height B I n w = (Ok (Some (of_nat s)), w) \<and>
      a < length (rv_rc V) \<and> rv_rc V ! a = rv_bc V ! a \<and>
      (\<forall>i. a < i \<and> i < length (rv_rc V) \<longrightarrow> rv_rc V ! i \<noteq> rv_bc V ! i) \<and>
      a \<le> s \<and> s \<le> length (rv_bc V) \<and> (\<forall>i. a \<le> i \<and> i < s \<longrightarrow> rv_bc V ! i \<in> rv_stored V) \<and>
      (s < length (rv_bc V) \<longrightarrow> rv_bc V ! s \<notin> rv_stored V)"
proof -
  obtain m where m: "length (rv_rc V) = Suc m" "Suc m \<le> length (rv_bc V)"
    using assms(2) by (cases "rv_rc V") (auto simp: issuing_answers_def)
  show ?thesis
  proof (cases "last_common V m")
    case None
    then have "\<forall>i < length (rv_rc V). rv_rc V ! i \<noteq> rv_bc V ! i"
      by (simp add: last_common_None m less_Suc_eq_le)
    with None start_height_value [OF assms] show ?thesis by (simp add: m)
  next
    case (Some a)
    let ?P = "\<lambda>x. x \<in> rv_stored V" and ?tl = "drop a (rv_bc V)"
    have a: "a \<le> m" "rv_rc V ! a = rv_bc V ! a" "\<forall>i. a < i \<and> i \<le> m \<longrightarrow> rv_rc V ! i \<noteq> rv_bc V ! i"
      using Some by (auto simp: last_common_Some)
    define s where "s = first_missing V a"
    have s: "s = a + length (takeWhile ?P ?tl)" by (simp add: s_def first_missing_def)
    have "s \<le> length (rv_bc V)" using length_takeWhile_le [of ?P ?tl] a(1) m by (simp add: s)
    moreover have "rv_bc V ! i \<in> rv_stored V" if "a \<le> i" "i < s" for i
      using that nth_length_takeWhile takeWhile_nth [of "i - a" ?P ?tl] set_takeWhileD [of "rv_bc V ! i" ?P ?tl]
        nth_mem [of "i - a" "takeWhile ?P ?tl"] a(1) m by (simp add: s)
    moreover have "rv_bc V ! s \<notin> rv_stored V" if "s < length (rv_bc V)"
      using that nth_length_takeWhile [of ?P ?tl] a(1) m by (simp add: s)
    ultimately have "a < length (rv_rc V) \<and> rv_rc V ! a = rv_bc V ! a \<and>
      (\<forall>i. a < i \<and> i < length (rv_rc V) \<longrightarrow> rv_rc V ! i \<noteq> rv_bc V ! i) \<and>
      a \<le> s \<and> s \<le> length (rv_bc V) \<and> (\<forall>i. a \<le> i \<and> i < s \<longrightarrow> rv_bc V ! i \<in> rv_stored V) \<and>
      (s < length (rv_bc V) \<longrightarrow> rv_bc V ! s \<notin> rv_stored V)"
      using a m by (auto simp: s less_Suc_eq_le)
    moreover have "compute_start_height B I n w = (Ok (Some (of_nat s)), w)"
      using start_height_value [OF assms] Some by (simp add: m s_def)
    moreover have "\<not> (\<forall>i < length (rv_rc V). rv_rc V ! i \<noteq> rv_bc V ! i)" using a m by auto
    ultimately show ?thesis by (simp only: if_False) blast
  qed
qed

lemma start_height_spec_witness:
  "compute_start_height demo_backing demo_issuing 4 ((), []) \<noteq> (Err Rl_NotInitialized, ((), []))"
  using start_height_spec [OF demo_backing_answers demo_issuing_answers, of 4 "((), [])"]
  by (auto simp: demo_view_def less_Suc_eq numeral_2_eq_2 split: if_splits)

end
