(* ===== verification/Electrs.thy ===== *)
theory Electrs
  imports Pallets BtcApi ActionLogic
begin

text \<open>
  The client of an electrs server (\<open>bitcoin/src/electrs/mod.rs\<close>). The server is reached by \<open>GET\<close>
  of a path and one \<open>POST\<close>; decoding its answers (JSON, hex, consensus encoding) is done by
  libraries, the record \<open>electrs_lib\<close>. The paging of an address history runs for at most \<open>n\<close>
  pages.
\<close>

section \<open>Answers of the server\<close>

definition ELECTRS_TRANSACTIONS_PER_PAGE :: nat where "ELECTRS_TRANSACTIONS_PER_PAGE = 25"

definition ELECTRS_TESTNET_URL :: string where "ELECTRS_TESTNET_URL = ''https://btc-testnet.interlay.io''"
definition ELECTRS_MAINNET_URL :: string where "ELECTRS_MAINNET_URL = ''https://btc-mainnet.interlay.io''"
definition ELECTRS_LOCALHOST_URL :: string where "ELECTRS_LOCALHOST_URL = ''http://localhost:3002''"

definition electrs_url :: "string option \<Rightarrow> network \<Rightarrow> string" where
  "electrs_url url network = (case url of
      Some u \<Rightarrow> u
    | None \<Rightarrow> (case network of Bitcoin \<Rightarrow> ELECTRS_MAINNET_URL | Testnet \<Rightarrow> ELECTRS_TESTNET_URL | _ \<Rightarrow> ELECTRS_LOCALHOST_URL))"

text \<open>The parts of an answer the client reads; numbers are the JSON model's.\<close>

record electrs_status =
  ks_block_height :: "int option"
  ks_block_hash :: "string option"

record electrs_transaction =
  kx_txid :: string
  kx_status :: "electrs_status option"
  kx_fee :: "int option"
  kx_vout :: "string option list option"

record electrs_utxo =
  ku_txid :: string
  ku_vout :: int
  ku_value :: int

record electrs_lib =
  lb_transactions :: "string \<Rightarrow> (electrs_transaction list, electrs_error) result"
  lb_transaction :: "string \<Rightarrow> (electrs_transaction, electrs_error) result"
  lb_utxos :: "string \<Rightarrow> (electrs_utxo list, electrs_error) result"
  lb_strings :: "string \<Rightarrow> (string list, electrs_error) result"
  lb_hex :: "string \<Rightarrow> (bytes, electrs_error) result"
  lb_hash :: "string \<Rightarrow> (bytes, electrs_error) result"
  lb_u32 :: "string \<Rightarrow> (u32, electrs_error) result"
  lb_script :: "string \<Rightarrow> (bytes, electrs_error) result"
  lb_block_header :: "bytes \<Rightarrow> (block_header, electrs_error) result"
  lb_raw_transaction :: "bytes \<Rightarrow> (transaction, electrs_error) result"
  lb_hash_string :: "bytes \<Rightarrow> string"
  lb_address_string :: "address \<Rightarrow> string"
  lb_serialize :: "transaction \<Rightarrow> string"

record 'w electrs_client =
  ec_lib :: electrs_lib
  ec_get :: "string \<Rightarrow> ('w, string, electrs_error) action"
  ec_post_tx :: "string \<Rightarrow> ('w, string, electrs_error) action"

definition get_and_decode ::
  "'w electrs_client \<Rightarrow> (string \<Rightarrow> ('a, electrs_error) result) \<Rightarrow> string \<Rightarrow> ('w, 'a, electrs_error) action" where
  "get_and_decode E decode path = a_bind (ec_get E path) (\<lambda>body. a_lift (decode body))"

text \<open>The decimal digits of a number, as \<open>format!\<close> writes them.\<close>

fun decimal :: "nat \<Rightarrow> string" where
  "decimal n = (if n < 10 then [char_of (48 + n)] else decimal (n div 10) @ [char_of (48 + n mod 10)])"

declare decimal.simps [simp del]

section \<open>Transactions\<close>

definition get_tx_hex :: "'w electrs_client \<Rightarrow> string \<Rightarrow> ('w, string, electrs_error) action" where
  "get_tx_hex E tx_id = ec_get E (''/tx/'' @ tx_id @ ''/hex'')"

definition get_tx_merkle_block_proof :: "'w electrs_client \<Rightarrow> string \<Rightarrow> ('w, string, electrs_error) action" where
  "get_tx_merkle_block_proof E tx_id = ec_get E (''/tx/'' @ tx_id @ ''/merkleblock-proof'')"

definition electrs_get_raw_tx :: "'w electrs_client \<Rightarrow> txid \<Rightarrow> ('w, bytes, electrs_error) action" where
  "electrs_get_raw_tx E tx_id =
     a_bind (get_tx_hex E (lb_hash_string (ec_lib E) tx_id)) (\<lambda>hex. a_lift (lb_hex (ec_lib E) hex))"

definition get_raw_tx_merkle_proof :: "'w electrs_client \<Rightarrow> txid \<Rightarrow> ('w, bytes, electrs_error) action" where
  "get_raw_tx_merkle_proof E tx_id =
     a_bind (get_tx_merkle_block_proof E (lb_hash_string (ec_lib E) tx_id)) (\<lambda>hex. a_lift (lb_hex (ec_lib E) hex))"

text \<open>One page; the state is the last txid seen (empty at first) and the transactions so far.\<close>

definition history_step ::
  "'w electrs_client \<Rightarrow> string \<Rightarrow> string \<times> electrs_transaction list
    \<Rightarrow> ('w, string \<times> electrs_transaction list + electrs_transaction list, electrs_error) action" where
  "history_step E addr st = (case st of (last_seen_txid, ret) \<Rightarrow>
     a_bind (get_and_decode E (lb_transactions (ec_lib E)) (''/address/'' @ addr @ ''/txs/chain/'' @ last_seen_txid))
       (\<lambda>transactions.
         let last' = (if transactions = [] then [] else kx_txid (last transactions));
             ret' = ret @ transactions
         in a_ret (if length transactions < ELECTRS_TRANSACTIONS_PER_PAGE then Inr ret' else Inl (last', ret'))))"

definition get_address_tx_history_full ::
  "'w electrs_client \<Rightarrow> nat \<Rightarrow> string \<Rightarrow> ('w, electrs_transaction list option, electrs_error) action" where
  "get_address_tx_history_full E n addr = a_loop (history_step E addr) n ([], [])"

section \<open>Blocks\<close>

definition get_blocks_tip_height :: "'w electrs_client \<Rightarrow> ('w, u32, electrs_error) action" where
  "get_blocks_tip_height E = get_and_decode E (lb_u32 (ec_lib E)) ''/blocks/tip/height''"

definition get_blocks_tip_hash :: "'w electrs_client \<Rightarrow> ('w, block_hash, electrs_error) action" where
  "get_blocks_tip_hash E = get_and_decode E (lb_hash (ec_lib E)) ''/blocks/tip/hash''"

definition electrs_get_block_header :: "'w electrs_client \<Rightarrow> block_hash \<Rightarrow> ('w, block_header, electrs_error) action" where
  "electrs_get_block_header E hash =
     a_bind (get_and_decode E (lb_hex (ec_lib E)) (''/block/'' @ lb_hash_string (ec_lib E) hash @ ''/header''))
       (\<lambda>raw. a_lift (lb_block_header (ec_lib E) raw))"

definition get_transactions_in_block :: "'w electrs_client \<Rightarrow> block_hash \<Rightarrow> ('w, transaction list, electrs_error) action" where
  "get_transactions_in_block E hash =
     a_bind (get_and_decode E (lb_strings (ec_lib E)) (''/block/'' @ lb_hash_string (ec_lib E) hash @ ''/txids'')) (\<lambda>raw_txids.
     a_bind (a_lift (collect (map (lb_hash (ec_lib E)) raw_txids))) (\<lambda>txids w.
     case join_all (map (electrs_get_raw_tx E) txids) w of
       (raws, w') \<Rightarrow> (rbind (collect raws) (\<lambda>rs. collect (map (lb_raw_transaction (ec_lib E)) rs)), w')))"

definition electrs_get_block :: "'w electrs_client \<Rightarrow> block_hash \<Rightarrow> ('w, block, electrs_error) action" where
  "electrs_get_block E hash =
     a_bind (electrs_get_block_header E hash) (\<lambda>header.
     a_bind (get_transactions_in_block E hash) (\<lambda>txs. a_ret \<lparr>blk_header = header, txdata = txs\<rparr>))"

definition electrs_get_block_hash :: "'w electrs_client \<Rightarrow> u32 \<Rightarrow> ('w, block_hash, electrs_error) action" where
  "electrs_get_block_hash E height =
     get_and_decode E (lb_hash (ec_lib E)) (''/block-height/'' @ decimal (unat height))"

definition electrs_get_raw_mempool :: "'w electrs_client \<Rightarrow> ('w, txid list, electrs_error) action" where
  "electrs_get_raw_mempool E =
     a_bind (get_and_decode E (lb_strings (ec_lib E)) ''/mempool/txids'')
       (\<lambda>txs. a_lift (collect (map (lb_hash (ec_lib E)) txs)))"

section \<open>Confirmations and outputs\<close>

record tx_info =
  ti_confirmations :: u32
  ti_height :: u32
  ti_hash :: block_hash
  ti_fee :: int

definition get_tx_info :: "'w electrs_client \<Rightarrow> txid \<Rightarrow> ('w, tx_info, electrs_error) action" where
  "get_tx_info E tx_id =
     a_bind (get_and_decode E (lb_transaction (ec_lib E)) (''/tx/'' @ lb_hash_string (ec_lib E) tx_id)) (\<lambda>tx.
     a_bind (get_blocks_tip_height E) (\<lambda>tip.
     case map_option (\<lambda>status. (ks_block_height status, ks_block_hash status)) (kx_status tx) of
       Some (Some h, Some hash) \<Rightarrow>
         (let height = (word_of_int h :: u32) in
          a_bind (a_lift (lb_hash (ec_lib E) hash)) (\<lambda>block_hash.
          a_ret \<lparr>ti_confirmations = saturating_sub tip height, ti_height = height, ti_hash = block_hash,
                 ti_fee = (case kx_fee tx of Some f \<Rightarrow> f | None \<Rightarrow> 0)\<rparr>))
     | _ \<Rightarrow> a_err El_InvalidAddress))"

record utxo =
  ut_outpoint :: out_point
  ut_value :: u64

definition get_utxos_for_address :: "'w electrs_client \<Rightarrow> address \<Rightarrow> ('w, utxo list, electrs_error) action" where
  "get_utxos_for_address E addr =
     a_bind (get_and_decode E (lb_utxos (ec_lib E)) (''/address/'' @ lb_address_string (ec_lib E) addr @ ''/utxo''))
       (\<lambda>utxos. a_lift (collect (map (\<lambda>u. rbind (lb_hash (ec_lib E) (ku_txid u)) (\<lambda>t.
          Ok \<lparr>ut_outpoint = \<lparr>op_txid = t, op_vout = word_of_int (ku_vout u)\<rparr>, ut_value = word_of_int (ku_value u)\<rparr>)) utxos)))"

definition get_script_pubkey :: "'w electrs_client \<Rightarrow> out_point \<Rightarrow> ('w, bytes, electrs_error) action" where
  "get_script_pubkey E outpoint =
     a_bind (get_and_decode E (lb_transaction (ec_lib E)) (''/tx/'' @ lb_hash_string (ec_lib E) (op_txid outpoint))) (\<lambda>tx.
     a_lift (rbind (ok_or El_NoPrevOut (kx_vout tx)) (\<lambda>vout.
        rbind (ok_or El_NoPrevOut (if unat (op_vout outpoint) < length vout then Some (vout ! unat (op_vout outpoint)) else None))
          (\<lambda>out. rbind (ok_or El_NoPrevOut out) (lb_script (ec_lib E))))))"

definition electrs_send_transaction :: "'w electrs_client \<Rightarrow> transaction \<Rightarrow> ('w, txid, electrs_error) action" where
  "electrs_send_transaction E tx =
     a_bind (ec_post_tx E (lb_serialize (ec_lib E) tx)) (\<lambda>tx_id. a_lift (lb_hash (ec_lib E) tx_id))"

record tx_data =
  td_txid :: txid
  td_raw_merkle_proof :: bytes
  td_raw_tx :: bytes

text \<open>The script and its hash are built with libraries (\<open>script_lib\<close>, SHA-256, hex).\<close>

definition get_tx_by_op_return ::
  "script_lib \<Rightarrow> (bytes \<Rightarrow> bytes) \<Rightarrow> (bytes \<Rightarrow> string) \<Rightarrow> 'w electrs_client \<Rightarrow> H256 \<Rightarrow> ('w, tx_data option, electrs_error) action" where
  "get_tx_by_op_return L sha256 to_hex E data =
     (let script = push_slice L (push_opcode L [] OP_RETURN) data;
          script_hash = sha256 script
      in a_bind (get_and_decode E (lb_transactions (ec_lib E)) (''/scripthash/'' @ to_hex script_hash @ ''/txs'')) (\<lambda>txs.
         case txs of
           [] \<Rightarrow> a_ret None
         | tx # _ \<Rightarrow>
             a_bind (a_lift (lb_hash (ec_lib E) (kx_txid tx))) (\<lambda>tx_id.
             a_bind (get_raw_tx_merkle_proof E tx_id) (\<lambda>raw_merkle_proof.
             a_bind (electrs_get_raw_tx E tx_id) (\<lambda>raw_tx.
             a_ret (Some \<lparr>td_txid = tx_id, td_raw_merkle_proof = raw_merkle_proof, td_raw_tx = raw_tx\<rparr>))))))"

section \<open>The history is complete\<close>

text \<open>
  A server with the history \<open>hist\<close> of an address: a page holds the transactions after the one
  named last, at most 25 (the documented behaviour of the endpoint), and txids are unique.
\<close>

definition page_after :: "electrs_transaction list \<Rightarrow> nat \<Rightarrow> electrs_transaction list" where
  "page_after hist k = take ELECTRS_TRANSACTIONS_PER_PAGE (drop k hist)"

definition serves_history :: "'w electrs_client \<Rightarrow> string \<Rightarrow> electrs_transaction list \<Rightarrow> 'w \<Rightarrow> bool" where
  "serves_history E addr hist w \<longleftrightarrow>
     get_and_decode E (lb_transactions (ec_lib E)) (''/address/'' @ addr @ ''/txs/chain/'') w = (Ok (page_after hist 0), w) \<and>
     (\<forall>k < length hist. get_and_decode E (lb_transactions (ec_lib E)) (''/address/'' @ addr @ ''/txs/chain/'' @ kx_txid (hist ! k)) w =
        (Ok (page_after hist (Suc k)), w))"

definition seen :: "electrs_transaction list \<Rightarrow> nat \<Rightarrow> string" where
  "seen hist k = (if k = 0 then [] else kx_txid (hist ! (k - 1)))"

lemma serves_page:
  "serves_history E addr hist w \<Longrightarrow> k \<le> length hist \<Longrightarrow>
   get_and_decode E (lb_transactions (ec_lib E)) (''/address/'' @ addr @ ''/txs/chain/'' @ seen hist k) w = (Ok (page_after hist k), w)"
  by (cases k) (auto simp: serves_history_def seen_def)

lemma history_step_value:
  assumes "serves_history E addr hist w" and "k \<le> length hist"
  shows "history_step E addr (seen hist k, take k hist) w =
    (if length hist - k < ELECTRS_TRANSACTIONS_PER_PAGE then (Ok (Inr hist), w)
     else (Ok (Inl (seen hist (k + ELECTRS_TRANSACTIONS_PER_PAGE), take (k + ELECTRS_TRANSACTIONS_PER_PAGE) hist)), w))"
proof -
  let ?p = ELECTRS_TRANSACTIONS_PER_PAGE
  have len: "length (page_after hist k) = min (length hist - k) ?p" by (simp add: page_after_def)
  have app: "take k hist @ page_after hist k = take (k + ?p) hist"
    by (simp add: page_after_def take_add)
  show ?thesis
  proof (cases "length hist - k < ?p")
    case True
    then have "take k hist @ page_after hist k = hist" by (simp add: app)
    with True show ?thesis
      using serves_page [OF assms] by (simp add: history_step_def action_defs Let_def len)
  next
    case False
    then have ne: "page_after hist k \<noteq> []" and sz: "length (page_after hist k) = ?p"
      using len by (auto simp: ELECTRS_TRANSACTIONS_PER_PAGE_def)
    have "last (page_after hist k) = hist ! (k + ?p - 1)"
      using False ne sz by (simp add: last_conv_nth) (simp add: page_after_def ELECTRS_TRANSACTIONS_PER_PAGE_def add.commute)
    then have "kx_txid (last (page_after hist k)) = seen hist (k + ?p)"
      by (simp add: seen_def ELECTRS_TRANSACTIONS_PER_PAGE_def)
    with False ne sz show ?thesis
      using serves_page [OF assms] by (simp add: history_step_def action_defs Let_def app)
  qed
qed

lemma history_from:
  assumes "serves_history E addr hist w" and "k \<le> length hist"
    and "(length hist - k) div ELECTRS_TRANSACTIONS_PER_PAGE < n"
  shows "a_loop (history_step E addr) n (seen hist k, take k hist) w = (Ok (Some hist), w)"
  using assms(2,3)
proof (induction n arbitrary: k)
  case 0
  then show ?case by simp
next
  case (Suc n)
  let ?p = ELECTRS_TRANSACTIONS_PER_PAGE
  show ?case
  proof (cases "length hist - k < ?p")
    case True
    then show ?thesis using history_step_value [OF assms(1) Suc.prems(1)] by (simp add: action_defs)
  next
    case False
    have "(length hist - (k + ?p)) div ?p < n"
      using False Suc.prems(2) by (simp add: ELECTRS_TRANSACTIONS_PER_PAGE_def)
    then have "a_loop (history_step E addr) n (seen hist (k + ?p), take (k + ?p) hist) w = (Ok (Some hist), w)"
      using False Suc.prems(1) by (intro Suc.IH) (auto simp: ELECTRS_TRANSACTIONS_PER_PAGE_def)
    with False show ?thesis
      using history_step_value [OF assms(1) Suc.prems(1)] by (simp add: action_defs)
  qed
qed

text \<open>
  C33. The paging of an address history ends and is complete: with a server that serves a history
  of any length in pages, \<open>get_address_tx_history_full\<close> returns the whole history, in order and
  without repetition, after one request more than it has full pages.
\<close>

theorem history_complete:
  assumes "serves_history E addr hist w" and "length hist div 25 < n"
  shows "get_address_tx_history_full E n addr w = (Ok (Some hist), w)"
  using history_from [OF assms(1), of 0 n] assms(2)
  by (simp add: get_address_tx_history_full_def seen_def ELECTRS_TRANSACTIONS_PER_PAGE_def)

text \<open>A server whose address has 26 transactions, on two pages.\<close>

definition demo_history :: "electrs_transaction list" where
  "demo_history = map (\<lambda>i. \<lparr>kx_txid = replicate (Suc i) CHR ''x'', kx_status = None, kx_fee = None, kx_vout = None\<rparr>) [0 ..< 26]"

definition demo_lib :: electrs_lib where
  "demo_lib = \<lparr>lb_transactions = (\<lambda>body. Ok (page_after demo_history (length body))),
     lb_transaction = (\<lambda>s. Err El_InvalidAddress), lb_utxos = (\<lambda>s. Ok []), lb_strings = (\<lambda>s. Ok []),
     lb_hex = (\<lambda>s. Ok []), lb_hash = (\<lambda>s. Ok []), lb_u32 = (\<lambda>s. Ok 0), lb_script = (\<lambda>s. Ok []),
     lb_block_header = (\<lambda>s. Err El_InvalidAddress), lb_raw_transaction = (\<lambda>s. Err El_InvalidAddress),
     lb_hash_string = (\<lambda>h. []), lb_address_string = (\<lambda>a. []), lb_serialize = (\<lambda>t. [])\<rparr>"

text \<open>The body of an answer is the last txid that was asked for, whose length is its place.\<close>

definition demo_electrs :: "'w electrs_client" where
  "demo_electrs = \<lparr>ec_lib = demo_lib, ec_get = (\<lambda>path. a_ret (drop (length ''/address//txs/chain/'') path)), ec_post_tx = (\<lambda>t. a_ret [])\<rparr>"

lemma demo_serves_history: "serves_history demo_electrs [] demo_history w"
  by (auto simp: serves_history_def get_and_decode_def demo_electrs_def demo_lib_def action_defs demo_history_def)

lemma history_complete_witness:
  "get_address_tx_history_full demo_electrs 2 [] () = (Ok (Some demo_history), ())"
  by (rule history_complete [OF demo_serves_history]) (simp add: demo_history_def)

end
