(* ===== verification/Wallet.thy ===== *)
theory Wallet
  imports Electrs
begin

text \<open>
  The wallet of the light client (\<open>bitcoin/src/light/wallet.rs\<close>): the sizes and fees of a
  transaction, the selection of coins, the funding of a transaction and its signing. What the
  crates \<open>bitcoin\<close> and \<open>secp256k1\<close> do is the record \<open>wallet_lib\<close>. Plain arithmetic on \<open>u64\<close> takes
  the flag \<open>oc\<close> of the build (overflow checks); a sum of lengths in memory (\<open>usize\<close>) is a natural
  number until it is cast.
\<close>

section \<open>Partially signed transactions and the library\<close>

text \<open>\<open>partial_sigs\<close> is a \<open>BTreeMap\<close> from public keys: its entries in the order of the keys.\<close>

record psbt_input =
  witness_utxo :: "tx_out option"
  sighash_type :: "u32 option"
  partial_sigs :: "(bytes \<times> bytes) list"
  final_script_witness :: "bytes list option"

record psbt =
  unsigned_tx :: transaction
  psbt_inputs :: "psbt_input list"

definition default_psbt_input :: psbt_input where
  "default_psbt_input = \<lparr>witness_utxo = None, sighash_type = None, partial_sigs = [], final_script_witness = None\<rparr>"

text \<open>
  The order of addresses and of public keys (\<open>Ord\<close>) is the library's, and so is the layout of a
  signature with its hash type, of \<open>VarInt\<close>, of scripts and of the hash that is signed.
\<close>

record wallet_lib =
  wl_address_le :: "address \<Rightarrow> address \<Rightarrow> bool"
  wl_public_key_le :: "bytes \<Rightarrow> bytes \<Rightarrow> bool"
  wl_varint_len :: "u64 \<Rightarrow> nat"
  wl_weight :: "transaction \<Rightarrow> nat"
  wl_extract_tx :: "psbt \<Rightarrow> transaction"
  wl_from_unsigned_tx :: "transaction \<Rightarrow> (psbt, ext_error) result"
  wl_address_from_script :: "bytes \<Rightarrow> network \<Rightarrow> (address, ext_error) result"
  wl_p2wpkh :: "bytes \<Rightarrow> network \<Rightarrow> (address, ext_error) result"
  wl_public_key :: "bytes \<Rightarrow> bytes"
  wl_is_v0_p2wpkh :: "bytes \<Rightarrow> bool"
  wl_ecdsa_hash_ty :: "u32 \<Rightarrow> (u32, ext_error) result"
  wl_signature_hash :: "transaction \<Rightarrow> nat \<Rightarrow> bytes \<Rightarrow> u64 \<Rightarrow> u32 \<Rightarrow> (bytes, ext_error) result"
  wl_message :: "bytes \<Rightarrow> (bytes, ext_error) result"
  wl_sign :: "bytes \<Rightarrow> bytes \<Rightarrow> bytes"
  wl_sig_bytes :: "bytes \<Rightarrow> u32 \<Rightarrow> bytes"
  wl_scripts :: script_lib

definition SIGHASH_ALL :: u32 where "SIGHASH_ALL = 1"
definition WITNESS_SCALE_FACTOR :: u64 where "WITNESS_SCALE_FACTOR = 4"
definition OP_DUP :: u8 where "OP_DUP = 0x76"
definition OP_HASH160 :: u8 where "OP_HASH160 = 0xa9"
definition OP_EQUALVERIFY :: u8 where "OP_EQUALVERIFY = 0x88"
definition OP_CHECKSIG :: u8 where "OP_CHECKSIG = 0xac"

text \<open>\<open>TxIn { previous_output, ..Default::default() }\<close>: no script, no witness, final sequence.\<close>

definition default_tx_in :: "out_point \<Rightarrow> tx_in" where
  "default_tx_in outpoint = \<lparr>previous_output = outpoint, script_sig = [], tx_sequence = - 1, tx_witness = []\<rparr>"

text \<open>\<open>expect\<close> on a result: an error panics.\<close>

fun expect_ok :: "('a, 'e) result \<Rightarrow> ('a, 'f) result" where
  "expect_ok (Ok a) = Ok a"
| "expect_ok _ = Panic"

section \<open>Sizes and fees\<close>

definition tx_out_size :: "wallet_lib \<Rightarrow> tx_out \<Rightarrow> u64" where
  "tx_out_size W txo =
     of_nat (8 + wl_varint_len W (of_nat (length (script_pubkey txo))) + length (script_pubkey txo))"

definition tx_in_size :: "wallet_lib \<Rightarrow> tx_in \<Rightarrow> u64" where
  "tx_in_size W txin =
     of_nat (32 + 4 + 4 + wl_varint_len W (of_nat (length (script_sig txin))) + length (script_sig txin))"

definition witness_size :: "wallet_lib \<Rightarrow> bytes list \<Rightarrow> u64" where
  "witness_size W ws =
     of_nat (wl_varint_len W (of_nat (length ws)) +
       (\<Sum>elem\<leftarrow>ws. wl_varint_len W (of_nat (length elem)) + length elem))"

definition dummy_signature :: bytes where
  "dummy_signature =
     (let m_r_len = 32; m_s_len = 32; vch_sig = replicate (m_r_len + m_s_len + 7) 0
      in vch_sig[0 := 0x30, 1 := of_nat (m_r_len + m_s_len + 4), 2 := 0x02, 3 := of_nat m_r_len, 4 := 0x01,
                 4 + m_r_len := 0x02, 5 + m_r_len := of_nat m_s_len, 6 + m_r_len := 0x01,
                 6 + m_r_len + m_s_len := ucast SIGHASH_ALL])"

definition dummy_sign_input :: "tx_in \<Rightarrow> bytes \<Rightarrow> tx_in" where
  "dummy_sign_input txin public_key = txin\<lparr>tx_witness := [dummy_signature, public_key]\<rparr>"

definition get_transaction_input_weight :: "bool \<Rightarrow> wallet_lib \<Rightarrow> tx_in \<Rightarrow> (u64, 'e) result" where
  "get_transaction_input_weight oc W txin =
     rbind (plain_sub oc WITNESS_SCALE_FACTOR 1) (\<lambda>f.
     rbind (plain_mul oc (tx_in_size W txin) f) (\<lambda>a.
     rbind (plain_add oc a (tx_in_size W txin)) (\<lambda>b.
     plain_add oc b (witness_size W (tx_witness txin)))))"

definition get_virtual_transaction_size :: "bool \<Rightarrow> u64 \<Rightarrow> (u64, 'e) result" where
  "get_virtual_transaction_size oc n_weight =
     rbind (plain_add oc n_weight WITNESS_SCALE_FACTOR) (\<lambda>a.
     rbind (plain_sub oc a 1) (\<lambda>b. Ok (b div WITNESS_SCALE_FACTOR)))"

definition calculate_maximum_signed_input_size :: "bool \<Rightarrow> wallet_lib \<Rightarrow> out_point \<Rightarrow> bytes \<Rightarrow> (u64, 'e) result" where
  "calculate_maximum_signed_input_size oc W outpoint public_key =
     rbind (get_transaction_input_weight oc W (dummy_sign_input (default_tx_in outpoint) public_key))
       (get_virtual_transaction_size oc)"

text \<open>\<open>div_ceil\<close> of the standard library.\<close>

definition div_ceil :: "u64 \<Rightarrow> u64 \<Rightarrow> u64" where
  "div_ceil a b = (if a mod b > 0 then a div b + 1 else a div b)"

definition get_fee :: "u64 \<Rightarrow> u64 \<Rightarrow> u64" where
  "get_fee n_satoshis_per_k num_bytes = div_ceil (saturating_mul n_satoshis_per_k num_bytes) 1000"

section \<open>Coin selection\<close>

record coin_output =
  co_value :: u64
  co_fee :: u64

definition get_effective_value :: "coin_output \<Rightarrow> u64" where
  "get_effective_value c = saturating_sub (co_value c) (co_fee c)"

record select_coins =
  preset_inputs :: "coin_output list"
  target_value :: u64

definition select_coins_new :: "u64 \<Rightarrow> select_coins" where
  "select_coins_new target = \<lparr>preset_inputs = [], target_value = target\<rparr>"

definition select_coins_add :: "select_coins \<Rightarrow> coin_output \<Rightarrow> select_coins" where
  "select_coins_add s c = s\<lparr>preset_inputs := preset_inputs s @ [c]\<rparr>"

definition get_selected_value :: "bool \<Rightarrow> select_coins \<Rightarrow> (u64, 'e) result" where
  "get_selected_value oc s = plain_sum oc 0 (map co_value (preset_inputs s))"

definition get_selected_effective_value :: "bool \<Rightarrow> select_coins \<Rightarrow> (u64, 'e) result" where
  "get_selected_effective_value oc s = plain_sum oc 0 (map get_effective_value (preset_inputs s))"

definition get_change :: "bool \<Rightarrow> select_coins \<Rightarrow> u64 \<Rightarrow> u64 \<Rightarrow> (u64, 'e) result" where
  "get_change oc s min_viable_change change_fee =
     rbind (get_selected_effective_value oc s) (\<lambda>v.
     let change = saturating_sub (saturating_sub v (target_value s)) change_fee
     in Ok (if change < min_viable_change then 0 else change))"

section \<open>Keys\<close>

text \<open>
  The key store is behind a lock that other tasks take between the awaits of this one, so it is
  part of the world; \<open>None\<close> is a lock poisoned by a panic of its holder.
\<close>

type_synonym key_store = "(address \<times> bytes) list"

record 'w wallet =
  wa_lib :: wallet_lib
  wa_network :: network
  wa_electrs :: "'w electrs_client"
  wa_key_store :: "'w \<Rightarrow> key_store option"
  wa_put_key_store :: "key_store \<Rightarrow> 'w \<Rightarrow> 'w"

definition read_key_store :: "'w wallet \<Rightarrow> 'w \<Rightarrow> (key_store, light_error) result" where
  "read_key_store W w = ok_or Li_CannotOpenKeyStore (wa_key_store W w)"

definition get_priv_key :: "'w wallet \<Rightarrow> 'w \<Rightarrow> bytes \<Rightarrow> (bytes, light_error) result" where
  "get_priv_key W w script =
     rbind (map_err Li_AddressError (wl_address_from_script (wa_lib W) script (wa_network W))) (\<lambda>addr.
     rbind (read_key_store W w) (\<lambda>ks. ok_or Li_NoPrivateKey (map_of ks addr)))"

definition get_pub_key :: "'w wallet \<Rightarrow> 'w \<Rightarrow> bytes \<Rightarrow> (bytes, light_error) result" where
  "get_pub_key W w script =
     rbind (get_priv_key W w script) (\<lambda>key. Ok (wl_public_key (wa_lib W) key))"

definition put_p2wpkh_key :: "'w wallet \<Rightarrow> bytes \<Rightarrow> ('w, unit, light_error) action" where
  "put_p2wpkh_key W secret_key w =
     (let public_key = wl_public_key (wa_lib W) secret_key in
      case rbind (map_err Li_AddressError (wl_p2wpkh (wa_lib W) public_key (wa_network W)))
             (\<lambda>addr. rbind (read_key_store W w) (\<lambda>ks. Ok (addr, ks))) of
        Ok (addr, ks) \<Rightarrow> (Ok (), wa_put_key_store W (btree_insert (wl_address_le (wa_lib W)) addr secret_key ks) w)
      | Err e \<Rightarrow> (Err e, w)
      | Panic \<Rightarrow> (Panic, w))"

text \<open>
  The size of the signed transaction: every input is signed with a dummy of the right length. A
  missing input, utxo or key panics.
\<close>

definition dummy_signed_input :: "'w wallet \<Rightarrow> 'w \<Rightarrow> psbt \<Rightarrow> nat \<times> tx_in \<Rightarrow> (tx_in, 'e) result" where
  "dummy_signed_input W w p = (\<lambda>(i, txin).
     rbind (unwrap (if i < length (psbt_inputs p) then witness_utxo (psbt_inputs p ! i) else None)) (\<lambda>txo.
     rbind (expect_ok (get_pub_key W w (script_pubkey txo))) (\<lambda>public_key.
     Ok (dummy_sign_input txin public_key))))"

definition calculate_maximum_signed_tx_size :: "bool \<Rightarrow> 'w wallet \<Rightarrow> 'w \<Rightarrow> psbt \<Rightarrow> (u64, 'e) result" where
  "calculate_maximum_signed_tx_size oc W w p =
     (let tx = wl_extract_tx (wa_lib W) p in
      rbind (collect (map (dummy_signed_input W w p) (enumerate 0 (tx_input tx)))) (\<lambda>inputs.
      get_virtual_transaction_size oc (of_nat (wl_weight (wa_lib W) (tx\<lparr>tx_input := inputs\<rparr>)))))"

section \<open>Funding a transaction\<close>

record funding_env =
  fe_feerate :: u64
  fe_change_script :: bytes
  fe_change_fee :: u64
  fe_recipients_sum :: u64

record funding_state =
  fs_psbt :: psbt
  fs_coins :: select_coins
  fs_value_to_select :: u64

definition min_viable_change :: u64 where "min_viable_change = 0"

text \<open>
  Enough is selected: the change output is added before the size is computed, and its amount is
  raised by what the fee is too high. Without a change output the rest is left to the miner.
\<close>

definition finish_funding ::
  "bool \<Rightarrow> 'w wallet \<Rightarrow> 'w \<Rightarrow> funding_env \<Rightarrow> psbt \<Rightarrow> select_coins \<Rightarrow> (psbt, 'e) result" where
  "finish_funding oc W w env p coins =
     rbind (get_change oc coins min_viable_change (fe_change_fee env)) (\<lambda>change_amount.
     let p1 = (if change_amount > 0
           then p\<lparr>unsigned_tx := (unsigned_tx p)\<lparr>tx_output := tx_output (unsigned_tx p) @
                  [\<lparr>out_value = change_amount, script_pubkey = fe_change_script env\<rparr>]\<rparr>\<rparr>
           else p)
     in rbind (calculate_maximum_signed_tx_size oc W w p1) (\<lambda>n_bytes.
        let fee_needed = get_fee (fe_feerate env) n_bytes in
        rbind (get_selected_value oc coins) (\<lambda>selected.
        rbind (plain_sub oc selected (fe_recipients_sum env)) (\<lambda>rest.
        rbind (plain_sub oc rest change_amount) (\<lambda>n_fee_ret.
        if change_amount > 0 \<and> fee_needed < n_fee_ret
        then rbind (plain_sub oc n_fee_ret fee_needed) (\<lambda>extra.
             rbind (plain_add oc change_amount extra) (\<lambda>amount.
             Ok (p\<lparr>unsigned_tx := (unsigned_tx p)\<lparr>tx_output := tx_output (unsigned_tx p) @
                  [\<lparr>out_value = amount, script_pubkey = fe_change_script env\<rparr>]\<rparr>\<rparr>)))
        else Ok p1)))))"

text \<open>One coin: it is added to the inputs, and the loop returns when enough is selected.\<close>

definition add_coin :: "psbt \<Rightarrow> utxo \<Rightarrow> bytes \<Rightarrow> psbt" where
  "add_coin p u script =
     p\<lparr>unsigned_tx := (unsigned_tx p)\<lparr>tx_input := tx_input (unsigned_tx p) @ [default_tx_in (ut_outpoint u)]\<rparr>,
       psbt_inputs := psbt_inputs p @ [default_psbt_input\<lparr>witness_utxo := Some \<lparr>out_value = ut_value u, script_pubkey = script\<rparr>\<rparr>]\<rparr>"

definition fund_utxo ::
  "bool \<Rightarrow> 'w wallet \<Rightarrow> funding_env \<Rightarrow> utxo \<Rightarrow> funding_state \<Rightarrow> ('w, funding_state + psbt, light_error) action" where
  "fund_utxo oc W env u s =
     a_bind (a_map_err Li_ElectrsError (get_script_pubkey (wa_electrs W) (ut_outpoint u))) (\<lambda>script w.
     (rbind (expect_ok (get_pub_key W w script)) (\<lambda>public_key.
      rbind (calculate_maximum_signed_input_size oc (wa_lib W) (ut_outpoint u) public_key) (\<lambda>input_bytes.
      let coin = \<lparr>co_value = ut_value u, co_fee = get_fee (fe_feerate env) input_bytes\<rparr>;
          coins = select_coins_add (fs_coins s) coin;
          value_to_select = saturating_sub (fs_value_to_select s) (get_effective_value coin);
          p = add_coin (fs_psbt s) u script
      in if value_to_select = 0
         then rbind (finish_funding oc W w env p coins) (\<lambda>p'. Ok (Inr p'))
         else Ok (Inl \<lparr>fs_psbt = p, fs_coins = coins, fs_value_to_select = value_to_select\<rparr>))), w))"

definition fund_address ::
  "bool \<Rightarrow> 'w wallet \<Rightarrow> funding_env \<Rightarrow> address \<Rightarrow> funding_state \<Rightarrow> ('w, funding_state + psbt, light_error) action" where
  "fund_address oc W env addr s =
     a_bind (a_map_err Li_ElectrsError (get_utxos_for_address (wa_electrs W) addr)) (\<lambda>utxos.
     a_fold (fund_utxo oc W env) utxos s)"

text \<open>The fee of everything but the inputs, and what is to be selected.\<close>

definition not_input_fees :: "bool \<Rightarrow> wallet_lib \<Rightarrow> u64 \<Rightarrow> tx_out list \<Rightarrow> (u64, 'e) result" where
  "not_input_fees oc W n_satoshis_per_k outputs =
     rbind (plain_add oc 10 (of_nat (wl_varint_len W (of_nat (length outputs))))) (\<lambda>header.
     rbind (plain_sum oc 0 (map (tx_out_size W) outputs)) (\<lambda>body.
     rbind (plain_add oc header body) (\<lambda>tx_noinputs_size.
     Ok (get_fee n_satoshis_per_k tx_noinputs_size))))"

definition funding_env_of :: "wallet_lib \<Rightarrow> u64 \<Rightarrow> bytes \<Rightarrow> u64 \<Rightarrow> funding_env" where
  "funding_env_of W n_satoshis_per_k change_script recipients_sum =
     \<lparr>fe_feerate = n_satoshis_per_k, fe_change_script = change_script,
      fe_change_fee = get_fee n_satoshis_per_k (tx_out_size W \<lparr>out_value = 0, script_pubkey = change_script\<rparr>),
      fe_recipients_sum = recipients_sum\<rparr>"

definition fund_transaction ::
  "bool \<Rightarrow> 'w wallet \<Rightarrow> transaction \<Rightarrow> address \<Rightarrow> u64 \<Rightarrow> ('w, psbt, light_error) action" where
  "fund_transaction oc W tx change_address n_satoshis_per_k =
     (let change_script = script_of (wl_scripts (wa_lib W)) (addr_payload change_address)
      in a_bind (a_lift (plain_sum oc 0 (map out_value (tx_output tx)))) (\<lambda>recipients_sum.
         a_bind (a_lift (not_input_fees oc (wa_lib W) n_satoshis_per_k (tx_output tx))) (\<lambda>fees.
         a_bind (a_lift (plain_add oc recipients_sum fees)) (\<lambda>selection_target.
         a_bind (a_lift (map_err Li_PsbtError (wl_from_unsigned_tx (wa_lib W) tx))) (\<lambda>p.
         a_bind (\<lambda>w. (read_key_store W w, w)) (\<lambda>keys.
         a_bind (a_fold (fund_address oc W (funding_env_of (wa_lib W) n_satoshis_per_k change_script recipients_sum))
              (map fst keys)
              \<lparr>fs_psbt = p, fs_coins = select_coins_new selection_target, fs_value_to_select = selection_target\<rparr>)
           (\<lambda>r. case r of Inr p' \<Rightarrow> a_ret p' | Inl _ \<Rightarrow> a_err Li_NotEnoughInputs)))))))"

section \<open>Creating and signing a transaction\<close>

definition wallet_create_transaction :: "wallet_lib \<Rightarrow> address \<Rightarrow> u64 \<Rightarrow> H256 option \<Rightarrow> transaction" where
  "wallet_create_transaction W recipient amount maybe_op_return =
     \<lparr>tx_version = 2, lock_time = 0, tx_input = [],
      tx_output = \<lparr>out_value = amount, script_pubkey = script_of (wl_scripts W) (addr_payload recipient)\<rparr> #
        (case maybe_op_return of
           None \<Rightarrow> []
         | Some op_return \<Rightarrow> [\<lparr>out_value = 0,
             script_pubkey = push_slice (wl_scripts W) (push_opcode (wl_scripts W) [] OP_RETURN) op_return\<rparr>])\<rparr>"

text \<open>\<open>&script[2..]\<close> panics on a script of fewer than two bytes.\<close>

definition p2wpkh_script_code :: "wallet_lib \<Rightarrow> bytes \<Rightarrow> (bytes, 'e) result" where
  "p2wpkh_script_code W script =
     (if length script < 2 then Panic
      else let L = wl_scripts W
           in Ok (push_opcode L (push_opcode L (push_slice L (push_opcode L (push_opcode L [] OP_DUP) OP_HASH160)
                (drop 2 script)) OP_EQUALVERIFY) OP_CHECKSIG))"

text \<open>The signature of input \<open>i\<close> under its public key.\<close>

definition sign_input :: "'w wallet \<Rightarrow> 'w \<Rightarrow> psbt \<Rightarrow> nat \<Rightarrow> (bytes \<times> bytes, light_error) result" where
  "sign_input W w p i =
     (let L = wa_lib W; inp = psbt_inputs p ! i in
      rbind (unwrap (witness_utxo inp)) (\<lambda>prev_out.
      rbind (map_err Li_PsbtError (wl_ecdsa_hash_ty L (case sighash_type inp of Some t \<Rightarrow> t | None \<Rightarrow> SIGHASH_ALL))) (\<lambda>sighash_ty.
      rbind (if wl_is_v0_p2wpkh L (script_pubkey prev_out)
             then p2wpkh_script_code L (script_pubkey prev_out) else Err Li_InvalidPrevOut) (\<lambda>script_code.
      rbind (map_err Li_SighashError (wl_signature_hash L (unsigned_tx p) i script_code (out_value prev_out) sighash_ty)) (\<lambda>sig_hash.
      rbind (get_priv_key W w (script_pubkey prev_out)) (\<lambda>private_key.
      rbind (map_err Li_Secp256k1Error (wl_message L sig_hash)) (\<lambda>msg.
      Ok (wl_public_key L private_key, wl_sig_bytes L (wl_sign L msg private_key) sighash_ty))))))))"

text \<open>The loop over the inputs: each signature is stored before the next one is computed.\<close>

fun sign_inputs :: "'w wallet \<Rightarrow> 'w \<Rightarrow> nat list \<Rightarrow> psbt \<Rightarrow> (psbt, light_error) result" where
  "sign_inputs W w [] p = Ok p"
| "sign_inputs W w (i # rest) p =
     rbind (sign_input W w p i) (\<lambda>(key, sig).
     sign_inputs W w rest (p\<lparr>psbt_inputs := (psbt_inputs p)[i := (psbt_inputs p ! i)\<lparr>partial_sigs :=
        btree_insert (wl_public_key_le (wa_lib W)) key sig (partial_sigs (psbt_inputs p ! i))\<rparr>]\<rparr>))"

definition finish_input :: "psbt_input \<Rightarrow> (psbt_input, 'e) result" where
  "finish_input inp = (case partial_sigs inp of
      [] \<Rightarrow> Panic
    | (key, sig) # _ \<Rightarrow> Ok (inp\<lparr>final_script_witness := Some [sig, key]\<rparr>))"

definition sign_transaction :: "'w wallet \<Rightarrow> 'w \<Rightarrow> psbt \<Rightarrow> (psbt, light_error) result" where
  "sign_transaction W w p =
     rbind (sign_inputs W w [0..<length (psbt_inputs p)] p) (\<lambda>p1.
     rbind (collect (map finish_input (psbt_inputs p1))) (\<lambda>inputs. Ok (p1\<lparr>psbt_inputs := inputs\<rparr>)))"

end
