(* ===== verification/WalletFacts.thy ===== *)
theory WalletFacts
  imports Wallet
begin

text \<open>
  What the wallet of the light client promises: the coins it selects, what a funded transaction
  pays and what it costs, and the signatures. The loops are taken apart with the rules of
  \<open>ActionLogic\<close>; sums are over the naturals.
\<close>

section \<open>What is assumed of the library\<close>

text \<open>
  The documented behaviour of \<open>PartiallySignedTransaction\<close>: it is made of the transaction with one
  empty entry for each input; extracting the transaction fills in scripts and witnesses only. The
  weight does not depend on the values of the outputs, which have a fixed width.
\<close>

definition same_outpoints :: "tx_in list \<Rightarrow> tx_in list \<Rightarrow> bool" where
  "same_outpoints xs ys \<longleftrightarrow> map previous_output xs = map previous_output ys"

definition psbt_laws :: "wallet_lib \<Rightarrow> bool" where
  "psbt_laws L \<longleftrightarrow>
     (\<forall>tx p. wl_from_unsigned_tx L tx = Ok p \<longrightarrow>
        unsigned_tx p = tx \<and> psbt_inputs p = map (\<lambda>_. default_psbt_input) (tx_input tx)) \<and>
     (\<forall>p. same_outpoints (tx_input (wl_extract_tx L p)) (tx_input (unsigned_tx p)) \<and>
        tx_output (wl_extract_tx L p) = tx_output (unsigned_tx p)) \<and>
     (\<forall>p p'. psbt_inputs p = psbt_inputs p' \<and> tx_input (unsigned_tx p) = tx_input (unsigned_tx p') \<and>
        map script_pubkey (tx_output (unsigned_tx p)) = map script_pubkey (tx_output (unsigned_tx p')) \<longrightarrow>
        tx_input (wl_extract_tx L p) = tx_input (wl_extract_tx L p') \<and>
        (\<forall>ins. wl_weight L ((wl_extract_tx L p)\<lparr>tx_input := ins\<rparr>) = wl_weight L ((wl_extract_tx L p')\<lparr>tx_input := ins\<rparr>)))"

section \<open>Values\<close>

definition total_out :: "tx_out list \<Rightarrow> nat" where
  "total_out outs = sum_list (map (\<lambda>x. unat (out_value x)) outs)"

definition input_value :: "psbt_input \<Rightarrow> nat" where
  "input_value inp = (case witness_utxo inp of Some x \<Rightarrow> unat (out_value x) | None \<Rightarrow> 0)"

definition total_in :: "psbt \<Rightarrow> nat" where
  "total_in p = (\<Sum>inp\<leftarrow>psbt_inputs p. input_value inp)"

definition coins_value :: "coin_output list \<Rightarrow> nat" where
  "coins_value cs = sum_list (map (\<lambda>c. unat (co_value c)) cs)"

definition coins_effective :: "coin_output list \<Rightarrow> nat" where
  "coins_effective cs = sum_list (map (\<lambda>c. unat (co_value c) - unat (co_fee c)) cs)"

lemma total_out_simps [simp]:
  "total_out [] = 0" "total_out (x # xs) = unat (out_value x) + total_out xs"
  "total_out (xs @ ys) = total_out xs + total_out ys"
  by (simp_all add: total_out_def)

lemma coins_simps [simp]:
  "coins_value [] = 0" "coins_value (c # cs) = unat (co_value c) + coins_value cs"
  "coins_value (cs @ ds) = coins_value cs + coins_value ds"
  "coins_effective [] = 0" "coins_effective (c # cs) = unat (co_value c) - unat (co_fee c) + coins_effective cs"
  "coins_effective (cs @ ds) = coins_effective cs + coins_effective ds"
  by (simp_all add: coins_value_def coins_effective_def)

definition coins_fees :: "coin_output list \<Rightarrow> nat" where
  "coins_fees cs = sum_list (map (\<lambda>c. min (unat (co_value c)) (unat (co_fee c))) cs)"

lemma coins_split: "coins_effective cs + coins_fees cs = coins_value cs"
  by (induction cs) (auto simp: coins_fees_def)

lemma coins_effective_le: "coins_effective cs \<le> coins_value cs"
  by (induction cs) auto

lemma unat_effective [simp]: "unat (get_effective_value c) = unat (co_value c) - unat (co_fee c)"
  by (simp add: get_effective_value_def unat_saturating_sub)

section \<open>The end of the selection\<close>

lemma selected_value:
  "get_selected_value oc coins = Ok v \<Longrightarrow> oc \<or> coins_value (preset_inputs coins) < 2 ^ 64 \<Longrightarrow>
   unat v = coins_value (preset_inputs coins)"
  using plain_sum_Ok [of oc 0 "map co_value (preset_inputs coins)" v]
  by (auto simp: get_selected_value_def coins_value_def comp_def)

lemma selected_effective:
  "get_selected_effective_value oc coins = Ok v \<Longrightarrow> oc \<or> coins_effective (preset_inputs coins) < 2 ^ 64 \<Longrightarrow>
   unat v = coins_effective (preset_inputs coins)"
  using plain_sum_Ok [of oc 0 "map get_effective_value (preset_inputs coins)" v]
  by (auto simp: get_selected_effective_value_def coins_effective_def comp_def)

lemma change_amount:
  assumes "get_change oc coins min_viable_change fee = Ok c"
    and "oc \<or> coins_value (preset_inputs coins) < 2 ^ 64"
  shows "unat c = coins_effective (preset_inputs coins) - unat (target_value coins) - unat fee"
proof -
  from assms(2) coins_effective_le [of "preset_inputs coins"]
  have "oc \<or> coins_effective (preset_inputs coins) < 2 ^ 64" by linarith
  with assms(1) show ?thesis
    by (auto simp: get_change_def min_viable_change_def Let_def unat_saturating_sub dest: selected_effective)
qed

text \<open>The outputs of a funded transaction: those wanted and a change output, if its amount is positive.\<close>

definition change_outputs :: "bytes \<Rightarrow> nat \<Rightarrow> tx_out list" where
  "change_outputs script amount = (if amount = 0 then [] else [\<lparr>out_value = of_nat amount, script_pubkey = script\<rparr>])"

lemma unat_of_nat_amount: "n < 2 ^ 64 \<Longrightarrow> unat (of_nat n :: u64) = n"
  by (simp add: unsigned_of_nat take_bit_nat_eq_self)

lemma total_change_outputs: "n < 2 ^ 64 \<Longrightarrow> total_out (change_outputs s n) = n"
  by (simp add: change_outputs_def unat_of_nat_amount)

lemma change_output_word: "unat a > 0 \<Longrightarrow> [\<lparr>out_value = a, script_pubkey = s\<rparr>] = change_outputs s (unat a)"
  by (simp add: change_outputs_def)

text \<open>
  What the end of the selection computes: \<open>c\<close> is the change before the correction, \<open>kept\<close> what
  it leaves to the fee, \<open>needed\<close> the fee for the size of the transaction with that change output.
\<close>

definition with_outputs :: "psbt \<Rightarrow> tx_out list \<Rightarrow> psbt" where
  "with_outputs p extra = p\<lparr>unsigned_tx := (unsigned_tx p)\<lparr>tx_output := tx_output (unsigned_tx p) @ extra\<rparr>\<rparr>"

lemma with_outputs_none [simp]: "with_outputs p [] = p"
  by (simp add: with_outputs_def)

lemma finish_funding_spec:
  assumes fin: "finish_funding oc W w env p coins = (Ok p' :: (psbt, 'e) result)"
    and bound: "oc \<or> coins_value (preset_inputs coins) < 2 ^ 64"
    and target: "unat (fe_recipients_sum env) \<le> unat (target_value coins)"
      "unat (target_value coins) \<le> coins_effective (preset_inputs coins)"
  shows "\<exists>c kept needed n_bytes.
    c = coins_effective (preset_inputs coins) - unat (target_value coins) - unat (fe_change_fee env) \<and>
    kept + c + unat (fe_recipients_sum env) = coins_value (preset_inputs coins) \<and>
    calculate_maximum_signed_tx_size oc W w (with_outputs p (change_outputs (fe_change_script env) c)) = (Ok n_bytes :: (u64, 'e) result) \<and>
    needed = unat (get_fee (fe_feerate env) n_bytes) \<and>
    p' = with_outputs p (change_outputs (fe_change_script env)
           (if c > 0 \<and> needed < kept then c + (kept - needed) else c)) \<and>
    coins_value (preset_inputs coins) < 2 ^ 64"
proof -
  let ?cs = "preset_inputs coins" and ?s = "fe_change_script env"
  from fin obtain a n_bytes sel rest nfee where
    a: "get_change oc coins min_viable_change (fe_change_fee env) = (Ok a :: (u64, 'e) result)"
    and size: "calculate_maximum_signed_tx_size oc W w
        (if a > 0 then with_outputs p [\<lparr>out_value = a, script_pubkey = ?s\<rparr>] else p) = (Ok n_bytes :: (u64, 'e) result)"
    and sel: "get_selected_value oc coins = (Ok sel :: (u64, 'e) result)"
    and rest: "plain_sub oc sel (fe_recipients_sum env) = (Ok rest :: (u64, 'e) result)"
    and nfee: "plain_sub oc rest a = (Ok nfee :: (u64, 'e) result)"
    and res: "(if a > 0 \<and> get_fee (fe_feerate env) n_bytes < nfee
        then rbind (plain_sub oc nfee (get_fee (fe_feerate env) n_bytes)) (\<lambda>extra.
             rbind (plain_add oc a extra) (\<lambda>amount. Ok (with_outputs p [\<lparr>out_value = amount, script_pubkey = ?s\<rparr>])))
        else Ok (if a > 0 then with_outputs p [\<lparr>out_value = a, script_pubkey = ?s\<rparr>] else p)) = (Ok p' :: (psbt, 'e) result)"
    unfolding finish_funding_def Let_def with_outputs_def by (simp only: rbind_eq_Ok) blast
  have c: "unat a = coins_effective ?cs - unat (target_value coins) - unat (fe_change_fee env)"
    by (rule change_amount [OF a bound])
  have v: "unat sel = coins_value ?cs" by (rule selected_value [OF sel bound])
  have lt: "coins_value ?cs < 2 ^ 64" using unat_eq_bound [OF v] by simp
  note le = coins_effective_le [of ?cs]
  have "unat rest = unat sel - unat (fe_recipients_sum env)"
    by (rule plain_sub_Ok [OF rest]) (use v le target in \<open>simp add: word_le_nat_alt\<close>)
  moreover have "unat nfee = unat rest - unat a"
    by (rule plain_sub_Ok [OF nfee]) (use v le target c calculation in \<open>simp add: word_le_nat_alt\<close>)
  ultimately have k: "unat nfee + unat a + unat (fe_recipients_sum env) = coins_value ?cs"
    using v le target c by simp
  have pos: "(a > 0) = (unat a > 0)" by (simp add: word_less_nat_alt)
  have out: "(if a > 0 then with_outputs p [\<lparr>out_value = a, script_pubkey = ?s\<rparr>] else p) =
      with_outputs p (change_outputs ?s (unat a))"
    by (simp add: pos change_outputs_def)
  have p': "p' = with_outputs p (change_outputs ?s (if unat a > 0 \<and> unat (get_fee (fe_feerate env) n_bytes) < unat nfee
      then unat a + (unat nfee - unat (get_fee (fe_feerate env) n_bytes)) else unat a))"
  proof (cases "a > 0 \<and> get_fee (fe_feerate env) n_bytes < nfee")
    case True
    let ?f = "get_fee (fe_feerate env) n_bytes"
    from True res obtain extra amount where ex: "plain_sub oc nfee ?f = (Ok extra :: (u64, 'e) result)"
      and am: "plain_add oc a extra = (Ok amount :: (u64, 'e) result)"
      and p': "p' = with_outputs p [\<lparr>out_value = amount, script_pubkey = ?s\<rparr>]" by auto
    have e: "unat extra = unat nfee - unat ?f"
      by (rule plain_sub_Ok [OF ex]) (use True in \<open>simp add: less_imp_le\<close>)
    have "unat a + unat extra < 2 ^ 64" using e k lt by linarith
    then have "unat amount = unat a + unat extra"
      by (intro plain_add_Ok [OF am]) simp
    moreover have "unat a + unat extra > 0" using True by (simp add: pos)
    ultimately show ?thesis
      using True p' e by (simp add: pos word_less_nat_alt change_output_word)
  next
    case False
    then show ?thesis using res out by (auto simp: pos word_less_nat_alt split: if_splits)
  qed
  show ?thesis
    by (intro exI [of _ "unat a"] exI [of _ "unat nfee"] exI [of _ "unat (get_fee (fe_feerate env) n_bytes)"] exI [of _ n_bytes] conjI)
      (use c k size out p' lt in simp_all)
qed

text \<open>The size of the signed transaction does not depend on the amount of the change.\<close>

lemma size_of_change_output:
  assumes "psbt_laws (wa_lib W)" and "c > 0" and "d > 0"
  shows "calculate_maximum_signed_tx_size oc W w (with_outputs p (change_outputs s c)) =
    calculate_maximum_signed_tx_size oc W w (with_outputs p (change_outputs s d))"
proof -
  let ?p = "with_outputs p (change_outputs s c)" and ?q = "with_outputs p (change_outputs s d)"
  have "psbt_inputs ?p = psbt_inputs ?q \<and> tx_input (unsigned_tx ?p) = tx_input (unsigned_tx ?q) \<and>
      map script_pubkey (tx_output (unsigned_tx ?p)) = map script_pubkey (tx_output (unsigned_tx ?q))"
    using assms(2,3) by (simp add: with_outputs_def change_outputs_def)
  with assms(1) have x: "tx_input (wl_extract_tx (wa_lib W) ?p) = tx_input (wl_extract_tx (wa_lib W) ?q)"
    and y: "wl_weight (wa_lib W) ((wl_extract_tx (wa_lib W) ?p)\<lparr>tx_input := ins\<rparr>) =
      wl_weight (wa_lib W) ((wl_extract_tx (wa_lib W) ?q)\<lparr>tx_input := ins\<rparr>)" for ins
    unfolding psbt_laws_def by blast+
  have z: "dummy_signed_input W w ?p = (dummy_signed_input W w ?q :: nat \<times> tx_in \<Rightarrow> (tx_in, 'e) result)" for W :: "'w wallet" and w
    by (simp add: fun_eq_iff dummy_signed_input_def with_outputs_def)
  show ?thesis
    by (simp only: calculate_maximum_signed_tx_size_def Let_def x y z)
qed

section \<open>The selection\<close>

text \<open>
  The fee for spending an input: that for its signed size, with the key the wallet had for the script
  of the coin when it was added.
\<close>

definition spending_fee :: "bool \<Rightarrow> 'w wallet \<Rightarrow> u64 \<Rightarrow> tx_in \<times> psbt_input \<Rightarrow> nat \<Rightarrow> bool" where
  "spending_fee oc W rate = (\<lambda>(txin, inp) fee. \<exists>coin w public_key n. witness_utxo inp = Some coin \<and>
     get_pub_key W w (script_pubkey coin) = Ok public_key \<and>
     calculate_maximum_signed_input_size oc (wa_lib W) (previous_output txin) public_key = (Ok n :: (u64, light_error) result) \<and>
     fee = unat (get_fee rate n))"

definition pays_in :: "bool \<Rightarrow> 'w wallet \<Rightarrow> u64 \<Rightarrow> tx_in \<times> psbt_input \<Rightarrow> coin_output \<Rightarrow> bool" where
  "pays_in oc W rate x c \<longleftrightarrow>
     input_value (snd x) = unat (co_value c) \<and> spending_fee oc W rate x (unat (co_fee c))"

text \<open>The partially funded transaction and the coins selected for it go together.\<close>

definition inputs_of :: "psbt \<Rightarrow> (tx_in \<times> psbt_input) list" where
  "inputs_of p = zip (tx_input (unsigned_tx p)) (psbt_inputs p)"

definition selected_so_far :: "bool \<Rightarrow> 'w wallet \<Rightarrow> u64 \<Rightarrow> u64 \<Rightarrow> tx_out list \<Rightarrow> psbt \<Rightarrow> select_coins \<Rightarrow> bool" where
  "selected_so_far oc W rate target outs p coins \<longleftrightarrow>
     tx_output (unsigned_tx p) = outs \<and> target_value coins = target \<and>
     list_all2 (pays_in oc W rate) (inputs_of p) (preset_inputs coins) \<and>
     length (tx_input (unsigned_tx p)) = length (psbt_inputs p)"

lemma total_in_coins:
  assumes "list_all2 (pays_in oc W rate) (inputs_of p) cs" "length (tx_input (unsigned_tx p)) = length (psbt_inputs p)"
  shows "total_in p = coins_value cs"
proof -
  have "psbt_inputs p = map snd (inputs_of p)" using assms(2) by (simp add: inputs_of_def)
  then have "total_in p = (\<Sum>x\<leftarrow>inputs_of p. input_value (snd x))" by (simp add: total_in_def comp_def)
  also have "\<dots> = coins_value cs"
    using assms(1) by (induction rule: list_all2_induct) (simp_all add: pays_in_def)
  finally show ?thesis .
qed

lemma coins_spending:
  "list_all2 (pays_in oc W rate) xs cs \<Longrightarrow> list_all2 (spending_fee oc W rate) xs (map (\<lambda>c. unat (co_fee c)) cs) \<and>
     coins_fees cs = (\<Sum>(x, fee)\<leftarrow>zip xs (map (\<lambda>c. unat (co_fee c)) cs). min (input_value (snd x)) fee)"
  by (induction rule: list_all2_induct) (auto simp: pays_in_def coins_fees_def)

lemma selected_add_coin:
  assumes "selected_so_far oc W rate target outs p coins" "co_value c = ut_value u" "co_fee c = get_fee rate n"
    and "get_pub_key W w script = Ok pk"
    and "calculate_maximum_signed_input_size oc (wa_lib W) (ut_outpoint u) pk = (Ok n :: (u64, light_error) result)"
  shows "selected_so_far oc W rate target outs (add_coin p u script) (select_coins_add coins c)"
proof -
  have "pays_in oc W rate (default_tx_in (ut_outpoint u),
      default_psbt_input\<lparr>witness_utxo := Some \<lparr>out_value = ut_value u, script_pubkey = script\<rparr>\<rparr>) c"
    using assms(2-5) by (auto simp: pays_in_def spending_fee_def input_value_def default_tx_in_def)
  with assms(1) show ?thesis
    by (simp add: selected_so_far_def add_coin_def select_coins_add_def inputs_of_def list_all2_appendI)
qed

definition funding_inv :: "bool \<Rightarrow> 'w wallet \<Rightarrow> u64 \<Rightarrow> u64 \<Rightarrow> tx_out list \<Rightarrow> funding_state \<Rightarrow> 'w \<Rightarrow> bool" where
  "funding_inv oc W rate target outs s w \<longleftrightarrow> selected_so_far oc W rate target outs (fs_psbt s) (fs_coins s) \<and>
     unat (fs_value_to_select s) = unat target - coins_effective (preset_inputs (fs_coins s))"

definition funding_end ::
  "bool \<Rightarrow> 'w wallet \<Rightarrow> funding_env \<Rightarrow> u64 \<Rightarrow> tx_out list \<Rightarrow> psbt \<Rightarrow> 'w \<Rightarrow> bool" where
  "funding_end oc W env target outs p' w \<longleftrightarrow> (\<exists>p coins w1. selected_so_far oc W (fe_feerate env) target outs p coins \<and>
     unat target \<le> coins_effective (preset_inputs coins) \<and>
     finish_funding oc W w1 env p coins = (Ok p' :: (psbt, light_error) result))"

lemma expect_ok_eq_Ok: "expect_ok r = Ok a \<longleftrightarrow> r = Ok a"
  by (cases r) simp_all

lemma triple_fund_utxo:
  "triple (\<lambda>_. True) (funding_inv oc W (fe_feerate env) target outs s) (fund_utxo oc W env u s)
     (\<lambda>y. case y of Inl s' \<Rightarrow> funding_inv oc W (fe_feerate env) target outs s' | Inr p \<Rightarrow> funding_end oc W env target outs p) (\<lambda>_ _. True)"
proof (rule tripleI)
  fix w y w'
  assume inv: "funding_inv oc W (fe_feerate env) target outs s w" and run: "fund_utxo oc W env u s w = (Ok y, w')"
  from run obtain script pk n where key: "get_pub_key W w' script = Ok pk"
    and size: "calculate_maximum_signed_input_size oc (wa_lib W) (ut_outpoint u) pk = (Ok n :: (u64, light_error) result)"
    and y: "(let coin = \<lparr>co_value = ut_value u, co_fee = get_fee (fe_feerate env) n\<rparr>;
          coins = select_coins_add (fs_coins s) coin;
          value_to_select = saturating_sub (fs_value_to_select s) (get_effective_value coin);
          p = add_coin (fs_psbt s) u script
      in if value_to_select = 0
         then rbind (finish_funding oc W w' env p coins) (\<lambda>p'. Ok (Inr p'))
         else Ok (Inl \<lparr>fs_psbt = p, fs_coins = coins, fs_value_to_select = value_to_select\<rparr>)) =
      (Ok y :: (funding_state + psbt, light_error) result)"
    unfolding fund_utxo_def a_bind_eq_Ok prod.inject rbind_eq_Ok expect_ok_eq_Ok by blast
  define coin where "coin = \<lparr>co_value = ut_value u, co_fee = get_fee (fe_feerate env) n\<rparr>"
  let ?coins = "select_coins_add (fs_coins s) coin" and ?p = "add_coin (fs_psbt s) u script"
    and ?v = "saturating_sub (fs_value_to_select s) (get_effective_value coin)"
  have sel: "selected_so_far oc W (fe_feerate env) target outs ?p ?coins"
    using inv by (intro selected_add_coin [OF _ _ _ key size]) (simp_all add: funding_inv_def coin_def)
  have v: "unat ?v = unat target - coins_effective (preset_inputs ?coins)"
    using inv by (simp add: funding_inv_def unat_saturating_sub select_coins_add_def)
  show "(case y of Inl s' \<Rightarrow> funding_inv oc W (fe_feerate env) target outs s' | Inr p \<Rightarrow> funding_end oc W env target outs p) w'"
  proof (cases "?v = 0")
    case True
    with y obtain p' where y': "y = Inr p'"
      and fin: "finish_funding oc W w' env ?p ?coins = (Ok p' :: (psbt, light_error) result)"
      by (auto simp: Let_def coin_def)
    from True v have "unat target \<le> coins_effective (preset_inputs ?coins)" by simp
    with sel fin y' show ?thesis by (auto simp: funding_end_def)
  next
    case False
    with y have "y = Inl \<lparr>fs_psbt = ?p, fs_coins = ?coins, fs_value_to_select = ?v\<rparr>"
      by (simp add: Let_def coin_def)
    with sel v show ?thesis by (simp add: funding_inv_def)
  qed
qed auto

lemma triple_fund_address:
  "triple (\<lambda>_. True) (funding_inv oc W (fe_feerate env) target outs s) (fund_address oc W env addr s)
     (\<lambda>y. case y of Inl s' \<Rightarrow> funding_inv oc W (fe_feerate env) target outs s' | Inr p \<Rightarrow> funding_end oc W env target outs p) (\<lambda>_ _. True)"
  unfolding fund_address_def
proof (rule triple_bind)
  show "triple (\<lambda>_. True) (funding_inv oc W (fe_feerate env) target outs s)
     (a_map_err Li_ElectrsError (get_utxos_for_address (wa_electrs W) addr)) (\<lambda>_. funding_inv oc W (fe_feerate env) target outs s) (\<lambda>_ _. True)"
    by (rule tripleI) (simp_all add: funding_inv_def)
qed (rule triple_fold, rule triple_fund_utxo)

lemma get_fee_bound: "unat (get_fee r n) \<le> 2 ^ 64 div 1000 + 1"
proof -
  let ?a = "saturating_mul r n"
  have "unat ?a div 1000 \<le> 2 ^ 64 div 1000"
    using unat_u64_less [of ?a] by (intro div_le_mono) simp
  moreover from this have "unat (?a div 1000 + 1) = unat ?a div 1000 + 1"
    by (subst unat_add_lem [THEN iffD1]) (simp_all add: unat_div)
  ultimately show ?thesis by (simp add: get_fee_def div_ceil_def unat_div)
qed

text \<open>What a successful run went through.\<close>

lemma fund_transaction_run:
  assumes laws: "psbt_laws (wa_lib W)" and new: "tx_input tx = []"
    and run: "fund_transaction oc W tx change_address rate w = (Ok p, w')"
  shows "\<exists>recipients fees target env. plain_sum oc 0 (map out_value (tx_output tx)) = (Ok recipients :: (u64, light_error) result) \<and>
    not_input_fees oc (wa_lib W) rate (tx_output tx) = (Ok fees :: (u64, light_error) result) \<and>
    plain_add oc recipients fees = (Ok target :: (u64, light_error) result) \<and>
    fe_feerate env = rate \<and> fe_change_script env = script_of (wl_scripts (wa_lib W)) (addr_payload change_address) \<and>
    fe_change_fee env = get_fee rate (tx_out_size (wa_lib W) \<lparr>out_value = 0,
      script_pubkey = script_of (wl_scripts (wa_lib W)) (addr_payload change_address)\<rparr>) \<and>
    fe_recipients_sum env = recipients \<and> funding_end oc W env target (tx_output tx) p w'"
proof -
  let ?script = "script_of (wl_scripts (wa_lib W)) (addr_payload change_address)"
  let ?env = "funding_env_of (wa_lib W) rate ?script"
  from run obtain recipients fees target p0 keys r w1 w2 where
    1: "plain_sum oc 0 (map out_value (tx_output tx)) = (Ok recipients :: (u64, light_error) result)"
       "not_input_fees oc (wa_lib W) rate (tx_output tx) = (Ok fees :: (u64, light_error) result)"
       "plain_add oc recipients fees = (Ok target :: (u64, light_error) result)"
    and p0: "wl_from_unsigned_tx (wa_lib W) tx = Ok p0" and "read_key_store W w = Ok keys"
    and loop: "a_fold (fund_address oc W (?env recipients)) (map fst keys)
        \<lparr>fs_psbt = p0, fs_coins = select_coins_new target, fs_value_to_select = target\<rparr> w1 = (Ok r, w2)"
    and r': "(case r of Inr p' \<Rightarrow> a_ret p' | Inl _ \<Rightarrow> a_err Li_NotEnoughInputs) w2 = (Ok p, w')"
    unfolding fund_transaction_def Let_def a_bind_eq_Ok a_lift_def prod.inject map_err_eq_Ok
    by blast
  from r' have r: "r = Inr p" "w2 = w'" by (auto split: sum.splits)
  let ?s = "\<lparr>fs_psbt = p0, fs_coins = select_coins_new target, fs_value_to_select = target\<rparr>"
  from laws p0 have "unsigned_tx p0 = tx" "psbt_inputs p0 = map (\<lambda>_. default_psbt_input) (tx_input tx)"
    unfolding psbt_laws_def by blast+
  then have inv: "funding_inv oc W rate target (tx_output tx) ?s w1"
    using new by (simp add: funding_inv_def selected_so_far_def select_coins_new_def inputs_of_def)
  have rate: "fe_feerate (?env recipients) = rate" by (simp add: funding_env_of_def)
  have "triple (\<lambda>_. True) (funding_inv oc W (fe_feerate (?env recipients)) target (tx_output tx) ?s)
     (a_fold (fund_address oc W (?env recipients)) (map fst keys) ?s)
     (\<lambda>y. case y of Inl s' \<Rightarrow> funding_inv oc W (fe_feerate (?env recipients)) target (tx_output tx) s'
        | Inr p \<Rightarrow> funding_end oc W (?env recipients) target (tx_output tx) p) (\<lambda>_ _. True)"
    by (rule triple_fold) (rule triple_fund_address)
  from tripleD(1) [OF this [unfolded rate] inv loop refl] r have "funding_end oc W (?env recipients) target (tx_output tx) p w'" by simp
  with 1 show ?thesis by (intro exI [of _ recipients] exI [of _ fees] exI [of _ target] exI [of _ "?env recipients"]) (simp add: funding_env_of_def)
qed

lemma funding_end_pays:
  assumes laws: "psbt_laws (wa_lib W)"
    and fend: "funding_end oc W env target outs p w'"
    and bound: "oc \<or> total_in p < 2 ^ 64"
    and target: "unat target = unat (fe_recipients_sum env) + fees" and recipients: "unat (fe_recipients_sum env) = total_out outs"
  shows "\<exists>amount in_fees. tx_output (unsigned_tx p) = outs @ change_outputs (fe_change_script env) amount \<and>
    total_out (tx_output (unsigned_tx p)) \<le> total_in p \<and> total_in p < 2 ^ 64 \<and>
    length (tx_input (unsigned_tx p)) = length (psbt_inputs p) \<and>
    list_all2 (spending_fee oc W (fe_feerate env)) (inputs_of p) in_fees \<and>
    (\<exists>w1 n_bytes. calculate_maximum_signed_tx_size oc W w1 p = (Ok n_bytes :: (u64, light_error) result) \<and>
       (let fee = total_in p - total_out (tx_output (unsigned_tx p)); needed = unat (get_fee (fe_feerate env) n_bytes);
            spend = fees + (\<Sum>(x, fee)\<leftarrow>zip (inputs_of p) in_fees. min (input_value (snd x)) fee)
        in if amount > 0 then fee = min needed (spend + unat (fe_change_fee env))
           else spend \<le> fee \<and> fee \<le> spend + unat (fe_change_fee env)))"
proof -
  let ?s = "fe_change_script env"
  from fend obtain p0 coins w1 where sel: "selected_so_far oc W (fe_feerate env) target outs p0 coins"
    and enough: "unat target \<le> coins_effective (preset_inputs coins)"
    and fin: "finish_funding oc W w1 env p0 coins = (Ok p :: (psbt, light_error) result)"
    unfolding funding_end_def by blast
  let ?v = "coins_value (preset_inputs coins)"
  have tc: "target_value coins = target" and outs: "tx_output (unsigned_tx p0) = outs"
    and ins: "list_all2 (pays_in oc W (fe_feerate env)) (inputs_of p0) (preset_inputs coins)"
    and len: "length (tx_input (unsigned_tx p0)) = length (psbt_inputs p0)"
    using sel by (simp_all add: selected_so_far_def)
  have inputs: "psbt_inputs p = psbt_inputs p0" "inputs_of p = inputs_of p0"
    using fin by (auto simp: finish_funding_def inputs_of_def Let_def split: if_splits)
  have tin: "total_in p = ?v" using total_in_coins [OF ins len] inputs by (simp add: total_in_def)
  obtain c kept needed n_bytes where
    c: "c = coins_effective (preset_inputs coins) - unat target - unat (fe_change_fee env)"
    and kept: "kept + c + unat (fe_recipients_sum env) = ?v"
    and size: "calculate_maximum_signed_tx_size oc W w1 (with_outputs p0 (change_outputs ?s c)) = (Ok n_bytes :: (u64, light_error) result)"
    and needed: "needed = unat (get_fee (fe_feerate env) n_bytes)"
    and p: "p = with_outputs p0 (change_outputs ?s (if c > 0 \<and> needed < kept then c + (kept - needed) else c))"
    and lt: "?v < 2 ^ 64"
    using finish_funding_spec [OF fin] bound tin tc enough target by auto
  define amount where "amount = (if c > 0 \<and> needed < kept then c + (kept - needed) else c)"
  have amount: "amount + unat (fe_recipients_sum env) \<le> ?v" "amount < 2 ^ 64"
    using kept lt by (auto simp: amount_def)
  have out: "tx_output (unsigned_tx p) = outs @ change_outputs ?s amount"
    using p outs by (simp add: with_outputs_def amount_def)
  have tout: "total_out (tx_output (unsigned_tx p)) = unat (fe_recipients_sum env) + amount"
    using out recipients total_change_outputs [OF amount(2)] by simp
  have pos: "(amount > 0) = (c > 0)" by (auto simp: amount_def)
  have sz: "calculate_maximum_signed_tx_size oc W w1 p = (Ok n_bytes :: (u64, light_error) result)"
  proof (cases "c > 0")
    case True
    with pos have a: "amount > 0" by simp
    show ?thesis unfolding p [folded amount_def] size_of_change_output [OF laws a True] by (rule size)
  next
    case False
    with size p show ?thesis by simp
  qed
  let ?in_fees = "map (\<lambda>c. unat (co_fee c)) (preset_inputs coins)"
  let ?spend = "fees + (\<Sum>(x, fee)\<leftarrow>zip (inputs_of p) ?in_fees. min (input_value (snd x)) fee)"
  let ?fee = "?v - (unat (fe_recipients_sum env) + amount)"
  have in_fees: "list_all2 (spending_fee oc W (fe_feerate env)) (inputs_of p) ?in_fees"
    "?spend = fees + coins_fees (preset_inputs coins)"
    using coins_spending [OF ins] inputs(2) by simp_all
  note parts = coins_split [of "preset_inputs coins"]
  have with_change: "?fee = min needed (?spend + unat (fe_change_fee env))" if "amount > 0"
  proof -
    from that pos have "c > 0" by simp
    with c kept target enough parts in_fees(2) have "kept = ?spend + unat (fe_change_fee env)" by linarith
    moreover have "?fee = min needed kept" using kept \<open>c > 0\<close> by (auto simp: amount_def)
    ultimately show ?thesis by simp
  qed
  have without_change: "?spend \<le> ?fee \<and> ?fee \<le> ?spend + unat (fe_change_fee env)" if "amount = 0"
  proof -
    from that pos have "c = 0" by simp
    with c kept target enough parts in_fees(2) that show ?thesis by linarith
  qed
  have "length (tx_input (unsigned_tx p)) = length (psbt_inputs p)" using p len by (simp add: with_outputs_def)
  with out amount lt sz needed tin tout in_fees(1) with_change without_change show ?thesis
    by (intro exI [of _ amount] exI [of _ ?in_fees] conjI exI [of _ w1] exI [of _ n_bytes]) (simp_all add: Let_def)
qed

section \<open>Which coins are selected\<close>

text \<open>
  A server and a key store that do not change: \<open>utxos\<close> are the coins of an address, \<open>script\<close> the
  script of a coin, \<open>vsize\<close> its size as an input, and the wallet has the key of every coin.
\<close>

definition serves_coins ::
  "bool \<Rightarrow> 'w wallet \<Rightarrow> (address \<Rightarrow> utxo list) \<Rightarrow> (utxo \<Rightarrow> bytes) \<Rightarrow> (utxo \<Rightarrow> u64) \<Rightarrow> 'w \<Rightarrow> bool" where
  "serves_coins oc W utxos script vsize w \<longleftrightarrow>
     (\<forall>a. get_utxos_for_address (wa_electrs W) a w = (Ok (utxos a), w)) \<and>
     (\<forall>a. \<forall>u\<in>set (utxos a). get_script_pubkey (wa_electrs W) (ut_outpoint u) w = (Ok (script u), w) \<and>
        (\<exists>pk. get_pub_key W w (script u) = Ok pk \<and>
           calculate_maximum_signed_input_size oc (wa_lib W) (ut_outpoint u) pk = (Ok (vsize u) :: (u64, light_error) result)))"

definition coin_of :: "u64 \<Rightarrow> (utxo \<Rightarrow> u64) \<Rightarrow> utxo \<Rightarrow> coin_output" where
  "coin_of rate vsize u = \<lparr>co_value = ut_value u, co_fee = get_fee rate (vsize u)\<rparr>"

definition take_coin :: "u64 \<Rightarrow> (utxo \<Rightarrow> bytes) \<Rightarrow> (utxo \<Rightarrow> u64) \<Rightarrow> utxo \<Rightarrow> funding_state \<Rightarrow> funding_state" where
  "take_coin rate script vsize u s =
     \<lparr>fs_psbt = add_coin (fs_psbt s) u (script u), fs_coins = select_coins_add (fs_coins s) (coin_of rate vsize u),
      fs_value_to_select = saturating_sub (fs_value_to_select s) (get_effective_value (coin_of rate vsize u))\<rparr>"

text \<open>The reference: coins are taken in the order they are listed until their value suffices.\<close>

fun greedy :: "('u \<Rightarrow> 's \<Rightarrow> 's) \<Rightarrow> ('s \<Rightarrow> bool) \<Rightarrow> ('s \<Rightarrow> ('r, 'e) result) \<Rightarrow> 'u list \<Rightarrow> 's \<Rightarrow> ('s + 'r, 'e) result" where
  "greedy tk enough fin [] s = Ok (Inl s)"
| "greedy tk enough fin (u # us) s =
     (if enough (tk u s) then rbind (fin (tk u s)) (\<lambda>r. Ok (Inr r)) else greedy tk enough fin us (tk u s))"

lemma greedy_append:
  "greedy tk enough fin (us @ vs) s =
     rbind (greedy tk enough fin us s) (\<lambda>x. case x of Inl s' \<Rightarrow> greedy tk enough fin vs s' | Inr r \<Rightarrow> Ok (Inr r))"
proof (induction us arbitrary: s)
  case (Cons u us)
  then show ?case by (cases "fin (tk u s)") auto
qed simp

text \<open>A loop that leaves the world as it is computes the fold of its results.\<close>

lemma a_fold_greedy:
  assumes "\<And>x s. x \<in> set xs \<Longrightarrow> step x s w = (greedy tk enough fin (us x) s, w)"
  shows "a_fold step xs s w = (greedy tk enough fin (concat (map us xs)) s, w)"
  using assms
proof (induction xs arbitrary: s)
  case Nil
  then show ?case by (simp add: a_ret_def)
next
  case (Cons x xs)
  have "step x s w = (greedy tk enough fin (us x) s, w)" using Cons.prems by simp
  moreover have "a_fold step xs s' w = (greedy tk enough fin (concat (map us xs)) s', w)" for s'
    using Cons.prems by (intro Cons.IH) simp
  ultimately show ?case
    by (cases "greedy tk enough fin (us x) s") (auto simp: action_defs greedy_append split: sum.splits)
qed

lemma greedy_find:
  "greedy tk enough fin us s =
     (case find (\<lambda>k. enough (fold tk (take k us) s)) [1..<Suc (length us)] of
        None \<Rightarrow> Ok (Inl (fold tk us s))
      | Some k \<Rightarrow> rbind (fin (fold tk (take k us) s)) (\<lambda>r. Ok (Inr r)))"
proof (induction us arbitrary: s)
  case (Cons u us)
  have split: "[1..<Suc (length (u # us))] = 1 # map Suc [1..<Suc (length us)]"
    by (simp add: upt_conv_Cons map_Suc_upt del: upt_Suc)
  have "find P (map Suc ks) = map_option Suc (find (\<lambda>k. P (Suc k)) ks)" for P ks
    by (induction ks) auto
  with Cons show ?case unfolding split by (auto split: option.splits)
qed simp

lemma fund_utxo_greedy:
  assumes "serves_coins oc W utxos script vsize w" and "u \<in> set (utxos a)"
  shows "fund_utxo oc W env u s w =
    (greedy (take_coin (fe_feerate env) script vsize) (\<lambda>s. fs_value_to_select s = 0)
       (\<lambda>s. finish_funding oc W w env (fs_psbt s) (fs_coins s)) [u] s, w)"
proof -
  from assms obtain pk where "get_script_pubkey (wa_electrs W) (ut_outpoint u) w = (Ok (script u), w)"
    "get_pub_key W w (script u) = Ok pk"
    "calculate_maximum_signed_input_size oc (wa_lib W) (ut_outpoint u) pk = (Ok (vsize u) :: (u64, light_error) result)"
    unfolding serves_coins_def by blast
  then show ?thesis
    by (simp add: fund_utxo_def a_bind_def a_match_def a_map_err_def take_coin_def coin_of_def Let_def del: rbind_eq_Ok)
qed

lemma fund_address_greedy:
  assumes "serves_coins oc W utxos script vsize w"
  shows "fund_address oc W env a s w =
    (greedy (take_coin (fe_feerate env) script vsize) (\<lambda>s. fs_value_to_select s = 0)
       (\<lambda>s. finish_funding oc W w env (fs_psbt s) (fs_coins s)) (utxos a) s, w)"
proof -
  have "get_utxos_for_address (wa_electrs W) a w = (Ok (utxos a), w)"
    using assms by (simp add: serves_coins_def)
  moreover have "a_fold (fund_utxo oc W env) (utxos a) s w =
    (greedy (take_coin (fe_feerate env) script vsize) (\<lambda>s. fs_value_to_select s = 0)
       (\<lambda>s. finish_funding oc W w env (fs_psbt s) (fs_coins s)) (concat (map (\<lambda>u. [u]) (utxos a))) s, w)"
    by (rule a_fold_greedy) (rule fund_utxo_greedy [OF assms])
  ultimately show ?thesis by (simp add: fund_address_def a_bind_def a_match_def a_map_err_def)
qed

lemma taken_coins:
  "preset_inputs (fs_coins (fold (take_coin rate script vsize) us s)) = preset_inputs (fs_coins s) @ map (coin_of rate vsize) us"
  by (induction us arbitrary: s) (simp_all add: take_coin_def select_coins_add_def)

lemma taken_value:
  "unat (fs_value_to_select (fold (take_coin rate script vsize) us s)) =
     unat (fs_value_to_select s) - coins_effective (map (coin_of rate vsize) us)"
  by (induction us arbitrary: s) (simp_all add: take_coin_def unat_saturating_sub)

text \<open>The transaction and the coins after \<open>us\<close> were taken.\<close>

definition funded_with :: "u64 \<Rightarrow> (utxo \<Rightarrow> bytes) \<Rightarrow> (utxo \<Rightarrow> u64) \<Rightarrow> utxo list \<Rightarrow> psbt \<Rightarrow> u64 \<Rightarrow> funding_state" where
  "funded_with rate script vsize us p target = fold (take_coin rate script vsize) us
     \<lparr>fs_psbt = p, fs_coins = select_coins_new target, fs_value_to_select = target\<rparr>"

lemma enough_iff:
  "fs_value_to_select (funded_with rate script vsize us p target) = 0 \<longleftrightarrow>
   unat target \<le> coins_effective (map (coin_of rate vsize) us)"
proof -
  have "fs_value_to_select (funded_with rate script vsize us p target) = 0 \<longleftrightarrow>
      unat (fs_value_to_select (funded_with rate script vsize us p target)) = 0" by (simp only: unsigned_eq_0_iff)
  then show ?thesis unfolding funded_with_def taken_value by simp
qed

section \<open>Signatures\<close>

lemma sign_input_cong:
  "unsigned_tx p = unsigned_tx q \<Longrightarrow> psbt_inputs p ! i = psbt_inputs q ! i \<Longrightarrow> sign_input W w p i = sign_input W w q i"
  by (simp only: sign_input_def)

definition with_signature :: "'w wallet \<Rightarrow> psbt_input \<Rightarrow> bytes \<times> bytes \<Rightarrow> psbt_input" where
  "with_signature W inp ks = inp\<lparr>partial_sigs := btree_insert (wl_public_key_le (wa_lib W)) (fst ks) (snd ks) (partial_sigs inp)\<rparr>"

text \<open>A signature does not depend on those stored before it.\<close>

lemma sign_inputs_Ok:
  assumes "sign_inputs W w is p = Ok p'" and "distinct is" and "\<forall>i\<in>set is. i < length (psbt_inputs p)"
  shows "unsigned_tx p' = unsigned_tx p \<and> length (psbt_inputs p') = length (psbt_inputs p) \<and>
    (\<forall>i < length (psbt_inputs p). if i \<in> set is
       then \<exists>ks. sign_input W w p i = Ok ks \<and> psbt_inputs p' ! i = with_signature W (psbt_inputs p ! i) ks
       else psbt_inputs p' ! i = psbt_inputs p ! i)"
  using assms
proof (induction "is" arbitrary: p)
  case Nil
  then show ?case by simp
next
  case (Cons j js)
  then obtain ks where s: "sign_input W w p j = Ok ks" by (cases "sign_input W w p j") auto
  define q where "q = p\<lparr>psbt_inputs := (psbt_inputs p)[j := with_signature W (psbt_inputs p ! j) ks]\<rparr>"
  have run: "sign_inputs W w js q = Ok p'"
    using Cons.prems(1) s by (simp add: q_def with_signature_def split: prod.splits)
  have js: "distinct js" "\<forall>i\<in>set js. i < length (psbt_inputs q)" using Cons.prems(2,3) by (auto simp: q_def)
  from Cons.IH [OF run js] have IH: "unsigned_tx p' = unsigned_tx q"
    "length (psbt_inputs p') = length (psbt_inputs q)"
    "\<forall>i < length (psbt_inputs q). if i \<in> set js
       then \<exists>ks. sign_input W w q i = Ok ks \<and> psbt_inputs p' ! i = with_signature W (psbt_inputs q ! i) ks
       else psbt_inputs p' ! i = psbt_inputs q ! i" by blast+
  have same: "sign_input W w q i = sign_input W w p i" "psbt_inputs q ! i = psbt_inputs p ! i" if "i \<noteq> j" for i
    using that by (auto simp: q_def intro!: sign_input_cong)
  have "if i \<in> set (j # js)
       then \<exists>ks. sign_input W w p i = Ok ks \<and> psbt_inputs p' ! i = with_signature W (psbt_inputs p ! i) ks
       else psbt_inputs p' ! i = psbt_inputs p ! i" if i: "i < length (psbt_inputs p)" for i
  proof (cases "i = j")
    case True
    with Cons.prems(2) have "i \<notin> set js" by auto
    with IH(3) i have "psbt_inputs p' ! i = psbt_inputs q ! i" by (simp add: q_def)
    with True i s show ?thesis by (simp add: q_def)
  next
    case False
    have "i < length (psbt_inputs q)" using i by (simp add: q_def)
    with IH(3) have "if i \<in> set js
       then \<exists>ks. sign_input W w q i = Ok ks \<and> psbt_inputs p' ! i = with_signature W (psbt_inputs q ! i) ks
       else psbt_inputs p' ! i = psbt_inputs q ! i" by blast
    with False show ?thesis by (simp only: same [OF False] set_simps insert_iff simp_thms)
  qed
  moreover have "unsigned_tx p' = unsigned_tx p" "length (psbt_inputs p') = length (psbt_inputs p)"
    using IH(1,2) by (simp_all add: q_def)
  ultimately show ?case by blast
qed

lemma finish_input_Ok:
  "collect (map finish_input inps) = (Ok outs :: (psbt_input list, 'e) result) \<Longrightarrow> i < length inps \<Longrightarrow>
   length outs = length inps \<and> finish_input (inps ! i) = (Ok (outs ! i) :: (psbt_input, 'e) result)"
  by (auto simp: collect_eq_Ok dest: map_eq_imp_length_eq) (metis length_map nth_map)

lemma sign_input_Ok:
  assumes "sign_input W w p i = Ok (pk, sig)"
  shows "\<exists>prev key ty code hash msg. witness_utxo (psbt_inputs p ! i) = Some prev \<and>
    get_priv_key W w (script_pubkey prev) = Ok key \<and> pk = wl_public_key (wa_lib W) key \<and>
    p2wpkh_script_code (wa_lib W) (script_pubkey prev) = (Ok code :: (bytes, light_error) result) \<and>
    wl_is_v0_p2wpkh (wa_lib W) (script_pubkey prev) \<and>
    wl_signature_hash (wa_lib W) (unsigned_tx p) i code (out_value prev) ty = Ok hash \<and>
    wl_message (wa_lib W) hash = Ok msg \<and> sig = wl_sig_bytes (wa_lib W) (wl_sign (wa_lib W) msg key) ty"
proof (cases "witness_utxo (psbt_inputs p ! i)")
  case None
  with assms show ?thesis by (simp add: sign_input_def Let_def)
next
  case (Some prev)
  with assms show ?thesis
    by (auto simp: sign_input_def Let_def split: if_splits) blast
qed

section \<open>Properties\<close>


text \<open>
  C22. Coins are selected greedily: \<open>fund_transaction\<close> takes the coins in the order the addresses
  and the server list them, up to the first at which the value they bring, each less the fee of
  spending it, reaches the wanted amount and the fee of the outputs; with all coins below that it
  is \<open>NotEnoughInputs\<close>.
\<close>

theorem coins_selected_greedily:
  assumes "serves_coins oc W utxos script vsize w" and "read_key_store W w = Ok keys"
    and "plain_sum oc 0 (map out_value (tx_output tx)) = (Ok recipients :: (u64, light_error) result)"
    and "not_input_fees oc (wa_lib W) rate (tx_output tx) = (Ok fees :: (u64, light_error) result)"
    and "plain_add oc recipients fees = (Ok target :: (u64, light_error) result)"
    and "wl_from_unsigned_tx (wa_lib W) tx = Ok p"
    and env: "env = funding_env_of (wa_lib W) rate (script_of (wl_scripts (wa_lib W)) (addr_payload change_address)) recipients"
    and us: "us = concat (map utxos (map fst keys))"
  shows "fund_transaction oc W tx change_address rate w =
    (case find (\<lambda>k. unat target \<le> coins_effective (map (coin_of rate vsize) (take k us))) [1..<Suc (length us)] of
       None \<Rightarrow> Err Li_NotEnoughInputs
     | Some k \<Rightarrow> let s = funded_with rate script vsize (take k us) p target
                 in finish_funding oc W w env (fs_psbt s) (fs_coins s), w)"
proof -
  let ?s = "\<lparr>fs_psbt = p, fs_coins = select_coins_new target, fs_value_to_select = target\<rparr>"
  let ?f = "\<lambda>k. unat target \<le> coins_effective (map (coin_of rate vsize) (take k us))"
  have rate: "fe_feerate env = rate" by (simp add: env funding_env_of_def)
  have "a_fold (fund_address oc W env) (map fst keys) ?s w =
    (greedy (take_coin rate script vsize) (\<lambda>s. fs_value_to_select s = 0)
       (\<lambda>s. finish_funding oc W w env (fs_psbt s) (fs_coins s)) us ?s, w)"
    unfolding us rate [symmetric] by (rule a_fold_greedy) (rule fund_address_greedy [OF assms(1)])
  also have "greedy (take_coin rate script vsize) (\<lambda>s. fs_value_to_select s = 0)
       (\<lambda>s. finish_funding oc W w env (fs_psbt s) (fs_coins s)) us ?s =
    (case find ?f [1..<Suc (length us)] of None \<Rightarrow> Ok (Inl (funded_with rate script vsize us p target))
     | Some k \<Rightarrow> let s = funded_with rate script vsize (take k us) p target
                 in rbind (finish_funding oc W w env (fs_psbt s) (fs_coins s)) (\<lambda>r. Ok (Inr r)))"
    unfolding greedy_find funded_with_def [symmetric] enough_iff Let_def ..
  finally have loop: "a_fold (fund_address oc W env) (map fst keys) ?s w =
    (case find ?f [1..<Suc (length us)] of None \<Rightarrow> Ok (Inl (funded_with rate script vsize us p target))
     | Some k \<Rightarrow> let s = funded_with rate script vsize (take k us) p target
                 in rbind (finish_funding oc W w env (fs_psbt s) (fs_coins s)) (\<lambda>r. Ok (Inr r)), w)" .
  have run: "fund_transaction oc W tx change_address rate w =
      a_bind (a_fold (fund_address oc W env) (map fst keys) ?s)
        (\<lambda>r. case r of Inr p' \<Rightarrow> a_ret p' | Inl _ \<Rightarrow> a_err Li_NotEnoughInputs) w"
    using assms(2-6) by (simp add: fund_transaction_def Let_def env a_bind_def a_match_def a_lift_def)
  show ?thesis
  proof (cases "find ?f [1..<Suc (length us)]")
    case None
    with loop have "a_fold (fund_address oc W env) (map fst keys) ?s w = (Ok (Inl (funded_with rate script vsize us p target)), w)"
      by (simp only: option.case)
    then show ?thesis unfolding run None by (simp add: a_bind_def a_match_def a_err_def)
  next
    case (Some k)
    define s where "s = funded_with rate script vsize (take k us) p target"
    from loop Some have "a_fold (fund_address oc W env) (map fst keys) ?s w =
        (rbind (finish_funding oc W w env (fs_psbt s) (fs_coins s)) (\<lambda>r. Ok (Inr r)), w)"
      by (simp only: option.case Let_def s_def)
    then show ?thesis unfolding run Some option.case Let_def s_def [symmetric]
      by (cases "finish_funding oc W w env (fs_psbt s) (fs_coins s) :: (psbt, light_error) result")
        (simp_all add: a_bind_def a_match_def a_err_def a_ret_def)
  qed
qed


text \<open>
  C21. A signed transaction is signed input by input with the right key: if \<open>sign_transaction\<close>
  succeeds, the transaction and the coins it spends are unchanged, every coin is a P2WPKH output of
  a key of the wallet, and the witness of its input is the signature by that key, over the whole
  transaction, the index and the value of that input, followed by its public key.
\<close>

theorem signed_transaction:
  assumes run: "sign_transaction W w p = Ok p'" and fresh: "\<forall>inp \<in> set (psbt_inputs p). partial_sigs inp = []"
  shows "unsigned_tx p' = unsigned_tx p \<and> length (psbt_inputs p') = length (psbt_inputs p) \<and>
    (\<forall>i < length (psbt_inputs p). \<exists>prev key ty code hash msg.
       witness_utxo (psbt_inputs p ! i) = Some prev \<and> witness_utxo (psbt_inputs p' ! i) = Some prev \<and>
       wl_is_v0_p2wpkh (wa_lib W) (script_pubkey prev) \<and> get_priv_key W w (script_pubkey prev) = Ok key \<and>
       p2wpkh_script_code (wa_lib W) (script_pubkey prev) = (Ok code :: (bytes, light_error) result) \<and>
       wl_signature_hash (wa_lib W) (unsigned_tx p) i code (out_value prev) ty = Ok hash \<and>
       wl_message (wa_lib W) hash = Ok msg \<and>
       final_script_witness (psbt_inputs p' ! i) =
         Some [wl_sig_bytes (wa_lib W) (wl_sign (wa_lib W) msg key) ty, wl_public_key (wa_lib W) key])"
proof -
  from run obtain p1 inputs where s: "sign_inputs W w [0..<length (psbt_inputs p)] p = Ok p1"
    and f: "collect (map finish_input (psbt_inputs p1)) = (Ok inputs :: (psbt_input list, light_error) result)"
    and p': "p' = p1\<lparr>psbt_inputs := inputs\<rparr>"
    by (auto simp: sign_transaction_def)
  have 1: "unsigned_tx p1 = unsigned_tx p" "length (psbt_inputs p1) = length (psbt_inputs p)"
    and sigs: "\<forall>i < length (psbt_inputs p). \<exists>ks. sign_input W w p i = Ok ks \<and>
      psbt_inputs p1 ! i = with_signature W (psbt_inputs p ! i) ks"
    using sign_inputs_Ok [OF s] by auto
  have len: "length inputs = length (psbt_inputs p1)"
    using f by (auto simp: collect_eq_Ok dest: map_eq_imp_length_eq)
  have "\<exists>prev key ty code hash msg.
       witness_utxo (psbt_inputs p ! i) = Some prev \<and> witness_utxo (inputs ! i) = Some prev \<and>
       wl_is_v0_p2wpkh (wa_lib W) (script_pubkey prev) \<and> get_priv_key W w (script_pubkey prev) = Ok key \<and>
       p2wpkh_script_code (wa_lib W) (script_pubkey prev) = (Ok code :: (bytes, light_error) result) \<and>
       wl_signature_hash (wa_lib W) (unsigned_tx p) i code (out_value prev) ty = Ok hash \<and>
       wl_message (wa_lib W) hash = Ok msg \<and>
       final_script_witness (inputs ! i) =
         Some [wl_sig_bytes (wa_lib W) (wl_sign (wa_lib W) msg key) ty, wl_public_key (wa_lib W) key]"
    if i: "i < length (psbt_inputs p)" for i
  proof -
    from sigs i obtain pk sig where ks: "sign_input W w p i = Ok (pk, sig)"
      and p1: "psbt_inputs p1 ! i = with_signature W (psbt_inputs p ! i) (pk, sig)" by fastforce
    have "partial_sigs (psbt_inputs p1 ! i) = [(pk, sig)]"
      using p1 fresh i by (simp add: with_signature_def)
    with finish_input_Ok [OF f, of i] 1 i p1
    have "inputs ! i = (psbt_inputs p1 ! i)\<lparr>final_script_witness := Some [sig, pk]\<rparr>"
      by (simp add: finish_input_def)
    with p1 have "final_script_witness (inputs ! i) = Some [sig, pk]" "witness_utxo (inputs ! i) = witness_utxo (psbt_inputs p ! i)"
      by (simp_all add: with_signature_def)
    with sign_input_Ok [OF ks] show ?thesis by metis
  qed
  with 1 len p' show ?thesis by simp
qed


section \<open>Instances\<close>

text \<open>A wallet with one key whose address has two coins: 10 and 100000 satoshis.\<close>

definition demo_scripts :: script_lib where
  "demo_scripts = std_lib"

definition demo_wallet_lib :: wallet_lib where
  "demo_wallet_lib = \<lparr>wl_address_le = (\<lambda>_ _. True), wl_public_key_le = (\<lambda>_ _. True), wl_varint_len = (\<lambda>_. 1),
     wl_weight = (\<lambda>tx. 4 * (10 + 41 * length (tx_input tx) + (\<Sum>x\<leftarrow>tx_output tx. 9 + length (script_pubkey x))) + 2 + 107 * length (tx_input tx)),
     wl_extract_tx = unsigned_tx,
     wl_from_unsigned_tx = (\<lambda>tx. Ok \<lparr>unsigned_tx = tx, psbt_inputs = map (\<lambda>_. default_psbt_input) (tx_input tx)\<rparr>),
     wl_address_from_script = (\<lambda>s net. Ok \<lparr>addr_payload = WitnessProgram 0 (drop 2 s), addr_network = net\<rparr>),
     wl_p2wpkh = (\<lambda>pk net. Ok \<lparr>addr_payload = WitnessProgram 0 (take 20 pk), addr_network = net\<rparr>),
     wl_public_key = (\<lambda>k. replicate 32 2 @ k), wl_is_v0_p2wpkh = (\<lambda>s. take 2 s = [0, 20]), wl_ecdsa_hash_ty = Ok,
     wl_signature_hash = (\<lambda>tx i s v t. Ok (of_nat i # s)), wl_message = Ok, wl_sign = (\<lambda>m k. m @ k),
     wl_sig_bytes = (\<lambda>s t. s @ [ucast t]), wl_scripts = demo_scripts\<rparr>"

definition demo_hash :: bytes where "demo_hash = replicate 20 7"

definition demo_address :: address where
  "demo_address = \<lparr>addr_payload = WitnessProgram 0 demo_hash, addr_network = Regtest\<rparr>"

definition demo_electrs_lib :: electrs_lib where
  "demo_electrs_lib = \<lparr>lb_transactions = (\<lambda>_. Ok []),
     lb_transaction = (\<lambda>_. Ok \<lparr>kx_txid = ''a'', kx_status = None, kx_fee = None, kx_vout = Some [Some ''s'', Some ''s'']\<rparr>),
     lb_utxos = (\<lambda>_. Ok [\<lparr>ku_txid = ''a'', ku_vout = 0, ku_value = 10\<rparr>, \<lparr>ku_txid = ''a'', ku_vout = 1, ku_value = 100000\<rparr>]),
     lb_strings = (\<lambda>_. Ok []), lb_hex = (\<lambda>_. Ok []), lb_hash = (\<lambda>_. Ok [9]), lb_u32 = (\<lambda>_. Ok 0),
     lb_script = (\<lambda>_. Ok ([0, 20] @ demo_hash)), lb_block_header = (\<lambda>b. Err El_NoPrevOut), lb_raw_transaction = (\<lambda>b. Err El_NoPrevOut),
     lb_hash_string = (\<lambda>_. ''a''), lb_address_string = (\<lambda>_. ''b''), lb_serialize = (\<lambda>_. ''c'')\<rparr>"

definition demo_wallet :: "key_store wallet" where
  "demo_wallet = \<lparr>wa_lib = demo_wallet_lib, wa_network = Regtest,
     wa_electrs = \<lparr>ec_lib = demo_electrs_lib, ec_get = (\<lambda>path. a_ret path), ec_post_tx = (\<lambda>t. a_ret t)\<rparr>,
     wa_key_store = Some, wa_put_key_store = (\<lambda>ks w. ks)\<rparr>"

definition demo_payment :: transaction where
  "demo_payment = wallet_create_transaction demo_wallet_lib demo_address 700 (Some (replicate 32 1))"

definition demo_keys :: key_store where "demo_keys = [(demo_address, [1])]"

lemma demo_utxos:
  "get_utxos_for_address (wa_electrs demo_wallet) a w =
     (Ok [\<lparr>ut_outpoint = \<lparr>op_txid = [9], op_vout = 0\<rparr>, ut_value = 10\<rparr>,
          \<lparr>ut_outpoint = \<lparr>op_txid = [9], op_vout = 1\<rparr>, ut_value = 100000\<rparr>], w)"
  by (simp add: get_utxos_for_address_def get_and_decode_def demo_wallet_def demo_electrs_lib_def action_defs)

lemma demo_script:
  "op_vout u = 0 \<or> op_vout u = 1 \<Longrightarrow>
   get_script_pubkey (wa_electrs demo_wallet) u w = (Ok (0 # 20 # demo_hash), w)"
  by (auto simp: get_script_pubkey_def get_and_decode_def demo_wallet_def demo_electrs_lib_def action_defs)

lemma demo_pub_key: "get_pub_key demo_wallet demo_keys (0 # 20 # demo_hash) = Ok (replicate 32 2 @ [1])"
  by (simp add: get_pub_key_def get_priv_key_def read_key_store_def demo_wallet_def demo_wallet_lib_def demo_keys_def
      demo_address_def)

lemma demo_input_size:
  "calculate_maximum_signed_input_size True demo_wallet_lib u (replicate 32 2 @ [1]) = Ok 68"
  by (simp add: calculate_maximum_signed_input_size_def get_transaction_input_weight_def get_virtual_transaction_size_def
      WITNESS_SCALE_FACTOR_def plain_add_def plain_sub_def plain_mul_def checked_add_def checked_sub_def checked_mul_def
      tx_in_size_def witness_size_def dummy_sign_input_def default_tx_in_def dummy_signature_def demo_wallet_lib_def)


definition demo_psbt :: psbt where
  "demo_psbt = (let coin = (\<lambda>n v p. add_coin p \<lparr>ut_outpoint = \<lparr>op_txid = [9], op_vout = n\<rparr>, ut_value = v\<rparr> (0 # 20 # demo_hash))
     in with_outputs (coin 1 100000 (coin 0 10 \<lparr>unsigned_tx = demo_payment, psbt_inputs = []\<rparr>)) (change_outputs (0 # 20 # demo_hash) 99116))"

lemma demo_laws: "psbt_laws demo_wallet_lib"
  unfolding psbt_laws_def
proof (intro conjI allI impI)
  fix p p' :: psbt and ins :: "tx_in list"
  assume "psbt_inputs p = psbt_inputs p' \<and> tx_input (unsigned_tx p) = tx_input (unsigned_tx p') \<and>
        map script_pubkey (tx_output (unsigned_tx p)) = map script_pubkey (tx_output (unsigned_tx p'))"
  then have "map (\<lambda>x. 9 + length x) (map script_pubkey (tx_output (unsigned_tx p))) =
      map (\<lambda>x. 9 + length x) (map script_pubkey (tx_output (unsigned_tx p')))" by simp
  then have "(\<Sum>x\<leftarrow>tx_output (unsigned_tx p). 9 + length (script_pubkey x)) =
      (\<Sum>x\<leftarrow>tx_output (unsigned_tx p'). 9 + length (script_pubkey x))"
    unfolding map_map comp_def by (rule arg_cong)
  then show "wl_weight demo_wallet_lib ((wl_extract_tx demo_wallet_lib p)\<lparr>tx_input := ins\<rparr>) =
      wl_weight demo_wallet_lib ((wl_extract_tx demo_wallet_lib p')\<lparr>tx_input := ins\<rparr>)"
    by (simp add: demo_wallet_lib_def)
qed (auto simp: demo_wallet_lib_def same_outpoints_def)

lemma demo_lib [simp]: "wa_lib demo_wallet = demo_wallet_lib"
  by (simp add: demo_wallet_def)

lemma demo_change_script: "script_of (wl_scripts demo_wallet_lib) (addr_payload demo_address) = 0 # 20 # demo_hash"
  by (simp add: demo_wallet_lib_def demo_scripts_def std_lib_def demo_address_def demo_hash_def)

lemma demo_outputs:
  "tx_output demo_payment = [\<lparr>out_value = 700, script_pubkey = 0 # 20 # demo_hash\<rparr>,
     \<lparr>out_value = 0, script_pubkey = 0x6a # 32 # replicate 32 1\<rparr>]" "tx_input demo_payment = []"
  by (simp_all add: demo_payment_def wallet_create_transaction_def demo_change_script)
    (simp add: demo_wallet_lib_def demo_scripts_def std_lib_def OP_RETURN_def)

lemma demo_fees: "not_input_fees True demo_wallet_lib 1000 (tx_output demo_payment) = Ok 85"
  by (simp add: not_input_fees_def demo_outputs plain_add_def checked_add_def tx_out_size_def demo_hash_def
      get_fee_def div_ceil_def saturating_mul_def)
    (simp add: demo_wallet_lib_def)

lemma length_demo_hash [simp]: "length demo_hash = 20"
  by (simp add: demo_hash_def)

lemma demo_lib_simps:
  "wl_extract_tx demo_wallet_lib = unsigned_tx"
  "wl_weight demo_wallet_lib tx = 4 * (10 + 41 * length (tx_input tx) + (\<Sum>x\<leftarrow>tx_output tx. 9 + length (script_pubkey x))) + 2 + 107 * length (tx_input tx)"
  by (simp_all add: demo_wallet_lib_def)

lemma demo_size:
  "calculate_maximum_signed_tx_size True demo_wallet demo_keys demo_psbt = Ok 251"
  by (simp add: calculate_maximum_signed_tx_size_def dummy_signed_input_def demo_psbt_def add_coin_def with_outputs_def
      change_outputs_def demo_pub_key demo_outputs demo_lib_simps Let_def get_virtual_transaction_size_def plain_add_def
      plain_sub_def checked_add_def checked_sub_def WITNESS_SCALE_FACTOR_def dummy_sign_input_def)

lemma demo_fee: "get_fee 1000 68 = 68" "get_fee 1000 251 = 251" "get_fee 1000 31 = 31"
  by (simp_all add: get_fee_def div_ceil_def saturating_mul_def)

lemma demo_run: "fund_transaction True demo_wallet demo_payment demo_address 1000 demo_keys = (Ok demo_psbt, demo_keys)"
proof -
  let ?p = "\<lparr>unsigned_tx = demo_payment, psbt_inputs = []\<rparr>" and ?env = "funding_env_of demo_wallet_lib 1000 (0 # 20 # demo_hash) 700"
  let ?u = "\<lambda>n v. \<lparr>ut_outpoint = \<lparr>op_txid = [9], op_vout = n\<rparr>, ut_value = v\<rparr>"
  let ?c = "[\<lparr>co_value = 10, co_fee = 68\<rparr>, \<lparr>co_value = 100000, co_fee = 68\<rparr>]"
  let ?q = "add_coin (add_coin ?p (?u 0 10) (0 # 20 # demo_hash)) (?u 1 100000) (0 # 20 # demo_hash)"
  have env: "?env = \<lparr>fe_feerate = 1000, fe_change_script = 0 # 20 # demo_hash, fe_change_fee = 31, fe_recipients_sum = 700\<rparr>"
    by (simp add: funding_env_of_def tx_out_size_def demo_hash_def demo_fee) (simp add: demo_wallet_lib_def demo_fee)
  have sum: "plain_sum True 0 (map out_value (tx_output demo_payment)) = (Ok 700 :: (u64, light_error) result)"
    by (simp add: demo_outputs plain_add_def checked_add_def)
  have "get_change True \<lparr>preset_inputs = ?c, target_value = 785\<rparr> min_viable_change 31 = (Ok 99116 :: (u64, light_error) result)"
    by (simp add: get_change_def get_selected_effective_value_def get_effective_value_def plain_add_def checked_add_def
        saturating_sub_def min_viable_change_def)
  moreover have "calculate_maximum_signed_tx_size True demo_wallet demo_keys (with_outputs ?q (change_outputs (0 # 20 # demo_hash) 99116)) =
      (Ok 251 :: (u64, light_error) result)"
    using demo_size by (simp add: demo_psbt_def)
  ultimately have fin: "finish_funding True demo_wallet demo_keys ?env ?q \<lparr>preset_inputs = ?c, target_value = 785\<rparr> = (Ok demo_psbt :: (psbt, light_error) result)"
    by (simp add: finish_funding_def env demo_psbt_def with_outputs_def change_outputs_def get_selected_value_def
        plain_add_def checked_add_def plain_sub_def checked_sub_def demo_fee Let_def del: rbind_eq_Ok)
  have utxos: "fund_address True demo_wallet ?env demo_address
      \<lparr>fs_psbt = ?p, fs_coins = select_coins_new 785, fs_value_to_select = 785\<rparr> demo_keys = (Ok (Inr demo_psbt), demo_keys)"
    using fin
    by (simp add: fund_address_def fund_utxo_def demo_utxos demo_script demo_pub_key demo_input_size a_bind_def a_match_def a_map_err_def
        select_coins_new_def select_coins_add_def get_effective_value_def saturating_sub_def demo_fee env a_ret_def Let_def del: rbind_eq_Ok)
  have un: "wl_from_unsigned_tx demo_wallet_lib demo_payment = Ok ?p"
    by (simp add: demo_wallet_lib_def demo_outputs)
  have keys: "read_key_store demo_wallet demo_keys = Ok [(demo_address, [1])]"
    by (simp add: read_key_store_def demo_wallet_def demo_keys_def)
  have target: "plain_add True 700 (85 :: u64) = (Ok 785 :: (u64, light_error) result)"
    by (simp add: plain_add_def checked_add_def)
  show ?thesis
    using sum un keys target utxos
    by (simp add: fund_transaction_def Let_def demo_change_script demo_fees a_bind_def a_match_def a_lift_def a_ret_def)
qed

lemma demo_totals: "total_in demo_psbt = 100010" "total_out (tx_output (unsigned_tx demo_psbt)) = 99816"
  by (simp_all add: total_in_def input_value_def demo_psbt_def with_outputs_def add_coin_def change_outputs_def demo_outputs Let_def)


text \<open>
  A coin that costs more than it brings is spent all the same, and then the fee may be below
  the wanted rate: there is a run that ends well, without overflow, whose fee is less than the fee
  for the size of the signed transaction.
\<close>

theorem dust_coin_underpays:
  "\<exists>(W :: key_store wallet) tx change_address rate w p n_bytes.
     psbt_laws (wa_lib W) \<and> fund_transaction True W tx change_address rate w = (Ok p, w) \<and>
     calculate_maximum_signed_tx_size True W w p = (Ok n_bytes :: (u64, light_error) result) \<and>
     total_in p - total_out (tx_output (unsigned_tx p)) < unat (get_fee rate n_bytes)"
  by (intro exI [of _ demo_wallet] exI [of _ demo_payment] exI [of _ demo_address] exI [of _ 1000]
      exI [of _ demo_keys] exI [of _ demo_psbt] exI [of _ 251])
    (simp add: demo_laws demo_run demo_size demo_totals demo_fee)


text \<open>The coins of the demonstration wallet, and the selection of both of them.\<close>

definition demo_coins :: "utxo list" where
  "demo_coins = [\<lparr>ut_outpoint = \<lparr>op_txid = [9], op_vout = 0\<rparr>, ut_value = 10\<rparr>,
     \<lparr>ut_outpoint = \<lparr>op_txid = [9], op_vout = 1\<rparr>, ut_value = 100000\<rparr>]"

lemma demo_serves_coins:
  "serves_coins True demo_wallet (\<lambda>_. demo_coins) (\<lambda>_. 0 # 20 # demo_hash) (\<lambda>_. 68) demo_keys"
  unfolding serves_coins_def
  by (auto simp: demo_utxos demo_coins_def demo_script demo_pub_key demo_input_size)

lemma demo_recipients: "plain_sum True 0 (map out_value (tx_output demo_payment)) = Ok 700"
  by (simp add: demo_outputs plain_add_def checked_add_def)

lemma demo_target: "plain_add True 700 (85 :: u64) = Ok 785"
  by (simp add: plain_add_def checked_add_def)

lemma demo_key_store: "read_key_store demo_wallet demo_keys = Ok demo_keys"
  by (simp add: read_key_store_def demo_wallet_def)

lemma demo_unsigned: "wl_from_unsigned_tx demo_wallet_lib demo_payment = Ok \<lparr>unsigned_tx = demo_payment, psbt_inputs = []\<rparr>"
  by (simp add: demo_wallet_lib_def demo_outputs)

lemma demo_find:
  "find (\<lambda>k. 785 \<le> coins_effective (map (coin_of 1000 (\<lambda>_. 68)) (take k demo_coins))) [1..<Suc (length demo_coins)] = Some 2"
  by (simp add: demo_coins_def coin_of_def demo_fee upt_rec)

theorem coins_selected_greedily_witness:
  "serves_coins True demo_wallet (\<lambda>_. demo_coins) (\<lambda>_. 0 # 20 # demo_hash) (\<lambda>_. 68) demo_keys \<and>
   (let s = funded_with 1000 (\<lambda>_. 0 # 20 # demo_hash) (\<lambda>_. 68) demo_coins \<lparr>unsigned_tx = demo_payment, psbt_inputs = []\<rparr> 785
    in fund_transaction True demo_wallet demo_payment demo_address 1000 demo_keys =
      (finish_funding True demo_wallet demo_keys
         (funding_env_of demo_wallet_lib 1000 (script_of (wl_scripts demo_wallet_lib) (addr_payload demo_address)) 700)
         (fs_psbt s) (fs_coins s), demo_keys))"
proof -
  have us: "demo_coins = concat (map (\<lambda>_. demo_coins) (map fst demo_keys))" by (simp add: demo_keys_def)
  have t: "unat (785 :: u64) = 785" and k: "take 2 demo_coins = demo_coins" by (simp_all add: demo_coins_def)
  show ?thesis
    using coins_selected_greedily [OF demo_serves_coins demo_key_store, unfolded demo_lib, OF demo_recipients demo_fees demo_target
      demo_unsigned refl us, of demo_address, unfolded t demo_find option.case k] demo_serves_coins
    by (simp only: Let_def simp_thms)
qed

lemma demo_signed: "\<exists>p'. sign_transaction demo_wallet demo_keys demo_psbt = Ok p'"
  by (simp add: sign_transaction_def demo_psbt_def add_coin_def with_outputs_def sign_input_def Let_def upt_rec
      get_priv_key_def demo_key_store finish_input_def default_psbt_input_def p2wpkh_script_code_def)
    (simp add: demo_wallet_lib_def demo_wallet_def demo_keys_def demo_address_def finish_input_def)

theorem signed_transaction_witness:
  "\<exists>p'. sign_transaction demo_wallet demo_keys demo_psbt = Ok p' \<and> unsigned_tx p' = unsigned_tx demo_psbt"
proof -
  obtain p' where run: "sign_transaction demo_wallet demo_keys demo_psbt = Ok p'" using demo_signed by blast
  have fresh: "\<forall>inp \<in> set (psbt_inputs demo_psbt). partial_sigs inp = []"
    by (simp add: demo_psbt_def add_coin_def with_outputs_def default_psbt_input_def Let_def)
  from signed_transaction [OF run fresh] have "unsigned_tx p' = unsigned_tx demo_psbt" by (rule conjunct1)
  with run show ?thesis by blast
qed

end
