(* ===== verification/Light.thy ===== *)
theory Light
  imports WalletFacts BitcoinCore
begin

text \<open>
  The light client of \<open>bitcoin/src/light/mod.rs\<close>: the operations of \<open>BitcoinCoreApi\<close> on an
  electrs server and a wallet of its own. \<open>wait_for_block\<close> polls without a bound and takes the
  number of polls it may make. Requests joined with \<open>try_join\<close> are made in their order.
\<close>

section \<open>The client\<close>

text \<open>
  \<open>ll_mul_tweak\<close> and \<open>ll_secret_key\<close> are \<open>secp256k1\<close>'s, \<open>ll_deserialize\<close> is the consensus decoder;
  the lock of transaction creations is not a datum (see the funding steps of \<open>CoreFacts\<close>).
\<close>

record 'w light_client =
  lc_private_key :: bytes
  lc_network :: network
  lc_wallet :: "'w wallet"
  lc_waits :: "'w \<Rightarrow> nat list"
  lc_sleep :: "nat \<Rightarrow> 'w \<Rightarrow> 'w"
  ll_deserialize :: "bytes \<Rightarrow> (transaction, ext_error) result"
  ll_secret_key :: "bytes \<Rightarrow> (bytes, ext_error) result"
  ll_mul_tweak :: "bytes \<Rightarrow> bytes \<Rightarrow> (bytes, ext_error) result"

abbreviation lc_electrs :: "'w light_client \<Rightarrow> 'w electrs_client" where
  "lc_electrs L \<equiv> wa_electrs (lc_wallet L)"

definition on_light :: "('w, 'a, light_error) action \<Rightarrow> ('w, 'a, bitcoin_error) action" where
  "on_light m = a_map_err Be_LightClientError m"

lemma on_light_Ok [simp]: "on_light m w = (Ok a, w') \<longleftrightarrow> m w = (Ok a, w')"
  by (auto simp: on_light_def a_map_err_def split: prod.splits)

definition LIGHT_RETRY_DURATION :: nat where "LIGHT_RETRY_DURATION = 1000"

section \<open>Transactions\<close>

definition get_change_address :: "'w light_client \<Rightarrow> ('w, address, light_error) action" where
  "get_change_address L w =
     (rbind (read_key_store (lc_wallet L) w) (\<lambda>ks. case ks of [] \<Rightarrow> Err Li_NoChangeAddress | (a, _) # _ \<Rightarrow> Ok a), w)"

definition light_create_transaction ::
  "bool \<Rightarrow> 'w light_client \<Rightarrow> address \<Rightarrow> u64 \<Rightarrow> sat_per_vbyte \<Rightarrow> H256 option \<Rightarrow> ('w, transaction, bitcoin_error) action" where
  "light_create_transaction oc L recipient sat rate request_id =
     (let W = lc_wallet L; unsigned_tx = wallet_create_transaction (wa_lib W) recipient sat request_id
      in a_bind (on_light (get_change_address L)) (\<lambda>change_address.
         a_bind (on_light (fund_transaction oc W unsigned_tx change_address (saturating_mul rate 1000))) (\<lambda>p.
         a_bind (on_light (\<lambda>w. (sign_transaction W w p, w))) (\<lambda>signed.
         a_ret (wl_extract_tx (wa_lib W) signed)))))"

definition light_send_transaction :: "'w light_client \<Rightarrow> transaction \<Rightarrow> ('w, txid, bitcoin_error) action" where
  "light_send_transaction L tx = on_electrs (electrs_send_transaction (lc_electrs L) tx)"

definition light_create_and_send_transaction ::
  "bool \<Rightarrow> 'w light_client \<Rightarrow> address \<Rightarrow> u64 \<Rightarrow> sat_per_vbyte \<Rightarrow> H256 option \<Rightarrow> ('w, txid, bitcoin_error) action" where
  "light_create_and_send_transaction oc L addr sat rate request_id =
     a_bind (light_create_transaction oc L addr sat rate request_id) (light_send_transaction L)"

definition light_get_raw_tx :: "'w light_client \<Rightarrow> txid \<Rightarrow> block_hash \<Rightarrow> ('w, bytes, bitcoin_error) action" where
  "light_get_raw_tx L tx_id block_hash = on_electrs (electrs_get_raw_tx (lc_electrs L) tx_id)"

definition light_get_transaction :: "'w light_client \<Rightarrow> txid \<Rightarrow> block_hash option \<Rightarrow> ('w, transaction, bitcoin_error) action" where
  "light_get_transaction L tx_id block_hash =
     a_bind (on_electrs (electrs_get_raw_tx (lc_electrs L) tx_id))
       (\<lambda>raw_tx. a_lift (map_err Be_BitcoinEncodeError (ll_deserialize L raw_tx)))"

definition light_get_proof :: "'w light_client \<Rightarrow> txid \<Rightarrow> block_hash \<Rightarrow> ('w, bytes, bitcoin_error) action" where
  "light_get_proof L tx_id block_hash = on_electrs (get_raw_tx_merkle_proof (lc_electrs L) tx_id)"

text \<open>A request that fails counts as a refused connection, too few confirmations as an error of their own.\<close>

definition light_confirmed_once :: "'w light_client \<Rightarrow> txid \<Rightarrow> u32 \<Rightarrow> ('w, u32 \<times> block_hash \<times> int, bitcoin_error) action" where
  "light_confirmed_once L tx_id num_confirmations =
     a_match (get_tx_info (lc_electrs L) tx_id)
       (\<lambda>i. if ti_confirmations i \<ge> num_confirmations then a_ret (ti_height i, ti_hash i, ti_fee i)
            else a_err Be_ConfirmationError)
       (\<lambda>e. a_err Be_ConnectionRefused)"

definition light_wait_for_transaction_metadata ::
  "'w light_client \<Rightarrow> txid \<Rightarrow> u32 \<Rightarrow> ('w, transaction_metadata, bitcoin_error) action" where
  "light_wait_for_transaction_metadata L tx_id num_confirmations =
     a_bind (\<lambda>w. backoff_retry (lc_waits L w) (lc_sleep L) (light_confirmed_once L tx_id num_confirmations) w)
       (\<lambda>(block_height, block_hash, fee).
     a_bind (light_get_proof L tx_id block_hash) (\<lambda>proof.
     a_bind (light_get_raw_tx L tx_id block_hash) (\<lambda>raw_tx.
     a_ret \<lparr>tm_txid = tx_id, tm_proof = proof, tm_raw_tx = raw_tx, tm_block_height = block_height,
            tm_block_hash = block_hash, tm_fee = Some fee\<rparr>)))"

definition light_send_to_address ::
  "bool \<Rightarrow> 'w light_client \<Rightarrow> address \<Rightarrow> u64 \<Rightarrow> H256 option \<Rightarrow> sat_per_vbyte \<Rightarrow> u32
    \<Rightarrow> ('w, transaction_metadata, bitcoin_error) action" where
  "light_send_to_address oc L addr sat request_id rate num_confirmations =
     a_bind (light_create_and_send_transaction oc L addr sat rate request_id)
       (\<lambda>tx_id. light_wait_for_transaction_metadata L tx_id num_confirmations)"

text \<open>\<open>todo!()\<close>\<close>

definition light_bump_fee :: "'w light_client \<Rightarrow> txid \<Rightarrow> address \<Rightarrow> sat_per_vbyte \<Rightarrow> ('w, txid, bitcoin_error) action" where
  "light_bump_fee L tx_id addr rate = a_lift Panic"

definition light_is_in_mempool :: "'w light_client \<Rightarrow> txid \<Rightarrow> ('w, bool, bitcoin_error) action" where
  "light_is_in_mempool L tx_id =
     a_bind (on_electrs (electrs_get_raw_mempool (lc_electrs L))) (\<lambda>txids. a_ret (list_ex (\<lambda>t. t = tx_id) txids))"

definition light_get_mempool_transactions ::
  "'w light_client \<Rightarrow> ('w, (transaction, bitcoin_error) result list, bitcoin_error) action" where
  "light_get_mempool_transactions L =
     a_bind (on_electrs (electrs_get_raw_mempool (lc_electrs L)))
       (\<lambda>txids w. case join_all (map (\<lambda>t. light_get_transaction L t None) txids) w of (txs, w') \<Rightarrow> (Ok txs, w'))"

text \<open>The value of the output an input spends.\<close>

definition prev_out_value :: "'w light_client \<Rightarrow> tx_in \<Rightarrow> ('w, u64, bitcoin_error) action" where
  "prev_out_value L txin =
     a_bind (light_get_transaction L (op_txid (previous_output txin)) None) (\<lambda>prev_tx.
     let vout = unat (op_vout (previous_output txin))
     in if vout < length (tx_output prev_tx) then a_ret (out_value (tx_output prev_tx ! vout))
        else a_err (Be_LightClientError Li_NoPrevOut))"

definition light_fee_rate :: "bool \<Rightarrow> 'w light_client \<Rightarrow> txid \<Rightarrow> ('w, sat_per_vbyte, bitcoin_error) action" where
  "light_fee_rate oc L tx_id =
     a_bind (light_get_transaction L tx_id None) (\<lambda>tx.
     let vsize = of_nat ((wl_weight (wa_lib (lc_wallet L)) tx + 3) div 4)
     in a_bind (a_lift (plain_sum oc 0 (map out_value (tx_output tx)))) (\<lambda>recipients_sum.
        a_bind (a_mapM (prev_out_value L) (tx_input tx)) (\<lambda>inputs.
        a_bind (a_lift (plain_sum oc 0 inputs)) (\<lambda>input_sum.
        a_lift (ok_or Be_ArithmeticError (checked_div (saturating_sub input_sum recipients_sum) vsize))))))"

section \<open>Blocks\<close>

definition light_block_poll ::
  "'w light_client \<Rightarrow> u32 \<Rightarrow> u32 \<Rightarrow> unit \<Rightarrow> ('w, unit + block, bitcoin_error) action" where
  "light_block_poll L height num_confirmations _ =
     (let poll_again = (\<lambda>w. (Ok (Inl ()), lc_sleep L LIGHT_RETRY_DURATION w)) in
      a_match (a_bind (electrs_get_block_hash (lc_electrs L) height) (\<lambda>hash.
               a_bind (get_blocks_tip_height (lc_electrs L)) (\<lambda>best. a_ret (hash, best))))
        (\<lambda>(hash, best). if saturating_sub best height \<ge> num_confirmations
           then a_bind (on_electrs (electrs_get_block (lc_electrs L) hash)) (\<lambda>blk. a_ret (Inr blk))
           else poll_again)
        (\<lambda>e. poll_again))"

definition light_wait_for_block ::
  "'w light_client \<Rightarrow> u32 \<Rightarrow> u32 \<Rightarrow> nat \<Rightarrow> ('w, block option, bitcoin_error) action" where
  "light_wait_for_block L height num_confirmations n = a_loop (light_block_poll L height num_confirmations) n ()"

definition light_get_block_count :: "'w light_client \<Rightarrow> ('w, u64, bitcoin_error) action" where
  "light_get_block_count L = a_bind (on_electrs (get_blocks_tip_height (lc_electrs L))) (\<lambda>h. a_ret (ucast h))"

definition light_get_block_hash :: "'w light_client \<Rightarrow> u32 \<Rightarrow> ('w, block_hash, bitcoin_error) action" where
  "light_get_block_hash L height =
     a_match (electrs_get_block_hash (lc_electrs L) height) a_ret (\<lambda>_. a_err Be_InvalidBitcoinHeight)"

definition light_get_best_block_hash :: "'w light_client \<Rightarrow> ('w, block_hash, bitcoin_error) action" where
  "light_get_best_block_hash L = on_electrs (get_blocks_tip_hash (lc_electrs L))"

definition light_get_block :: "'w light_client \<Rightarrow> block_hash \<Rightarrow> ('w, block, bitcoin_error) action" where
  "light_get_block L hash = on_electrs (electrs_get_block (lc_electrs L) hash)"

definition light_get_block_header :: "'w light_client \<Rightarrow> block_hash \<Rightarrow> ('w, block_header, bitcoin_error) action" where
  "light_get_block_header L hash = on_electrs (electrs_get_block_header (lc_electrs L) hash)"

section \<open>Keys and the operations without a counterpart\<close>

definition light_get_new_address :: "'w light_client \<Rightarrow> ('w, address, bitcoin_error) action" where
  "light_get_new_address L = on_light (get_change_address L)"

definition light_get_new_public_key :: "'w light_client \<Rightarrow> ('w, bytes, bitcoin_error) action" where
  "light_get_new_public_key L = a_ret (wl_public_key (wa_lib (lc_wallet L)) (lc_private_key L))"

definition light_dump_derivation_key :: "'w light_client \<Rightarrow> bytes \<Rightarrow> ('w, bytes, bitcoin_error) action" where
  "light_dump_derivation_key L public_key = a_ret (lc_private_key L)"

definition light_import_derivation_key :: "'w light_client \<Rightarrow> bytes \<Rightarrow> ('w, unit, bitcoin_error) action" where
  "light_import_derivation_key L private_key = a_ret ()"

definition light_mul_secret_key :: "'w light_client \<Rightarrow> bytes \<Rightarrow> bytes \<Rightarrow> (bytes, bitcoin_error) result" where
  "light_mul_secret_key L vault_key issue_key = map_err Be_Secp256k1Error (ll_mul_tweak L vault_key issue_key)"

definition light_add_new_deposit_key :: "'w light_client \<Rightarrow> bytes \<Rightarrow> bytes \<Rightarrow> ('w, unit, bitcoin_error) action" where
  "light_add_new_deposit_key L public_key secret_key =
     a_bind (a_lift (map_err Be_Secp256k1Error (ll_secret_key L secret_key))) (\<lambda>key.
     a_bind (a_lift (light_mul_secret_key L (lc_private_key L) key)) (\<lambda>deposit_key.
     on_light (put_p2wpkh_key (lc_wallet L) deposit_key)))"

definition light_get_balance :: "'w light_client \<Rightarrow> u32 option \<Rightarrow> ('w, u64, bitcoin_error) action" where
  "light_get_balance L min_confirmations = a_ret 0"

definition light_list_transactions :: "'w light_client \<Rightarrow> nat option \<Rightarrow> ('w, list_transaction list, bitcoin_error) action" where
  "light_list_transactions L max_count = a_ret []"

definition light_get_pruned_height :: "'w light_client \<Rightarrow> ('w, u64, bitcoin_error) action" where
  "light_get_pruned_height L = a_ret 0"

definition light_create_or_load_wallet :: "'w light_client \<Rightarrow> ('w, unit, bitcoin_error) action" where
  "light_create_or_load_wallet L = a_ret ()"

definition light_rescan_blockchain :: "'w light_client \<Rightarrow> nat \<Rightarrow> nat \<Rightarrow> ('w, unit, bitcoin_error) action" where
  "light_rescan_blockchain L start_height end_height = a_ret ()"

definition light_rescan_electrs_for_addresses :: "'w light_client \<Rightarrow> address list \<Rightarrow> ('w, unit, bitcoin_error) action" where
  "light_rescan_electrs_for_addresses L addresses = a_ret ()"

definition light_get_utxo_count :: "'w light_client \<Rightarrow> ('w, nat, bitcoin_error) action" where
  "light_get_utxo_count L = a_ret 0"

section \<open>Payments\<close>

text \<open>The outputs of a funded transaction, whatever the build.\<close>

lemma finish_funding_outputs:
  assumes "finish_funding oc W w env p coins = (Ok p' :: (psbt, 'e) result)"
  shows "tx_output (unsigned_tx p') = tx_output (unsigned_tx p) \<or>
    (\<exists>c. tx_output (unsigned_tx p') = tx_output (unsigned_tx p) @ [\<lparr>out_value = c, script_pubkey = fe_change_script env\<rparr>])"
  using assms by (auto simp: finish_funding_def Let_def split: if_splits)

lemma funded_outputs:
  assumes "psbt_laws (wa_lib W)" and "tx_input tx = []"
    and "fund_transaction oc W tx change_address rate w = (Ok p, w')"
  shows "tx_output (unsigned_tx p) = tx_output tx \<or>
    (\<exists>c. tx_output (unsigned_tx p) = tx_output tx @
       [\<lparr>out_value = c, script_pubkey = script_of (wl_scripts (wa_lib W)) (addr_payload change_address)\<rparr>])"
  using fund_transaction_run [OF assms] unfolding funding_end_def selected_so_far_def
  by (metis finish_funding_outputs)

lemma sign_inputs_unsigned: "sign_inputs W w is p = Ok p' \<Longrightarrow> unsigned_tx p' = unsigned_tx p"
  by (induction "is" arbitrary: p) (fastforce split: prod.splits)+

lemma sign_transaction_unsigned: "sign_transaction W w p = Ok p' \<Longrightarrow> unsigned_tx p' = unsigned_tx p"
  by (auto simp: sign_transaction_def dest: sign_inputs_unsigned)

text \<open>
  C27. A payment of the light client pays exactly what was asked for: the transaction it creates has
  as its first output exactly \<open>sat\<close> satoshis to the script of the recipient, then, if there is a
  request id, an output of zero satoshis with the script \<open>OP_RETURN\<close>, a push of 32 bytes, and the
  id, and then at most one more output, which pays back to the first address of its own key store.
\<close>

theorem light_payment:
  assumes laws: "psbt_laws (wa_lib (lc_wallet L))"
    and scripts: "script_laws (wl_scripts (wa_lib (lc_wallet L)))"
    and id: "length ` set_option request_id \<subseteq> {32}"
    and run: "light_create_transaction oc L recipient sat rate request_id w = (Ok tx, w')"
  shows "\<exists>ks own key rest extra. wa_key_store (lc_wallet L) w = Some ks \<and> ks = (own, key) # rest \<and>
    tx_output tx =
      \<lparr>out_value = sat, script_pubkey = script_of (wl_scripts (wa_lib (lc_wallet L))) (addr_payload recipient)\<rparr> #
      (case request_id of None \<Rightarrow> [] | Some r \<Rightarrow> [\<lparr>out_value = 0, script_pubkey = 0x6a # 32 # r\<rparr>]) @ extra \<and>
    (extra = [] \<or> (\<exists>c. extra = [\<lparr>out_value = c,
       script_pubkey = script_of (wl_scripts (wa_lib (lc_wallet L))) (addr_payload own)\<rparr>]))"
proof -
  let ?W = "lc_wallet L"
  let ?tx = "wallet_create_transaction (wa_lib ?W) recipient sat request_id"
  from run obtain own w1 p w2 signed where own: "get_change_address L w = (Ok own, w1)"
    and fund: "fund_transaction oc ?W ?tx own (saturating_mul rate 1000) w1 = (Ok p, w2)"
    and sign: "sign_transaction ?W w2 p = Ok signed" and tx: "tx = wl_extract_tx (wa_lib ?W) signed"
    unfolding light_create_transaction_def Let_def a_bind_eq_Ok on_light_Ok prod.inject a_ret_eq_Ok by blast
  from own obtain ks where "wa_key_store ?W w = Some ks"
    and ks: "(case ks of [] \<Rightarrow> Err Li_NoChangeAddress | (a, _) # _ \<Rightarrow> Ok a) = Ok own"
    by (auto simp: get_change_address_def read_key_store_def)
  moreover from ks obtain key rest where "ks = (own, key) # rest" by (auto split: list.splits)
  moreover have "tx_output tx = tx_output (unsigned_tx p)"
    using laws tx sign_transaction_unsigned [OF sign] unfolding psbt_laws_def by simp
  moreover have "tx_output ?tx =
      \<lparr>out_value = sat, script_pubkey = script_of (wl_scripts (wa_lib ?W)) (addr_payload recipient)\<rparr> #
      (case request_id of None \<Rightarrow> [] | Some r \<Rightarrow> [\<lparr>out_value = 0, script_pubkey = 0x6a # 32 # r\<rparr>])"
    using scripts id by (auto simp: wallet_create_transaction_def script_laws_def OP_RETURN_def split: option.splits)
  moreover have "tx_input ?tx = []" by (simp add: wallet_create_transaction_def)
  note funded_outputs [OF laws this fund]
  ultimately show ?thesis by auto
qed

definition demo_light :: "key_store light_client" where
  "demo_light = \<lparr>lc_private_key = [1], lc_network = Regtest, lc_wallet = demo_wallet, lc_waits = (\<lambda>_. []),
     lc_sleep = (\<lambda>_ w. w), ll_deserialize = (\<lambda>_. Err []), ll_secret_key = Ok, ll_mul_tweak = (\<lambda>k t. Ok k)\<rparr>"

theorem light_payment_witness:
  "\<exists>tx w'. light_create_transaction True demo_light demo_address 700 1 (Some (replicate 32 1)) demo_keys = (Ok tx, w') \<and>
     (\<exists>extra. tx_output tx = [\<lparr>out_value = 700, script_pubkey = 0 # 20 # demo_hash\<rparr>,
        \<lparr>out_value = 0, script_pubkey = 0x6a # 32 # replicate 32 1\<rparr>] @ extra \<and> length extra \<le> 1)"
proof -
  have wallet: "lc_wallet demo_light = demo_wallet" by (simp add: demo_light_def)
  have own: "get_change_address demo_light demo_keys = (Ok demo_address, demo_keys)"
    by (simp add: get_change_address_def wallet demo_key_store) (simp add: demo_keys_def)
  obtain signed where "sign_transaction demo_wallet demo_keys demo_psbt = Ok signed" using demo_signed by blast
  then have "\<exists>tx. light_create_transaction True demo_light demo_address 700 1 (Some (replicate 32 1)) demo_keys = (Ok tx, demo_keys)"
    using own demo_run
    by (simp add: light_create_transaction_def wallet Let_def a_bind_eq_Ok saturating_mul_def
        demo_payment_def [symmetric])
  then obtain tx where run: "light_create_transaction True demo_light demo_address 700 1 (Some (replicate 32 1)) demo_keys = (Ok tx, demo_keys)"
    by blast
  have "psbt_laws (wa_lib (lc_wallet demo_light))" by (simp add: wallet demo_laws)
  moreover have "script_laws (wl_scripts (wa_lib (lc_wallet demo_light)))"
    using std_lib_laws by (simp add: wallet demo_wallet_lib_def demo_scripts_def)
  ultimately show ?thesis
    using light_payment [OF _ _ _ run] run by (auto simp: wallet demo_change_script)
qed

end
