(* ===== verification/Faucet.thy ===== *)
theory Faucet
  imports Pallets Futures
begin

text \<open>
  The faucet: the JSON-RPC server that funds accounts (\<open>faucet/src/http.rs\<close>) and the vault's
  client for it (\<open>vault/src/faucet.rs\<close>). The key-value store is a map kept beside the world, and
  every access to it may fail with an I/O error. Times are nanoseconds since the epoch; reading
  the clock, formatting and parsing dates are parameters, as are the JSON and SCALE codecs.
\<close>

section \<open>Data\<close>

datatype faucet_error =
    Fe_RuntimeError runtime_error | Fe_CodecError ext_error | Fe_JsonRpcError ext_error
  | Fe_AddrParseError ext_error | Fe_KvError ext_error | Fe_DatetimeParsingError ext_error
  | Fe_AccountBalanceExceedsMaximum | Fe_AccountAlreadyFunded | Fe_MathError | Fe_NoFaucetAllowance

datatype account_type = User_account | Vault_account

record faucet_request =
  fr_datetime :: string
  fr_account_type :: account_type

record fund_account_request =
  fa_account_id :: account_id
  fa_currency_id :: currency_id

type_synonym kv_store = "string \<rightharpoonup> faucet_request"

text \<open>\<open>HEALTH_DURATION\<close> in milliseconds; \<open>hours\<close> of the \<open>chrono\<close> crate in nanoseconds.\<close>

definition HEALTH_DURATION :: nat where "HEALTH_DURATION = 5000"
definition FAUCET_COOLDOWN_HOURS :: int where "FAUCET_COOLDOWN_HOURS = 6"
definition MAX_FUNDABLE_CLIENT_BALANCE :: u128 where "MAX_FUNDABLE_CLIENT_BALANCE = 100"

definition hours :: "int \<Rightarrow> int" where "hours h = h * 3600 * 10 ^ 9"

record faucet_lib =
  fl_account_string :: "account_id \<Rightarrow> string"
  fl_tokens :: token_info
  fl_one :: "token_symbol \<Rightarrow> u128"
  fl_to_rfc2822 :: "int \<Rightarrow> string"
  fl_parse_rfc2822 :: "string \<Rightarrow> (int, ext_error) result"
  fl_min_datetime :: int
  fl_one_param :: "string \<Rightarrow> (string, ext_error) result"
  fl_from_hex :: "string \<Rightarrow> (bytes, ext_error) result"
  fl_decode_request :: "bytes \<Rightarrow> (fund_account_request, ext_error) result"

text \<open>
  What the server asks of the parachain and of its machine; the time limit of
  \<open>fc_block_hash_within\<close> has passed when it is \<open>None\<close>.
\<close>

record 'w faucet_calls =
  fc_native_currency_id :: currency_id
  fc_get_free_balance_for_id :: "account_id \<Rightarrow> currency_id \<Rightarrow> ('w, u128, runtime_error) action"
  fc_get_reserved_balance_for_id :: "account_id \<Rightarrow> currency_id \<Rightarrow> ('w, u128, runtime_error) action"
  fc_get_vaults_by_account_id :: "account_id \<Rightarrow> ('w, vault_id list, runtime_error) action"
  fc_transfer_to :: "account_id \<Rightarrow> u128 \<Rightarrow> currency_id \<Rightarrow> ('w, unit, runtime_error) action"
  fc_block_hash_within :: "nat \<Rightarrow> 'w \<Rightarrow> (H256, runtime_error) result option \<times> 'w"
  fc_now :: "'w \<Rightarrow> int \<times> 'w"
  fc_kv_io :: "('w, unit, ext_error) action"

section \<open>Requests and responses\<close>

definition hex_to_buffer :: "(string \<Rightarrow> (bytes, ext_error) result) \<Rightarrow> string \<Rightarrow> (bytes, ext_error) result" where
  "hex_to_buffer from_hex s =
     (if length s < 2 \<or> (2 < length s \<and> cont_byte (of_nat (of_char (s ! 2)))) then Panic
      else from_hex (drop 2 s))"

definition parse_params :: "faucet_lib \<Rightarrow> string \<Rightarrow> (fund_account_request, faucet_error) result" where
  "parse_params L params =
     rbind (map_err Fe_JsonRpcError (rbind (fl_one_param L params) (hex_to_buffer (fl_from_hex L)))) (\<lambda>raw.
     map_err Fe_CodecError (fl_decode_request L raw))"

text \<open>A response: the hex of the encoded data, or an internal error with its message.\<close>

definition handle_resp :: "('t \<Rightarrow> string) \<Rightarrow> (faucet_error \<Rightarrow> string) \<Rightarrow> ('t, faucet_error) result \<Rightarrow> (string, int \<times> string) result" where
  "handle_resp hex_encode message resp = (case resp of
      Ok data \<Rightarrow> Ok (''0x'' @ hex_encode data)
    | Err err \<Rightarrow> Err (- 32603, message err)
    | Panic \<Rightarrow> Panic)"

definition system_health :: "'w faucet_calls \<Rightarrow> ('w, unit, faucet_error) action" where
  "system_health C w = (case fc_block_hash_within C HEALTH_DURATION w of
      (None, w') \<Rightarrow> (Err (Fe_RuntimeError Re_TimeElapsed), w')
    | (Some Panic, w') \<Rightarrow> (Panic, w')
    | (Some _, w') \<Rightarrow> (Ok (), w'))"

section \<open>The store\<close>

definition kv_io :: "'w faucet_calls \<Rightarrow> ('w \<times> kv_store, unit, faucet_error) action" where
  "kv_io C = on_world (a_map_err Fe_KvError (fc_kv_io C))"

definition kv_get :: "'w faucet_calls \<Rightarrow> string \<Rightarrow> ('w \<times> kv_store, faucet_request option, faucet_error) action" where
  "kv_get C key = a_bind (kv_io C) (\<lambda>_. a_bind get_state (\<lambda>kv. a_ret (kv key)))"

definition update_kv_store ::
  "'w faucet_calls \<Rightarrow> string \<Rightarrow> string \<Rightarrow> account_type \<Rightarrow> ('w \<times> kv_store, unit, faucet_error) action" where
  "update_kv_store C account_id request_timestamp account_type =
     a_bind (kv_io C) (\<lambda>_. modify_state
       (\<lambda>kv. kv(account_id \<mapsto> \<lparr>fr_datetime = request_timestamp, fr_account_type = account_type\<rparr>)))"

section \<open>Who is funded\<close>

definition get_account_type :: "'w faucet_calls \<Rightarrow> account_id \<Rightarrow> ('w, account_type, faucet_error) action" where
  "get_account_type C account_id =
     a_match (fc_get_vaults_by_account_id C account_id)
       (\<lambda>x. a_ret (if x \<noteq> [] then Vault_account else User_account)) (\<lambda>_. a_ret User_account)"

definition is_type_and_was_user :: "account_type \<Rightarrow> account_type \<Rightarrow> account_type \<Rightarrow> bool" where
  "is_type_and_was_user account_type current previous \<longleftrightarrow> current = account_type \<and> previous = User_account"

definition has_request_expired :: "int \<Rightarrow> int \<Rightarrow> account_type \<Rightarrow> account_type \<Rightarrow> bool" where
  "has_request_expired request_datetime cooldown_threshold current previous \<longleftrightarrow>
     request_datetime < cooldown_threshold \<or> is_type_and_was_user Vault_account current previous"

definition read_clock :: "'w faucet_calls \<Rightarrow> ('w, int, 'e) action" where
  "read_clock C w = (case fc_now C w of (t, w') \<Rightarrow> (Ok t, w'))"

definition one_of :: "faucet_lib \<Rightarrow> currency_id \<Rightarrow> (u128, faucet_error) result" where
  "one_of L c = rbind (map_err Fe_RuntimeError (currency_inner c)) (\<lambda>t. Ok (fl_one L t))"

definition check_balance :: "bool \<Rightarrow> faucet_lib \<Rightarrow> u128 \<Rightarrow> u128 \<Rightarrow> currency_id \<Rightarrow> (unit, faucet_error) result" where
  "check_balance oc L free_balance reserved_balance currency_id =
     rbind (plain_add oc free_balance reserved_balance) (\<lambda>balance.
     rbind (rbind (one_of L currency_id) (plain_mul oc MAX_FUNDABLE_CLIENT_BALANCE)) (\<lambda>maximum.
     if balance > maximum then Err Fe_AccountBalanceExceedsMaximum else Ok ()))"

definition check_cooldown :: "faucet_lib \<Rightarrow> int \<Rightarrow> faucet_request option \<Rightarrow> account_type \<Rightarrow> (unit, faucet_error) result" where
  "check_cooldown L now last_request account_type =
     (let cooldown_threshold = now - hours FAUCET_COOLDOWN_HOURS
      in if cooldown_threshold < fl_min_datetime L then Err Fe_MathError
         else (case last_request of
           None \<Rightarrow> Ok ()
         | Some previous \<Rightarrow>
             rbind (map_err Fe_DatetimeParsingError (fl_parse_rfc2822 L (fr_datetime previous))) (\<lambda>t.
             if \<not> has_request_expired t cooldown_threshold account_type (fr_account_type previous)
             then Err Fe_AccountAlreadyFunded else Ok ())))"

definition ensure_funding_allowed ::
  "bool \<Rightarrow> faucet_lib \<Rightarrow> 'w faucet_calls \<Rightarrow> account_id \<Rightarrow> currency_id \<Rightarrow> faucet_request option \<Rightarrow> account_type
    \<Rightarrow> ('w, unit, faucet_error) action" where
  "ensure_funding_allowed oc L C account_id currency_id last_request account_type =
     a_bind (a_map_err Fe_RuntimeError (fc_get_free_balance_for_id C account_id currency_id)) (\<lambda>free_balance.
     a_bind (a_map_err Fe_RuntimeError (fc_get_reserved_balance_for_id C account_id currency_id)) (\<lambda>reserved_balance.
     a_bind (a_lift (check_balance oc L free_balance reserved_balance currency_id)) (\<lambda>_.
     a_bind (read_clock C) (\<lambda>now. a_lift (check_cooldown L now last_request account_type)))))"

definition account_str :: "faucet_lib \<Rightarrow> account_id \<Rightarrow> currency_id \<Rightarrow> (string, faucet_error) result" where
  "account_str L account_id currency_id =
     rbind (map_err Fe_RuntimeError (currency_inner currency_id))
       (\<lambda>t. Ok (fl_account_string L account_id @ ''-'' @ tk_symbol (fl_tokens L) t))"

text \<open>The first part of a request: the key of the account, the last request and the checks.\<close>

definition check_funding ::
  "bool \<Rightarrow> faucet_lib \<Rightarrow> 'w faucet_calls \<Rightarrow> account_id \<Rightarrow> currency_id
    \<Rightarrow> ('w \<times> kv_store, string \<times> account_type, faucet_error) action" where
  "check_funding oc L C account_id currency_id =
     a_bind (a_lift (account_str L account_id currency_id)) (\<lambda>key.
     a_bind (kv_get C key) (\<lambda>last_request.
     a_bind (on_world (get_account_type C account_id)) (\<lambda>account_type.
     a_bind (on_world (ensure_funding_allowed oc L C account_id currency_id last_request account_type)) (\<lambda>_.
     a_ret (key, account_type)))))"

text \<open>
  The second part: the transfers of the currency and, unless it is that, of the native currency,
  and the record of the claim, written only when all of them succeeded.
\<close>

definition faucet_amount :: "faucet_lib \<Rightarrow> (account_type \<rightharpoonup> u128) \<Rightarrow> account_type \<Rightarrow> currency_id \<Rightarrow> (u128, faucet_error) result" where
  "faucet_amount L allowances account_type currency_id =
     rbind (ok_or Fe_NoFaucetAllowance (allowances account_type)) (\<lambda>allowance.
     rbind (one_of L currency_id) (\<lambda>one. ok_or Fe_MathError (checked_mul allowance one)))"

definition transfer_funds :: "'w faucet_calls \<Rightarrow> account_id \<Rightarrow> u128 \<Rightarrow> currency_id \<Rightarrow> ('w, unit, faucet_error) action" where
  "transfer_funds C account_id amount currency_id w =
     (let transfers = fc_transfer_to C account_id amount currency_id #
            (if currency_id \<noteq> fc_native_currency_id C
             then [fc_transfer_to C account_id amount (fc_native_currency_id C)] else [])
      in case join_all transfers w of (results, w') \<Rightarrow>
           (map_err Fe_RuntimeError (rbind (collect results) (\<lambda>_. Ok ())), w'))"

definition pay_and_record ::
  "faucet_lib \<Rightarrow> 'w faucet_calls \<Rightarrow> (account_type \<rightharpoonup> u128) \<Rightarrow> account_id \<Rightarrow> currency_id \<Rightarrow> string \<times> account_type
    \<Rightarrow> ('w \<times> kv_store, unit, faucet_error) action" where
  "pay_and_record L C allowances account_id currency_id = (\<lambda>(key, account_type).
     a_bind (a_lift (faucet_amount L allowances account_type currency_id)) (\<lambda>amount.
     a_bind (on_world (transfer_funds C account_id amount currency_id)) (\<lambda>_.
     a_bind (on_world (read_clock C)) (\<lambda>now.
     update_kv_store C key (fl_to_rfc2822 L now) account_type))))"

definition atomic_faucet_funding ::
  "bool \<Rightarrow> faucet_lib \<Rightarrow> 'w faucet_calls \<Rightarrow> account_id \<Rightarrow> currency_id \<Rightarrow> (account_type \<rightharpoonup> u128)
    \<Rightarrow> ('w \<times> kv_store, unit, faucet_error) action" where
  "atomic_faucet_funding oc L C account_id currency_id allowances =
     a_bind (check_funding oc L C account_id currency_id) (pay_and_record L C allowances account_id currency_id)"

definition fund_account ::
  "bool \<Rightarrow> faucet_lib \<Rightarrow> 'w faucet_calls \<Rightarrow> fund_account_request \<Rightarrow> (account_type \<rightharpoonup> u128)
    \<Rightarrow> ('w \<times> kv_store, unit, faucet_error) action" where
  "fund_account oc L C req allowances =
     a_bind (kv_io C) (\<lambda>_. atomic_faucet_funding oc L C (fa_account_id req) (fa_currency_id req) allowances)"

definition fund_account_raw ::
  "bool \<Rightarrow> faucet_lib \<Rightarrow> 'w faucet_calls \<Rightarrow> string \<Rightarrow> u128 \<Rightarrow> u128 \<Rightarrow> ('w \<times> kv_store, unit, faucet_error) action" where
  "fund_account_raw oc L C params user_allowance vault_allowance =
     a_bind (a_lift (parse_params L params)) (\<lambda>req.
     fund_account oc L C req [User_account \<mapsto> user_allowance, Vault_account \<mapsto> vault_allowance])"

section \<open>The client of the faucet\<close>

definition TX_FEES :: u128 where "TX_FEES = 2000000000"

text \<open>
  The JSON-RPC connection (\<open>ft_call_method\<close> with the strings of its parameters, and \<open>ft_call_raw\<close>
  for the methods whose answer is a hex string), the codecs, and the two extrinsics.
\<close>

record 'w faucet_client =
  ft_connect :: "string \<Rightarrow> ('w, unit, ext_error) action"
  ft_call_method :: "string \<Rightarrow> string list \<Rightarrow> ('w, string, ext_error) action"
  ft_hex_encode :: "fund_account_request \<Rightarrow> string"
  ft_hex_decode :: "string \<Rightarrow> (bytes, ext_error) result"
  ft_decode_u128 :: "bytes \<Rightarrow> (u128, ext_error) result"
  ft_register_vault :: "vault_id \<Rightarrow> u128 \<Rightarrow> ('w, unit, runtime_error) action"
  ft_deposit_collateral :: "vault_id \<Rightarrow> u128 \<Rightarrow> ('w, unit, runtime_error) action"

definition get_faucet_allowance :: "'w faucet_client \<Rightarrow> string \<Rightarrow> ('w, u128, vault_error) action" where
  "get_faucet_allowance F allowance_type =
     a_bind (a_map_err Ve_RpcError (a_bind (ft_call_method F allowance_type []) (\<lambda>s. a_lift (hex_to_buffer (ft_hex_decode F) s)))) (\<lambda>raw.
     a_lift (map_err Ve_CodecError (ft_decode_u128 F raw)))"

definition get_funding :: "'w faucet_client \<Rightarrow> vault_id \<Rightarrow> ('w, unit, vault_error) action" where
  "get_funding F vault =
     (let funding_request = \<lparr>fa_account_id = account vault, fa_currency_id = collateral_currency vault\<rparr> in
      a_bind (a_map_err Ve_RpcError (ft_call_method F ''fund_account'' [''0x'' @ ft_hex_encode F funding_request])) (\<lambda>_. a_ret ()))"

definition client_fund_account :: "'w faucet_client \<Rightarrow> string \<Rightarrow> vault_id \<Rightarrow> ('w, unit, vault_error) action" where
  "client_fund_account F faucet_url vault =
     a_bind (a_map_err Ve_RpcError (ft_connect F faucet_url)) (\<lambda>_. a_ignore (get_funding F vault))"

definition registration_collateral :: "u128 \<Rightarrow> u128 \<Rightarrow> (u128, vault_error) result" where
  "registration_collateral user_allowance one =
     rbind (ok_or Ve_ArithmeticOverflow (checked_mul user_allowance one)) (\<lambda>x.
     ok_or Ve_ArithmeticUnderflow (checked_sub x TX_FEES))"

definition operational_collateral :: "u128 \<Rightarrow> u128 \<Rightarrow> (u128, vault_error) result" where
  "operational_collateral vault_allowance one =
     rbind (ok_or Ve_ArithmeticOverflow (checked_mul vault_allowance one)) (\<lambda>planck.
     let third = (case checked_div planck 3 of Some x \<Rightarrow> x | None \<Rightarrow> 0)
     in Ok (case checked_mul third 2 of Some x \<Rightarrow> x | None \<Rightarrow> 0))"

definition deposit_collateral :: "'w faucet_client \<Rightarrow> vault_id \<Rightarrow> u128 \<Rightarrow> ('w, unit, vault_error) action" where
  "deposit_collateral F vault amount = on_runtime (ft_deposit_collateral F vault amount)"

text \<open>The registrations of several vaults run concurrently: each call is a step of its own.\<close>

definition fund_and_register ::
  "'w faucet_client \<Rightarrow> (token_symbol \<Rightarrow> u128) \<Rightarrow> string \<Rightarrow> vault_id \<Rightarrow> ('w, unit, vault_error) future" where
  "fund_and_register F one faucet_url vault =
     (let inner = map_err Ve_RuntimeError (currency_inner (collateral_currency vault)) in
      f_bind (f_call (a_map_err Ve_RpcError (ft_connect F faucet_url))) (\<lambda>_.
      f_bind (f_call (a_ignore (get_funding F vault))) (\<lambda>_.
      f_bind (f_call (get_faucet_allowance F ''user_allowance'')) (\<lambda>user_allowance.
      f_bind (f_lift (rbind inner (\<lambda>t. registration_collateral user_allowance (one t)))) (\<lambda>registration.
      f_bind (f_call (on_runtime (ft_register_vault F vault registration))) (\<lambda>_.
      f_bind (f_call (get_funding F vault)) (\<lambda>_.
      f_bind (f_call (get_faucet_allowance F ''vault_allowance'')) (\<lambda>vault_allowance.
      f_bind (f_lift (rbind inner (\<lambda>t. operational_collateral vault_allowance (one t)))) (\<lambda>operational.
      f_call (deposit_collateral F vault operational))))))))))"

end
