(* ===== verification/FaucetFacts.thy ===== *)
theory FaucetFacts
  imports Faucet
begin

text \<open>
  What the faucet promises: a ledger of grants as its specification, the proof that the handling
  of a request refines it, and the bound on the grants of an account that follows.
\<close>

section \<open>The specification\<close>

text \<open>When an account of a type was last granted funds, to the second.\<close>

type_synonym ledger = "string \<rightharpoonup> int \<times> account_type"

definition may_fund :: "ledger \<Rightarrow> string \<Rightarrow> account_type \<Rightarrow> int \<Rightarrow> bool" where
  "may_fund led key ty now \<longleftrightarrow> (case led key of
      None \<Rightarrow> True
    | Some (t, was) \<Rightarrow> t < now - hours 6 \<or> ty = Vault_account \<and> was = User_account)"

definition to_second :: "int \<Rightarrow> int" where "to_second t = t - t mod 10 ^ 9"

datatype ledger_event =
    Grant string account_type int int
  | Unrecorded string account_type int
  | Refuse

text \<open>
  A grant writes the time of its end; a payment of which a part failed is not recorded; a refused
  request changes nothing.
\<close>

inductive ledger_step :: "ledger \<Rightarrow> ledger_event \<Rightarrow> ledger \<Rightarrow> bool" where
  granted: "may_fund led key ty now \<Longrightarrow> ledger_step led (Grant key ty now end_time) (led(key \<mapsto> (to_second end_time, ty)))"
| unrecorded: "may_fund led key ty now \<Longrightarrow> ledger_step led (Unrecorded key ty now) led"
| refused: "ledger_step led Refuse led"

inductive_cases ledger_grantE: "ledger_step led (Grant key ty now end_time) led'"

section \<open>The code as seen by the specification\<close>

text \<open>Dates are written with a precision of seconds, and what is written can be read.\<close>

definition rfc2822_law :: "faucet_lib \<Rightarrow> bool" where
  "rfc2822_law L \<longleftrightarrow> (\<forall>t. fl_parse_rfc2822 L (fl_to_rfc2822 L t) = Ok (to_second t))"

definition readable :: "faucet_lib \<Rightarrow> kv_store \<Rightarrow> bool" where
  "readable L kv \<longleftrightarrow> (\<forall>r \<in> ran kv. is_ok (fl_parse_rfc2822 L (fr_datetime r)))"

definition ledger_of :: "faucet_lib \<Rightarrow> kv_store \<Rightarrow> ledger" where
  "ledger_of L kv key = (case kv key of
      None \<Rightarrow> None
    | Some r \<Rightarrow> map_option (\<lambda>t. (t, fr_account_type r)) (ok_opt (fl_parse_rfc2822 L (fr_datetime r))))"

lemma readable_update:
  "rfc2822_law L \<Longrightarrow> readable L kv \<Longrightarrow> readable L (kv(key \<mapsto> \<lparr>fr_datetime = fl_to_rfc2822 L t, fr_account_type = ty\<rparr>))"
  by (auto simp: readable_def rfc2822_law_def ran_def)

lemma ledger_of_update:
  "rfc2822_law L \<Longrightarrow> ledger_of L (kv(key \<mapsto> \<lparr>fr_datetime = fl_to_rfc2822 L t, fr_account_type = ty\<rparr>)) =
     (ledger_of L kv)(key \<mapsto> (to_second t, ty))"
  by (auto simp: ledger_of_def rfc2822_law_def fun_eq_iff)

text \<open>The clock readings and the transfers of a request, in their order.\<close>

datatype faucet_event = Clock int | Transfer account_id u128 currency_id

definition logged_faucet :: "'w faucet_calls \<Rightarrow> ('w \<times> faucet_event list) faucet_calls" where
  "logged_faucet C = \<lparr>fc_native_currency_id = fc_native_currency_id C,
     fc_get_free_balance_for_id = (\<lambda>a c. on_world (fc_get_free_balance_for_id C a c)),
     fc_get_reserved_balance_for_id = (\<lambda>a c. on_world (fc_get_reserved_balance_for_id C a c)),
     fc_get_vaults_by_account_id = (\<lambda>a. on_world (fc_get_vaults_by_account_id C a)),
     fc_transfer_to = (\<lambda>a x c. log_result (\<lambda>_. [Transfer a x c]) (fc_transfer_to C a x c)),
     fc_block_hash_within = (\<lambda>t (w, l). case fc_block_hash_within C t w of (r, w') \<Rightarrow> (r, (w', l))),
     fc_now = (\<lambda>(w, l). case fc_now C w of (t, w') \<Rightarrow> (t, (w', l @ [Clock t]))),
     fc_kv_io = on_world (fc_kv_io C)\<rparr>"

lemma logged_faucet_simps [simp]:
  "fc_native_currency_id (logged_faucet C) = fc_native_currency_id C"
  "fc_get_free_balance_for_id (logged_faucet C) a c = on_world (fc_get_free_balance_for_id C a c)"
  "fc_get_reserved_balance_for_id (logged_faucet C) a c = on_world (fc_get_reserved_balance_for_id C a c)"
  "fc_get_vaults_by_account_id (logged_faucet C) a = on_world (fc_get_vaults_by_account_id C a)"
  "fc_transfer_to (logged_faucet C) a x c = log_result (\<lambda>_. [Transfer a x c]) (fc_transfer_to C a x c)"
  "fc_kv_io (logged_faucet C) = on_world (fc_kv_io C)"
  by (simp_all add: logged_faucet_def)

definition logs :: "('l list \<Rightarrow> bool) \<Rightarrow> 's \<Rightarrow> ('w \<times> 'l list) \<times> 's \<Rightarrow> bool" where
  "logs P kv ws \<longleftrightarrow> P (snd (fst ws)) \<and> snd ws = kv"

lemma triple_on_world_logs:
  assumes "triple (\<lambda>w. Z (snd w)) (\<lambda>w. P (snd w)) m (\<lambda>a w. Q a (snd w)) (\<lambda>e w. E e (snd w))"
  shows "triple (logs Z kv) (logs P kv) (on_world m) (\<lambda>a. logs (Q a) kv) (\<lambda>e. logs (E e) kv)"
  using assms by (fastforce simp: triple_def logs_def on_world_def split: prod.splits result.splits)

lemma triple_read_clock [triple_intro]:
  "(\<And>t l. P l \<Longrightarrow> Q t (l @ [Clock t])) \<Longrightarrow>
   triple Z (\<lambda>w. P (snd w)) (read_clock (logged_faucet C)) (\<lambda>t w. Q t (snd w)) E"
  by (auto simp: triple_def read_clock_def logged_faucet_def split: prod.splits)

definition no_transfer :: "faucet_event list \<Rightarrow> bool" where
  "no_transfer l \<longleftrightarrow> (\<forall>a x c. Transfer a x c \<notin> set l)"

lemma no_transfer_simps [simp]: "no_transfer []" "no_transfer [Clock t]"
  by (simp_all add: no_transfer_def)

lemma triple_kv_io: "triple (logs P kv) (logs P kv) (kv_io (logged_faucet C)) (\<lambda>_. logs P kv) (\<lambda>_. logs P kv)"
  unfolding kv_io_def
  by (rule triple_on_world_logs, rule triple_map_err, simp) (rule triple_world; simp)

lemma triple_kv_get:
  "triple (logs P kv) (logs P kv) (kv_get (logged_faucet C) key) (\<lambda>r ws. r = kv key \<and> logs P kv ws) (\<lambda>_. logs P kv)"
  unfolding kv_get_def
  by (rule triple_bind [OF triple_kv_io], rule tripleI) (auto simp: action_defs get_state_def logs_def)

text \<open>The check of the cooldown is the guard of the specification.\<close>

lemma check_cooldown_Ok:
  "check_cooldown L now (kv key) ty = Ok u \<Longrightarrow> may_fund (ledger_of L kv) key ty now"
  by (auto simp: check_cooldown_def Let_def may_fund_def ledger_of_def has_request_expired_def is_type_and_was_user_def
      FAUCET_COOLDOWN_HOURS_def split: option.splits if_splits)

lemma triple_call:
  assumes "\<And>l. P l \<Longrightarrow> Z l"
  shows "triple (on_log Z) (on_log P) (a_map_err h (on_world m)) (\<lambda>_. on_log P) (\<lambda>_. on_log Z)"
  by (rule triple_map_err, rule triple_world) (use assms in auto)


lemma triple_ensure:
  "triple (on_log no_transfer) (on_log (\<lambda>l. l = []))
     (ensure_funding_allowed oc L (logged_faucet C) acc cur (kv key) ty)
     (\<lambda>_. on_log (\<lambda>l. \<exists>now. l = [Clock now] \<and> may_fund (ledger_of L kv) key ty now)) (\<lambda>_. on_log no_transfer)"
  unfolding ensure_funding_allowed_def logged_faucet_simps
  by (rule triple_bind [OF triple_call [where P = "\<lambda>l. l = []"]], simp,
      rule triple_bind [OF triple_call [where P = "\<lambda>l. l = []"]], simp,
      rule triple_bind [where R = "\<lambda>_. on_log (\<lambda>l. l = [])"], rule triple_lift, simp_all,
      rule triple_bind [OF triple_read_clock [where P = "\<lambda>l. l = []" and Q = "\<lambda>t l. l = [Clock t]"]], simp,
      rule triple_lift)
    (auto dest: check_cooldown_Ok)

lemma triple_account_type:
  "triple (\<lambda>w. P (snd w)) (\<lambda>w. P (snd w)) (get_account_type (logged_faucet C) acc) (\<lambda>_ w. P (snd w)) (\<lambda>_ w. P (snd w))"
  unfolding get_account_type_def logged_faucet_simps
  by (rule triple_match [where R = "\<lambda>_ w. P (snd w)" and F = "\<lambda>_ w. P (snd w)"], rule triple_world)
    (auto intro: triple_ret)

lemma a_bind_lift_Ok: "a_bind (a_lift (Ok a)) f = f a"
  by (rule ext) (simp add: action_defs)

lemma triple_check_funding:
  "triple (logs no_transfer kv) (logs (\<lambda>l. l = []) kv) (check_funding oc L (logged_faucet C) acc cur)
     (\<lambda>(key, ty). logs (\<lambda>l. \<exists>now. l = [Clock now] \<and> may_fund (ledger_of L kv) key ty now \<and> account_str L acc cur = Ok key) kv)
     (\<lambda>_. logs no_transfer kv)"
proof (cases "account_str L acc cur")
  case (Ok key)
  have get: "triple (logs no_transfer kv) (logs (\<lambda>l. l = []) kv) (kv_get (logged_faucet C) key)
      (\<lambda>r ws. r = kv key \<and> logs (\<lambda>l. l = []) kv ws) (\<lambda>_. logs no_transfer kv)"
    by (rule triple_conseq [OF triple_kv_get [where P = "\<lambda>l. l = []"]]) (auto simp: logs_def)
  have ty: "triple (logs no_transfer kv) (logs (\<lambda>l. l = []) kv) (on_world (get_account_type (logged_faucet C) acc))
      (\<lambda>_. logs (\<lambda>l. l = []) kv) (\<lambda>_. logs no_transfer kv)"
    by (rule triple_on_world_logs, rule triple_conseq [OF triple_account_type [where P = "\<lambda>l. l = []"]]) auto
  have ensure: "triple (logs no_transfer kv) (logs (\<lambda>l. l = []) kv)
      (on_world (ensure_funding_allowed oc L (logged_faucet C) acc cur (kv key) ty))
      (\<lambda>_. logs (\<lambda>l. \<exists>now. l = [Clock now] \<and> may_fund (ledger_of L kv) key ty now) kv) (\<lambda>_. logs no_transfer kv)" for ty
    by (rule triple_on_world_logs, rule triple_ensure)
  show ?thesis
    unfolding check_funding_def Ok a_bind_lift_Ok
    by (rule triple_bind [OF get], rule triple_conj_fact, simp only:, rule triple_bind [OF ty], rule triple_bind [OF ensure],
        rule triple_ret)
      (auto simp: logs_def)
qed (auto simp: check_funding_def triple_def action_defs logs_def)

text \<open>The transfers of a payment: the currency asked for, and the native one if that is another.\<close>

definition payments :: "'w faucet_calls \<Rightarrow> account_id \<Rightarrow> u128 \<Rightarrow> currency_id \<Rightarrow> faucet_event list" where
  "payments C acc amount cur = Transfer acc amount cur #
     (if cur \<noteq> fc_native_currency_id C then [Transfer acc amount (fc_native_currency_id C)] else [])"

lemma transfer_funds_log:
  "transfer_funds (logged_faucet C) acc amount cur (w, l) = (r, (w', l')) \<Longrightarrow> l' = l @ payments C acc amount cur"
  by (auto simp: transfer_funds_def payments_def log_result_def Let_def split: prod.splits if_splits)

definition starts_with :: "'l list \<Rightarrow> 'l list \<Rightarrow> bool" where
  "starts_with l1 l \<longleftrightarrow> (\<exists>rest. l = l1 @ rest)"

lemma triple_transfer_funds:
  assumes "starts_with l1 l0"
  shows "triple (logs (starts_with l1) kv) (logs (\<lambda>l. l = l0) kv) (on_world (transfer_funds (logged_faucet C) acc amount cur))
     (\<lambda>_. logs (\<lambda>l. l = l0 @ payments C acc amount cur) kv) (\<lambda>_. logs (starts_with l1) kv)"
  by (rule triple_on_world_logs, rule tripleI) (use assms in \<open>auto simp: starts_with_def dest!: transfer_funds_log\<close>)

lemma triple_record:
  assumes "starts_with l1 l0"
  shows "triple (logs (starts_with l1) kv) (logs (\<lambda>l. l = l0) kv) (update_kv_store (logged_faucet C) key s ty)
     (\<lambda>_. logs (\<lambda>l. l = l0) (kv(key \<mapsto> \<lparr>fr_datetime = s, fr_account_type = ty\<rparr>))) (\<lambda>_. logs (starts_with l1) kv)"
  unfolding update_kv_store_def
  by (rule triple_bind [where R = "\<lambda>_. logs (\<lambda>l. l = l0) kv"], rule triple_conseq [OF triple_kv_io [where P = "\<lambda>l. l = l0"]])
    (use assms in \<open>auto simp: logs_def triple_def modify_state_def starts_with_def\<close>)

definition recorded :: "faucet_lib \<Rightarrow> 'w faucet_calls \<Rightarrow> account_id \<Rightarrow> u128 \<Rightarrow> currency_id \<Rightarrow> kv_store \<Rightarrow> string \<Rightarrow> account_type
    \<Rightarrow> int \<Rightarrow> int \<Rightarrow> ('v \<times> faucet_event list) \<times> kv_store \<Rightarrow> bool" where
  "recorded L C acc amount cur kv key ty now end_time =
     logs (\<lambda>l. l = Clock now # payments C acc amount cur @ [Clock end_time])
       (kv(key \<mapsto> \<lparr>fr_datetime = fl_to_rfc2822 L end_time, fr_account_type = ty\<rparr>))"

lemma triple_pay_and_record:
  "triple (logs (starts_with [Clock now]) kv) (logs (\<lambda>l. l = [Clock now]) kv)
     (pay_and_record L (logged_faucet C) allowances acc cur (key, ty))
     (\<lambda>_ ws. \<exists>amount end_time. faucet_amount L allowances ty cur = Ok amount \<and> recorded L C acc amount cur kv key ty now end_time ws)
     (\<lambda>_. logs (starts_with [Clock now]) kv)"
proof (cases "faucet_amount L allowances ty cur")
  case (Ok amount)
  have clock: "triple (logs (starts_with [Clock now]) kv) (logs (\<lambda>l. l = l0) kv) (on_world (read_clock (logged_faucet C)))
      (\<lambda>t. logs (\<lambda>l. l = l0 @ [Clock t]) kv) (\<lambda>_. logs (starts_with [Clock now]) kv)" for l0
    by (rule triple_on_world_logs, rule triple_read_clock) simp
  show ?thesis
    unfolding pay_and_record_def prod.case Ok a_bind_lift_Ok
    by (rule triple_bind [OF triple_transfer_funds], simp add: starts_with_def, rule triple_bind [OF clock],
        rule triple_conseq [OF triple_record])
      (auto simp: recorded_def starts_with_def)
qed (auto simp: pay_and_record_def triple_def action_defs logs_def starts_with_def)

text \<open>A request as a whole: how the log and the store look at its end.\<close>

lemma triple_ex: "(\<And>x. triple Z (P x) m Q E) \<Longrightarrow> triple Z (\<lambda>w. \<exists>x. P x w) m Q E"
  by (fastforce simp: triple_def)

definition allowed_log :: "faucet_lib \<Rightarrow> account_id \<Rightarrow> currency_id \<Rightarrow> kv_store \<Rightarrow> faucet_event list \<Rightarrow> bool" where
  "allowed_log L acc cur kv l \<longleftrightarrow> no_transfer l \<or>
     (\<exists>key ty now. account_str L acc cur = Ok key \<and> may_fund (ledger_of L kv) key ty now \<and> starts_with [Clock now] l)"

lemma triple_funding:
  "triple (logs (allowed_log L acc cur kv) kv) (logs (\<lambda>l. l = []) kv)
     (atomic_faucet_funding oc L (logged_faucet C) acc cur allowances)
     (\<lambda>_ ws. \<exists>key ty now amount end_time. account_str L acc cur = Ok key \<and> may_fund (ledger_of L kv) key ty now \<and>
        faucet_amount L allowances ty cur = Ok amount \<and> recorded L C acc amount cur kv key ty now end_time ws)
     (\<lambda>_. logs (allowed_log L acc cur kv) kv)"
  unfolding atomic_faucet_funding_def
proof (rule triple_bind)
  show "triple (logs (allowed_log L acc cur kv) kv) (logs (\<lambda>l. l = []) kv) (check_funding oc L (logged_faucet C) acc cur)
     (\<lambda>kt ws. \<exists>now. may_fund (ledger_of L kv) (fst kt) (snd kt) now \<and> account_str L acc cur = Ok (fst kt) \<and> logs (\<lambda>l. l = [Clock now]) kv ws)
     (\<lambda>_. logs (allowed_log L acc cur kv) kv)"
    by (rule triple_conseq [OF triple_check_funding]) (auto simp: logs_def allowed_log_def)
  fix kt :: "string \<times> account_type"
  obtain key ty where kt: "kt = (key, ty)" by fastforce
  show "triple (logs (allowed_log L acc cur kv) kv)
     (\<lambda>ws. \<exists>now. may_fund (ledger_of L kv) (fst kt) (snd kt) now \<and> account_str L acc cur = Ok (fst kt) \<and> logs (\<lambda>l. l = [Clock now]) kv ws)
     (pay_and_record L (logged_faucet C) allowances acc cur kt)
     (\<lambda>_ ws. \<exists>key ty now amount end_time. account_str L acc cur = Ok key \<and> may_fund (ledger_of L kv) key ty now \<and>
        faucet_amount L allowances ty cur = Ok amount \<and> recorded L C acc amount cur kv key ty now end_time ws)
     (\<lambda>_. logs (allowed_log L acc cur kv) kv)"
    unfolding kt fst_conv snd_conv
  proof (rule triple_ex, rule triple_conj_fact, rule triple_conj_fact)
    fix now assume "may_fund (ledger_of L kv) key ty now" "account_str L acc cur = Ok key"
    then show "triple (logs (allowed_log L acc cur kv) kv) (logs (\<lambda>l. l = [Clock now]) kv)
       (pay_and_record L (logged_faucet C) allowances acc cur (key, ty))
       (\<lambda>_ ws. \<exists>key ty now amount end_time. account_str L acc cur = Ok key \<and> may_fund (ledger_of L kv) key ty now \<and>
          faucet_amount L allowances ty cur = Ok amount \<and> recorded L C acc amount cur kv key ty now end_time ws)
       (\<lambda>_. logs (allowed_log L acc cur kv) kv)"
      by (intro triple_conseq [OF triple_pay_and_record]) (auto simp: logs_def allowed_log_def)
  qed
qed

section \<open>Refinement\<close>

text \<open>The event of the specification that a request with this outcome and this log realises.\<close>

definition realises :: "faucet_lib \<Rightarrow> 'w faucet_calls \<Rightarrow> (account_type \<rightharpoonup> u128) \<Rightarrow> account_id \<Rightarrow> currency_id \<Rightarrow>
    (unit, faucet_error) result \<Rightarrow> faucet_event list \<Rightarrow> ledger_event \<Rightarrow> bool" where
  "realises L C allowances acc cur r log ev \<longleftrightarrow> (case ev of
     Grant key ty now end_time \<Rightarrow> r = Ok () \<and> account_str L acc cur = Ok key \<and>
       (\<exists>amount. faucet_amount L allowances ty cur = Ok amount \<and> log = Clock now # payments C acc amount cur @ [Clock end_time])
   | Unrecorded key ty now \<Rightarrow> r \<noteq> Ok () \<and> account_str L acc cur = Ok key \<and> starts_with [Clock now] log
   | Refuse \<Rightarrow> r \<noteq> Ok () \<and> no_transfer log)"

lemma allowed_log_realises:
  "allowed_log L acc cur kv log \<Longrightarrow> r \<noteq> Ok () \<Longrightarrow>
   \<exists>ev. ledger_step (ledger_of L kv) ev (ledger_of L kv) \<and> realises L C allowances acc cur r log ev"
  unfolding allowed_log_def
proof (elim disjE exE conjE)
  assume "r \<noteq> Ok ()" "no_transfer log"
  then show ?thesis by (intro exI [of _ Refuse]) (simp add: realises_def refused)
next
  fix key ty now
  assume "r \<noteq> Ok ()" "account_str L acc cur = Ok key" "may_fund (ledger_of L kv) key ty now" "starts_with [Clock now] log"
  then show ?thesis by (intro exI [of _ "Unrecorded key ty now"]) (simp add: realises_def unrecorded)
qed

lemma funding_refines:
  assumes law: "rfc2822_law L" and kv: "readable L kv"
    and run: "atomic_faucet_funding oc L (logged_faucet C) acc cur allowances ((w, []), kv) = (r, ((w', log), kv'))"
  shows "readable L kv' \<and> (\<exists>ev. ledger_step (ledger_of L kv) ev (ledger_of L kv') \<and> realises L C allowances acc cur r log ev)"
proof -
  have pre: "logs (\<lambda>l. l = []) kv ((w, [] :: faucet_event list), kv)" by (simp add: logs_def)
  note D = tripleD [OF triple_funding this run]
  show ?thesis
  proof (cases "r = Ok ()")
    case True
    from D(1) [OF True] obtain key ty now amount end_time where
      1: "account_str L acc cur = Ok key" "may_fund (ledger_of L kv) key ty now" "faucet_amount L allowances ty cur = Ok amount"
      and rec: "recorded L C acc amount cur kv key ty now end_time ((w', log), kv')" by blast
    from rec have log: "log = Clock now # payments C acc amount cur @ [Clock end_time]"
      and kv': "kv' = kv(key \<mapsto> \<lparr>fr_datetime = fl_to_rfc2822 L end_time, fr_account_type = ty\<rparr>)"
      by (simp_all add: recorded_def logs_def)
    have "ledger_step (ledger_of L kv) (Grant key ty now end_time) (ledger_of L kv')"
      unfolding kv' ledger_of_update [OF law] by (rule granted) (rule 1)
    moreover have "realises L C allowances acc cur r log (Grant key ty now end_time)"
      using True 1 log by (simp add: realises_def)
    moreover have "readable L kv'" unfolding kv' by (rule readable_update [OF law kv])
    ultimately show ?thesis by blast
  next
    case False
    from D(2,3) False have "kv' = kv" "allowed_log L acc cur kv log" by (cases r; simp add: logs_def)+
    with allowed_log_realises [OF this(2) False] kv show ?thesis by simp
  qed
qed

lemma realises_not_Ok: "realises L C allowances acc cur r log ev \<Longrightarrow> r \<noteq> Ok () \<Longrightarrow> ledger_step led ev led' \<Longrightarrow> led' = led"
  by (cases ev) (auto simp: realises_def elim: ledger_step.cases)

lemma realises_Ok:
  assumes "realises L C allowances acc cur (Ok ()) log ev"
  obtains key ty now amount end_time where "ev = Grant key ty now end_time" "account_str L acc cur = Ok key"
    "log = Clock now # payments C acc amount cur @ [Clock end_time]"
  using assms by (cases ev) (auto simp: realises_def)

section \<open>Serving requests\<close>

text \<open>
  Requests served one after the other from some store on, with the grants made: the key of the
  account, when the request was checked and when it was recorded.
\<close>

inductive serving ::
  "bool \<Rightarrow> faucet_lib \<Rightarrow> 'w faucet_calls \<Rightarrow> (account_type \<rightharpoonup> u128) \<Rightarrow> kv_store \<Rightarrow> (string \<times> int \<times> int) list \<Rightarrow> kv_store \<Rightarrow> bool"
  for oc L C allowances kv0 where
  idle: "serving oc L C allowances kv0 [] kv0"
| funded: "serving oc L C allowances kv0 gs kv \<Longrightarrow>
    atomic_faucet_funding oc L (logged_faucet C) acc cur allowances ((w, []), kv) = (Ok (), ((w', log), kv')) \<Longrightarrow>
    account_str L acc cur = Ok key \<Longrightarrow> hd log = Clock now \<Longrightarrow> last log = Clock end_time \<Longrightarrow>
    serving oc L C allowances kv0 (gs @ [(key, now, end_time)]) kv'"
| failed: "serving oc L C allowances kv0 gs kv \<Longrightarrow>
    atomic_faucet_funding oc L (logged_faucet C) acc cur allowances ((w, []), kv) = (r, ((w', log), kv')) \<Longrightarrow> r \<noteq> Ok () \<Longrightarrow>
    serving oc L C allowances kv0 gs kv'"

text \<open>The same with the types of the accounts, on the ledger.\<close>

inductive granting :: "ledger \<Rightarrow> (string \<times> account_type \<times> int \<times> int) list \<Rightarrow> ledger \<Rightarrow> bool" for led0 where
  none: "granting led0 [] led0"
| more: "granting led0 gs led \<Longrightarrow> ledger_step led (Grant key ty now end_time) led' \<Longrightarrow>
    granting led0 (gs @ [(key, ty, now, end_time)]) led'"

lemma serving_granting:
  assumes "serving oc L C allowances kv0 gs kv" and law: "rfc2822_law L" and kv0: "readable L kv0"
  shows "readable L kv \<and> (\<exists>hs. granting (ledger_of L kv0) hs (ledger_of L kv) \<and> map (\<lambda>(k, ty, n, e). (k, n, e)) hs = gs)"
  using assms(1)
proof (induction rule: serving.induct)
  case idle
  then show ?case using kv0 by (auto intro: granting.none)
next
  case (funded gs kv acc cur w w' log kv' key now end_time)
  then obtain hs where hs: "granting (ledger_of L kv0) hs (ledger_of L kv)" "map (\<lambda>(k, ty, n, e). (k, n, e)) hs = gs"
    and kv: "readable L kv" by blast
  from funding_refines [OF law kv funded.hyps(2)] obtain ev where
    kv': "readable L kv'" and step: "ledger_step (ledger_of L kv) ev (ledger_of L kv')"
    and ev: "realises L C allowances acc cur (Ok ()) log ev" by blast
  from ev obtain ty where "ev = Grant key ty now end_time"
    using funded.hyps(3-5) by (auto elim!: realises_Ok)
  with step have "granting (ledger_of L kv0) (hs @ [(key, ty, now, end_time)]) (ledger_of L kv')"
    using granting.more [OF hs(1)] by simp
  with kv' hs(2) show ?case by (intro conjI exI [of _ "hs @ [(key, ty, now, end_time)]"]) simp_all
next
  case (failed gs kv acc cur w r w' log kv')
  then have "readable L kv" by blast
  from funding_refines [OF law this failed.hyps(2)] obtain ev where
    "readable L kv'" "ledger_step (ledger_of L kv) ev (ledger_of L kv')" "realises L C allowances acc cur r log ev" by blast
  moreover from this failed.hyps(3) have "ledger_of L kv' = ledger_of L kv" by (blast intro: realises_not_Ok)
  ultimately show ?case using failed.IH by simp
qed

text \<open>The ledger holds the last grant of each key.\<close>

lemma granting_last:
  "granting led0 hs led \<Longrightarrow> i < length hs \<Longrightarrow> fst (hs ! i) = key \<Longrightarrow>
   \<exists>j. i \<le> j \<and> j < length hs \<and>
     (\<exists>ty now end_time. hs ! j = (key, ty, now, end_time) \<and> led key = Some (to_second end_time, ty))"
proof (induction rule: granting.induct)
  case none
  then show ?case by simp
next
  case (more gs led key' ty now end_time led')
  from more.hyps(2) have led': "led' = led(key' \<mapsto> (to_second end_time, ty))" by (blast elim: ledger_grantE)
  show ?case
  proof (cases "key' = key")
    case True
    with led' show ?thesis
      using more.prems by (intro exI [of _ "length gs"]) auto
  next
    case False
    with more.prems have i: "i < length gs" by (cases "i = length gs") (auto simp: nth_append)
    with more.IH more.prems obtain j where "i \<le> j" "j < length gs"
      "\<exists>ty now end_time. gs ! j = (key, ty, now, end_time) \<and> led key = Some (to_second end_time, ty)"
      by (auto simp: nth_append)
    with False led' show ?thesis by (intro exI [of _ j]) (auto simp: nth_append)
  qed
qed

text \<open>Each grant was due when it was made.\<close>

lemma granting_due:
  "granting led0 hs led \<Longrightarrow> k < length hs \<Longrightarrow> hs ! k = (key, ty, now, end_time) \<Longrightarrow>
   \<exists>led. granting led0 (take k hs) led \<and> may_fund led key ty now"
proof (induction rule: granting.induct)
  case none
  then show ?case by simp
next
  case (more gs led key' ty' now' end_time' led')
  then show ?case
    by (cases "k = length gs") (auto simp: nth_append less_Suc_eq elim: ledger_grantE)
qed

text \<open>A grant of a key after another one: the last before it has expired, or is that of a user.\<close>

lemma granting_again:
  assumes "granting led0 hs led" "i < k" "k < length hs" "hs ! k = (key, ty, now, end_time)" "fst (hs ! i) = key"
  obtains p ty' now' end' where "i \<le> p" "p < k" "hs ! p = (key, ty', now', end')"
    "to_second end' < now - hours 6 \<or> ty = Vault_account \<and> ty' = User_account"
proof -
  from granting_due [OF assms(1,3,4)] obtain led' where
    led': "granting led0 (take k hs) led'" "may_fund led' key ty now" by blast
  from granting_last [OF led'(1), of i key] assms obtain p ty' now' end' where
    "i \<le> p" "p < k" "hs ! p = (key, ty', now', end')" "led' key = Some (to_second end', ty')" by auto
  with led'(2) that show ?thesis by (auto simp: may_fund_def)
qed

lemma to_second_mono: "a \<le> b \<Longrightarrow> to_second a \<le> to_second b"
  by (simp add: to_second_def minus_mod_eq_mult_div zdiv_mono1)

lemma to_second_less: "t < to_second t + 10 ^ 9"
  by (simp add: to_second_def)

text \<open>The readings of a clock that does not go back.\<close>

primrec readings :: "(string \<times> int \<times> int) list \<Rightarrow> int list" where
  "readings [] = []"
| "readings (g # gs) = fst (snd g) # snd (snd g) # readings gs"

lemma readings_mem: "q < length gs \<Longrightarrow> fst (snd (gs ! q)) \<in> set (readings gs) \<and> snd (snd (gs ! q)) \<in> set (readings gs)"
  by (induction gs arbitrary: q) (auto simp: nth_Cons split: nat.splits)

lemma readings_sorted:
  assumes "sorted (readings gs)" "q < length gs"
  shows "p < q \<Longrightarrow> snd (snd (gs ! p)) \<le> fst (snd (gs ! q))" "p \<le> q \<Longrightarrow> fst (snd (gs ! p)) \<le> fst (snd (gs ! q))"
    "p \<le> q \<Longrightarrow> snd (snd (gs ! p)) \<le> snd (snd (gs ! q))"
  using assms
  by (induction gs arbitrary: p q) (auto simp: nth_Cons dest!: readings_mem split: nat.splits)

lemma granted_twice_in_window:
  assumes "granting led0 hs led" and "sorted (readings (map (\<lambda>(k, ty, n, e). (k, n, e)) hs))"
    and "i < j" "j < k" "k < length hs"
    and "hs ! i = (key, ty1, now1, end1)" "hs ! j = (key, ty2, now2, end2)" "hs ! k = (key, ty3, now3, end3)"
  shows "to_second end1 < now3 - hours 6"
proof -
  let ?gs = "map (\<lambda>(k, ty, n, e). (k, n, e)) hs"
  note order = readings_sorted [OF assms(2), unfolded length_map]
  have "fst (hs ! i) = key" "fst (hs ! j) = key" by (simp_all add: assms(6,7))
  note again = granting_again [OF assms(1)]
  from again [OF \<open>j < k\<close> \<open>k < length hs\<close> assms(8) \<open>fst (hs ! j) = key\<close>] obtain p ty' now' end' where
    p: "j \<le> p" "p < k" "hs ! p = (key, ty', now', end')"
    and or3: "to_second end' < now3 - hours 6 \<or> ty3 = Vault_account \<and> ty' = User_account" .
  from order(3) [of p i] p assms(3-6) have e1: "to_second end1 \<le> to_second end'" by (auto intro!: to_second_mono)
  from or3 show ?thesis
  proof
    assume "to_second end' < now3 - hours 6"
    with e1 show ?thesis by simp
  next
    assume "ty3 = Vault_account \<and> ty' = User_account"
    then have ty': "ty' \<noteq> Vault_account" by simp
    have "i < p" "p < length hs" using p assms(3-5) by simp_all
    from again [OF this p(3) \<open>fst (hs ! i) = key\<close>] obtain q ty'' now'' end'' where
      q: "i \<le> q" "q < p" "hs ! q = (key, ty'', now'', end'')"
      and "to_second end'' < now' - hours 6 \<or> ty' = Vault_account \<and> ty'' = User_account" .
    with ty' have q4: "to_second end'' < now' - hours 6" by simp
    from order(3) [of q i] q p assms(3-6) have "to_second end1 \<le> to_second end''" by (auto intro!: to_second_mono)
    moreover from order(2) [of k p] p assms(5,8) have "now' \<le> now3" by simp
    ultimately show ?thesis using q4 by simp
  qed
qed

text \<open>Dates written in seconds, and a faucet whose parachain and clock are given, for the witnesses.\<close>

definition demo_write :: "int \<Rightarrow> string" where
  "demo_write t = (if t < 0 then CHR ''-'' # replicate (nat (- (t div 10 ^ 9))) CHR ''x'' else replicate (nat (t div 10 ^ 9)) CHR ''x'')"

definition demo_read :: "string \<Rightarrow> (int, ext_error) result" where
  "demo_read s = Ok (if s \<noteq> [] \<and> hd s = CHR ''-'' then - (int (length s) - 1) * 10 ^ 9 else int (length s) * 10 ^ 9)"

lemma demo_read_write [simp]: "demo_read (demo_write t) = Ok (to_second t)"
proof (cases "t < 0")
  case True
  then have "t div 10 ^ 9 \<le> 0" by (simp add: div_nonpos_pos_le0)
  with True show ?thesis by (simp add: demo_read_def demo_write_def to_second_def minus_mod_eq_div_mult)
next
  case False
  then have "0 \<le> t div 10 ^ 9" by (simp add: pos_imp_zdiv_nonneg_iff)
  with False show ?thesis
    by (cases "nat (t div 10 ^ 9)") (auto simp: demo_read_def demo_write_def to_second_def minus_mod_eq_div_mult)
qed

definition demo_faucet_lib :: faucet_lib where
  "demo_faucet_lib = \<lparr>fl_account_string = (\<lambda>_. ''a''),
     fl_tokens = \<lparr>tk_symbol = (\<lambda>_. ''T''), tk_name = (\<lambda>_. ''T''), tk_decimals = (\<lambda>_. 0), tk_upper = id, tk_lower = id\<rparr>, fl_one = (\<lambda>_. 1),
     fl_to_rfc2822 = demo_write, fl_parse_rfc2822 = demo_read, fl_min_datetime = - (10 ^ 20),
     fl_one_param = Ok, fl_from_hex = (\<lambda>s. Ok (map (of_nat \<circ> of_char) s)),
     fl_decode_request = (\<lambda>b. Ok \<lparr>fa_account_id = b, fa_currency_id = Token DOT\<rparr>)\<rparr>"

text \<open>The world: the readings of the clock to come, and whether the account has a vault.\<close>

definition demo_faucet :: "(int list \<times> bool) faucet_calls" where
  "demo_faucet = \<lparr>fc_native_currency_id = Token INTR,
     fc_get_free_balance_for_id = (\<lambda>a c. a_ret 0), fc_get_reserved_balance_for_id = (\<lambda>a c. a_ret 0),
     fc_get_vaults_by_account_id = (\<lambda>a w. (Ok (if snd w
        then [vault_id_new a (Token DOT) (Token IBTC)] else []), w)),
     fc_transfer_to = (\<lambda>a x c. a_ret ()), fc_block_hash_within = (\<lambda>t w. (None, w)),
     fc_now = (\<lambda>w. (hd (fst w), (tl (fst w), snd w))), fc_kv_io = a_ret ()\<rparr>"

abbreviation demo_request ::
  "kv_store \<Rightarrow> int \<times> int \<Rightarrow> bool \<Rightarrow> (unit, faucet_error) result \<times> (((int list \<times> bool) \<times> faucet_event list) \<times> kv_store)" where
  "demo_request kv ts v \<equiv> atomic_faucet_funding True demo_faucet_lib (logged_faucet demo_faucet) [] (Token DOT)
     [User_account \<mapsto> 1, Vault_account \<mapsto> 2] ((([fst ts, snd ts], v), []), kv)"

lemma demo_law: "rfc2822_law demo_faucet_lib"
  by (simp add: rfc2822_law_def demo_faucet_lib_def)

lemma demo_facts:
  "account_str demo_faucet_lib [] (Token DOT) = Ok ''a-T''" "check_balance True demo_faucet_lib 0 0 (Token DOT) = Ok ()"
  "faucet_amount demo_faucet_lib [User_account \<mapsto> 1, Vault_account \<mapsto> 2] ty (Token DOT) = Ok (if ty = Vault_account then 2 else 1)"
  "fl_to_rfc2822 demo_faucet_lib = demo_write"
  by (cases ty; simp add: account_str_def check_balance_def faucet_amount_def one_of_def currency_inner_def demo_faucet_lib_def
      plain_add_def plain_mul_def checked_add_def checked_mul_def MAX_FUNDABLE_CLIENT_BALANCE_def)+

lemma demo_cooldown:
  assumes "may_fund (ledger_of demo_faucet_lib kv) key ty t" "0 \<le> t" "readable demo_faucet_lib kv"
  shows "check_cooldown demo_faucet_lib t (kv key) ty = Ok ()"
  using assms
  by (auto simp: check_cooldown_def Let_def may_fund_def ledger_of_def has_request_expired_def is_type_and_was_user_def
      FAUCET_COOLDOWN_HOURS_def hours_def readable_def ran_def demo_faucet_lib_def is_ok_iff split: option.splits)

lemma demo_check:
  assumes "may_fund (ledger_of demo_faucet_lib kv) ''a-T'' (if v then Vault_account else User_account) t"
    and "0 \<le> t" "readable demo_faucet_lib kv"
  shows "check_funding True demo_faucet_lib (logged_faucet demo_faucet) [] (Token DOT) (((t # ts, v), l), kv) =
    (Ok (''a-T'', if v then Vault_account else User_account), (((ts, v), l @ [Clock t]), kv))"
proof (cases v)
  case True
  with demo_cooldown [OF assms] show ?thesis
    by (simp add: demo_facts check_funding_def kv_get_def kv_io_def get_account_type_def ensure_funding_allowed_def
        read_clock_def action_defs state_defs logged_faucet_def demo_faucet_def)
next
  case False
  with demo_cooldown [OF assms] show ?thesis
    by (simp add: demo_facts check_funding_def kv_get_def kv_io_def get_account_type_def ensure_funding_allowed_def
        read_clock_def action_defs state_defs logged_faucet_def demo_faucet_def)
qed

lemma demo_pay:
  "pay_and_record demo_faucet_lib (logged_faucet demo_faucet) [User_account \<mapsto> 1, Vault_account \<mapsto> 2] [] (Token DOT)
     (key, if v then Vault_account else User_account) (((t # ts, v), l), kv) =
   (Ok (), (((ts, v), l @ [Transfer [] (if v then 2 else 1) (Token DOT), Transfer [] (if v then 2 else 1) (Token INTR), Clock t]),
     kv(key \<mapsto> \<lparr>fr_datetime = demo_write t, fr_account_type = (if v then Vault_account else User_account)\<rparr>)))"
  by (cases v) (simp_all add: demo_facts pay_and_record_def kv_io_def update_kv_store_def transfer_funds_def read_clock_def
      log_result_def action_defs state_defs logged_faucet_def demo_faucet_def)

lemma demo_request_runs:
  assumes "may_fund (ledger_of demo_faucet_lib kv) ''a-T'' (if v then Vault_account else User_account) t1"
    and "0 \<le> t1" "readable demo_faucet_lib kv"
  shows "demo_request kv (t1, t2) v = (Ok (), (((([], v),
      [Clock t1, Transfer [] (if v then 2 else 1) (Token DOT), Transfer [] (if v then 2 else 1) (Token INTR), Clock t2]),
      kv(''a-T'' \<mapsto> \<lparr>fr_datetime = demo_write t2, fr_account_type = (if v then Vault_account else User_account)\<rparr>))))"
  by (simp add: atomic_faucet_funding_def a_bind_def a_match_def demo_check [OF assms] demo_pay)

text \<open>
  C10. A request to the faucet refines a step of a ledger of grants: a request that is served grants
  funds to an account whose last grant, if any, is more than six hours past (or was made to the
  account as a user, where it is a vault by now), transfers exactly the allowance of its type, once
  in the currency asked for and once in the native currency if that is another, and writes the
  grant into the ledger; a request that is not served leaves the ledger alone, and either no
  transfer was tried at all or the account was due.
\<close>

theorem faucet_refines_ledger:
  assumes "rfc2822_law L" "readable L kv"
    and "atomic_faucet_funding oc L (logged_faucet C) acc cur allowances ((w, []), kv) = (r, ((w', log), kv'))"
  shows "readable L kv' \<and> (\<exists>ev. ledger_step (ledger_of L kv) ev (ledger_of L kv') \<and> realises L C allowances acc cur r log ev)"
  using assms by (rule funding_refines)

lemma faucet_refines_ledger_witness:
  "\<exists>ev. ledger_step (ledger_of demo_faucet_lib Map.empty) ev
       ((ledger_of demo_faucet_lib Map.empty)(''a-T'' \<mapsto> (to_second (2 * 10 ^ 9), User_account)))
     \<and> realises demo_faucet_lib demo_faucet [User_account \<mapsto> 1, Vault_account \<mapsto> 2] [] (Token DOT) (Ok ())
         [Clock 0, Transfer [] 1 (Token DOT), Transfer [] 1 (Token INTR), Clock (2 * 10 ^ 9)] ev"
proof -
  have due: "may_fund (ledger_of demo_faucet_lib Map.empty) ''a-T'' (if False then Vault_account else User_account) 0"
    and readable: "readable demo_faucet_lib Map.empty"
    by (simp_all add: may_fund_def ledger_of_def readable_def)
  from demo_request_runs [OF due order_refl readable, of "2 * 10 ^ 9"]
  have run: "demo_request Map.empty (0, 2 * 10 ^ 9) False = (Ok (), ((([], False),
      [Clock 0, Transfer [] 1 (Token DOT), Transfer [] 1 (Token INTR), Clock (2 * 10 ^ 9)]),
      [''a-T'' \<mapsto> \<lparr>fr_datetime = fl_to_rfc2822 demo_faucet_lib (2 * 10 ^ 9), fr_account_type = User_account\<rparr>]))"
    by (simp add: demo_faucet_lib_def)
  from faucet_refines_ledger [OF demo_law readable run] show ?thesis
    by (simp add: ledger_of_update [OF demo_law])
qed

text \<open>Each request of the witness that is due is served.\<close>

lemma demo_serving:
  assumes "serving True demo_faucet_lib demo_faucet [User_account \<mapsto> 1, Vault_account \<mapsto> 2] Map.empty gs kv"
    and "readable demo_faucet_lib kv" "0 \<le> t1"
    and "may_fund (ledger_of demo_faucet_lib kv) ''a-T'' (if v then Vault_account else User_account) t1"
    and "kv' = kv(''a-T'' \<mapsto> \<lparr>fr_datetime = fl_to_rfc2822 demo_faucet_lib t2,
      fr_account_type = (if v then Vault_account else User_account)\<rparr>)"
  shows "serving True demo_faucet_lib demo_faucet [User_account \<mapsto> 1, Vault_account \<mapsto> 2] Map.empty (gs @ [(''a-T'', t1, t2)]) kv'"
proof -
  from demo_request_runs [OF assms(4,3,2), of t2] assms(5) have
    run: "demo_request kv (t1, t2) v = (Ok (), ((([], v),
      [Clock t1, Transfer [] (if v then 2 else 1) (Token DOT), Transfer [] (if v then 2 else 1) (Token INTR), Clock t2]), kv'))"
    by (simp add: demo_faucet_lib_def)
  show ?thesis
    by (rule serving.funded [OF assms(1) run]) (simp_all add: account_str_def currency_inner_def demo_faucet_lib_def)
qed



text \<open>
  The bound is that of requests served one after the other: \<open>atomic_faucet_funding\<close> is not
  atomic. Two requests of one account that are both checked before either is recorded are both
  paid, within a second of each other; the store is left with the second.
\<close>

theorem concurrent_requests_both_paid:
  "(let check = check_funding True demo_faucet_lib (logged_faucet demo_faucet) [] (Token DOT);
        pay = pay_and_record demo_faucet_lib (logged_faucet demo_faucet) [User_account \<mapsto> 1, Vault_account \<mapsto> 2] [] (Token DOT)
    in a_bind check (\<lambda>kt1. a_bind check (\<lambda>kt2. a_bind (pay kt1) (\<lambda>_. pay kt2)))) ((([0, 1, 2, 3], False), []), Map.empty) =
   (Ok (), ((([], False), [Clock 0, Clock 1, Transfer [] 1 (Token DOT), Transfer [] 1 (Token INTR), Clock 2,
       Transfer [] 1 (Token DOT), Transfer [] 1 (Token INTR), Clock 3]),
     [''a-T'' \<mapsto> \<lparr>fr_datetime = demo_write 3, fr_account_type = User_account\<rparr>]))"
proof -
  have "readable demo_faucet_lib Map.empty" "may_fund (ledger_of demo_faucet_lib Map.empty) ''a-T'' ty t" for ty t
    by (simp_all add: may_fund_def ledger_of_def readable_def)
  note check = demo_check [OF this(2) _ this(1), where v = False] and pay = demo_pay [where v = False]
  show ?thesis
    by (simp add: Let_def a_bind_def a_match_def check [unfolded if_False] pay [unfolded if_False])
qed

end
