(* ===== verification/Oracle.thy ===== *)
theory Oracle
  imports Pallets ActionLogic
begin

text \<open>
  The oracle: prices of currency pairs from several feeds over configured routes, their median, and
  their submission to the parachain (\<open>oracle/src/\<close>). The numbers \<open>f64\<close> are any type with \<open>*\<close>, \<open>/\<close>
  and numerals; what is proved of prices takes the rounding of these operations as a parameter.
  HTTP, URLs, JSON, the median, fixed-point numbers and the lowercase table of Unicode are
  libraries: the record \<open>oracle_lib\<close>.
\<close>

section \<open>Errors\<close>

datatype feed_name = Kraken | GateIo | CoinGecko | Dia

text \<open>\<open>derive(PartialOrd, Ord)\<close>: the order of the declaration.\<close>

fun feed_rank :: "feed_name \<Rightarrow> nat" where
  "feed_rank Kraken = 0"
| "feed_rank GateIo = 1"
| "feed_rank CoinGecko = 2"
| "feed_rank Dia = 3"

lemma feed_rank_inj: "feed_rank a = feed_rank b \<Longrightarrow> a = b"
  by (cases a; cases b) simp_all

instantiation feed_name :: linorder
begin

definition less_eq_feed_name :: "feed_name \<Rightarrow> feed_name \<Rightarrow> bool" where
  "less_eq_feed_name a b \<longleftrightarrow> feed_rank a \<le> feed_rank b"

definition less_feed_name :: "feed_name \<Rightarrow> feed_name \<Rightarrow> bool" where
  "less_feed_name a b \<longleftrightarrow> feed_rank a < feed_rank b"

instance
  by standard (auto simp: less_eq_feed_name_def less_feed_name_def dest: feed_rank_inj)

end

record currency_pair =
  cp_base :: string
  cp_quote :: string

datatype config_error = NoStart | NoEnd | NoPath currency_pair currency_pair

record price_config_error =
  pe_feed :: feed_name
  pe_pair :: currency_pair
  pe_error :: config_error

datatype oracle_error =
    Oe_Shutdown | Oe_InvalidResponse | Oe_InvalidExchangeRate | Oe_InvalidCurrency
  | Oe_InvalidConfig price_config_error | Oe_NotConfigured feed_name | Oe_InvalidDiaSymbol
  | Oe_ReqwestError ext_error | Oe_RuntimeError runtime_error | Oe_SubxtError subxt_error
  | Oe_ParseIntError ext_error | Oe_ParseFloatError ext_error | Oe_SerdeJsonError ext_error | Oe_IoError ext_error

section \<open>Currency pairs\<close>

text \<open>The part of a currency before the first \<open>=\<close>.\<close>

definition strip :: "string \<Rightarrow> string" where "strip x = takeWhile (\<lambda>c. c \<noteq> CHR ''='') x"

definition pair_contains :: "currency_pair \<Rightarrow> string \<Rightarrow> bool" where
  "pair_contains p currency \<longleftrightarrow> strip (cp_base p) = strip currency \<or> strip (cp_quote p) = strip currency"

definition has_shared :: "currency_pair \<Rightarrow> currency_pair \<Rightarrow> bool" where
  "has_shared p q \<longleftrightarrow> pair_contains p (cp_base q) \<or> pair_contains p (cp_quote q)"

definition pair_invert :: "currency_pair \<Rightarrow> currency_pair" where
  "pair_invert p = \<lparr>cp_base = cp_quote p, cp_quote = cp_base p\<rparr>"

record 'p pair_and_price =
  pp_pair :: currency_pair
  pp_price :: 'p

definition rate_invert :: "'p::{numeral,times,inverse} \<Rightarrow> 'p" where "rate_invert x = 1 / x"

definition price_invert :: "'p::{numeral,times,inverse} pair_and_price \<Rightarrow> 'p pair_and_price" where
  "price_invert x = \<lparr>pp_pair = pair_invert (pp_pair x), pp_price = rate_invert (pp_price x)\<rparr>"

definition price_reduce :: "'p::{numeral,times,inverse} pair_and_price \<Rightarrow> 'p pair_and_price \<Rightarrow> 'p pair_and_price" where
  "price_reduce x y =
     (case (if cp_quote (pp_pair x) = cp_quote (pp_pair y) then (x, price_invert y)
            else if cp_base (pp_pair x) = cp_base (pp_pair y) then (price_invert x, y)
            else if cp_base (pp_pair x) = cp_quote (pp_pair y) then (price_invert x, price_invert y)
            else (x, y)) of
       (left, right) \<Rightarrow>
         \<lparr>pp_pair = \<lparr>cp_base = cp_base (pp_pair left), cp_quote = cp_quote (pp_pair right)\<rparr>,
          pp_price = pp_price left * pp_price right\<rparr>)"

section \<open>Configuration\<close>

record currency_config =
  cc_name :: string
  cc_decimals :: u32

type_synonym currency_store = "string \<rightharpoonup> currency_config"

definition store_name :: "currency_store \<Rightarrow> string \<Rightarrow> (string, oracle_error) result" where
  "store_name S i = rbind (ok_or Oe_InvalidCurrency (S i)) (\<lambda>c. Ok (cc_name c))"

definition store_symbol :: "currency_store \<Rightarrow> string \<Rightarrow> (string, oracle_error) result" where
  "store_symbol S i = Ok i"

definition store_decimals :: "currency_store \<Rightarrow> string \<Rightarrow> (u32, oracle_error) result" where
  "store_decimals S i = rbind (ok_or Oe_InvalidCurrency (S i)) (\<lambda>c. Ok (cc_decimals c))"

text \<open>The feeds of a price, a \<open>BTreeMap\<close>, are listed in the order of their names.\<close>

record 'p price_config =
  pc_pair :: currency_pair
  pc_value :: "'p option"
  pc_feeds :: "(feed_name \<times> currency_pair list) list"

record 'p oracle_config =
  og_currencies :: currency_store
  og_prices :: "'p price_config list"

definition validate_route :: "currency_pair \<Rightarrow> feed_name \<times> currency_pair list \<Rightarrow> (unit, price_config_error) result" where
  "validate_route pair = (\<lambda>(name, path).
     let err = (\<lambda>e. \<lparr>pe_feed = name, pe_pair = pair, pe_error = e\<rparr>) in
     rbind (case path of
         first # _ \<Rightarrow>
           if pair_contains first (cp_base pair) then Ok (cp_quote pair)
           else if pair_contains first (cp_quote pair) then Ok (cp_base pair)
           else Err (err NoStart)
       | [] \<Rightarrow> Err (err NoStart)) (\<lambda>end_currency.
     rbind (if path \<noteq> [] \<and> pair_contains (last path) end_currency then Ok () else Err (err NoEnd)) (\<lambda>_.
     case find (\<lambda>(left, right). \<not> has_shared left right) (zip path (tl path)) of
       Some (left, right) \<Rightarrow> Err (err (NoPath left right))
     | None \<Rightarrow> Ok ())))"

fun validate_routes :: "currency_pair \<Rightarrow> (feed_name \<times> currency_pair list) list \<Rightarrow> (unit, price_config_error) result" where
  "validate_routes pair [] = Ok ()"
| "validate_routes pair (route # routes) = rbind (validate_route pair route) (\<lambda>_. validate_routes pair routes)"

definition validate :: "'p price_config \<Rightarrow> (unit, price_config_error) result" where
  "validate c = validate_routes (pc_pair c) (pc_feeds c)"

section \<open>Libraries\<close>

record ('w, 'u, 'j, 'p) oracle_lib =
  ol_get :: "'u \<Rightarrow> ('w, 'j, ext_error) action"
  ol_path :: "'u \<Rightarrow> string"
  ol_set_path :: "string \<Rightarrow> 'u \<Rightarrow> 'u"
  ol_set_query :: "string option \<Rightarrow> 'u \<Rightarrow> 'u"
  ol_append_pair :: "string \<Rightarrow> string \<Rightarrow> 'u \<Rightarrow> 'u"
  ol_field :: "'j \<Rightarrow> string \<Rightarrow> 'j option"
  ol_index :: "'j \<Rightarrow> nat \<Rightarrow> 'j option"
  ol_as_f64 :: "'j \<Rightarrow> 'p option"
  ol_as_str :: "'j \<Rightarrow> string option"
  ol_as_object :: "'j \<Rightarrow> (string \<times> 'j) list option"
  ol_as_array :: "'j \<Rightarrow> 'j list option"
  ol_parse_f64 :: "string \<Rightarrow> ('p, ext_error) result"
  ol_median :: "'p list \<Rightarrow> 'p"
  ol_from_float :: "'p \<Rightarrow> u128"
  ol_from_rational :: "u128 \<Rightarrow> u128 \<Rightarrow> u128 option"
  ol_fixed_mul :: "u128 \<Rightarrow> u128 \<Rightarrow> u128 option"
  ol_lower :: "string \<Rightarrow> string"

text \<open>\<open>10_u128.pow(n)\<close>, a plain operation.\<close>

definition pow10 :: "bool \<Rightarrow> u32 \<Rightarrow> (u128, 'e) result" where
  "pow10 oc n = (if oc \<and> 10 ^ unat n \<ge> (2 :: nat) ^ 128 then Panic else Ok (10 ^ unat n))"

text \<open>The price for the smallest units, as a fixed-point number.\<close>

definition exchange_rate ::
  "bool \<Rightarrow> ('w, 'u, 'j, 'p) oracle_lib \<Rightarrow> 'p pair_and_price \<Rightarrow> currency_store \<Rightarrow> (u128, oracle_error) result" where
  "exchange_rate oc L x S =
     rbind (rbind (store_decimals S (cp_quote (pp_pair x))) (pow10 oc)) (\<lambda>quote_unit.
     rbind (rbind (store_decimals S (cp_base (pp_pair x))) (pow10 oc)) (\<lambda>base_unit.
     rbind (ok_or Oe_InvalidExchangeRate (ol_from_rational L quote_unit base_unit)) (\<lambda>scale.
     ok_or Oe_InvalidExchangeRate (ol_fixed_mul L (ol_from_float L (pp_price x)) scale))))"

definition get_http :: "('w, 'u, 'j, 'p) oracle_lib \<Rightarrow> 'u \<Rightarrow> ('w, 'j, oracle_error) action" where
  "get_http L url = a_map_err Oe_ReqwestError (ol_get L url)"

section \<open>Price feeds\<close>

type_synonym ('w, 'p) price_feed = "currency_pair \<Rightarrow> currency_store \<Rightarrow> ('w, 'p pair_and_price, oracle_error) action"

text \<open>The end of every feed: the price that was asked for.\<close>

definition quote_of :: "currency_pair \<Rightarrow> ('p, oracle_error) result \<Rightarrow> ('w, 'p pair_and_price, oracle_error) action" where
  "quote_of pair price = a_bind (a_lift price) (\<lambda>p. a_ret \<lparr>pp_pair = pair, pp_price = p\<rparr>)"

definition COINGECKO_API_KEY_PARAMETER :: string where "COINGECKO_API_KEY_PARAMETER = ''x_cg_pro_api_key''"

record 'u coingecko_cli =
  cg_url :: "'u option"
  cg_api_key :: "string option"

record 'u coingecko_api =
  ca_url :: 'u
  ca_api_key :: "string option"

definition coingecko_from_opts :: "'u coingecko_cli \<Rightarrow> 'u coingecko_api option" where
  "coingecko_from_opts opts = (case cg_url opts of
      Some url \<Rightarrow> (let api = \<lparr>ca_url = url, ca_api_key = None\<rparr>
                   in Some (case cg_api_key opts of Some key \<Rightarrow> api\<lparr>ca_api_key := Some key\<rparr> | None \<Rightarrow> api))
    | None \<Rightarrow> None)"

definition coingecko_extract :: "('w, 'u, 'j, 'p) oracle_lib \<Rightarrow> 'j \<Rightarrow> string \<Rightarrow> string \<Rightarrow> 'p option" where
  "coingecko_extract L v base quote =
     Option.bind (ol_field L v base) (\<lambda>x. Option.bind (ol_field L x quote) (ol_as_f64 L))"

definition coingecko_url ::
  "('w, 'u, 'j, 'p) oracle_lib \<Rightarrow> 'u coingecko_api \<Rightarrow> string \<Rightarrow> string \<Rightarrow> 'u" where
  "coingecko_url L api base quote =
     (let url = ol_set_path L (ol_path L (ca_url api) @ ''/simple/price'') (ca_url api);
          url = ol_set_query L (Some (''ids='' @ base @ ''&vs_currencies='' @ quote)) url
      in case ca_api_key api of Some key \<Rightarrow> ol_append_pair L COINGECKO_API_KEY_PARAMETER key url | None \<Rightarrow> url)"

definition coingecko_get_price :: "('w, 'u, 'j, 'p) oracle_lib \<Rightarrow> 'u coingecko_api \<Rightarrow> ('w, 'p) price_feed" where
  "coingecko_get_price L api pair S =
     a_bind (a_lift (store_name S (cp_base pair))) (\<lambda>name.
     a_bind (a_lift (store_symbol S (cp_quote pair))) (\<lambda>symbol.
     let base = to_lowercase (ol_lower L) name; quote = to_lowercase (ol_lower L) symbol in
     a_bind (get_http L (coingecko_url L api base quote)) (\<lambda>data.
     quote_of pair (ok_or Oe_InvalidResponse (coingecko_extract L data base quote)))))"

text \<open>\<open>split('=').nth(1)\<close>: what is between the first two \<open>=\<close>.\<close>

definition after_eq :: "string \<Rightarrow> string option" where
  "after_eq s = (case dropWhile (\<lambda>c. c \<noteq> CHR ''='') s of [] \<Rightarrow> None | _ # rest \<Rightarrow> Some (strip rest))"

definition dia_extract :: "('w, 'u, 'j, 'p) oracle_lib \<Rightarrow> 'j \<Rightarrow> 'p option" where
  "dia_extract L v = Option.bind (ol_field L v ''Price'') (ol_as_f64 L)"

definition dia_get_price :: "('w, 'u, 'j, 'p) oracle_lib \<Rightarrow> 'u \<Rightarrow> ('w, 'p) price_feed" where
  "dia_get_price L api_url pair S =
     (if cp_base pair \<noteq> ''USD'' then a_err Oe_InvalidDiaSymbol
      else a_bind (a_lift (ok_or Oe_InvalidDiaSymbol (after_eq (cp_quote pair)))) (\<lambda>token_path.
        a_bind (get_http L (ol_set_path L (ol_path L api_url @ ''/assetQuotation/'' @ token_path) api_url)) (\<lambda>data.
        quote_of pair (ok_or Oe_InvalidResponse (dia_extract L data)))))"

definition gateio_extract :: "('w, 'u, 'j, 'p) oracle_lib \<Rightarrow> 'j \<Rightarrow> string option" where
  "gateio_extract L v = Option.bind (ol_index L v 0) (\<lambda>x. Option.bind (ol_field L x ''last'') (ol_as_str L))"

definition gateio_get_price :: "('w, 'u, 'j, 'p) oracle_lib \<Rightarrow> 'u \<Rightarrow> ('w, 'p) price_feed" where
  "gateio_get_price L api_url pair S =
     (let url = ol_set_path L (ol_path L api_url @ ''/spot/tickers'') api_url in
      a_bind (a_lift (store_symbol S (cp_base pair))) (\<lambda>base.
      a_bind (a_lift (store_symbol S (cp_quote pair))) (\<lambda>quote.
      a_bind (get_http L (ol_set_query L (Some (''currency_pair='' @ base @ ''_'' @ quote)) url)) (\<lambda>data.
      quote_of pair (rbind (ok_or Oe_InvalidResponse (gateio_extract L data))
        (\<lambda>s. map_err Oe_ParseFloatError (ol_parse_f64 L s)))))))"

definition kraken_extract :: "('w, 'u, 'j, 'p) oracle_lib \<Rightarrow> 'j \<Rightarrow> string option" where
  "kraken_extract L v =
     Option.bind (ol_field L v ''result'') (\<lambda>x.
     Option.bind (ol_as_object L x) (\<lambda>entries.
     Option.bind (if entries = [] then None else Some (last entries)) (\<lambda>entry.
     Option.bind (ol_field L (snd entry) ''p'') (\<lambda>x.
     Option.bind (ol_as_array L x) (\<lambda>items.
     Option.bind (if items = [] then None else Some (hd items)) (ol_as_str L))))))"

definition kraken_get_price :: "('w, 'u, 'j, 'p) oracle_lib \<Rightarrow> 'u \<Rightarrow> ('w, 'p) price_feed" where
  "kraken_get_price L api_url pair S =
     a_bind (a_lift (store_symbol S (cp_base pair))) (\<lambda>base.
     a_bind (a_lift (store_symbol S (cp_quote pair))) (\<lambda>quote.
     let url = ol_set_path L (ol_path L api_url @ ''/public/Ticker'') api_url in
     a_bind (get_http L (ol_set_query L (Some (''pair='' @ base @ quote)) url)) (\<lambda>data.
     quote_of pair (rbind (ok_or Oe_InvalidResponse (kraken_extract L data))
       (\<lambda>s. map_err Oe_ParseFloatError (ol_parse_f64 L s))))))"

section \<open>All feeds of a price\<close>

record ('w, 'p) price_feeds =
  pf_currency_store :: currency_store
  pf_feeds :: "(feed_name \<times> ('w, 'p) price_feed) list"

definition price_feeds_new :: "currency_store \<Rightarrow> ('w, 'p) price_feeds" where
  "price_feeds_new S = \<lparr>pf_currency_store = S, pf_feeds = []\<rparr>"

text \<open>\<open>maybe_add_coingecko\<close> and its siblings: a feed is there when its URL is given.\<close>

definition maybe_add :: "feed_name \<Rightarrow> ('w, 'p) price_feed option \<Rightarrow> ('w, 'p) price_feeds \<Rightarrow> ('w, 'p) price_feeds" where
  "maybe_add name api F = (case api of
      Some feed \<Rightarrow> F\<lparr>pf_feeds := btree_insert (\<le>) name feed (pf_feeds F)\<rparr>
    | None \<Rightarrow> F)"

definition maybe_add_coingecko ::
  "('w, 'u, 'j, 'p) oracle_lib \<Rightarrow> 'u coingecko_cli \<Rightarrow> ('w, 'p) price_feeds \<Rightarrow> ('w, 'p) price_feeds" where
  "maybe_add_coingecko L opts = maybe_add CoinGecko (map_option (coingecko_get_price L) (coingecko_from_opts opts))"

definition maybe_add_dia :: "('w, 'u, 'j, 'p) oracle_lib \<Rightarrow> 'u option \<Rightarrow> ('w, 'p) price_feeds \<Rightarrow> ('w, 'p) price_feeds" where
  "maybe_add_dia L dia_url = maybe_add Dia (map_option (dia_get_price L) dia_url)"

definition maybe_add_gateio :: "('w, 'u, 'j, 'p) oracle_lib \<Rightarrow> 'u option \<Rightarrow> ('w, 'p) price_feeds \<Rightarrow> ('w, 'p) price_feeds" where
  "maybe_add_gateio L gateio_url = maybe_add GateIo (map_option (gateio_get_price L) gateio_url)"

definition maybe_add_kraken :: "('w, 'u, 'j, 'p) oracle_lib \<Rightarrow> 'u option \<Rightarrow> ('w, 'p) price_feeds \<Rightarrow> ('w, 'p) price_feeds" where
  "maybe_add_kraken L kraken_url = maybe_add Kraken (map_option (kraken_get_price L) kraken_url)"

text \<open>\<open>join_all(..).await.into_iter().collect()\<close>\<close>

definition join_collect :: "('w, 'a, 'e) action list \<Rightarrow> ('w, 'a list, 'e) action" where
  "join_collect ms w = (case join_all ms w of (rs, w') \<Rightarrow> (collect rs, w'))"

text \<open>\<open>Iterator::reduce\<close>\<close>

fun reduce_all :: "('a \<Rightarrow> 'a \<Rightarrow> 'a) \<Rightarrow> 'a list \<Rightarrow> 'a option" where
  "reduce_all f [] = None"
| "reduce_all f (x # xs) = Some (foldl f x xs)"

text \<open>One feed: the prices along its route, combined, and turned round if they start with the quote.\<close>

definition route_price ::
  "currency_store \<Rightarrow> currency_pair \<Rightarrow> ('w, 'p::{numeral,times,inverse}) price_feed \<Rightarrow> currency_pair list
    \<Rightarrow> ('w, 'p pair_and_price option, oracle_error) action" where
  "route_price S pair feed route =
     a_bind (join_collect (map (\<lambda>p. feed p S) route)) (\<lambda>prices.
     a_ret (case reduce_all price_reduce prices of
         None \<Rightarrow> None
       | Some x \<Rightarrow> Some (if cp_base (pp_pair x) \<noteq> cp_base pair then price_invert x else x)))"

definition find_feed ::
  "('w, 'p) price_feeds \<Rightarrow> feed_name \<times> currency_pair list
    \<Rightarrow> (feed_name \<times> currency_pair list \<times> ('w, 'p) price_feed, oracle_error) result" where
  "find_feed F = (\<lambda>(name, route). case map_of (pf_feeds F) name of
      Some feed \<Rightarrow> Ok (name, route, feed) | None \<Rightarrow> Err (Oe_NotConfigured name))"

definition get_prices ::
  "('w, 'p::{numeral,times,inverse}) price_feeds \<Rightarrow> 'p price_config \<Rightarrow> ('w, 'p pair_and_price list, oracle_error) action" where
  "get_prices F c =
     a_bind (a_lift (collect (map (find_feed F) (pc_feeds c)))) (\<lambda>feeds.
     a_bind (join_collect (map (\<lambda>(name, route, feed). route_price (pf_currency_store F) (pc_pair c) feed route) feeds)) (\<lambda>prices.
     a_ret (List.map_filter id prices)))"

definition get_value_or_median ::
  "('w, 'u, 'j, 'p) oracle_lib \<Rightarrow> ('w, 'p::{numeral,times,inverse}) price_feeds \<Rightarrow> 'p price_config
    \<Rightarrow> ('w, 'p pair_and_price, oracle_error) action" where
  "get_value_or_median L F c =
     a_bind (case pc_value c of
         Some v \<Rightarrow> a_ret v
       | None \<Rightarrow> a_bind (get_prices F c) (\<lambda>prices. a_ret (ol_median L (map pp_price prices)))) (\<lambda>price.
     a_ret \<lparr>pp_pair = pc_pair c, pp_price = price\<rparr>)"

section \<open>Bitcoin fees\<close>

type_synonym ('w, 'p) bitcoin_feed = "u32 \<Rightarrow> ('w, 'p, oracle_error) action"

definition blockcypher_get_fee_estimate :: "('w, 'u, 'j, 'p::{numeral,times,inverse}) oracle_lib \<Rightarrow> 'u \<Rightarrow> ('w, 'p) bitcoin_feed" where
  "blockcypher_get_fee_estimate L url confirmation_target =
     (let attribute = (if 1 \<le> confirmation_target \<and> confirmation_target \<le> 2 then ''high_fee_per_kb''
            else if 3 \<le> confirmation_target \<and> confirmation_target \<le> 6 then ''medium_fee_per_kb''
            else ''low_fee_per_kb'')
      in a_bind (get_http L url) (\<lambda>data.
         a_bind (a_lift (ok_or Oe_InvalidResponse (Option.bind (ol_field L data attribute) (ol_as_f64 L)))) (\<lambda>fee_estimate.
         a_ret (fee_estimate / 1000))))"

definition blockstream_get_fee_estimate :: "('w, 'u, 'j, 'p) oracle_lib \<Rightarrow> (u32 \<Rightarrow> string) \<Rightarrow> 'u \<Rightarrow> ('w, 'p) bitcoin_feed" where
  "blockstream_get_fee_estimate L to_string url confirmation_target =
     a_bind (get_http L (ol_set_path L (ol_path L url @ ''/fee-estimates'') url)) (\<lambda>data.
     a_lift (ok_or Oe_InvalidResponse (Option.bind (ol_field L data (to_string confirmation_target)) (ol_as_f64 L))))"

definition maybe_add_bitcoin_feed :: "('w, 'p) bitcoin_feed option \<Rightarrow> ('w, 'p) bitcoin_feed list \<Rightarrow> ('w, 'p) bitcoin_feed list" where
  "maybe_add_bitcoin_feed api feeds = (case api of Some feed \<Rightarrow> feeds @ [feed] | None \<Rightarrow> feeds)"

definition get_fee_estimates :: "('w, 'p) bitcoin_feed list \<Rightarrow> u32 \<Rightarrow> ('w, 'p list, oracle_error) action" where
  "get_fee_estimates feeds confirmation_target = join_collect (map (\<lambda>feed. feed confirmation_target) feeds)"

definition maybe_get_median ::
  "('w, 'u, 'j, 'p) oracle_lib \<Rightarrow> ('w, 'p) bitcoin_feed list \<Rightarrow> u32 \<Rightarrow> ('w, 'p option, oracle_error) action" where
  "maybe_get_median L feeds confirmation_target =
     (if feeds = [] then a_ret None
      else a_bind (get_fee_estimates feeds confirmation_target) (\<lambda>fees. a_ret (Some (ol_median L fees))))"

section \<open>Submission\<close>

definition CONFIRMATION_TARGET :: u32 where "CONFIRMATION_TARGET = 1"

definition submit_bitcoin_fees ::
  "'w node \<Rightarrow> ('w, 'u, 'j, 'p) oracle_lib \<Rightarrow> 'p option \<Rightarrow> ('w \<times> client, unit, oracle_error) action" where
  "submit_bitcoin_fees N L maybe_bitcoin_fee = (case maybe_bitcoin_fee of
      None \<Rightarrow> a_ret ()
    | Some bitcoin_fee \<Rightarrow> a_map_err Oe_RuntimeError (set_bitcoin_fees N (ol_from_float L bitcoin_fee)))"

text \<open>The key and the value that are fed for a price; the key is that of the quote currency.\<close>

definition rate_entry ::
  "bool \<Rightarrow> ('w, 'u, 'j, 'p) oracle_lib \<Rightarrow> token_info \<Rightarrow> asset_registry option \<Rightarrow> currency_store \<Rightarrow> 'p pair_and_price
    \<Rightarrow> (oracle_key \<times> u128, oracle_error) result" where
  "rate_entry oc L T g S x =
     rbind (rbind (store_symbol S (cp_quote (pp_pair x))) (\<lambda>s. map_err Oe_RuntimeError (try_from_symbol T g s))) (\<lambda>currency_id.
     rbind (exchange_rate oc L x S) (\<lambda>rate. Ok (ExchangeRate currency_id, rate)))"

definition submit_exchange_rate ::
  "bool \<Rightarrow> 'w node \<Rightarrow> ('w, 'u, 'j, 'p) oracle_lib \<Rightarrow> token_info \<Rightarrow> asset_registry option \<Rightarrow> currency_store \<Rightarrow> 'p pair_and_price
    \<Rightarrow> ('w \<times> client, unit, oracle_error) action" where
  "submit_exchange_rate oc N L T g S x =
     a_bind (a_lift (rate_entry oc L T g S x)) (\<lambda>entry. a_map_err Oe_RuntimeError (feed_values N [entry]))"

definition submit_exchange_rates ::
  "bool \<Rightarrow> 'w node \<Rightarrow> ('w, 'u, 'j, 'p) oracle_lib \<Rightarrow> token_info \<Rightarrow> asset_registry option \<Rightarrow> currency_store \<Rightarrow> 'p pair_and_price list
    \<Rightarrow> ('w \<times> client, unit, oracle_error) action" where
  "submit_exchange_rates oc N L T g S prices =
     a_bind (join_collect (map (submit_exchange_rate oc N L T g S) prices)) (\<lambda>_. a_ret ())"

section \<open>The oracle\<close>

text \<open>
  What the loop needs beside the libraries: the parachain, \<open>connect\<close> for a new connection with
  its retries, \<open>retry\<close> for the \<open>retry_notify\<close> of the backoff crate, and the sleep between rounds.
  Its \<open>join!\<close> of the two submissions is run from left to right.
\<close>

record ('w, 'u, 'j, 'p) oracle_env =
  oe_oc :: bool
  oe_lib :: "('w, 'u, 'j, 'p) oracle_lib"
  oe_node :: "'w node"
  oe_tokens :: token_info
  oe_assets :: "asset_registry option"
  oe_connect :: "('w, client, runtime_error) action"
  oe_retry :: "('w \<times> client, unit, oracle_error) action \<Rightarrow> ('w \<times> client, unit, oracle_error) action"
  oe_sleep :: "'w \<Rightarrow> 'w"

definition submit_all ::
  "('w, 'u, 'j, 'p) oracle_env \<Rightarrow> currency_store \<Rightarrow> 'p option \<Rightarrow> 'p pair_and_price list \<Rightarrow> client \<Rightarrow> ('w, unit, oracle_error) action" where
  "submit_all E S fee_estimate prices c w =
     (case oe_retry E (submit_bitcoin_fees (oe_node E) (oe_lib E) fee_estimate) (w, c) of (left, ws) \<Rightarrow>
      case oe_retry E (submit_exchange_rates (oe_oc E) (oe_node E) (oe_lib E) (oe_tokens E) (oe_assets E) S prices) ws of
        (right, (w', _)) \<Rightarrow>
          if left = Panic \<or> right = Panic then (Panic, w')
          else if \<not> is_ok left \<or> \<not> is_ok right then (Err Oe_Shutdown, w')
          else (Ok (), oe_sleep E w'))"

definition oracle_round ::
  "('w, 'u, 'j, 'p::{numeral,times,inverse}) oracle_env \<Rightarrow> ('w, 'p) bitcoin_feed list \<Rightarrow> ('w, 'p) price_feeds \<Rightarrow> 'p oracle_config
    \<Rightarrow> ('w, unit, oracle_error) action" where
  "oracle_round E bitcoin_feeds price_feeds config =
     a_bind (maybe_get_median (oe_lib E) bitcoin_feeds CONFIRMATION_TARGET) (\<lambda>fee_estimate.
     a_bind (join_collect (map (get_value_or_median (oe_lib E) price_feeds) (og_prices config))) (\<lambda>prices.
     a_bind (a_map_err Oe_RuntimeError (oe_connect E)) (\<lambda>c.
     submit_all E (og_currencies config) fee_estimate prices c)))"

fun validate_all :: "'p price_config list \<Rightarrow> (unit, oracle_error) result" where
  "validate_all [] = Ok ()"
| "validate_all (c # cs) = rbind (map_err Oe_InvalidConfig (validate c)) (\<lambda>_. validate_all cs)"

record 'u oracle_opts =
  op_blockstream_url :: "'u option"
  op_blockcypher_url :: "'u option"
  op_coingecko :: "'u coingecko_cli"
  op_dia_url :: "'u option"
  op_gateio_url :: "'u option"
  op_kraken_url :: "'u option"

definition price_feeds_of :: "('w, 'u, 'j, 'p) oracle_lib \<Rightarrow> 'u oracle_opts \<Rightarrow> currency_store \<Rightarrow> ('w, 'p) price_feeds" where
  "price_feeds_of L opts S =
     maybe_add_kraken L (op_kraken_url opts) (maybe_add_gateio L (op_gateio_url opts)
       (maybe_add_dia L (op_dia_url opts) (maybe_add_coingecko L (op_coingecko opts) (price_feeds_new S))))"

definition bitcoin_feeds_of ::
  "('w, 'u, 'j, 'p::{numeral,times,inverse}) oracle_lib \<Rightarrow> (u32 \<Rightarrow> string) \<Rightarrow> 'u oracle_opts \<Rightarrow> ('w, 'p) bitcoin_feed list" where
  "bitcoin_feeds_of L to_string opts =
     maybe_add_bitcoin_feed (map_option (blockcypher_get_fee_estimate L) (op_blockcypher_url opts))
       (maybe_add_bitcoin_feed (map_option (blockstream_get_fee_estimate L to_string) (op_blockstream_url opts)) [])"

definition oracle_main ::
  "('w, 'u, 'j, 'p::{numeral,times,inverse}) oracle_env \<Rightarrow> (u32 \<Rightarrow> string) \<Rightarrow> 'u oracle_opts \<Rightarrow> 'p oracle_config \<Rightarrow> nat
    \<Rightarrow> ('w, unit option, oracle_error) action" where
  "oracle_main E to_string opts config n =
     a_bind (a_lift (validate_all (og_prices config))) (\<lambda>_.
     let price_feeds = price_feeds_of (oe_lib E) opts (og_currencies config);
         bitcoin_feeds = bitcoin_feeds_of (oe_lib E) to_string opts
     in a_loop (\<lambda>_. a_bind (oracle_round E bitcoin_feeds price_feeds config) (\<lambda>_. a_ret (Inl ()))) n ())"

end

