(* ===== verification/OracleFacts.thy ===== *)
theory OracleFacts
  imports Complex_Main Oracle
begin

text \<open>
  What the oracle promises: a route that walks from one currency of a pair to the other gives the
  price of the pair, however its pairs are oriented; what the validation of routes decides; and
  the value that is fed for a price.
\<close>

section \<open>Running feeds\<close>

lemma join_all_results:
  "join_all ms w = (rs, w') \<Longrightarrow> list_all2 (\<lambda>m r. \<exists>w1 w2. m w1 = (r, w2)) ms rs"
  by (induction ms arbitrary: w rs) (auto split: prod.splits)

lemma join_collect_Ok:
  assumes "join_collect (map f ps) w = (Ok xs, w')"
  shows "list_all2 (\<lambda>p x. \<exists>w1 w2. f p w1 = (Ok x, w2)) ps xs"
proof -
  from assms obtain rs where "join_all (map f ps) w = (rs, w')" "collect rs = Ok xs"
    by (auto simp: join_collect_def split: prod.splits)
  with join_all_results [OF this(1)] show ?thesis
    by (auto simp: collect_eq_Ok list_all2_map1 list_all2_map2)
qed

text \<open>A feed that answers for the pair it was asked for.\<close>

locale answering_feed =
  fixes feed :: "('w, 'p::{numeral,times,inverse}) price_feed"
  assumes answers: "feed p S w = (Ok x, w') \<Longrightarrow> pp_pair x = p"
begin

lemma route_answers:
  assumes "join_collect (map (\<lambda>p. feed p S) route) w = (Ok xs, w')"
  shows "map pp_pair xs = route"
  using join_collect_Ok [OF assms] by (induction rule: list_all2_induct) (auto dest: answers)

end

lemma quote_of_Ok: "quote_of pair price w = (Ok x, w') \<Longrightarrow> pp_pair x = pair"
  by (auto simp: quote_of_def a_bind_eq_Ok)

interpretation kraken: answering_feed "kraken_get_price L url" for L url
  by unfold_locales (auto simp: kraken_get_price_def a_bind_eq_Ok Let_def dest!: quote_of_Ok)

interpretation gateio: answering_feed "gateio_get_price L url" for L url
  by unfold_locales (auto simp: gateio_get_price_def a_bind_eq_Ok Let_def dest!: quote_of_Ok)

interpretation coingecko: answering_feed "coingecko_get_price L api" for L api
  by unfold_locales (auto simp: coingecko_get_price_def a_bind_eq_Ok Let_def dest!: quote_of_Ok)

interpretation dia: answering_feed "dia_get_price L url" for L url
  by unfold_locales (auto simp: dia_get_price_def a_bind_eq_Ok dest!: quote_of_Ok split: if_splits)

section \<open>Rounded arithmetic\<close>

text \<open>
  Prices are floats: \<open>val\<close> is the value of a number (0 for those that have none), and an
  operation whose exact result lies in the range \<open>N\<close> is right up to a factor \<open>q\<close>. This is
  what IEEE 754 promises of \<open>f64\<close> with the normal numbers as \<open>N\<close> and \<open>q = 1 + 2 ^ -52\<close>; exact
  arithmetic has \<open>q = 1\<close>.
\<close>

definition near :: "real \<Rightarrow> real \<Rightarrow> real \<Rightarrow> bool" where
  "near r x y \<longleftrightarrow> 0 < y \<and> y \<le> r * x \<and> x \<le> r * y"

definition rounds :: "('p::{numeral,times,inverse} \<Rightarrow> real) \<Rightarrow> real \<Rightarrow> real set \<Rightarrow> bool" where
  "rounds val q N \<longleftrightarrow> 1 \<le> q \<and> N \<subseteq> {0<..} \<and> val 1 = 1 \<and>
     (\<forall>a b. val a * val b \<in> N \<longrightarrow> near q (val (a * b)) (val a * val b)) \<and>
     (\<forall>a b. val b \<noteq> 0 \<longrightarrow> val a / val b \<in> N \<longrightarrow> near q (val (a / b)) (val a / val b))"

lemma near_pos: "near r x y \<Longrightarrow> 0 < r \<Longrightarrow> 0 < x"
  unfolding near_def by (metis less_le_trans zero_less_mult_pos)

lemma near_one [simp]: "near 1 x y \<longleftrightarrow> 0 < y \<and> x = y"
  by (auto simp: near_def)

lemma near_mult:
  assumes "near r a b" "near s c d" "0 < r" "0 < s"
  shows "near (r * s) (a * c) (b * d)"
proof -
  note pos = near_pos [OF assms(1,3)] near_pos [OF assms(2,4)]
  have "b * d \<le> (r * a) * (s * c)" "a * c \<le> (r * b) * (s * d)"
    using assms pos by (auto simp: near_def intro!: mult_mono)
  with assms show ?thesis by (simp add: near_def mult_ac)
qed

lemma near_inverse:
  assumes "near r a b" "0 < r"
  shows "near r (1 / a) (1 / b)"
  using assms near_pos [OF assms] by (simp add: near_def field_simps)

lemma near_trans:
  assumes "near r a b" "near s b c" "0 < r"
  shows "near (r * s) a c"
proof -
  from assms have "c \<le> s * b" "0 < c" "b \<le> r * a" "a \<le> r * b" "b \<le> s * c" by (auto simp: near_def)
  moreover from this have "0 \<le> s" using assms by (smt (verit) near_def zero_le_mult_iff)
  ultimately have "c \<le> s * (r * a)" "a \<le> r * (s * c)"
    using assms(3) by (meson mult_left_mono order_trans less_imp_le)+
  with \<open>0 < c\<close> show ?thesis by (simp add: near_def mult_ac)
qed

lemma near_mono:
  assumes "near r a b" "0 < r" "r \<le> s"
  shows "near s a b"
proof -
  have "r * a \<le> s * a" "r * b \<le> s * b"
    using assms near_pos [OF assms(1,2)] by (auto simp: near_def)
  with assms(1) show ?thesis unfolding near_def by linarith
qed

text \<open>The range has room for everything up to a factor \<open>R\<close> away from a ratio of two worths.\<close>

definition covers :: "real set \<Rightarrow> real \<Rightarrow> (string \<Rightarrow> real) \<Rightarrow> bool" where
  "covers N R v \<longleftrightarrow> (\<forall>c d z. near R z (v c / v d) \<longrightarrow> z \<in> N)"

lemma covers_mono: "covers N R v \<Longrightarrow> 0 < R' \<Longrightarrow> R' \<le> R \<Longrightarrow> covers N R' v"
  by (auto simp: covers_def intro: near_mono)

lemma coversD: "covers N R v \<Longrightarrow> near R z (v c / v d) \<Longrightarrow> z \<in> N"
  by (auto simp: covers_def)

section \<open>Routes\<close>

definition between :: "string \<Rightarrow> string \<Rightarrow> currency_pair \<Rightarrow> bool" where
  "between a b p \<longleftrightarrow> p = \<lparr>cp_base = a, cp_quote = b\<rparr> \<or> p = \<lparr>cp_base = b, cp_quote = a\<rparr>"

text \<open>The pairs of a route, in either orientation, step from currency to currency.\<close>

fun walks :: "string list \<Rightarrow> currency_pair list \<Rightarrow> bool" where
  "walks [a] [] = True"
| "walks (a # b # cs) (p # ps) \<longleftrightarrow> between a b p \<and> walks (b # cs) ps"
| "walks _ _ = False"

text \<open>A price that is, up to a factor \<open>r\<close>, the ratio of the worths of its currencies.\<close>

definition priced ::
  "(string \<Rightarrow> real) \<Rightarrow> ('p \<Rightarrow> real) \<Rightarrow> real \<Rightarrow> 'p pair_and_price \<Rightarrow> bool" where
  "priced v val r x \<longleftrightarrow> near r (val (pp_price x)) (v (cp_base (pp_pair x)) / v (cp_quote (pp_pair x)))"

lemma reduce_step:
  assumes "between a b (pp_pair x)" "between b c (pp_pair y)" "distinct [a, b, c]"
  shows "pp_pair (price_reduce x y) = \<lparr>cp_base = a, cp_quote = c\<rparr>"
  using assms by (auto simp: between_def price_reduce_def price_invert_def pair_invert_def)

lemma rate_invert_near:
  assumes "rounds val q N" "near r (val p) (v a / v b)" "0 < r" "covers N r v"
  shows "near (q * r) (val (rate_invert p)) (v b / v a)"
proof -
  have inv: "near r (1 / val p) (v b / v a)" using near_inverse [OF assms(2,3)] by simp
  then have "val 1 / val p \<in> N" using assms(1,4) by (auto simp: rounds_def dest: coversD)
  moreover have "val p \<noteq> 0" using near_pos [OF assms(2,3)] by simp
  ultimately have "near q (val (1 / p)) (1 / val p)" "0 < q" using assms(1) unfolding rounds_def by fastforce+
  with near_trans [OF this(1) inv] show ?thesis by (simp add: rate_invert_def)
qed

lemma product_near:
  assumes "rounds val q N" "near r (val x) (v a / v b)" "near s (val y) (v b / v c)" "0 < r" "0 < s" "0 < v b"
    and "covers N (r * s) v"
  shows "near (q * (r * s)) (val (x * y)) (v a / v c)"
proof -
  have prod: "near (r * s) (val x * val y) (v a / v c)" using near_mult [OF assms(2-5)] assms(6) by simp
  then have "val x * val y \<in> N" using assms(7) by (rule coversD [rotated])
  then have "near q (val (x * y)) (val x * val y)" "0 < q" using assms(1) by (auto simp: rounds_def)
  with near_trans [OF this(1) prod] show ?thesis by simp
qed

lemma priced_mono: "priced v val r x \<Longrightarrow> 0 < r \<Longrightarrow> r \<le> s \<Longrightarrow> priced v val s x"
  by (auto simp: priced_def intro: near_mono)

lemma invert_priced:
  assumes "rounds val q N" "priced v val r x" "0 < r" "covers N r v"
  shows "priced v val (q * r) (price_invert x)"
  using rate_invert_near [OF assms(1) _ assms(3,4)] assms(2)
  by (simp add: priced_def price_invert_def pair_invert_def)

lemma oriented:
  assumes "between a b (pp_pair x)" and priced: "priced v val r x" and r: "1 \<le> r"
    and round: "rounds val q N" and room: "covers N r v"
  shows "\<exists>l. near (q * r) (val l) (v a / v b) \<and>
    (l = pp_price x \<and> pp_pair x = \<lparr>cp_base = a, cp_quote = b\<rparr> \<or>
     l = rate_invert (pp_price x) \<and> pp_pair x = \<lparr>cp_base = b, cp_quote = a\<rparr>)"
proof -
  have q: "1 \<le> q" using round by (simp add: rounds_def)
  then have le: "r \<le> q * r" using r by (simp add: mult_le_cancel_right1)
  from assms(1) consider "pp_pair x = \<lparr>cp_base = a, cp_quote = b\<rparr>" | "pp_pair x = \<lparr>cp_base = b, cp_quote = a\<rparr>"
    by (auto simp: between_def)
  then show ?thesis
  proof cases
    case 1
    with priced_mono [OF priced _ le] r show ?thesis by (auto simp: priced_def)
  next
    case 2
    with rate_invert_near [OF round _ _ room, of "pp_price x" b a] priced r show ?thesis by (auto simp: priced_def)
  qed
qed

text \<open>Combining two prices rounds at most three times: two inversions and a product.\<close>

lemma reduce_priced:
  assumes pairs: "between a b (pp_pair x)" "between b c (pp_pair y)" "distinct [a, b, c]"
    and priced: "priced v val r x" "priced v val s y" and pos: "1 \<le> r" "1 \<le> s" "\<forall>c. 0 < v c"
    and round: "rounds val q N" and range: "covers N (r * (s * q ^ 3)) v"
  shows "priced v val (r * (s * q ^ 3)) (price_reduce x y)"
proof -
  have q: "1 \<le> q" using round by (simp add: rounds_def)
  have le: "r \<le> q * r" "s \<le> q * s" "1 \<le> q * r" "1 \<le> q * s"
    using pos q by (simp_all add: mult_le_cancel_right1) (meson mult_mono order_trans mult_ge1_I)+
  have top: "q * r * (q * s) \<le> r * (s * q ^ 3)"
    using pos q by (simp add: power3_eq_cube mult_ac mult_le_cancel_left1)
  have room: "covers N r v" "covers N s v" "covers N (q * r * (q * s)) v"
  proof -
    show c: "covers N (q * r * (q * s)) v" using top le by (intro covers_mono [OF range]) auto
    have "r \<le> q * r * (q * s)" "s \<le> q * r * (q * s)"
      using le by (smt (verit, best) mult_le_cancel_left1 mult_le_cancel_right1)+
    then show "covers N r v" "covers N s v" using pos by (auto intro: covers_mono [OF c])
  qed
  obtain l where l: "near (q * r) (val l) (v a / v b)"
    and left: "l = pp_price x \<and> pp_pair x = \<lparr>cp_base = a, cp_quote = b\<rparr> \<or>
      l = rate_invert (pp_price x) \<and> pp_pair x = \<lparr>cp_base = b, cp_quote = a\<rparr>"
    using oriented [OF pairs(1) priced(1) pos(1) round room(1)] by blast
  obtain t where t: "near (q * s) (val t) (v b / v c)"
    and right: "t = pp_price y \<and> pp_pair y = \<lparr>cp_base = b, cp_quote = c\<rparr> \<or>
      t = rate_invert (pp_price y) \<and> pp_pair y = \<lparr>cp_base = c, cp_quote = b\<rparr>"
    using oriented [OF pairs(2) priced(2) pos(2) round room(2)] by blast
  have "pp_price (price_reduce x y) = l * t"
    using left right pairs(3) by (auto simp: price_reduce_def price_invert_def pair_invert_def)
  moreover have "near (q * (q * r * (q * s))) (val (l * t)) (v a / v c)"
    using product_near [OF round l t _ _ _ room(3)] le pos by simp
  moreover have "q * (q * r * (q * s)) = r * (s * q ^ 3)" by (simp add: power3_eq_cube)
  ultimately show ?thesis
    unfolding priced_def reduce_step [OF pairs] by simp
qed

lemma foldl_walk:
  assumes "between a b (pp_pair x)" "walks (b # cs) (map pp_pair ys)" "distinct (a # b # cs)"
  shows "between a (last (b # cs)) (pp_pair (foldl price_reduce x ys))"
  using assms
proof (induction ys arbitrary: x b cs)
  case Nil
  then show ?case by (cases cs) auto
next
  case (Cons y ys)
  then obtain c cs' where cs: "cs = c # cs'" and y: "between b c (pp_pair y)" "walks (c # cs') (map pp_pair ys)"
    by (cases cs) auto
  have "between a c (pp_pair (price_reduce x y))"
    using reduce_step [OF Cons.prems(1) y(1)] Cons.prems(3) cs by (simp add: between_def)
  from Cons.IH [OF this y(2)] Cons.prems(3) cs show ?case by simp
qed

lemma foldl_priced:
  assumes "between a b (pp_pair x)" "walks (b # cs) (map pp_pair ys)" "distinct (a # b # cs)"
    and "priced v val r x" "\<forall>y \<in> set ys. priced v val s y" "1 \<le> r" "1 \<le> s" "\<forall>c. 0 < v c"
    and round: "rounds val q N" and "covers N (r * (s * q ^ 3) ^ length ys) v"
  shows "priced v val (r * (s * q ^ 3) ^ length ys) (foldl price_reduce x ys)"
  using assms
proof (induction ys arbitrary: x b cs r)
  case (Cons y ys)
  let ?k = "s * q ^ 3"
  have k: "1 \<le> ?k" using Cons.prems(7) round by (simp add: rounds_def mult_ge1_I)
  from Cons.prems(2) obtain c cs' where cs: "cs = c # cs'" and y: "between b c (pp_pair y)" "walks (c # cs') (map pp_pair ys)"
    by (cases cs) auto
  have step: "between a c (pp_pair (price_reduce x y))"
    using reduce_step [OF Cons.prems(1) y(1)] Cons.prems(3) cs by (simp add: between_def)
  have r: "1 \<le> r * ?k" using Cons.prems(6) k by (rule mult_ge1_I)
  then have "covers N (r * ?k) v"
    using power_increasing [OF _ k, of 1 "length (y # ys)"] Cons.prems(6) by (intro covers_mono [OF Cons.prems(10)]) simp_all
  then have "priced v val (r * ?k) (price_reduce x y)"
    using Cons.prems cs by (intro reduce_priced [OF Cons.prems(1) y(1) _ _ _ _ _ _ round]) auto
  from Cons.IH [OF step y(2) _ this] Cons.prems r cs show ?case by (simp add: mult.assoc)
qed simp

text \<open>A feed that answers for the pair, at the worths \<open>v\<close> up to a factor \<open>r\<close>.\<close>

definition fair_feed ::
  "(string \<Rightarrow> real) \<Rightarrow> ('p \<Rightarrow> real) \<Rightarrow> real \<Rightarrow> currency_store \<Rightarrow> ('w, 'p) price_feed \<Rightarrow> bool" where
  "fair_feed v val r S feed \<longleftrightarrow> (\<forall>p w x w'. feed p S w = (Ok x, w') \<longrightarrow> pp_pair x = p \<and> priced v val r x)"

lemma fair_feedD: "fair_feed v val r S feed \<Longrightarrow> feed p S w = (Ok x, w') \<Longrightarrow> pp_pair x = p \<and> priced v val r x"
  by (auto simp: fair_feed_def)

lemma fair_feed_prices:
  assumes "fair_feed v val r S feed" "join_collect (map (\<lambda>p. feed p S) route) w = (Ok xs, w')"
  shows "map pp_pair xs = route \<and> (\<forall>x \<in> set xs. priced v val r x)"
  using join_collect_Ok [OF assms(2)]
  by (induction rule: list_all2_induct) (auto dest: fair_feedD [OF assms(1)])

text \<open>A route for a pair walks from one of its currencies to the other, without a repetition.\<close>

definition good_route :: "currency_pair \<Rightarrow> currency_pair list \<Rightarrow> bool" where
  "good_route pair route \<longleftrightarrow> (\<exists>cs. walks cs route \<and> distinct cs \<and> between (hd cs) (last cs) pair)"

lemma route_price_fair:
  assumes feed: "fair_feed v val r S feed" and pos: "\<forall>c. 0 < v c" "1 \<le> r" and good: "good_route pair route"
    and pair: "cp_base pair \<noteq> cp_quote pair" and round: "rounds val q N"
    and len: "length route \<le> m" and range: "covers N ((r * q ^ 3) ^ m) v"
    and run: "route_price S pair feed route w = (Ok p, w')"
  shows "\<exists>x. p = Some x \<and> pp_pair x = pair \<and> priced v val ((r * q ^ 3) ^ m) x"
proof -
  let ?k = "r * q ^ 3"
  have q: "1 \<le> q" using round by (simp add: rounds_def)
  then have k: "1 \<le> ?k" "r * q \<le> ?k" using pos(2) by (auto simp: mult_ge1_I power3_eq_cube mult_le_cancel_left1)
  from good obtain cs where cs: "walks cs route" "distinct cs" "between (hd cs) (last cs) pair"
    by (auto simp: good_route_def)
  from run obtain xs where xs: "join_collect (map (\<lambda>p. feed p S) route) w = (Ok xs, w')"
    and p: "p = (case reduce_all price_reduce xs of None \<Rightarrow> None
      | Some x \<Rightarrow> Some (if cp_base (pp_pair x) \<noteq> cp_base pair then price_invert x else x))"
    by (auto simp: route_price_def a_bind_eq_Ok)
  note fair = fair_feed_prices [OF feed xs]
  from cs pair obtain a b ds where ds: "cs = a # b # ds"
    by (cases cs; cases "tl cs") (auto simp: between_def)
  with cs(1) obtain p1 ps where route: "route = p1 # ps" "between a b p1" "walks (b # ds) ps"
    by (cases route) auto
  with fair obtain x ys where ys: "xs = x # ys" "pp_pair x = p1" "map pp_pair ys = ps" by (cases xs) auto
  let ?z = "foldl price_reduce x ys" and ?R = "r * ?k ^ length ys"
  have bound: "q * ?R \<le> ?k ^ m" "?R \<le> q * ?R" "1 \<le> ?R"
  proof -
    have "q * ?R = r * q * ?k ^ length ys" by simp
    also have "\<dots> \<le> ?k * ?k ^ length ys" using k by (intro mult_right_mono) simp_all
    also have "\<dots> = ?k ^ length route" using route ys by auto
    also have "\<dots> \<le> ?k ^ m" using k(1) len by (rule power_increasing [rotated])
    finally show "q * ?R \<le> ?k ^ m" .
    show "1 \<le> ?R" using pos(2) k(1) by (simp add: mult_ge1_I one_le_power)
    then show "?R \<le> q * ?R" using q by (simp add: mult_le_cancel_right1)
  qed
  then have room: "covers N ?R v" by (intro covers_mono [OF range]) auto
  have ends: "between a (last (b # ds)) (pp_pair ?z)"
    using foldl_walk [of a b x ds ys] route ys cs(2) ds by simp
  have z: "priced v val ?R ?z"
    using foldl_priced [of a b x ds ys v val r r q N] route ys cs(2) ds fair pos round room by simp
  then have inv: "priced v val (?k ^ m) (price_invert ?z)"
    using bound by (intro priced_mono [OF invert_priced [OF round z _ room]]) auto
  have "priced v val (?k ^ m) ?z" by (rule priced_mono [OF z]) (use bound in linarith)+
  moreover have "between a (last (b # ds)) pair" using cs(3) ds by simp
  ultimately show ?thesis using inv ends pair
    unfolding p ys(1) reduce_all.simps option.case
    by (auto simp: between_def price_invert_def pair_invert_def)
qed

lemma find_feed_Ok:
  "find_feed F (name, route) = Ok x \<longleftrightarrow> (\<exists>feed. map_of (pf_feeds F) name = Some feed \<and> x = (name, route, feed))"
  by (auto simp: find_feed_def split: option.splits)

lemma map_filter_id_all: "list_all2 (\<lambda>f p. \<exists>x. p = Some x \<and> P x) fs ps \<Longrightarrow>
    length (List.map_filter id ps) = length fs \<and> (\<forall>x \<in> set (List.map_filter id ps). P x)"
  by (induction rule: list_all2_induct) (auto simp: List.map_filter_simps)

lemma get_prices_fair:
  assumes feeds: "\<forall>name feed. map_of (pf_feeds F) name = Some feed \<longrightarrow> fair_feed v val r (pf_currency_store F) feed"
    and pos: "\<forall>c. 0 < v c" "1 \<le> r" and pair: "cp_base (pc_pair c) \<noteq> cp_quote (pc_pair c)"
    and routes: "\<forall>(name, route) \<in> set (pc_feeds c). good_route (pc_pair c) route \<and> length route \<le> m"
    and round: "rounds val q N" and range: "covers N ((r * q ^ 3) ^ m) v"
    and run: "get_prices F c w = (Ok xs, w')"
  shows "length xs = length (pc_feeds c) \<and> (\<forall>x \<in> set xs. pp_pair x = pc_pair c \<and> priced v val ((r * q ^ 3) ^ m) x)"
proof -
  let ?P = "\<lambda>x. pp_pair x = pc_pair c \<and> priced v val ((r * q ^ 3) ^ m) x"
  let ?run = "\<lambda>(name, route, feed). route_price (pf_currency_store F) (pc_pair c) feed route"
  from run obtain fs rs w1 where fs: "map (find_feed F) (pc_feeds c) = map Ok fs"
    and rs: "join_collect (map ?run fs) w1 = (Ok rs, w')" and xs: "xs = List.map_filter id rs"
    by (auto simp: get_prices_def a_bind_eq_Ok a_lift_def collect_eq_Ok)
  from fs have len: "length fs = length (pc_feeds c)" by (metis length_map)
  have price: "\<exists>x. p = Some x \<and> ?P x" if f: "f \<in> set fs" and run: "\<exists>w1 w2. ?run f w1 = (Ok p, w2)" for f p
  proof -
    from f fs obtain nr where "nr \<in> set (pc_feeds c)" "find_feed F nr = Ok f"
      by (metis (no_types, lifting) image_iff list.set_map)
    with routes feeds obtain name route feed where "f = (name, route, feed)"
      and good: "good_route (pc_pair c) route" "length route \<le> m" "fair_feed v val r (pf_currency_store F) feed"
      by (cases nr) (auto simp: find_feed_Ok)
    with run route_price_fair [OF good(3) pos good(1) pair round good(2) range] show ?thesis by auto
  qed
  have "list_all2 (\<lambda>f p. \<exists>x. p = Some x \<and> ?P x) fs rs"
    by (rule list.rel_mono_strong [OF join_collect_Ok [OF rs]]) (rule price)
  from map_filter_id_all [OF this] xs len show ?thesis by simp
qed

text \<open>
  What is asked of the median: that it lies between any bounds of the prices, when there is room
  for the sum of two of them.
\<close>

definition median_between :: "('p \<Rightarrow> real) \<Rightarrow> real set \<Rightarrow> ('p list \<Rightarrow> 'p) \<Rightarrow> bool" where
  "median_between val N median \<longleftrightarrow> (\<forall>xs lo hi. xs \<noteq> [] \<longrightarrow> 0 < lo \<longrightarrow> {lo..2 * hi} \<subseteq> N \<longrightarrow>
     val ` set xs \<subseteq> {lo..hi} \<longrightarrow> val (median xs) \<in> {lo..hi})"

lemma near_between: "0 < y \<Longrightarrow> 0 < R \<Longrightarrow> near R x y \<longleftrightarrow> x \<in> {y / R..R * y}"
  by (auto simp: near_def field_simps)


section \<open>Validation\<close>

lemma find_zip_tl: "find P (zip xs (tl xs)) = None \<longleftrightarrow> (\<forall>i. Suc i < length xs \<longrightarrow> \<not> P (xs ! i, xs ! Suc i))"
proof -
  have "x \<in> set (zip xs (tl xs)) \<longleftrightarrow> (\<exists>i. Suc i < length xs \<and> x = (xs ! i, xs ! Suc i))" for x
    by (cases xs) (fastforce simp: set_zip nth_tl less_diff_conv)+
  then have "(\<exists>x. x \<in> set (zip xs (tl xs)) \<and> P x) \<longleftrightarrow> (\<exists>i. Suc i < length xs \<and> P (xs ! i, xs ! Suc i))" by metis
  then show ?thesis unfolding find_None_iff by blast
qed

text \<open>What a path must look like: its ends touch the two currencies, neighbours share one.\<close>

definition accepted_path :: "currency_pair \<Rightarrow> currency_pair list \<Rightarrow> bool" where
  "accepted_path pair path \<longleftrightarrow> path \<noteq> [] \<and>
     (if pair_contains (hd path) (cp_base pair) then pair_contains (last path) (cp_quote pair)
      else pair_contains (hd path) (cp_quote pair) \<and> pair_contains (last path) (cp_base pair)) \<and>
     (\<forall>i. Suc i < length path \<longrightarrow> has_shared (path ! i) (path ! Suc i))"

lemma validate_route_Ok: "validate_route pair (name, path) = Ok () \<longleftrightarrow> accepted_path pair path"
proof (cases path)
  case Nil
  then show ?thesis by (simp add: validate_route_def accepted_path_def Let_def)
next
  case (Cons p ps)
  then show ?thesis
    using find_zip_tl [of "\<lambda>(left, right). \<not> has_shared left right" path]
    by (auto simp: validate_route_def accepted_path_def Let_def split: option.splits if_splits)
qed

lemma validate_routes_Ok: "validate_routes pair routes = Ok () \<longleftrightarrow> (\<forall>(name, path) \<in> set routes. accepted_path pair path)"
  by (induction routes) (auto simp: validate_route_Ok)

lemma walks_single: "walks [a] path \<longleftrightarrow> path = []"
  by (cases path) simp_all

lemma walks_hd: "walks (a # b # cs) path \<Longrightarrow> path \<noteq> [] \<and> between a b (hd path)"
  by (cases path) auto

lemma walks_last: "walks (a # b # cs) path \<Longrightarrow> \<exists>x. between x (last (b # cs)) (last path)"
proof (induction path arbitrary: a b cs)
  case (Cons p path)
  show ?case
  proof (cases cs)
    case Nil
    with Cons.prems show ?thesis by (cases path) auto
  next
    case (Cons c cs')
    with Cons.prems walks_hd [of b c cs' path] Cons.IH [of b c cs'] show ?thesis by auto
  qed
qed simp

lemma walks_shared:
  "walks cs path \<Longrightarrow> Suc i < length path \<Longrightarrow> has_shared (path ! i) (path ! Suc i)"
proof (induction cs path arbitrary: i rule: walks.induct)
  case (2 a b cs p ps)
  show ?case
  proof (cases i)
    case 0
    with 2 obtain q qs where "ps = q # qs" by (cases ps) auto
    with 2 0 show ?thesis by (cases cs) (auto simp: between_def has_shared_def pair_contains_def)
  next
    case (Suc j)
    with 2 show ?thesis by simp
  qed
qed simp_all

text \<open>A walk is accepted, unless two of its currencies differ only after the \<open>=\<close>.\<close>

lemma good_route_accepted:
  assumes "walks cs path" "distinct (map strip cs)" "between (hd cs) (last cs) pair" "cp_base pair \<noteq> cp_quote pair"
  shows "accepted_path pair path"
proof -
  from assms obtain a b ds where cs: "cs = a # b # ds" by (cases cs; cases "tl cs") (auto simp: between_def)
  note ends = walks_hd [of a b ds path] walks_last [of a b ds path]
  have "pair_contains (hd path) a" "pair_contains (last path) (last cs)"
    using ends assms(1) cs by (auto simp: between_def pair_contains_def split: if_splits)
  moreover have "pair_contains (last path) a" if "pair_contains (hd path) (last cs)"
  proof (cases ds)
    case Nil
    with ends assms(1) cs show ?thesis by (cases path) (auto simp: between_def pair_contains_def walks_single)
  next
    case (Cons d ds')
    then have "strip (last ds) \<in> strip ` set ds" by simp
    with ends(1) assms(1,2) cs that Cons show ?thesis by (auto simp: between_def pair_contains_def)
  qed
  ultimately show ?thesis
    using assms(1,3) ends cs walks_shared [OF assms(1)] by (auto simp: accepted_path_def between_def)
qed


section \<open>The value fed for a price\<close>

text \<open>
  \<open>FixedU128\<close>: an inner \<open>u128\<close> counts \<open>10^-18\<close>. A ratio and a product are rounded down, and are
  \<open>None\<close> when they do not fit (or the divisor is 0).
\<close>

definition fits :: "nat \<Rightarrow> u128 option" where
  "fits n = (if n < 2 ^ 128 then Some (of_nat n) else None)"

definition fixed_laws :: "('w, 'u, 'j, 'p) oracle_lib \<Rightarrow> bool" where
  "fixed_laws L \<longleftrightarrow>
     (\<forall>a b. ol_from_rational L a b = (if b = 0 then None else fits (10 ^ 18 * unat a div unat b))) \<and>
     (\<forall>a b. ol_fixed_mul L a b = fits (unat a * unat b div 10 ^ 18))"

lemma pow10_le: "n \<le> 38 \<Longrightarrow> 10 ^ n < (2 :: nat) ^ 128"
  using power_increasing [of n 38 "10 :: nat"] by simp

lemma unat_of_nat_fits: "n < 2 ^ 128 \<Longrightarrow> unat (of_nat n :: u128) = n"
  by (simp add: unsigned_of_nat take_bit_nat_eq_self)

lemma unat_pow10: "n \<le> 38 \<Longrightarrow> unat (10 ^ n :: u128) = 10 ^ n"
  using unat_of_nat_fits [OF pow10_le] by simp

lemma pow10_Ok: "unat n \<le> 38 \<Longrightarrow> pow10 oc n = Ok (10 ^ unat n)"
  using pow10_le [of "unat n"] by (simp add: pow10_def)

text \<open>A price with \<open>f\<close> parts of \<open>10^-18\<close>, from the decimals of the base to those of the quote.\<close>

definition scaled_price :: "nat \<Rightarrow> nat \<Rightarrow> nat \<Rightarrow> nat" where
  "scaled_price f d_quote d_base =
     (if d_base \<le> d_quote then f * 10 ^ (d_quote - d_base)
      else if d_base - d_quote \<le> 18 then f div 10 ^ (d_base - d_quote) else 0)"

lemma scale_div: "(10 :: nat) ^ 18 * 10 ^ q div 10 ^ b = (if b \<le> q + 18 then 10 ^ (q + 18 - b) else 0)"
proof (cases "b \<le> q + 18")
  case True
  then have "18 + q = (q + 18 - b) + b" by simp
  then have "(10 :: nat) ^ 18 * 10 ^ q = 10 ^ (q + 18 - b) * 10 ^ b" by (simp only: power_add [symmetric])
  then show ?thesis using True by simp
next
  case False
  then have "(10 :: nat) ^ (q + 18) < 10 ^ b" by (intro power_strict_increasing) auto
  with False show ?thesis by (simp add: power_add mult.commute)
qed

lemma scaled_price_eq: "f * (10 ^ 18 * 10 ^ q div 10 ^ b) div 10 ^ 18 = scaled_price f q b"
proof (cases "b \<le> q + 18")
  case True
  show ?thesis
  proof (cases "b \<le> q")
    case True
    then have "q + 18 - b = (q - b) + 18" by simp
    then have "(10 :: nat) ^ (q + 18 - b) = 10 ^ (q - b) * 10 ^ 18" by (simp only: power_add)
    with True show ?thesis unfolding scale_div by (simp add: scaled_price_def)
  next
    case False
    with True have "18 = (q + 18 - b) + (b - q)" by simp
    then have split: "(10 :: nat) ^ 18 = 10 ^ (q + 18 - b) * 10 ^ (b - q)" by (metis power_add)
    have "f * 10 ^ (q + 18 - b) div 10 ^ 18 = f div 10 ^ (b - q)"
      unfolding split by (simp add: mult.commute [of f])
    moreover have "b - q \<le> 18" using True by simp
    ultimately show ?thesis using True False unfolding scale_div by (simp add: scaled_price_def)
  qed
next
  case False
  then have "\<not> b - q \<le> 18" by simp
  with False show ?thesis unfolding scale_div by (simp add: scaled_price_def)
qed

text \<open>
  C29. The value fed for a price counts smallest units of the quote currency per smallest unit of
  the base currency: the price, read to 18 decimals, times ten to the difference of their
  decimals, rounded down; if it, or the scale, exceeds the fixed-point range the rate is invalid
  (never a wrapped value), and a currency without configuration is an error.
\<close>

theorem exchange_rate_spec:
  assumes "fixed_laws L" and "\<forall>c i. S i = Some c \<longrightarrow> unat (cc_decimals c) \<le> 38"
  shows "exchange_rate oc L x S = (case (S (cp_quote (pp_pair x)), S (cp_base (pp_pair x))) of
     (Some q, Some b) \<Rightarrow>
       let d_quote = unat (cc_decimals q); d_base = unat (cc_decimals b);
           n = scaled_price (unat (ol_from_float L (pp_price x))) d_quote d_base
       in if 10 ^ 18 * 10 ^ d_quote div 10 ^ d_base < (2 :: nat) ^ 128 \<and> n < 2 ^ 128
          then Ok (of_nat n) else Err Oe_InvalidExchangeRate
   | _ \<Rightarrow> Err Oe_InvalidCurrency)"
proof (cases "S (cp_quote (pp_pair x))")
  case None
  then show ?thesis by (simp add: exchange_rate_def store_decimals_def)
next
  case (Some q)
  then have q: "S (cp_quote (pp_pair x)) = Some q" "unat (cc_decimals q) \<le> 38" using assms(2) by auto
  show ?thesis
  proof (cases "S (cp_base (pp_pair x))")
    case None
    with q show ?thesis by (simp add: exchange_rate_def store_decimals_def pow10_Ok)
  next
    case (Some b)
    then have b: "S (cp_base (pp_pair x)) = Some b" "unat (cc_decimals b) \<le> 38" using assms(2) by auto
    let ?q = "unat (cc_decimals q)" and ?b = "unat (cc_decimals b)"
    let ?scale = "10 ^ 18 * 10 ^ ?q div 10 ^ ?b :: nat"
    have "(10 ^ ?b :: u128) \<noteq> 0" using unat_pow10 [OF b(2)] by (metis power_not_zero unat_0 zero_neq_numeral)
    then have scale: "ol_from_rational L (10 ^ ?q) (10 ^ ?b) = fits ?scale"
      using assms(1) unat_pow10 [OF q(2)] unat_pow10 [OF b(2)] by (simp add: fixed_laws_def)
    have mul: "ol_fixed_mul L f (of_nat ?scale) = fits (scaled_price (unat f) ?q ?b)" if "?scale < 2 ^ 128" for f
      using assms(1) that scaled_price_eq [of "unat f" ?q ?b] by (simp only: fixed_laws_def unat_of_nat_fits)
    show ?thesis
    proof (cases "?scale < 2 ^ 128")
      case True
      with q b scale mul [OF True] show ?thesis
        unfolding exchange_rate_def store_decimals_def
        by (simp only: ok_or.simps rbind.simps pow10_Ok option.case prod.case Let_def fits_def if_True)
          (simp split: if_splits)
    next
      case False
      with q b scale show ?thesis
        unfolding exchange_rate_def store_decimals_def
        by (simp only: ok_or.simps rbind.simps pow10_Ok option.case prod.case Let_def fits_def if_False simp_thms)
    qed
  qed
qed

section \<open>The feeds of the oracle\<close>

lemma maybe_add_sorted:
  "sorted_wrt (<) (map fst (pf_feeds F)) \<Longrightarrow> sorted_wrt (<) (map fst (pf_feeds (maybe_add n api F)))"
  by (cases api) (simp_all add: maybe_add_def btree_insert_sorted)

lemma maybe_add_lookup:
  "map_of (pf_feeds (maybe_add n api F)) name = (if name = n \<and> api \<noteq> None then api else map_of (pf_feeds F) name)"
  by (cases api) (simp_all add: maybe_add_def map_of_btree_insert)

text \<open>
  C35. The feeds of the oracle are a well-formed map: whatever options are given, they are listed in
  the order of their names without a repetition, and each name resolves to the client of its own
  service, if that has a URL, and to nothing otherwise.
\<close>

theorem price_feeds_wellformed:
  "sorted_wrt (<) (map fst (pf_feeds (price_feeds_of L opts S))) \<and>
   map_of (pf_feeds (price_feeds_of L opts S)) name = (case name of
      Kraken \<Rightarrow> map_option (kraken_get_price L) (op_kraken_url opts)
    | GateIo \<Rightarrow> map_option (gateio_get_price L) (op_gateio_url opts)
    | CoinGecko \<Rightarrow> map_option (coingecko_get_price L) (coingecko_from_opts (op_coingecko opts))
    | Dia \<Rightarrow> map_option (dia_get_price L) (op_dia_url opts))"
  unfolding price_feeds_of_def maybe_add_kraken_def maybe_add_gateio_def maybe_add_dia_def maybe_add_coingecko_def
  by (intro conjI maybe_add_sorted) (simp_all add: maybe_add_lookup price_feeds_new_def split: feed_name.split)

section \<open>Examples\<close>

text \<open>A library for the witnesses: a genuine median, an exact fixed-point reading, and HTTP that fails.\<close>

definition median_of :: "rat list \<Rightarrow> rat" where
  "median_of xs = (let s = sort xs; n = length xs in
     if even n then (s ! (n div 2 - 1) + s ! (n div 2)) / 2 else s ! (n div 2))"

definition demo_oracle_lib :: "(unit, string, unit, rat) oracle_lib" where
  "demo_oracle_lib = \<lparr>ol_get = (\<lambda>_. a_err []), ol_path = id, ol_set_path = (\<lambda>p _. p), ol_set_query = (\<lambda>_ u. u),
     ol_append_pair = (\<lambda>_ _ u. u), ol_field = (\<lambda>_ _. None), ol_index = (\<lambda>_ _. None), ol_as_f64 = (\<lambda>_. None),
     ol_as_str = (\<lambda>_. None), ol_as_object = (\<lambda>_. None), ol_as_array = (\<lambda>_. None), ol_parse_f64 = (\<lambda>_. Err []),
     ol_median = median_of, ol_from_float = (\<lambda>p. of_nat (nat \<lfloor>p * 10 ^ 18\<rfloor>)),
     ol_from_rational = (\<lambda>a b. if b = 0 then None else fits (10 ^ 18 * unat a div unat b)),
     ol_fixed_mul = (\<lambda>a b. fits (unat a * unat b div 10 ^ 18)), ol_lower = id\<rparr>"

definition demo_worth :: "string \<Rightarrow> rat" where
  "demo_worth c = (if strip c = ''BTC'' then 20000 else if strip c = ''DOT'' then 5 else if strip c = ''KSM'' then 40 else 1)"

text \<open>A feed that quotes every pair at these worths.\<close>

definition demo_fair_feed :: "(unit, rat) price_feed" where
  "demo_fair_feed p S = a_ret \<lparr>pp_pair = p, pp_price = demo_worth (cp_base p) / demo_worth (cp_quote p)\<rparr>"

definition demo_price_feeds :: "(unit, rat) price_feeds" where
  "demo_price_feeds = \<lparr>pf_currency_store = Map.empty, pf_feeds = [(Kraken, demo_fair_feed), (CoinGecko, demo_fair_feed)]\<rparr>"

abbreviation pair_of :: "string \<Rightarrow> string \<Rightarrow> currency_pair" where
  "pair_of b q \<equiv> \<lparr>cp_base = b, cp_quote = q\<rparr>"

definition demo_price_config :: "rat price_config" where
  "demo_price_config = \<lparr>pc_pair = pair_of ''BTC'' ''DOT'', pc_value = None,
     pc_feeds = [(Kraken, [pair_of ''USD'' ''DOT'', pair_of ''BTC'' ''USD'']), (CoinGecko, [pair_of ''BTC'' ''DOT''])]\<rparr>"

lemma median_of_bounds:
  assumes "xs \<noteq> []" "set xs \<subseteq> {lo..hi}"
  shows "median_of xs \<in> {lo..hi}"
proof -
  have in_range: "sort xs ! i \<in> {lo..hi}" if "i < length xs" for i
    using that assms(2) nth_mem [of i "sort xs"] by auto
  have "length xs div 2 < length xs" "length xs div 2 - 1 < length xs" using assms(1) by (auto simp: less_imp_diff_less)
  with in_range [of "length xs div 2"] in_range [of "length xs div 2 - 1"] show ?thesis
    by (simp add: median_of_def Let_def)
qed

lemma demo_median: "median_between of_rat {0<..} median_of"
  unfolding median_between_def
proof (intro allI impI)
  fix xs :: "rat list" and lo hi :: real
  assume xs: "xs \<noteq> []" and range: "of_rat ` set xs \<subseteq> {lo..hi}"
  have fin: "finite (set xs)" "set xs \<noteq> {}" using xs by simp_all
  have "set xs \<subseteq> {Min (set xs)..Max (set xs)}" using fin by auto
  from median_of_bounds [OF xs this]
  have "Min (set xs) \<le> median_of xs" "median_of xs \<le> Max (set xs)" by auto
  moreover have "lo \<le> of_rat (Min (set xs))" "of_rat (Max (set xs)) \<le> hi"
    using range Min_in [OF fin] Max_in [OF fin] by auto
  ultimately show "of_rat (median_of xs) \<in> {lo..hi}"
    by (meson atLeastAtMost_iff of_rat_less_eq order_trans)
qed

lemmas oracle_run = get_value_or_median_def get_prices_def route_price_def join_collect_def find_feed_def
  price_reduce_def price_invert_def pair_invert_def rate_invert_def List.map_filter_def action_defs

lemma demo_worth_pos: "0 < demo_worth c"
  by (simp add: demo_worth_def)

lemma demo_feeds_fair:
  "map_of (pf_feeds demo_price_feeds) name = Some feed \<Longrightarrow>
     fair_feed (of_rat \<circ> demo_worth) of_rat 1 (pf_currency_store demo_price_feeds) feed"
  by (auto simp: demo_price_feeds_def fair_feed_def demo_fair_feed_def priced_def of_rat_divide
      demo_worth_pos split: if_splits)

lemma exact_rounds: "1 \<le> q \<Longrightarrow> rounds (of_rat :: rat \<Rightarrow> real) q {0<..}"
  by (auto simp: rounds_def of_rat_mult of_rat_divide intro: near_mono [of 1])



definition demo_store :: currency_store where
  "demo_store = [''BTC'' \<mapsto> \<lparr>cc_name = ''Bitcoin'', cc_decimals = 8\<rparr>, ''DOT'' \<mapsto> \<lparr>cc_name = ''Polkadot'', cc_decimals = 10\<rparr>]"

lemma exchange_rate_spec_witness:
  "exchange_rate True demo_oracle_lib \<lparr>pp_pair = pair_of ''BTC'' ''DOT'', pp_price = 3081\<rparr> demo_store = Ok (308100 * 10 ^ 18)"
proof -
  have laws: "fixed_laws demo_oracle_lib" by (simp add: fixed_laws_def demo_oracle_lib_def)
  have small: "\<forall>c i. demo_store i = Some c \<longrightarrow> unat (cc_decimals c) \<le> 38" by (auto simp: demo_store_def split: if_splits)
  have f: "unat (ol_from_float demo_oracle_lib 3081) = 3081 * 10 ^ 18"
    by (simp add: demo_oracle_lib_def unsigned_of_nat take_bit_nat_eq_self)
  show ?thesis
    unfolding exchange_rate_spec [OF laws small]
    by (simp add: demo_store_def f scaled_price_def Let_def)
qed

text \<open>
  C39. The validation does not exclude every wrong route: a configuration that is accepted, with a
  feed that quotes every pair rightly, and a reported price of 1 / 160000 where it is 4000.
\<close>

theorem accepted_route_wrong_price:
  "\<exists>c. validate c = Ok () \<and> pc_pair c = pair_of ''BTC'' ''DOT'' \<and>
     get_value_or_median demo_oracle_lib demo_price_feeds c () = (Ok \<lparr>pp_pair = pair_of ''BTC'' ''DOT'', pp_price = 1 / 160000\<rparr>, ())"
  by (rule exI [of _ "\<lparr>pc_pair = pair_of ''BTC'' ''DOT'', pc_value = None,
      pc_feeds = [(Kraken, [pair_of ''BTC'' ''KSM'', pair_of ''BTC'' ''USD'', pair_of ''BTC'' ''DOT''])]\<rparr>"])
    (simp add: oracle_run validate_def validate_route_def pair_contains_def has_shared_def strip_def
      demo_price_feeds_def demo_fair_feed_def demo_oracle_lib_def median_of_def demo_worth_def Let_def)

section \<open>DIA\<close>

text \<open>What DIA answers for an asset: its price in USD.\<close>

definition quotes_usd :: "('w, 'u, 'j, 'p) oracle_lib \<Rightarrow> 'u \<Rightarrow> (string \<Rightarrow> 'p) \<Rightarrow> bool" where
  "quotes_usd L url usd \<longleftrightarrow> (\<forall>asset w d w' p.
     ol_get L (ol_set_path L (ol_path L url @ ''/assetQuotation/'' @ asset) url) w = (Ok d, w') \<longrightarrow>
     dia_extract L d = Some p \<longrightarrow> p = usd asset)"

lemma get_http_Ok: "get_http L url w = (Ok d, w') \<longleftrightarrow> ol_get L url w = (Ok d, w')"
  by (auto simp: get_http_def a_map_err_def split: prod.splits)

lemma dia_get_price_Ok:
  assumes "quotes_usd L url usd" "after_eq x = Some asset"
    and "dia_get_price L url (pair_of ''USD'' x) S w = (Ok r, w')"
  shows "r = \<lparr>pp_pair = pair_of ''USD'' x, pp_price = usd asset\<rparr>"
  using assms by (auto simp: dia_get_price_def a_bind_eq_Ok get_http_Ok quote_of_def a_lift_def quotes_usd_def)

text \<open>
  A price from DIA over USD: \<open>dia_get_price\<close> reports the USD price of an asset as the price of
  the pair USD/asset, which is the inverse of what a price is; a route of two such pairs still
  gives the price of the first asset in the second one, because the base of the pair, spelled
  without the id of the asset, is taken to differ and the result is turned round. Spelled with the id
  it would not be, and the reported price would be the inverse.
\<close>

theorem dia_route_price:
  assumes usd: "quotes_usd L url usd" and assets: "after_eq x = Some asset_x" "after_eq y = Some asset_y"
    and currencies: "x \<noteq> y" "x \<noteq> ''USD'' \<and> y \<noteq> ''USD''"
    and run: "route_price S pair (dia_get_price L url) [pair_of ''USD'' x, pair_of ''USD'' y] w = (Ok r, w')"
  shows "map_option pp_price r = Some (if cp_base pair = x then 1 / usd asset_x * usd asset_y
     else 1 / (1 / usd asset_x * usd asset_y))"
proof -
  let ?x = "\<lparr>pp_pair = pair_of ''USD'' x, pp_price = usd asset_x\<rparr>"
  let ?y = "\<lparr>pp_pair = pair_of ''USD'' y, pp_price = usd asset_y\<rparr>"
  from run obtain xs where
    xs: "join_collect (map (\<lambda>p. dia_get_price L url p S) [pair_of ''USD'' x, pair_of ''USD'' y]) w = (Ok xs, w')"
    and r: "r = (case reduce_all price_reduce xs of None \<Rightarrow> None
      | Some x \<Rightarrow> Some (if cp_base (pp_pair x) \<noteq> cp_base pair then price_invert x else x))"
    by (auto simp: route_price_def a_bind_eq_Ok)
  have "xs = [?x, ?y]"
    using join_collect_Ok [OF xs] dia_get_price_Ok [OF usd assets(1)] dia_get_price_Ok [OF usd assets(2)]
    by (auto simp: list_all2_Cons1)
  with r currencies show ?thesis
    by (auto simp: price_reduce_def price_invert_def pair_invert_def rate_invert_def)
qed

definition demo_dia_lib :: "(unit, string, rat, rat) oracle_lib" where
  "demo_dia_lib = \<lparr>ol_get = (\<lambda>u. a_ret (if u = ''/assetQuotation/b'' then 20000 else 5)), ol_path = (\<lambda>_. []),
     ol_set_path = (\<lambda>p _. p), ol_set_query = (\<lambda>_ u. u), ol_append_pair = (\<lambda>_ _ u. u), ol_field = (\<lambda>d _. Some d),
     ol_index = (\<lambda>_ _. None), ol_as_f64 = Some, ol_as_str = (\<lambda>_. None), ol_as_object = (\<lambda>_. None),
     ol_as_array = (\<lambda>_. None), ol_parse_f64 = (\<lambda>_. Err []), ol_median = median_of, ol_from_float = (\<lambda>_. 0),
     ol_from_rational = (\<lambda>_ _. None), ol_fixed_mul = (\<lambda>_ _. None), ol_lower = id\<rparr>"

lemma dia_route_price_witness:
  "\<exists>r. route_price Map.empty (pair_of ''BTC'' ''DOT'') (dia_get_price demo_dia_lib []) [pair_of ''USD'' ''BTC=b'', pair_of ''USD'' ''DOT=d''] () = (Ok r, ())
     \<and> map_option pp_price r = Some 4000"
proof -
  have usd: "quotes_usd demo_dia_lib [] (\<lambda>a. if a = ''b'' then 20000 else 5)"
    by (auto simp: quotes_usd_def demo_dia_lib_def dia_extract_def)
  obtain r where run: "route_price Map.empty (pair_of ''BTC'' ''DOT'') (dia_get_price demo_dia_lib [])
      [pair_of ''USD'' ''BTC=b'', pair_of ''USD'' ''DOT=d''] () = (Ok r, ())"
    by (simp add: oracle_run dia_get_price_def quote_of_def get_http_def dia_extract_def demo_dia_lib_def after_eq_def strip_def)
  from dia_route_price [OF usd _ _ _ _ this, of "''b''" "''d''"] run show ?thesis
    by (simp add: after_eq_def strip_def)
qed

end

