(* ===== verification/Runner.thy ===== *)
theory Runner
  imports ActionLogic BtcTypes
begin

text \<open>
  The runner: it keeps the client binary that the parachain announces downloaded and running
  (\<open>runner/src/runner.rs\<close>). The files and the child processes are explicit: a process runs the
  bytes its executable had when it was spawned, until it was waited for. The calls of the operating
  system, HTTP and the parachain may fail in any way: the record \<open>runner_os\<close>.
\<close>

section \<open>Data\<close>

datatype runner_error =
    Rn_CodecError ext_error | Rn_IoError ext_error | Rn_OsError ext_error | Rn_HttpError ext_error
  | Rn_UrlParseError ext_error | Rn_SubxtError ext_error | Rn_IntegerConversionError | Rn_NoDownloadedRelease
  | Rn_ChildProcessExists | Rn_ProcessTerminationFailure | Rn_ClientTypeParsingError
  | Rn_ClientNameDerivationError | Rn_IncorrectChecksum

datatype client_type = Vault_client | Oracle_client | Faucet_client

definition client_type_from_str :: "string \<Rightarrow> (client_type, runner_error) result" where
  "client_type_from_str s =
     (if s = ''vault'' then Ok Vault_client
      else if s = ''oracle'' then Ok Oracle_client
      else if s = ''faucet'' then Ok Faucet_client
      else Err Rn_ClientTypeParsingError)"

fun client_type_string :: "client_type \<Rightarrow> string" where
  "client_type_string Vault_client = ''vault''"
| "client_type_string Oracle_client = ''oracle''"
| "client_type_string Faucet_client = ''faucet''"

definition BLOCK_TIME :: nat where "BLOCK_TIME = 6000"
definition RETRY_TIMEOUT :: nat where "RETRY_TIMEOUT = 60000"
definition RETRY_INTERVAL :: nat where "RETRY_INTERVAL = 1000"

record client_release =
  rel_uri :: string
  rel_checksum :: bytes

record downloaded_release =
  dl_checksum :: bytes
  dl_path :: string
  dl_bin_name :: string

record runner =
  rn_child :: "u32 option"
  rn_release :: "downloaded_release option"
  rn_files :: "string \<rightharpoonup> bytes"
  rn_running :: "(u32 \<times> bytes) list"

definition runner_new :: "(string \<rightharpoonup> bytes) \<Rightarrow> runner" where
  "runner_new files = \<lparr>rn_child = None, rn_release = None, rn_files = files, rn_running = []\<rparr>"

text \<open>
  \<open>ro_io\<close> decides whether a call of the file system fails; \<open>ro_write\<close> also how many bytes a failing
  write has written. \<open>ro_try_wait\<close> tells whether the child has exited. \<open>ro_waits\<close> are the waits of
  the backoff (one a second for a minute), after which \<open>backoff::retry\<close> gives up with the last error.
\<close>

record 'w runner_os =
  ro_download_path :: string
  ro_client_args :: "string list"
  ro_client_type :: client_type
  ro_io :: "('w, unit, ext_error) action"
  ro_write :: "bytes \<Rightarrow> 'w \<Rightarrow> ((unit, ext_error) result \<times> nat) \<times> 'w"
  ro_spawn :: "string \<Rightarrow> string list \<Rightarrow> ('w, u32, ext_error) action"
  ro_kill :: "u32 \<Rightarrow> ('w, unit, ext_error) action"
  ro_wait :: "u32 \<Rightarrow> ('w, unit, ext_error) action"
  ro_try_wait :: "u32 \<Rightarrow> ('w, bool, ext_error) action"
  ro_fetch :: "string \<Rightarrow> ('w, bytes, ext_error) action"
  ro_storage :: "string \<Rightarrow> ('w, bytes option, ext_error) action"
  ro_decode :: "bytes \<Rightarrow> (client_release, ext_error) result"
  ro_path_segments :: "string \<Rightarrow> (string list option, ext_error) result"
  ro_sha256 :: "bytes \<Rightarrow> bytes"
  ro_waits :: "nat list"
  ro_sleep :: "nat \<Rightarrow> 'w \<Rightarrow> 'w"

type_synonym ('w, 'a) runner_action = "('w \<times> runner, 'a, runner_error) action"

text \<open>\<open>retry_with_log\<close> and its asynchronous sibling: every error is transient.\<close>

fun retry_with_log :: "(nat \<Rightarrow> 'w \<Rightarrow> 'w) \<Rightarrow> nat list \<Rightarrow> ('w \<times> 's, 'a, 'e) action \<Rightarrow> ('w \<times> 's, 'a, 'e) action" where
  "retry_with_log sleep [] f = f"
| "retry_with_log sleep (t # waits) f =
     a_match f a_ret (\<lambda>_ ws. retry_with_log sleep waits f (sleep t (fst ws), snd ws))"

abbreviation retrying :: "'w runner_os \<Rightarrow> ('w, 'a) runner_action \<Rightarrow> ('w, 'a) runner_action" where
  "retrying R f \<equiv> retry_with_log (ro_sleep R) (ro_waits R) f"

definition file_call :: "'w runner_os \<Rightarrow> ('w, unit) runner_action" where
  "file_call R = on_world (a_map_err Rn_IoError (ro_io R))"

section \<open>The binary\<close>

definition trim_end_slashes :: "string \<Rightarrow> string" where
  "trim_end_slashes s = rev (dropWhile (\<lambda>c. c = CHR ''/'') (rev s))"

definition path_join :: "string \<Rightarrow> string \<Rightarrow> string" where
  "path_join p n = (if p = [] \<or> last p = CHR ''/'' then p @ n else p @ ''/'' @ n)"

definition get_bin_path :: "'w runner_os \<Rightarrow> string \<Rightarrow> (string \<times> string, runner_error) result" where
  "get_bin_path R uri =
     rbind (map_err Rn_UrlParseError (ro_path_segments R (trim_end_slashes uri))) (\<lambda>segments.
     rbind (ok_or Rn_ClientNameDerivationError
       (case segments of None \<Rightarrow> None | Some xs \<Rightarrow> if xs = [] \<or> last xs = [] then None else Some (last xs))) (\<lambda>bin_name.
     Ok (bin_name, path_join (ro_download_path R) bin_name)))"

definition try_load_downloaded_binary :: "'w runner_os \<Rightarrow> client_release \<Rightarrow> ('w, unit) runner_action" where
  "try_load_downloaded_binary R release =
     a_bind (a_lift (get_bin_path R (rel_uri release))) (\<lambda>(bin_name, bin_path).
     a_bind (a_map_err (\<lambda>_. Rn_NoDownloadedRelease) (file_call R)) (\<lambda>_.
     a_bind get_state (\<lambda>s.
     a_bind (a_lift (ok_or Rn_NoDownloadedRelease (rn_files s bin_path))) (\<lambda>file_content.
     let checksum = ro_sha256 R file_content in
     if checksum \<noteq> rel_checksum release then a_err Rn_IncorrectChecksum
     else modify_state (\<lambda>s. s\<lparr>rn_release := Some \<lparr>dl_checksum = checksum, dl_path = bin_path, dl_bin_name = bin_name\<rparr>\<rparr>)))))"

text \<open>A write from the start of a file that was opened without truncation.\<close>

definition overwrite :: "bytes \<Rightarrow> bytes \<Rightarrow> bytes" where
  "overwrite new old = new @ drop (length new) old"

definition open_file :: "'w runner_os \<Rightarrow> string \<Rightarrow> ('w, unit) runner_action" where
  "open_file R path =
     a_bind (file_call R) (\<lambda>_. modify_state (\<lambda>s. s\<lparr>rn_files := (rn_files s)(path \<mapsto>
       (case rn_files s path of Some old \<Rightarrow> old | None \<Rightarrow> []))\<rparr>))"

definition write_file :: "'w runner_os \<Rightarrow> string \<Rightarrow> bytes \<Rightarrow> ('w, unit) runner_action" where
  "write_file R path data ws = (case ws of (w, s) \<Rightarrow> case ro_write R data w of ((r, n), w') \<Rightarrow>
     (map_err Rn_IoError r,
      (w', s\<lparr>rn_files := (rn_files s)(path \<mapsto> overwrite (if r = Ok () then data else take n data)
         (case rn_files s path of Some old \<Rightarrow> old | None \<Rightarrow> []))\<rparr>)))"

definition get_request_bytes :: "'w runner_os \<Rightarrow> string \<Rightarrow> ('w, bytes) runner_action" where
  "get_request_bytes R url = on_world (a_map_err Rn_HttpError (ro_fetch R url))"

text \<open>The checksum of what was downloaded is not computed: that of the release is recorded.\<close>

definition download_anew :: "'w runner_os \<Rightarrow> client_release \<Rightarrow> ('w, downloaded_release) runner_action" where
  "download_anew R release =
     a_bind (a_lift (get_bin_path R (rel_uri release))) (\<lambda>(bin_name, bin_path).
     a_bind (open_file R bin_path) (\<lambda>_.
     a_bind (retrying R (get_request_bytes R (rel_uri release))) (\<lambda>data.
     a_bind (write_file R bin_path data) (\<lambda>_.
     a_bind (file_call R) (\<lambda>_.
     let d = \<lparr>dl_checksum = rel_checksum release, dl_path = bin_path, dl_bin_name = bin_name\<rparr> in
     a_bind (modify_state (\<lambda>s. s\<lparr>rn_release := Some d\<rparr>)) (\<lambda>_. a_ret d))))))"

definition download_binary :: "'w runner_os \<Rightarrow> client_release \<Rightarrow> ('w, downloaded_release) runner_action" where
  "download_binary R release =
     a_bind get_state (\<lambda>s.
     case (case rn_release s of Some d \<Rightarrow> if dl_checksum d = rel_checksum release then Some d else None | None \<Rightarrow> None) of
       Some d \<Rightarrow> a_ret d
     | None \<Rightarrow> download_anew R release)"

definition remove_file :: "'w runner_os \<Rightarrow> string \<Rightarrow> ('w, unit) runner_action" where
  "remove_file R path =
     a_bind (file_call R) (\<lambda>_. a_bind get_state (\<lambda>s.
     if rn_files s path = None then a_err (Rn_IoError [])
     else modify_state (\<lambda>s. s\<lparr>rn_files := (rn_files s)(path := None)\<rparr>)))"

definition delete_downloaded_release :: "'w runner_os \<Rightarrow> ('w, unit) runner_action" where
  "delete_downloaded_release R =
     a_bind get_state (\<lambda>s.
     a_bind (a_lift (ok_or Rn_NoDownloadedRelease (rn_release s))) (\<lambda>release.
     a_bind (retrying R (remove_file R (dl_path release))) (\<lambda>_.
     modify_state (\<lambda>s. s\<lparr>rn_release := None\<rparr>))))"

section \<open>The child process\<close>

definition reaped :: "u32 \<Rightarrow> runner \<Rightarrow> runner" where
  "reaped pid s = s\<lparr>rn_running := filter (\<lambda>(p, _). p \<noteq> pid) (rn_running s)\<rparr>"

text \<open>
  \<open>Ok(signal::kill(..))\<close>: the error of the signal is not looked at, so only a process id that is no
  \<open>i32\<close> is retried. A child that cannot be waited for is forgotten with a warning.
\<close>

definition signal_child :: "'w runner_os \<Rightarrow> u32 \<Rightarrow> ('w, unit) runner_action" where
  "signal_child R pid = (if unat pid < 2 ^ 31 then a_ignore (on_world (ro_kill R pid)) else a_err Rn_IntegerConversionError)"

definition wait_child :: "'w runner_os \<Rightarrow> u32 \<Rightarrow> ('w, unit) runner_action" where
  "wait_child R pid = a_match (on_world (ro_wait R pid)) (\<lambda>_. modify_state (reaped pid)) (\<lambda>_. a_ret ())"

definition terminate_proc_and_wait :: "'w runner_os \<Rightarrow> ('w, u32) runner_action" where
  "terminate_proc_and_wait R =
     a_bind get_state (\<lambda>s. case rn_child s of
       None \<Rightarrow> a_ret 0
     | Some pid \<Rightarrow>
         a_bind (a_map_err (\<lambda>_. Rn_ProcessTerminationFailure) (retrying R (signal_child R pid))) (\<lambda>_.
         a_bind (wait_child R pid) (\<lambda>_.
         a_bind (modify_state (\<lambda>s. s\<lparr>rn_child := None\<rparr>)) (\<lambda>_. a_ret pid))))"

definition check_child_proc_alive :: "'w runner_os \<Rightarrow> ('w, bool) runner_action" where
  "check_child_proc_alive R =
     a_bind get_state (\<lambda>s. case rn_child s of
       None \<Rightarrow> a_ret False
     | Some pid \<Rightarrow>
         a_bind (on_world (a_map_err Rn_IoError (ro_try_wait R pid))) (\<lambda>exited.
         if exited then a_bind (modify_state (\<lambda>s. (reaped pid s)\<lparr>rn_child := None\<rparr>)) (\<lambda>_. a_ret False)
         else a_ret True))"

definition spawn_process :: "'w runner_os \<Rightarrow> string \<Rightarrow> ('w, u32) runner_action" where
  "spawn_process R path =
     a_bind get_state (\<lambda>s. case rn_files s path of
       None \<Rightarrow> a_err (Rn_IoError [])
     | Some program \<Rightarrow>
         a_bind (on_world (a_map_err Rn_IoError (ro_spawn R path (ro_client_args R)))) (\<lambda>pid.
         a_bind (modify_state (\<lambda>s. s\<lparr>rn_running := rn_running s @ [(pid, program)]\<rparr>)) (\<lambda>_. a_ret pid)))"

definition run_binary :: "'w runner_os \<Rightarrow> ('w, unit) runner_action" where
  "run_binary R =
     a_bind get_state (\<lambda>s.
     if rn_child s \<noteq> None then a_err Rn_ChildProcessExists
     else a_bind (a_lift (ok_or Rn_NoDownloadedRelease (rn_release s))) (\<lambda>d.
       a_bind (retrying R (spawn_process R (dl_path d))) (\<lambda>pid.
       modify_state (\<lambda>s. s\<lparr>rn_child := Some pid\<rparr>))))"

definition maybe_restart_client :: "'w runner_os \<Rightarrow> ('w, unit) runner_action" where
  "maybe_restart_client R = a_bind (check_child_proc_alive R) (\<lambda>alive. if alive then a_ret () else run_binary R)"

section \<open>Updates\<close>

definition read_chain_storage :: "'w runner_os \<Rightarrow> ('w, client_release option) runner_action" where
  "read_chain_storage R =
     a_bind (on_world (a_map_err Rn_SubxtError (ro_storage R (client_type_string (ro_client_type R))))) (\<lambda>enc_res.
     case enc_res of
       None \<Rightarrow> a_ret None
     | Some r \<Rightarrow> a_bind (a_lift (map_err Rn_CodecError (ro_decode R r))) (\<lambda>release. a_ret (Some release)))"

definition try_get_release :: "'w runner_os \<Rightarrow> ('w, client_release option) runner_action" where
  "try_get_release R = retrying R (read_chain_storage R)"

definition update_client :: "'w runner_os \<Rightarrow> client_release \<Rightarrow> ('w, unit) runner_action" where
  "update_client R new_release =
     a_bind (terminate_proc_and_wait R) (\<lambda>_.
     a_bind (delete_downloaded_release R) (\<lambda>_.
     a_bind (download_binary R new_release) (\<lambda>_.
     run_binary R)))"

text \<open>One turn of the loop.\<close>

definition update_round :: "'w runner_os \<Rightarrow> ('w, unit) runner_action" where
  "update_round R =
     a_bind (maybe_restart_client R) (\<lambda>_.
     a_bind (try_get_release R) (\<lambda>new_release.
     a_bind (case new_release of
         None \<Rightarrow> a_ret ()
       | Some new_release \<Rightarrow>
           a_bind get_state (\<lambda>s.
           a_bind (a_lift (ok_or Rn_NoDownloadedRelease (rn_release s))) (\<lambda>d.
           if rel_checksum new_release \<noteq> dl_checksum d then update_client R new_release else a_ret ()))) (\<lambda>_.
     \<lambda>(w, s). (Ok (), (ro_sleep R BLOCK_TIME w, s)))))"

definition start_client :: "'w runner_os \<Rightarrow> ('w, unit) runner_action" where
  "start_client R =
     a_bind (file_call R) (\<lambda>_.
     a_bind (try_get_release R) (\<lambda>found.
     a_bind (a_lift (unwrap found)) (\<lambda>release.
     a_bind (a_match (try_load_downloaded_binary R release) a_ret
       (\<lambda>_. a_bind (download_binary R release) (\<lambda>_. a_ret ()))) (\<lambda>_.
     run_binary R))))"

definition auto_update :: "'w runner_os \<Rightarrow> nat \<Rightarrow> ('w, unit option) runner_action" where
  "auto_update R n =
     a_bind (start_client R) (\<lambda>_. a_loop (\<lambda>_. a_bind (update_round R) (\<lambda>_. a_ret (Inl ()))) n ())"

text \<open>
  \<open>run\<close> with a termination signal during the sleep after \<open>n\<close> rounds: whether that comes first or the
  updates end, the child is terminated.
\<close>

definition runner_run :: "'w runner_os \<Rightarrow> nat \<Rightarrow> ('w, unit) runner_action" where
  "runner_run R n =
     a_match (auto_update R n) (\<lambda>_. a_bind (terminate_proc_and_wait R) (\<lambda>_. a_ret ()))
       (\<lambda>_. a_bind (terminate_proc_and_wait R) (\<lambda>_. a_ret ()))"

definition runner_drop :: "'w runner_os \<Rightarrow> ('w, unit) runner_action" where
  "runner_drop R ws = (case check_child_proc_alive R ws of
      (Ok True, ws') \<Rightarrow> a_ignore (terminate_proc_and_wait R) ws'
    | (Ok False, ws') \<Rightarrow> (Ok (), ws')
    | (_, ws') \<Rightarrow> (Panic, ws'))"

end
