(* ===== verification/RunnerFacts.thy ===== *)
theory RunnerFacts
  imports Runner
begin

text \<open>
  What the runner promises: there is never more than one client process, and when the server is
  honest and the download directory fresh, it runs a binary with the checksum of the release. The
  two follow from one invariant of the update loop, over what is known of the files.
\<close>

section \<open>The invariant\<close>

definition idle :: "runner \<Rightarrow> bool" where
  "idle s \<longleftrightarrow> rn_child s = None \<and> rn_running s = []"

text \<open>The processes that run: the child, if there is one.\<close>

definition single :: "runner \<Rightarrow> bool" where
  "single s \<longleftrightarrow> map fst (rn_running s) = (case rn_child s of None \<Rightarrow> [] | Some pid \<Rightarrow> [pid])"

definition announced :: "'w runner_os \<Rightarrow> client_release \<Rightarrow> bool" where
  "announced R rel \<longleftrightarrow> (\<exists>enc. ro_decode R enc = Ok rel)"

text \<open>
  \<open>fresh\<close> are the files when nothing is downloaded, \<open>good c p\<close> those when a release with checksum \<open>c\<close>
  is at \<open>p\<close>, and \<open>runs c\<close> the programs that such a release runs.
\<close>

definition runs_release :: "(bytes \<Rightarrow> bytes \<Rightarrow> bool) \<Rightarrow> runner \<Rightarrow> bool" where
  "runs_release runs s \<longleftrightarrow> single s \<and>
     (\<forall>(pid, program) \<in> set (rn_running s). \<exists>d. rn_release s = Some d \<and> runs (dl_checksum d) program)"

definition loop_inv ::
  "((string \<rightharpoonup> bytes) \<Rightarrow> bool) \<Rightarrow> (bytes \<Rightarrow> string \<Rightarrow> (string \<rightharpoonup> bytes) \<Rightarrow> bool) \<Rightarrow> (bytes \<Rightarrow> bytes \<Rightarrow> bool) \<Rightarrow> runner \<Rightarrow> bool" where
  "loop_inv fresh good runs s \<longleftrightarrow> runs_release runs s \<and>
     (case rn_release s of None \<Rightarrow> fresh (rn_files s) | Some d \<Rightarrow> good (dl_checksum d) (dl_path d) (rn_files s))"

text \<open>What the invariant asks of the system and of these predicates.\<close>

definition waits_for_child :: "'w runner_os \<Rightarrow> bool" where
  "waits_for_child R \<longleftrightarrow> (\<forall>pid w e w'. ro_wait R pid w \<noteq> (Err e, w'))"

definition update_laws ::
  "'w runner_os \<Rightarrow> ((string \<rightharpoonup> bytes) \<Rightarrow> bool) \<Rightarrow> (bytes \<Rightarrow> string \<Rightarrow> (string \<rightharpoonup> bytes) \<Rightarrow> bool) \<Rightarrow> (bytes \<Rightarrow> bytes \<Rightarrow> bool) \<Rightarrow> bool" where
  "update_laws R fresh good runs \<longleftrightarrow>
     waits_for_child R \<and>
     (\<forall>rel files p w b w'. announced R rel \<longrightarrow> fresh files \<longrightarrow> ro_fetch R (rel_uri rel) w = (Ok b, w') \<longrightarrow>
        good (rel_checksum rel) p (files(p \<mapsto> overwrite b (case files p of Some old \<Rightarrow> old | None \<Rightarrow> [])))) \<and>
     (\<forall>files p b. fresh files \<longrightarrow> files p = Some b \<longrightarrow> good (ro_sha256 R b) p files) \<and>
     (\<forall>c p files. good c p files \<longrightarrow> fresh (files(p := None))) \<and>
     (\<forall>c p files program. good c p files \<longrightarrow> files p = Some program \<longrightarrow> runs c program)"

lemma update_laws_waits: "update_laws R fresh good runs \<Longrightarrow> waits_for_child R"
  by (simp add: update_laws_def)

section \<open>Actions\<close>

text \<open>
  Started in \<open>P\<close>, an action ends in \<open>Q\<close> of its value, or with an error or a panic in \<open>E\<close>: what is said
  of the runner, whatever the world does.
\<close>

definition runs_to :: "(runner \<Rightarrow> bool) \<Rightarrow> ('w \<times> runner, 'a, 'e) action \<Rightarrow> ('a \<Rightarrow> runner \<Rightarrow> bool) \<Rightarrow> (runner \<Rightarrow> bool) \<Rightarrow> bool" where
  "runs_to P m Q E \<longleftrightarrow> triple (\<lambda>ws. E (snd ws)) (\<lambda>ws. P (snd ws)) m (\<lambda>a ws. Q a (snd ws)) (\<lambda>_ ws. E (snd ws))"

lemma runs_toI:
  assumes "\<And>w s r w' s'. P s \<Longrightarrow> m (w, s) = (r, (w', s')) \<Longrightarrow> (case r of Ok a \<Rightarrow> Q a s' | Err e \<Rightarrow> E s' | Panic \<Rightarrow> E s')"
  shows "runs_to P m Q E"
  unfolding runs_to_def by (rule triple_on_state) (use assms in blast)

lemma runs_toD:
  assumes "runs_to P m Q E" "m (w, s) = (r, (w', s'))" "P s"
  shows "case r of Ok a \<Rightarrow> Q a s' | _ \<Rightarrow> E s'"
  using assms(1) [unfolded runs_to_def triple_def, THEN spec, of "(w, s)"] assms(2,3)
  by (cases r) simp_all

named_theorems runs_intro \<open>rules that decompose an action of the runner\<close>

lemma runs_to_conseq:
  "runs_to P m Q E \<Longrightarrow> (\<And>s. P' s \<Longrightarrow> P s) \<Longrightarrow> (\<And>a s. Q a s \<Longrightarrow> Q' a s) \<Longrightarrow> (\<And>s. E s \<Longrightarrow> E' s) \<Longrightarrow> runs_to P' m Q' E'"
  unfolding runs_to_def by (erule triple_conseq) simp_all

lemma runs_to_bind [runs_intro]: "runs_to P m R E \<Longrightarrow> (\<And>a. runs_to (R a) (f a) Q E) \<Longrightarrow> runs_to P (a_bind m f) Q E"
  unfolding runs_to_def by (rule triple_bind)

lemma runs_to_match:
  assumes "runs_to P m R F" "\<And>a. runs_to (R a) (f a) Q E" "\<And>e. runs_to F (g e) Q E" "\<And>s. F s \<Longrightarrow> E s"
  shows "runs_to P (a_match m f g) Q E"
proof (rule runs_toI)
  fix w s r w' s'
  assume s: "P s" and run: "a_match m f g (w, s) = (r, (w', s'))"
  obtain r1 w1 s1 where m: "m (w, s) = (r1, (w1, s1))" by (metis surj_pair)
  from runs_toD [OF assms(1) m s] run m show "case r of Ok a \<Rightarrow> Q a s' | Err e \<Rightarrow> E s' | Panic \<Rightarrow> E s'"
    by (cases r1) (auto simp: a_match_def intro: assms(4) dest: runs_toD [OF assms(2)] runs_toD [OF assms(3)])
qed

lemma runs_to_map_err [runs_intro]: "runs_to P m Q E \<Longrightarrow> runs_to P (a_map_err h m) Q E"
  unfolding runs_to_def by (rule triple_map_err)

lemma runs_to_ignore [runs_intro]: "runs_to P m (\<lambda>_. Q ()) (Q ()) \<Longrightarrow> (\<And>s. Q () s \<Longrightarrow> E s) \<Longrightarrow> runs_to P (a_ignore m) Q E"
  unfolding a_ignore_def
  by (rule runs_to_match [where R = "\<lambda>_. Q ()" and F = "Q ()"]) (simp_all add: runs_to_def triple_def a_ret_def)

lemma runs_to_if [runs_intro]: "(b \<Longrightarrow> runs_to P m Q E) \<Longrightarrow> (\<not> b \<Longrightarrow> runs_to P m' Q E) \<Longrightarrow> runs_to P (if b then m else m') Q E"
  by simp

lemma runs_to_option [runs_intro]:
  "(x = None \<Longrightarrow> runs_to P m Q E) \<Longrightarrow> (\<And>a. x = Some a \<Longrightarrow> runs_to P (f a) Q E) \<Longrightarrow>
   runs_to P (case x of None \<Rightarrow> m | Some a \<Rightarrow> f a) Q E"
  by (cases x) simp_all

lemma runs_to_pair [runs_intro]: "(\<And>a b. x = (a, b) \<Longrightarrow> runs_to P (f a b) Q E) \<Longrightarrow> runs_to P (case x of (a, b) \<Rightarrow> f a b) Q E"
  by (cases x) simp

lemma runs_to_ret [runs_intro]: "(\<And>s. P s \<Longrightarrow> Q a s) \<Longrightarrow> runs_to P (a_ret a) Q E"
  by (rule runs_toI) (auto simp: a_ret_def)

lemma runs_to_err [runs_intro]: "(\<And>s. P s \<Longrightarrow> E s) \<Longrightarrow> runs_to P (a_err e) Q E"
  by (rule runs_toI) (auto simp: a_err_def)

lemma runs_to_lift [runs_intro]: "(\<And>a s. r = Ok a \<Longrightarrow> P s \<Longrightarrow> Q a s) \<Longrightarrow> (\<And>s. P s \<Longrightarrow> E s) \<Longrightarrow> runs_to P (a_lift r) Q E"
  by (rule runs_toI) (auto simp: a_lift_def split: result.splits)

lemma runs_to_world: "(\<And>a s. P s \<Longrightarrow> Q a s) \<Longrightarrow> (\<And>s. P s \<Longrightarrow> E s) \<Longrightarrow> runs_to P (on_world m) Q E"
  unfolding runs_to_def by (rule triple_world_state)

lemma runs_to_modify [runs_intro]: "(\<And>s. P s \<Longrightarrow> Q () (f s)) \<Longrightarrow> runs_to P (modify_state f) Q E"
  by (rule runs_toI) (auto simp: modify_state_def)

lemma runs_to_get [runs_intro]: "(\<And>s. P s \<Longrightarrow> runs_to (\<lambda>s'. s' = s) (f s) Q E) \<Longrightarrow> runs_to P (a_bind get_state f) Q E"
  unfolding runs_to_def by (rule triple_get_state)

lemma runs_to_file_call: "(\<And>s. P s \<Longrightarrow> E s) \<Longrightarrow> runs_to P (file_call R) (\<lambda>_. P) E"
  unfolding file_call_def by (rule runs_to_world)

lemma runs_to_retry:
  assumes "runs_to P f Q P"
  shows "runs_to P (retry_with_log sleep waits f) Q P"
proof (induction waits)
  case Nil
  then show ?case using assms by simp
next
  case (Cons t waits)
  have sleep: "runs_to P (\<lambda>ws. retry_with_log sleep waits f (sleep t (fst ws), snd ws)) Q P"
    using Cons by (simp add: runs_to_def triple_def)
  show ?case
    by (simp only: retry_with_log.simps, rule runs_to_match [OF assms _ sleep]) (rule runs_to_ret)
qed


lemma runs_to_call: "runs_to P (on_world (a_map_err h m)) (\<lambda>a s. P s \<and> may_return m a) P"
proof (rule runs_toI)
  fix w s r w' s'
  assume "P s" "on_world (a_map_err h m) (w, s) = (r, (w', s'))"
  then show "case r of Ok a \<Rightarrow> P s' \<and> may_return m a | Err e \<Rightarrow> P s' | Panic \<Rightarrow> P s'"
    unfolding may_return_def
    by (cases r) (auto simp: on_world_def a_map_err_def split: prod.splits)
qed

lemma lift_Ok_bind: "a_bind (a_lift (Ok a)) f = f a"
  by (rule ext) (simp add: action_defs)

lemma idle_single: "idle s \<Longrightarrow> single s"
  by (simp add: idle_def single_def)

lemma idle_runs: "idle s \<Longrightarrow> runs_release runs s"
  by (simp add: runs_release_def idle_single) (simp add: idle_def)

section \<open>The steps\<close>

text \<open>Nothing runs and nothing is downloaded; then something is.\<close>

definition cleared :: "((string \<rightharpoonup> bytes) \<Rightarrow> bool) \<Rightarrow> runner \<Rightarrow> bool" where
  "cleared fresh s \<longleftrightarrow> idle s \<and> rn_release s = None \<and> fresh (rn_files s)"

definition ready :: "(bytes \<Rightarrow> string \<Rightarrow> (string \<rightharpoonup> bytes) \<Rightarrow> bool) \<Rightarrow> runner \<Rightarrow> bool" where
  "ready good s \<longleftrightarrow> idle s \<and> (\<exists>d. rn_release s = Some d \<and> good (dl_checksum d) (dl_path d) (rn_files s))"

lemma ready_inv: "ready good s \<Longrightarrow> loop_inv fresh good runs s"
  by (auto simp: ready_def loop_inv_def idle_runs)

lemma download_ready:
  assumes laws: "update_laws R fresh good runs" and rel: "announced R rel"
  shows "runs_to (cleared fresh) (download_anew R rel) (\<lambda>_. ready good) idle"
proof -
  let ?old = "\<lambda>files p. case files p of Some old \<Rightarrow> old | None \<Rightarrow> []"
  let ?opened = "\<lambda>p s. idle s \<and> rn_release s = None \<and> (\<exists>files. fresh files \<and> rn_files s = files(p \<mapsto> ?old files p))"
  let ?written = "\<lambda>p s. idle s \<and> good (rel_checksum rel) p (rn_files s)"
  have opened: "runs_to (cleared fresh) (open_file R p) (\<lambda>_. ?opened p) idle" for p
    unfolding open_file_def
    by (rule runs_to_bind [OF runs_to_file_call], simp add: cleared_def, rule runs_to_modify) (auto simp: cleared_def idle_def)
  have fetch: "runs_to (?opened p) (retrying R (get_request_bytes R (rel_uri rel)))
      (\<lambda>b s. ?opened p s \<and> may_return (ro_fetch R (rel_uri rel)) b) idle" for p
    unfolding get_request_bytes_def
    by (rule runs_to_conseq [OF runs_to_retry [OF runs_to_call [where P = "?opened p"]]]) simp_all
  have written: "runs_to (\<lambda>s. ?opened p s \<and> may_return (ro_fetch R (rel_uri rel)) b) (write_file R p b) (\<lambda>_. ?written p) idle" for p b
  proof (rule runs_toI)
    fix w s r w' s'
    assume s: "?opened p s \<and> may_return (ro_fetch R (rel_uri rel)) b" and run: "write_file R p b (w, s) = (r, (w', s'))"
    then obtain files where files: "fresh files" "rn_files s = files(p \<mapsto> ?old files p)" by blast
    from s have "good (rel_checksum rel) p (files(p \<mapsto> overwrite b (?old files p)))"
      using laws rel files(1) unfolding update_laws_def may_return_def by blast
    moreover have "rn_files s' = files(p \<mapsto> overwrite b (?old files p))" if "r = Ok u" for u
      using run that files(2) by (auto simp: write_file_def split: prod.splits)
    moreover have "idle s'" using run s by (auto simp: write_file_def idle_def split: prod.splits)
    ultimately show "case r of Ok u \<Rightarrow> ?written p s' | Err e \<Rightarrow> idle s' | Panic \<Rightarrow> idle s'" by (cases r) auto
  qed
  show ?thesis
    unfolding download_anew_def
    by (rule runs_to_bind [where R = "\<lambda>_. cleared fresh"], rule runs_to_lift, assumption, simp add: cleared_def, rule runs_to_pair,
        rule runs_to_bind [OF opened], rule runs_to_bind [OF fetch], rule runs_to_bind [OF written],
        rule runs_to_bind [OF runs_to_file_call], simp, simp only: Let_def,
        rule runs_to_bind [where R = "\<lambda>_. ready good"], rule runs_to_modify, simp add: ready_def idle_def, rule runs_to_ret)
qed

lemma binary_downloaded:
  assumes "update_laws R fresh good runs" "announced R rel"
  shows "runs_to (cleared fresh) (download_binary R rel) (\<lambda>_. ready good) idle"
  unfolding download_binary_def
proof (rule runs_to_get)
  fix s assume s: "cleared fresh s"
  then have "rn_release s = None" by (simp add: cleared_def)
  then show "runs_to (\<lambda>s'. s' = s) (case (case rn_release s of Some d \<Rightarrow> if dl_checksum d = rel_checksum rel then Some d else None | None \<Rightarrow> None) of
      Some d \<Rightarrow> a_ret d | None \<Rightarrow> download_anew R rel) (\<lambda>_. ready good) idle"
    by (simp, intro runs_to_conseq [OF download_ready [OF assms]]) (simp_all add: s)
qed

lemma binary_loaded:
  assumes laws: "update_laws R fresh good runs"
  shows "runs_to (cleared fresh) (try_load_downloaded_binary R rel) (\<lambda>_. ready good) (cleared fresh)"
proof -
  have load: "runs_to (\<lambda>s'. s' = s) (if ro_sha256 R b \<noteq> rel_checksum rel then a_err Rn_IncorrectChecksum
      else modify_state (\<lambda>s. s\<lparr>rn_release := Some \<lparr>dl_checksum = ro_sha256 R b, dl_path = p, dl_bin_name = n\<rparr>\<rparr>))
      (\<lambda>_. ready good) (cleared fresh)" if s: "cleared fresh s" and b: "rn_files s p = Some b" for s b p n
  proof -
    have "good (ro_sha256 R b) p (rn_files s)" using laws s b unfolding update_laws_def cleared_def by blast
    with s show ?thesis
      by (intro runs_to_if runs_to_err runs_to_modify) (auto simp: ready_def cleared_def idle_def)
  qed
  show ?thesis
    unfolding try_load_downloaded_binary_def
  proof (rule runs_to_bind [where R = "\<lambda>_. cleared fresh"], rule runs_to_lift, assumption, assumption, rule runs_to_pair,
      rule runs_to_bind [where R = "\<lambda>_. cleared fresh"], rule runs_to_map_err, rule runs_to_file_call, assumption, rule runs_to_get)
    fix n p s assume s: "cleared fresh s"
    show "runs_to (\<lambda>s'. s' = s) (a_bind (a_lift (ok_or Rn_NoDownloadedRelease (rn_files s p))) (\<lambda>file_content.
        let checksum = ro_sha256 R file_content in
        if checksum \<noteq> rel_checksum rel then a_err Rn_IncorrectChecksum
        else modify_state (\<lambda>s. s\<lparr>rn_release := Some \<lparr>dl_checksum = checksum, dl_path = p, dl_bin_name = n\<rparr>\<rparr>)))
      (\<lambda>_. ready good) (cleared fresh)"
    proof (cases "rn_files s p")
      case None
      then show ?thesis
        by (intro runs_to_bind [where R = "\<lambda>_ _. False"] runs_to_lift) (simp_all add: s runs_to_def triple_def)
    next
      case (Some b)
      then show ?thesis
        using load [OF s Some, of n] by (simp add: lift_Ok_bind Let_def split del: if_split)
    qed
  qed
qed

lemma release_read: "runs_to P (try_get_release R) (\<lambda>found s. P s \<and> (\<forall>rel. found = Some rel \<longrightarrow> announced R rel)) P"
  unfolding try_get_release_def read_chain_storage_def
proof (rule runs_to_retry, rule runs_to_bind [OF runs_to_call [where P = P]], rule runs_to_option)
  show "runs_to (\<lambda>s. P s \<and> m) (a_ret None) (\<lambda>found s. P s \<and> (\<forall>rel. found = Some rel \<longrightarrow> announced R rel)) P" for m
    by (rule runs_to_ret) simp
  show "runs_to (\<lambda>s. P s \<and> m) (a_bind (a_lift (map_err Rn_CodecError (ro_decode R enc))) (\<lambda>release. a_ret (Some release)))
      (\<lambda>found s. P s \<and> (\<forall>rel. found = Some rel \<longrightarrow> announced R rel)) P" for m enc
    by (rule runs_to_bind [where R = "\<lambda>rel s. P s \<and> announced R rel"], rule runs_to_lift)
      (auto simp: announced_def intro: runs_to_ret)
qed

lemma child_terminated:
  assumes wait: "waits_for_child R"
  shows "runs_to (loop_inv fresh good runs) (terminate_proc_and_wait R) (\<lambda>_ s. loop_inv fresh good runs s \<and> idle s) (loop_inv fresh good runs)"
proof -
  have wait: "runs_to (\<lambda>s'. s' = s) (wait_child R pid) (\<lambda>_ s'. s' = reaped pid s) (\<lambda>s'. s' = s)" for s pid
    by (rule runs_toI)
      (use wait in \<open>auto simp: wait_child_def a_match_def on_world_def modify_state_def waits_for_child_def split: prod.splits result.splits\<close>)
  have signal: "runs_to (\<lambda>s'. s' = s) (signal_child R pid) (\<lambda>_ s'. s' = s) (\<lambda>s'. s' = s)" for s pid
    unfolding signal_child_def
    by (intro runs_to_if runs_to_ignore [where Q = "\<lambda>_ s'. s' = s"] runs_to_world runs_to_err) simp_all
  have stop: "runs_to (\<lambda>s'. s' = s) (a_bind (a_map_err (\<lambda>_. Rn_ProcessTerminationFailure) (retrying R (signal_child R pid)))
      (\<lambda>_. a_bind (wait_child R pid) (\<lambda>_. a_bind (modify_state (\<lambda>s. s\<lparr>rn_child := None\<rparr>)) (\<lambda>_. a_ret pid))))
      (\<lambda>_ s'. s' = (reaped pid s)\<lparr>rn_child := None\<rparr>) (\<lambda>s'. s' = s)" for s pid
    by (rule runs_to_bind [OF runs_to_map_err [OF runs_to_retry [OF signal]]], rule runs_to_bind [OF wait],
        rule runs_to_bind [where R = "\<lambda>_ s'. s' = (reaped pid s)\<lparr>rn_child := None\<rparr>"], rule runs_to_modify, simp,
        rule runs_to_ret)
  show ?thesis
    unfolding terminate_proc_and_wait_def
  proof (rule runs_to_get)
    fix s assume s: "loop_inv fresh good runs s"
    show "runs_to (\<lambda>s'. s' = s) (case rn_child s of None \<Rightarrow> a_ret 0
        | Some pid \<Rightarrow> a_bind (a_map_err (\<lambda>_. Rn_ProcessTerminationFailure) (retrying R (signal_child R pid)))
            (\<lambda>_. a_bind (wait_child R pid) (\<lambda>_. a_bind (modify_state (\<lambda>s. s\<lparr>rn_child := None\<rparr>)) (\<lambda>_. a_ret pid))))
        (\<lambda>_ s. loop_inv fresh good runs s \<and> idle s) (loop_inv fresh good runs)"
    proof (rule runs_to_option)
      assume "rn_child s = None"
      with s show "runs_to (\<lambda>s'. s' = s) (a_ret 0) (\<lambda>_ s. loop_inv fresh good runs s \<and> idle s) (loop_inv fresh good runs)"
        by (intro runs_to_ret) (auto simp: loop_inv_def runs_release_def single_def idle_def)
    next
      fix pid assume pid: "rn_child s = Some pid"
      have "idle ((reaped pid s)\<lparr>rn_child := None\<rparr>)"
        using s pid by (auto simp: loop_inv_def runs_release_def single_def idle_def reaped_def filter_empty_conv)
      moreover from this have "loop_inv fresh good runs ((reaped pid s)\<lparr>rn_child := None\<rparr>)"
        using s by (auto simp: loop_inv_def idle_runs reaped_def split: option.splits)
      ultimately show "runs_to (\<lambda>s'. s' = s) (a_bind (a_map_err (\<lambda>_. Rn_ProcessTerminationFailure) (retrying R (signal_child R pid)))
          (\<lambda>_. a_bind (wait_child R pid) (\<lambda>_. a_bind (modify_state (\<lambda>s. s\<lparr>rn_child := None\<rparr>)) (\<lambda>_. a_ret pid))))
          (\<lambda>_ s. loop_inv fresh good runs s \<and> idle s) (loop_inv fresh good runs)"
        by (intro runs_to_conseq [OF stop [of s pid]]) (use s in simp_all)
    qed
  qed
qed

text \<open>After the release is deleted nothing is downloaded and nothing runs.\<close>

lemma release_deleted:
  assumes laws: "update_laws R fresh good runs"
  shows "runs_to (\<lambda>s. loop_inv fresh good runs s \<and> idle s) (delete_downloaded_release R) (\<lambda>_. cleared fresh) (loop_inv fresh good runs)"
  unfolding delete_downloaded_release_def
proof (rule runs_to_get)
  fix s assume s: "loop_inv fresh good runs s \<and> idle s"
  let ?gone = "\<lambda>p s'. s' = s\<lparr>rn_files := (rn_files s)(p := None)\<rparr>"
  have removed: "runs_to (\<lambda>s'. s' = s) (remove_file R p) (\<lambda>_. ?gone p) (\<lambda>s'. s' = s)" for p
    unfolding remove_file_def
    by (rule runs_to_bind [OF runs_to_file_call], assumption, rule runs_to_get, rule runs_to_if)
      (auto intro: runs_to_err runs_to_modify)
  have deleted: "cleared fresh (s\<lparr>rn_files := (rn_files s)(dl_path d := None), rn_release := None\<rparr>)" if "rn_release s = Some d" for d
    using s that laws by (auto simp: cleared_def idle_def loop_inv_def update_laws_def)
  show "runs_to (\<lambda>s'. s' = s) (a_bind (a_lift (ok_or Rn_NoDownloadedRelease (rn_release s))) (\<lambda>release.
      a_bind (retrying R (remove_file R (dl_path release))) (\<lambda>_. modify_state (\<lambda>s. s\<lparr>rn_release := None\<rparr>))))
      (\<lambda>_. cleared fresh) (loop_inv fresh good runs)"
  proof (cases "rn_release s")
    case None
    then show ?thesis
      by (intro runs_to_bind [where R = "\<lambda>_ _. False"] runs_to_lift) (simp_all add: s runs_to_def triple_def)
  next
    case (Some d)
    have "runs_to (\<lambda>s'. s' = s) (a_bind (retrying R (remove_file R (dl_path d))) (\<lambda>_. modify_state (\<lambda>s. s\<lparr>rn_release := None\<rparr>)))
        (\<lambda>_. cleared fresh) (\<lambda>s'. s' = s \<or> cleared fresh s')"
      by (rule runs_to_bind [OF runs_to_conseq [OF runs_to_retry [OF removed [of "dl_path d"]]]], assumption, assumption, simp,
          rule runs_to_modify) (simp add: deleted [OF Some])
    then show ?thesis
      unfolding Some using s by (simp add: lift_Ok_bind, elim runs_to_conseq) (auto simp: cleared_def loop_inv_def idle_runs)
  qed
qed

lemma binary_run:
  assumes laws: "update_laws R fresh good runs"
  shows "runs_to (loop_inv fresh good runs) (run_binary R) (\<lambda>_. loop_inv fresh good runs) (loop_inv fresh good runs)"
  unfolding run_binary_def
proof (rule runs_to_get, rule runs_to_if)
  fix s assume s: "loop_inv fresh good runs s"
  then show "runs_to (\<lambda>s'. s' = s) (a_err Rn_ChildProcessExists) (\<lambda>_. loop_inv fresh good runs) (loop_inv fresh good runs)"
    by (intro runs_to_err) simp
  assume "\<not> rn_child s \<noteq> None"
  then have child: "rn_child s = None" by simp
  let ?started = "\<lambda>d pid s'. \<exists>program. rn_files s (dl_path d) = Some program \<and> s' = s\<lparr>rn_running := rn_running s @ [(pid, program)]\<rparr>"
  have spawned: "runs_to (\<lambda>s'. s' = s) (spawn_process R (dl_path d)) (?started d) (\<lambda>s'. s' = s)" for d
    unfolding spawn_process_def
  proof (rule runs_to_get, rule runs_to_option)
    fix s' assume "s' = s" then show "runs_to (\<lambda>s''. s'' = s') (a_err (Rn_IoError [])) (?started d) (\<lambda>s'. s' = s)"
      by (intro runs_to_err) simp
  next
    fix s' program assume s': "s' = s" and program: "rn_files s' (dl_path d) = Some program"
    have "runs_to (\<lambda>s''. s'' = s) (a_bind (modify_state (\<lambda>s. s\<lparr>rn_running := rn_running s @ [(pid, program)]\<rparr>)) (\<lambda>_. a_ret pid))
        (?started d) (\<lambda>s'. s' = s)" for pid
      by (rule runs_to_bind [where R = "\<lambda>_. ?started d pid"], rule runs_to_modify)
        (use s' program in \<open>auto intro: runs_to_ret\<close>)
    from runs_to_bind [OF runs_to_world this] s' show "runs_to (\<lambda>s''. s'' = s') (a_bind (on_world (a_map_err Rn_IoError (ro_spawn R (dl_path d) (ro_client_args R)))) (\<lambda>pid.
        a_bind (modify_state (\<lambda>s. s\<lparr>rn_running := rn_running s @ [(pid, program)]\<rparr>)) (\<lambda>_. a_ret pid))) (?started d) (\<lambda>s'. s' = s)"
      by simp
  qed
  have started: "loop_inv fresh good runs (s'\<lparr>rn_child := Some pid\<rparr>)"
    if "rn_release s = Some d" "?started d pid s'" for d pid s'
    using s child that laws
    by (auto simp: loop_inv_def runs_release_def single_def update_laws_def)
  show "runs_to (\<lambda>s'. s' = s) (a_bind (a_lift (ok_or Rn_NoDownloadedRelease (rn_release s))) (\<lambda>d.
       a_bind (retrying R (spawn_process R (dl_path d))) (\<lambda>pid. modify_state (\<lambda>s. s\<lparr>rn_child := Some pid\<rparr>))))
      (\<lambda>_. loop_inv fresh good runs) (loop_inv fresh good runs)"
  proof (cases "rn_release s")
    case None
    then show ?thesis
      by (intro runs_to_bind [where R = "\<lambda>_ _. False"] runs_to_lift) (simp_all add: s runs_to_def triple_def)
  next
    case (Some d)
    have "runs_to (\<lambda>s'. s' = s) (a_bind (retrying R (spawn_process R (dl_path d))) (\<lambda>pid. modify_state (\<lambda>s. s\<lparr>rn_child := Some pid\<rparr>)))
        (\<lambda>_. loop_inv fresh good runs) (loop_inv fresh good runs)"
      by (rule runs_to_bind [OF runs_to_conseq [OF runs_to_retry [OF spawned [of d]]]], assumption, assumption, simp add: s,
          rule runs_to_modify) (rule started [OF Some])
    then show ?thesis unfolding Some by (simp add: lift_Ok_bind)
  qed
qed

lemma client_restarted:
  assumes laws: "update_laws R fresh good runs"
  shows "runs_to (loop_inv fresh good runs) (maybe_restart_client R) (\<lambda>_. loop_inv fresh good runs) (loop_inv fresh good runs)"
proof -
  have alive: "runs_to (loop_inv fresh good runs) (check_child_proc_alive R) (\<lambda>_. loop_inv fresh good runs) (loop_inv fresh good runs)"
    unfolding check_child_proc_alive_def
  proof (rule runs_to_get, rule runs_to_option)
    fix s assume s: "loop_inv fresh good runs s"
    then show "runs_to (\<lambda>s'. s' = s) (a_ret False) (\<lambda>_. loop_inv fresh good runs) (loop_inv fresh good runs)"
      by (intro runs_to_ret) simp
    fix pid assume "rn_child s = Some pid"
    with s have "loop_inv fresh good runs ((reaped pid s)\<lparr>rn_child := None\<rparr>)"
      by (auto simp: loop_inv_def runs_release_def single_def reaped_def filter_empty_conv split: option.splits)
    then have gone: "runs_to (\<lambda>s'. s' = s) (a_bind (modify_state (\<lambda>s. (reaped pid s)\<lparr>rn_child := None\<rparr>)) (\<lambda>_. a_ret False))
        (\<lambda>_. loop_inv fresh good runs) (loop_inv fresh good runs)"
      by (intro runs_to_bind [where R = "\<lambda>_. loop_inv fresh good runs"] runs_to_modify runs_to_ret) simp_all
    show "runs_to (\<lambda>s'. s' = s) (a_bind (on_world (a_map_err Rn_IoError (ro_try_wait R pid))) (\<lambda>exited.
        if exited then a_bind (modify_state (\<lambda>s. (reaped pid s)\<lparr>rn_child := None\<rparr>)) (\<lambda>_. a_ret False) else a_ret True))
        (\<lambda>_. loop_inv fresh good runs) (loop_inv fresh good runs)"
      by (rule runs_to_bind [where R = "\<lambda>_ s'. s' = s"], rule runs_to_world, assumption, simp add: s,
          rule runs_to_if, rule gone, rule runs_to_ret, simp add: s)
  qed
  show ?thesis
    unfolding maybe_restart_client_def
    by (rule runs_to_bind [OF alive], rule runs_to_if, rule runs_to_ret, assumption, rule binary_run [OF laws])
qed

lemma client_updated:
  assumes laws: "update_laws R fresh good runs" and rel: "announced R rel"
  shows "runs_to (loop_inv fresh good runs) (update_client R rel) (\<lambda>_. loop_inv fresh good runs) (runs_release runs)"
proof -
  have download: "runs_to (cleared fresh) (download_binary R rel) (\<lambda>_. loop_inv fresh good runs) (runs_release runs)"
    by (rule runs_to_conseq [OF binary_downloaded [OF assms]]) (simp_all add: ready_inv idle_runs)
  note weaken = runs_to_conseq [where E' = "runs_release runs"]
  show ?thesis
    unfolding update_client_def
    by (rule runs_to_bind [OF weaken [OF child_terminated [OF update_laws_waits [OF laws]]]], assumption, assumption, simp add: loop_inv_def,
        rule runs_to_bind [OF weaken [OF release_deleted [OF laws]]], assumption, assumption, simp add: loop_inv_def,
        rule runs_to_bind [OF download], rule weaken [OF binary_run [OF laws]], assumption, assumption, simp add: loop_inv_def)
qed

lemma loop_inv_runs: "loop_inv fresh good runs s \<Longrightarrow> runs_release runs s"
  by (simp add: loop_inv_def)

lemma round_kept:
  assumes laws: "update_laws R fresh good runs"
  shows "runs_to (loop_inv fresh good runs) (update_round R) (\<lambda>_. loop_inv fresh good runs) (runs_release runs)"
proof -
  let ?I = "loop_inv fresh good runs"
  note weaken = runs_to_conseq [where E' = "runs_release runs"]
  have release: "runs_to (\<lambda>s. ?I s \<and> (\<forall>rel. found = Some rel \<longrightarrow> announced R rel)) (case found of
         None \<Rightarrow> a_ret ()
       | Some new_release \<Rightarrow>
           a_bind get_state (\<lambda>s.
           a_bind (a_lift (ok_or Rn_NoDownloadedRelease (rn_release s))) (\<lambda>d.
           if rel_checksum new_release \<noteq> dl_checksum d then update_client R new_release else a_ret ())))
       (\<lambda>_. ?I) (runs_release runs)" for found
  proof (rule runs_to_option)
    show "runs_to (\<lambda>s. ?I s \<and> (\<forall>rel. found = Some rel \<longrightarrow> announced R rel)) (a_ret ()) (\<lambda>_. ?I) (runs_release runs)"
      by (rule runs_to_ret) simp
  next
    fix rel assume found: "found = Some rel"
    show "runs_to (\<lambda>s. ?I s \<and> (\<forall>rel. found = Some rel \<longrightarrow> announced R rel)) (a_bind get_state (\<lambda>s.
           a_bind (a_lift (ok_or Rn_NoDownloadedRelease (rn_release s))) (\<lambda>d.
           if rel_checksum rel \<noteq> dl_checksum d then update_client R rel else a_ret ()))) (\<lambda>_. ?I) (runs_release runs)"
    proof (rule runs_to_get)
      fix s assume s: "?I s \<and> (\<forall>rel. found = Some rel \<longrightarrow> announced R rel)"
      with found have rel: "announced R rel" by simp
      show "runs_to (\<lambda>s'. s' = s) (a_bind (a_lift (ok_or Rn_NoDownloadedRelease (rn_release s))) (\<lambda>d.
           if rel_checksum rel \<noteq> dl_checksum d then update_client R rel else a_ret ())) (\<lambda>_. ?I) (runs_release runs)"
        by (rule runs_to_bind [where R = "\<lambda>_. ?I"], rule runs_to_lift, simp add: s, simp add: s loop_inv_runs [of fresh good],
            rule runs_to_if, rule client_updated [OF laws rel], rule runs_to_ret, assumption)
    qed
  qed
  have sleep: "runs_to ?I (\<lambda>(w, s). (Ok (), (ro_sleep R BLOCK_TIME w, s))) (\<lambda>_. ?I) (runs_release runs)"
    by (rule runs_toI) auto
  show ?thesis
    unfolding update_round_def
    by (rule runs_to_bind [OF weaken [OF client_restarted [OF laws]]], assumption, assumption, rule loop_inv_runs, assumption,
        rule runs_to_bind [OF weaken [OF release_read]], assumption, assumption, rule loop_inv_runs, assumption,
        rule runs_to_bind [OF release], rule sleep)
qed

lemma unwrap_eq_Ok: "unwrap x = Ok a \<longleftrightarrow> x = Some a"
  by (cases x) simp_all

lemma client_started:
  assumes laws: "update_laws R fresh good runs"
  shows "runs_to (cleared fresh) (start_client R) (\<lambda>_. loop_inv fresh good runs) (runs_release runs)"
proof -
  have runs: "cleared fresh s \<Longrightarrow> runs_release runs s" for s by (simp add: cleared_def idle_runs)
  have load: "runs_to (\<lambda>s. cleared fresh s \<and> announced R rel) (a_match (try_load_downloaded_binary R rel) a_ret
       (\<lambda>_. a_bind (download_binary R rel) (\<lambda>_. a_ret ()))) (\<lambda>_. loop_inv fresh good runs) (runs_release runs)" for rel
  proof (cases "announced R rel")
    case True
    have "runs_to (cleared fresh) (a_bind (download_binary R rel) (\<lambda>_. a_ret ())) (\<lambda>_. ready good) (runs_release runs)"
      by (rule runs_to_bind [OF runs_to_conseq [OF binary_downloaded [OF laws True]]], assumption, assumption, rule idle_runs, assumption,
          rule runs_to_ret)
    from runs_to_match [OF binary_loaded [OF laws] runs_to_ret this runs] show ?thesis
      by (rule runs_to_conseq) (auto intro: ready_inv)
  qed (simp add: runs_to_def triple_def)
  show ?thesis
    unfolding start_client_def
    by (rule runs_to_bind [OF runs_to_file_call [where E = "runs_release runs"]], rule runs, assumption,
        rule runs_to_bind [OF runs_to_conseq [OF release_read]], assumption, assumption, rule runs, assumption,
        rule runs_to_bind [where R = "\<lambda>rel s. cleared fresh s \<and> announced R rel"], rule runs_to_lift,
        simp add: unwrap_eq_Ok, simp add: runs,
        rule runs_to_bind [OF load],
        rule runs_to_conseq [OF binary_run [OF laws]], assumption, assumption, rule loop_inv_runs, assumption)
qed

lemma updates_kept:
  assumes laws: "update_laws R fresh good runs"
  shows "runs_to (cleared fresh) (auto_update R n) (\<lambda>_. loop_inv fresh good runs) (runs_release runs)"
proof -
  let ?I = "loop_inv fresh good runs"
  have step: "runs_to ?I (a_bind (update_round R) (\<lambda>_. a_ret (Inl ())))
      (\<lambda>x. case x of Inl _ \<Rightarrow> ?I | Inr r \<Rightarrow> ?I) (runs_release runs)"
    by (rule runs_to_bind [OF round_kept [OF laws]], rule runs_to_ret) simp
  have "runs_to ?I (a_loop (\<lambda>_. a_bind (update_round R) (\<lambda>_. a_ret (Inl ()))) n ()) (\<lambda>_. ?I) (runs_release runs)"
    unfolding runs_to_def
    by (rule triple_loop [where I = "\<lambda>_ ws. ?I (snd ws)"])
      (rule triple_conseq [OF step [unfolded runs_to_def]], auto split: sum.splits)
  then show ?thesis
    unfolding auto_update_def by (rule runs_to_bind [OF client_started [OF laws]])
qed

section \<open>What the runner promises\<close>

lemma any_loop_inv: "loop_inv (\<lambda>_. True) (\<lambda>_ _ _. True) runs = runs_release runs"
  by (rule ext) (simp add: loop_inv_def split: option.splits)

lemma any_laws: "waits_for_child R \<Longrightarrow> update_laws R (\<lambda>_. True) (\<lambda>_ _ _. True) (\<lambda>_ _. True)"
  by (simp add: update_laws_def)

lemma runner_new_cleared: "fresh files \<Longrightarrow> cleared fresh (runner_new files)"
  by (simp add: cleared_def idle_def runner_new_def)

text \<open>
  C12. There is never more than one client: when waiting for a terminated child does not fail, the
  client processes are, after any number of rounds and however the updates end, exactly the
  child the runner knows of, and none when it knows none; \<open>runner_run\<close> succeeds only when none is left.
\<close>

theorem single_client:
  assumes wait: "\<forall>pid w e w'. ro_wait R pid w \<noteq> (Err e, w')"
  shows "(auto_update R n (w, runner_new files) = (r, (w', s)) \<longrightarrow>
        map fst (rn_running s) = (case rn_child s of None \<Rightarrow> [] | Some pid \<Rightarrow> [pid])) \<and>
     (runner_run R n (w, runner_new files) = (Ok (), (w', s)) \<longrightarrow> rn_running s = [] \<and> rn_child s = None)"
proof -
  let ?I = "runs_release (\<lambda>_ _. True)"
  have laws: "update_laws R (\<lambda>_. True) (\<lambda>_ _ _. True) (\<lambda>_ _. True)" and waits: "waits_for_child R"
    using wait any_laws [of R] by (simp_all add: waits_for_child_def)
  have new: "cleared (\<lambda>_. True) (runner_new files)" by (rule runner_new_cleared) simp
  note updates = updates_kept [OF laws, of n, unfolded any_loop_inv]
  have "single s" if "auto_update R n (w, runner_new files) = (r, (w', s))"
    using runs_toD [OF updates that new] by (cases r) (simp_all add: runs_release_def)
  moreover have "idle s" if run: "runner_run R n (w, runner_new files) = (Ok (), (w', s))"
  proof -
    have stop: "runs_to ?I (a_bind (terminate_proc_and_wait R) (\<lambda>_. a_ret ())) (\<lambda>_. idle) (\<lambda>_. True)"
      using child_terminated [OF waits, of "\<lambda>_. True" "\<lambda>_ _ _. True" "\<lambda>_ _. True", unfolded any_loop_inv]
      by (intro runs_to_bind [where R = "\<lambda>_. idle"] runs_to_ret, elim runs_to_conseq) simp_all
    have "runs_to (cleared (\<lambda>_. True)) (runner_run R n) (\<lambda>_. idle) (\<lambda>_. True)"
      unfolding runner_run_def by (rule runs_to_match [OF updates stop stop]) simp
    from runs_toD [OF this run new] show ?thesis by simp
  qed
  ultimately show ?thesis by (simp add: single_def idle_def)
qed


section \<open>Examples\<close>

text \<open>A system for the witnesses: the checksum of some bytes is the bytes, and everything succeeds.\<close>

definition demo_client :: client_release where
  "demo_client = \<lparr>rel_uri = ''u/vault'', rel_checksum = [1, 2]\<rparr>"

definition demo_os :: "bytes \<Rightarrow> unit runner_os" where
  "demo_os served = \<lparr>ro_download_path = ''d'', ro_client_args = [], ro_client_type = Vault_client, ro_io = a_ret (),
     ro_write = (\<lambda>b w. ((Ok (), length b), w)), ro_spawn = (\<lambda>_ _. a_ret 7), ro_kill = (\<lambda>_. a_ret ()), ro_wait = (\<lambda>_. a_ret ()),
     ro_try_wait = (\<lambda>_. a_ret False), ro_fetch = (\<lambda>_. a_ret served), ro_storage = (\<lambda>_. a_ret (Some [])),
     ro_decode = (\<lambda>_. Ok demo_client), ro_path_segments = (\<lambda>_. Ok (Some [''vault''])), ro_sha256 = id, ro_waits = [],
     ro_sleep = (\<lambda>_ w. w)\<rparr>"

lemmas runner_eval = auto_update_def start_client_def file_call_def demo_os_def on_world_def action_defs try_get_release_def
  read_chain_storage_def client_type_string.simps try_load_downloaded_binary_def get_bin_path_def demo_client_def
  trim_end_slashes_def path_join_def get_state_def modify_state_def download_binary_def download_anew_def open_file_def
  write_file_def get_request_bytes_def run_binary_def spawn_process_def update_round_def maybe_restart_client_def
  check_child_proc_alive_def runner_new_def

lemma demo_started:
  "auto_update (demo_os served) 1 ((), runner_new files) = (Ok None, ((),
     (if files ''d/vault'' = Some [1, 2]
      then \<lparr>rn_child = Some 7, rn_release = Some \<lparr>dl_checksum = [1, 2], dl_path = ''d/vault'', dl_bin_name = ''vault''\<rparr>,
             rn_files = files, rn_running = [(7, [1, 2])]\<rparr>
      else let program = overwrite served (case files ''d/vault'' of Some old \<Rightarrow> old | None \<Rightarrow> []) in
        \<lparr>rn_child = Some 7, rn_release = Some \<lparr>dl_checksum = [1, 2], dl_path = ''d/vault'', dl_bin_name = ''vault''\<rparr>,
         rn_files = files(''d/vault'' \<mapsto> program), rn_running = [(7, program)]\<rparr>)))"
  by (simp add: runner_eval Let_def overwrite_def split: option.splits)

lemma single_client_witness:
  "map fst (rn_running (snd (snd (auto_update (demo_os [1, 2]) 1 ((), runner_new Map.empty))))) = [7]"
proof -
  have "\<forall>pid w e w'. ro_wait (demo_os [1, 2]) pid w \<noteq> (Err e, w')" by (simp add: demo_os_def a_ret_def)
  from single_client [OF this, of 1 "()" Map.empty, THEN conjunct1, rule_format, OF demo_started]
  show ?thesis by (simp add: demo_started overwrite_def Let_def del: One_nat_def)
qed


text \<open>
  C40. Neither condition can be dropped: the checksum of what was downloaded is never computed. A server
  that sends other bytes has them run as the release; and with an honest server a longer file
  that was there before keeps its tail, which is run with the new release in front. Both times
  the checksum of the release is recorded, so the next rounds see nothing to update.
\<close>

theorem unverified_download_runs:
  "\<exists>d files. dl_checksum d = rel_checksum demo_client \<and>
     auto_update (demo_os [6, 6]) 1 ((), runner_new Map.empty) = (Ok None, ((),
       \<lparr>rn_child = Some 7, rn_release = Some d, rn_files = [dl_path d \<mapsto> [6, 6]], rn_running = [(7, [6, 6])]\<rparr>)) \<and>
     auto_update (demo_os [1, 2]) 1 ((), runner_new [dl_path d \<mapsto> [9, 9, 9]]) = (Ok None, ((),
       \<lparr>rn_child = Some 7, rn_release = Some d, rn_files = files, rn_running = [(7, [1, 2, 9])]\<rparr>))"
  by (rule exI [of _ "\<lparr>dl_checksum = [1, 2], dl_path = ''d/vault'', dl_bin_name = ''vault''\<rparr>"])
    (simp add: demo_started overwrite_def demo_client_def Let_def del: One_nat_def)

end
