(* ===== verification/Process.thy ===== *)
theory Process
  imports Runner Electrs
begin

text \<open>
  The PID file of a vault (\<open>vault/src/process.rs\<close>): it is written when the vault starts, unless it
  names a running process of the same program, and removed when the vault ends. The files and the
  processes of the machine are the state \<open>machine\<close>; whether a file call fails, and the parsing of
  a process id, are the record \<open>pid_env\<close>.
\<close>

section \<open>Processes\<close>

text \<open>
  \<open>mc_sys\<close> is the snapshot of the process table that the \<open>sysinfo\<close> crate keeps; \<open>refresh_process\<close>
  brings one entry of it up to date, and leaves a process that is gone in it.
\<close>

record machine =
  mc_files :: "string \<rightharpoonup> string"
  mc_procs :: "u32 \<rightharpoonup> string"
  mc_sys :: "u32 \<rightharpoonup> string"

record 'w pid_env =
  pe_temp_dir :: string
  pe_show_account :: "account_id \<Rightarrow> string"
  pe_parse_pid :: "string \<Rightarrow> (u32, ext_error) result"
  pe_io :: "('w, unit, ext_error) action"
  pe_write :: "('w, nat, ext_error) action"

type_synonym ('w, 'a) pid_action = "('w \<times> machine, 'a, service_error) action"

definition refresh_process :: "u32 \<Rightarrow> ('w, bool) pid_action" where
  "refresh_process pid =
     a_bind get_state (\<lambda>m. case mc_procs m pid of
       Some name \<Rightarrow> a_bind (modify_state (\<lambda>m. m\<lparr>mc_sys := (mc_sys m)(pid \<mapsto> name)\<rparr>)) (\<lambda>_. a_ret True)
     | None \<Rightarrow> a_ret False)"

definition process_name :: "u32 \<Rightarrow> ('w, string) pid_action" where
  "process_name pid = a_bind get_state (\<lambda>m. a_lift (ok_or (Se_ProcessNotFound (decimal (unat pid))) (mc_sys m pid)))"

definition pid_name_matches_existing_client :: "u32 \<Rightarrow> u32 \<Rightarrow> ('w, bool) pid_action" where
  "pid_name_matches_existing_client own pidfile_value =
     a_bind (process_name own) (\<lambda>own_name. a_bind (process_name pidfile_value) (\<lambda>name. a_ret (own_name = name)))"

section \<open>The file\<close>

record pid_file =
  pid_path :: string
  created_pidfile :: bool

definition compute_path :: "'w pid_env \<Rightarrow> string \<Rightarrow> account_id \<Rightarrow> string" where
  "compute_path P spec_name account_id =
     path_join (pe_temp_dir P) (spec_name @ ''_'' @ pe_show_account P account_id @ ''.pid'')"

definition pid_file_new :: "'w pid_env \<Rightarrow> string \<Rightarrow> account_id \<Rightarrow> pid_file" where
  "pid_file_new P spec_name account_id = \<lparr>pid_path = compute_path P spec_name account_id, created_pidfile = False\<rparr>"

definition pid_io :: "'w pid_env \<Rightarrow> ('w, unit) pid_action" where
  "pid_io P = on_world (a_map_err Se_IoError (pe_io P))"

text \<open>\<open>strip_suffix('\n')\<close>\<close>

definition strip_newline :: "string \<Rightarrow> string" where
  "strip_newline s = (if s \<noteq> [] \<and> last s = CHR 0x0A then butlast s else s)"

definition pid_line :: "u32 \<Rightarrow> string" where
  "pid_line pid = decimal (unat pid) @ [CHR 0x0A]"

definition read_pid :: "'w pid_env \<Rightarrow> pid_file \<Rightarrow> ('w, u32) pid_action" where
  "read_pid P f =
     a_bind (pid_io P) (\<lambda>_. a_bind get_state (\<lambda>m.
     a_bind (a_lift (ok_or (Se_IoError []) (mc_files m (pid_path f)))) (\<lambda>content.
     a_lift (map_err Se_ParseIntError (pe_parse_pid P (strip_newline content))))))"

text \<open>
  \<open>set_pid\<close>: the flag is set before the file is created, and creating it empties it. A write that
  fails has written some of the line.
\<close>

definition write_pid :: "'w pid_env \<Rightarrow> string \<Rightarrow> u32 \<Rightarrow> ('w, unit) pid_action" where
  "write_pid P path pid =
     a_bind (pid_io P) (\<lambda>_.
     a_bind (modify_state (\<lambda>m. m\<lparr>mc_files := (mc_files m)(path \<mapsto> [])\<rparr>)) (\<lambda>_.
     a_bind (on_world (a_map_err Se_IoError (pe_write P))) (\<lambda>n.
     a_bind (modify_state (\<lambda>m. m\<lparr>mc_files := (mc_files m)(path \<mapsto> take n (pid_line pid))\<rparr>)) (\<lambda>_.
     a_bind (if n < size (pid_line pid) then a_err (Se_IoError []) else a_ret ()) (\<lambda>_.
     pid_io P)))))"

definition set_pid :: "'w pid_env \<Rightarrow> pid_file \<Rightarrow> u32 \<Rightarrow> pid_file \<times> ('w, unit) pid_action" where
  "set_pid P f pid = (f\<lparr>created_pidfile := True\<rparr>, write_pid P (pid_path f) pid)"

definition pid_file_remove :: "'w pid_env \<Rightarrow> pid_file \<Rightarrow> ('w, pid_file) pid_action" where
  "pid_file_remove P f =
     (if created_pidfile f then
        a_bind (pid_io P) (\<lambda>_. a_bind get_state (\<lambda>m.
        if mc_files m (pid_path f) = None then a_err (Se_IoError [])
        else a_bind (modify_state (\<lambda>m. m\<lparr>mc_files := (mc_files m)(pid_path f := None)\<rparr>)) (\<lambda>_. a_ret (f\<lparr>pid_path := []\<rparr>))))
      else a_ret f)"

definition pid_file_drop :: "'w pid_env \<Rightarrow> pid_file \<Rightarrow> ('w, unit) pid_action" where
  "pid_file_drop P f = a_ignore (pid_file_remove P f)"

text \<open>The first part of \<open>create\<close>, up to the warning.\<close>

definition check_not_running :: "'w pid_env \<Rightarrow> u32 \<Rightarrow> pid_file \<Rightarrow> ('w, unit) pid_action" where
  "check_not_running P own f =
     a_bind get_state (\<lambda>m.
     if mc_files m (pid_path f) = None then a_ret ()
     else a_bind (read_pid P f) (\<lambda>pid.
       a_bind (refresh_process pid) (\<lambda>running.
       if running then
         a_match (pid_name_matches_existing_client own pid)
           (\<lambda>same. if same then a_err (Se_ServiceAlreadyRunning pid) else a_ret ())
           (\<lambda>e. case e of Se_ProcessNotFound _ \<Rightarrow> a_ret () | _ \<Rightarrow> a_err e)
       else a_ret ())))"

text \<open>An early return of \<open>create\<close> drops the file value.\<close>

definition or_drop :: "'w pid_env \<Rightarrow> pid_file \<Rightarrow> ('w, 'a) pid_action \<Rightarrow> ('w, 'a) pid_action" where
  "or_drop P f m = a_match m a_ret (\<lambda>e. a_bind (pid_file_drop P f) (\<lambda>_. a_err e))"

definition write_own_pid :: "'w pid_env \<Rightarrow> u32 \<Rightarrow> pid_file \<Rightarrow> ('w, pid_file) pid_action" where
  "write_own_pid P own f = (case set_pid P f own of (f', m) \<Rightarrow> or_drop P f' (a_bind m (\<lambda>_. a_ret f')))"

definition pid_file_create :: "'w pid_env \<Rightarrow> u32 \<Rightarrow> string \<Rightarrow> account_id \<Rightarrow> ('w, pid_file) pid_action" where
  "pid_file_create P own spec_name account_id =
     (let f = pid_file_new P spec_name account_id in
      a_bind (or_drop P f (check_not_running P own f)) (\<lambda>_. write_own_pid P own f))"

section \<open>Vaults on a machine\<close>

text \<open>
  The vaults of one account that are started on a machine, one step at a time: a vault that has
  passed the check of \<open>create\<close> is in \<open>vm_checked\<close>, one that has written the file in \<open>vm_holding\<close>
  (with its file value). A vault reads the process table as it starts. It ends by itself and
  drops the file, or it is killed and does not. Other processes start, also other vaults, with
  the same name, and end. With \<open>one_by_one\<close> no vault starts while another is between its check and
  its write.
\<close>

record vault_machine =
  vm_files :: "string \<rightharpoonup> string"
  vm_procs :: "u32 \<rightharpoonup> string"
  vm_checked :: "u32 set"
  vm_holding :: "u32 \<rightharpoonup> pid_file"

definition machine_for :: "vault_machine \<Rightarrow> machine" where
  "machine_for v = \<lparr>mc_files = vm_files v, mc_procs = vm_procs v, mc_sys = vm_procs v\<rparr>"

inductive vault_step ::
  "bool \<Rightarrow> 'w pid_env \<Rightarrow> string \<Rightarrow> string \<Rightarrow> account_id \<Rightarrow> vault_machine \<Rightarrow> vault_machine \<Rightarrow> bool"
  for one_by_one P vault_name spec_name account_id where
  vault_starts: "vm_procs v pid = None \<Longrightarrow> (one_by_one \<Longrightarrow> vm_checked v = {}) \<Longrightarrow> f = pid_file_new P spec_name account_id \<Longrightarrow>
     v1 = v\<lparr>vm_procs := (vm_procs v)(pid \<mapsto> vault_name)\<rparr> \<Longrightarrow>
     or_drop P f (check_not_running P pid f) (w, machine_for v1) = (Ok (), (w', m)) \<Longrightarrow>
     vault_step one_by_one P vault_name spec_name account_id v
       (v1\<lparr>vm_files := mc_files m, vm_checked := insert pid (vm_checked v1)\<rparr>)"
| vault_refused: "vm_procs v pid = None \<Longrightarrow> f = pid_file_new P spec_name account_id \<Longrightarrow>
     v1 = v\<lparr>vm_procs := (vm_procs v)(pid \<mapsto> vault_name)\<rparr> \<Longrightarrow>
     or_drop P f (check_not_running P pid f) (w, machine_for v1) = (Err e, (w', m)) \<Longrightarrow>
     vault_step one_by_one P vault_name spec_name account_id v (v\<lparr>vm_files := mc_files m\<rparr>)"
| file_written: "pid \<in> vm_checked v \<Longrightarrow>
     write_own_pid P pid (pid_file_new P spec_name account_id) (w, machine_for v) = (Ok f, (w', m)) \<Longrightarrow>
     vault_step one_by_one P vault_name spec_name account_id v
       (v\<lparr>vm_files := mc_files m, vm_checked := vm_checked v - {pid}, vm_holding := (vm_holding v)(pid \<mapsto> f)\<rparr>)"
| write_failed: "pid \<in> vm_checked v \<Longrightarrow>
     write_own_pid P pid (pid_file_new P spec_name account_id) (w, machine_for v) = (Err e, (w', m)) \<Longrightarrow>
     vault_step one_by_one P vault_name spec_name account_id v
       (v\<lparr>vm_files := mc_files m, vm_checked := vm_checked v - {pid}, vm_procs := (vm_procs v)(pid := None)\<rparr>)"
| vault_ends: "vm_holding v pid = Some f \<Longrightarrow> pid_file_drop P f (w, machine_for v) = (r, (w', m)) \<Longrightarrow>
     vault_step one_by_one P vault_name spec_name account_id v
       (v\<lparr>vm_files := mc_files m, vm_holding := (vm_holding v)(pid := None), vm_procs := (vm_procs v)(pid := None)\<rparr>)"
| vault_killed: "vault_step one_by_one P vault_name spec_name account_id v
       (v\<lparr>vm_checked := vm_checked v - {pid}, vm_holding := (vm_holding v)(pid := None), vm_procs := (vm_procs v)(pid := None)\<rparr>)"
| other_starts: "vm_procs v pid = None \<Longrightarrow>
     vault_step one_by_one P vault_name spec_name account_id v (v\<lparr>vm_procs := (vm_procs v)(pid \<mapsto> name)\<rparr>)"

inductive vaults_run ::
  "bool \<Rightarrow> 'w pid_env \<Rightarrow> string \<Rightarrow> string \<Rightarrow> account_id \<Rightarrow> vault_machine \<Rightarrow> vault_machine \<Rightarrow> bool"
  for one_by_one P vault_name spec_name account_id v where
  run_none: "vaults_run one_by_one P vault_name spec_name account_id v v"
| run_step: "vaults_run one_by_one P vault_name spec_name account_id v v1 \<Longrightarrow>
     vault_step one_by_one P vault_name spec_name account_id v1 v2 \<Longrightarrow>
     vaults_run one_by_one P vault_name spec_name account_id v v2"

section \<open>At most one vault\<close>

text \<open>A process id is read back as it was written.\<close>

definition reads_pids :: "'w pid_env \<Rightarrow> bool" where
  "reads_pids P \<longleftrightarrow> (\<forall>pid. pe_parse_pid P (decimal (unat pid)) = Ok pid)"

definition vault_alone :: "'w pid_env \<Rightarrow> string \<Rightarrow> string \<Rightarrow> account_id \<Rightarrow> vault_machine \<Rightarrow> bool" where
  "vault_alone P vault_name spec_name account_id v \<longleftrightarrow>
     (\<forall>a \<in> vm_checked v \<union> dom (vm_holding v). \<forall>b \<in> vm_checked v \<union> dom (vm_holding v). a = b) \<and>
     (\<forall>pid \<in> vm_checked v. vm_holding v pid = None) \<and>
     (\<forall>pid \<in> vm_checked v \<union> dom (vm_holding v). vm_procs v pid = Some vault_name) \<and>
     (\<forall>pid f. vm_holding v pid = Some f \<longrightarrow> pid_path f = compute_path P spec_name account_id \<and>
        vm_files v (compute_path P spec_name account_id) = Some (pid_line pid))"

lemma strip_pid_line: "strip_newline (pid_line pid) = decimal (unat pid)"
  by (simp add: strip_newline_def pid_line_def)

lemma keeps_get_state: "keeps I get_state"
  by (rule keepsI) (simp add: get_state_def)

lemma keeps_modify: "(\<And>m. I m \<Longrightarrow> I (f m)) \<Longrightarrow> keeps (on_log I) (modify_state f)"
  by (rule keepsI) (auto simp: modify_state_def)

lemma check_keeps: "keeps (on_log (\<lambda>m. mc_files m = F)) (check_not_running P own f)"
  unfolding check_not_running_def read_pid_def pid_io_def refresh_process_def pid_name_matches_existing_client_def process_name_def
  by (intro keeps_intro keeps_get_state keeps_modify) (auto split: service_error.split intro: keeps_intro)

text \<open>Dropping the value of a file that was not created does nothing.\<close>

lemma new_file_drop: "pid_file_drop P (pid_file_new P spec_name account_id) = a_ret ()"
  by (rule ext) (simp add: pid_file_drop_def pid_file_remove_def pid_file_new_def a_ignore_def action_defs)

lemma check_keeps_files:
  assumes "or_drop P (pid_file_new P spec_name account_id) (check_not_running P own (pid_file_new P spec_name account_id)) (w, m) = (r, (w', m'))"
  shows "mc_files m' = mc_files m"
proof -
  have "keeps (on_log (\<lambda>m'. mc_files m' = mc_files m)) (or_drop P (pid_file_new P spec_name account_id) (check_not_running P own (pid_file_new P spec_name account_id)))"
    unfolding or_drop_def new_file_drop by (intro keeps_intro check_keeps)
  from keepsD [OF this _ assms] show ?thesis by simp
qed

lemma read_pid_Ok:
  assumes "reads_pids P" "mc_files m (pid_path f) = Some (pid_line pid)" "read_pid P f (w, m) = (Ok x, (w', m'))"
  shows "x = pid \<and> m' = m"
  using assms
  by (auto simp: read_pid_def pid_io_def a_bind_eq_Ok on_world_state get_state_def a_lift_def strip_pid_line reads_pids_def)

lemma refresh_live: "mc_procs m pid = Some name \<Longrightarrow> refresh_process pid (w, m) = (Ok True, (w, m\<lparr>mc_sys := (mc_sys m)(pid \<mapsto> name)\<rparr>))"
  by (simp add: refresh_process_def action_defs get_state_def modify_state_def)

lemma names_match: "mc_sys m own = Some name \<Longrightarrow> mc_sys m pid = Some name \<Longrightarrow>
    pid_name_matches_existing_client own pid (w, m) = (Ok True, (w, m))"
  by (simp add: pid_name_matches_existing_client_def process_name_def action_defs get_state_def)

lemma check_finds_holder:
  assumes "reads_pids P" "mc_files m (pid_path f) = Some (pid_line pid)"
    and procs: "mc_procs m pid = Some name" and own: "mc_sys m own = Some name"
  shows "check_not_running P own f (w, m) \<noteq> (Ok (), (w', m'))"
proof
  let ?m = "m\<lparr>mc_sys := (mc_sys m)(pid \<mapsto> name)\<rparr>"
  assume "check_not_running P own f (w, m) = (Ok (), (w', m'))"
  then obtain x w1 m1 where read: "read_pid P f (w, m) = (Ok x, (w1, m1))"
    and rest: "a_bind (refresh_process x) (\<lambda>running. if running then
         a_match (pid_name_matches_existing_client own x)
           (\<lambda>same. if same then a_err (Se_ServiceAlreadyRunning x) else a_ret ())
           (\<lambda>e. case e of Se_ProcessNotFound _ \<Rightarrow> a_ret () | _ \<Rightarrow> a_err e)
       else a_ret ()) (w1, m1) = (Ok (), (w', m'))"
    using assms(2) by (auto simp: check_not_running_def a_bind_eq_Ok get_state_def)
  from read_pid_Ok [OF assms(1,2) read] have x: "x = pid" "m1 = m" by simp_all
  have "pid_name_matches_existing_client own pid (w1, ?m) = (Ok True, (w1, ?m))"
    by (rule names_match [where name = name]) (use own in auto)
  moreover from rest refresh_live [OF procs, of w1]
  have "a_match (pid_name_matches_existing_client own pid)
      (\<lambda>same. if same then a_err (Se_ServiceAlreadyRunning pid) else a_ret ())
      (\<lambda>e. case e of Se_ProcessNotFound _ \<Rightarrow> a_ret () | _ \<Rightarrow> a_err e) (w1, ?m) = (Ok (), (w', m'))"
    unfolding x a_bind_eq_Ok by auto
  ultimately show False by (simp add: a_match_def a_err_def)
qed

lemma own_pid_written:
  assumes "pe_io P = a_ret ()" "pe_write P = a_ret n" "size (pid_line own) \<le> n"
  shows "write_own_pid P own f (w, m) =
    (Ok (f\<lparr>created_pidfile := True\<rparr>), (w, m\<lparr>mc_files := (mc_files m)(pid_path f \<mapsto> pid_line own)\<rparr>))"
  using assms by (simp add: write_own_pid_def set_pid_def or_drop_def write_pid_def pid_io_def action_defs state_defs)

lemma or_drop_Ok: "or_drop P f m w = (Ok a, w') \<longleftrightarrow> m w = (Ok a, w')"
  by (auto simp: or_drop_def action_defs split: prod.splits result.splits)

lemma write_own_pid_Ok:
  assumes "write_own_pid P pid f (w, m) = (Ok f', (w', m'))"
  shows "mc_files m' = (mc_files m)(pid_path f \<mapsto> pid_line pid) \<and> f' = f\<lparr>created_pidfile := True\<rparr>"
proof -
  from assms have "write_pid P (pid_path f) pid (w, m) = (Ok (), (w', m'))" and "f' = f\<lparr>created_pidfile := True\<rparr>"
    by (auto simp: write_own_pid_def set_pid_def or_drop_Ok a_bind_eq_Ok a_ret_def)
  then show ?thesis
    by (auto simp: write_pid_def pid_io_def a_bind_eq_Ok on_world_state modify_state_def a_ret_def a_err_def split: if_splits)
qed

lemma alone_unique:
  assumes alone: "vault_alone P vault_name spec_name account_id v" and a: "vm_holding v a = Some f" and b: "vm_holding v b = Some g"
  shows "a = b"
proof -
  from a b have "a \<in> vm_checked v \<union> dom (vm_holding v)" "b \<in> vm_checked v \<union> dom (vm_holding v)" by auto
  with alone show ?thesis unfolding vault_alone_def by blast
qed

lemma alone_step:
  assumes laws: "reads_pids P" and alone: "vault_alone P vault_name spec_name account_id v"
    and step: "vault_step True P vault_name spec_name account_id v v'"
  shows "vault_alone P vault_name spec_name account_id v'"
  using step
proof (cases rule: vault_step.cases)
  case (vault_starts pid f v1 w w' m)
  have files: "mc_files m = vm_files v"
    using check_keeps_files [OF vault_starts(6) [unfolded vault_starts(4)]] vault_starts(5) by (simp add: machine_for_def)
  have "vm_holding v = Map.empty"
  proof (rule ccontr)
    assume "vm_holding v \<noteq> Map.empty"
    then obtain h fh where "vm_holding v h = Some fh" by (metis not_None_eq)
    with alone have h: "vm_procs v h = Some vault_name"
      "vm_files v (compute_path P spec_name account_id) = Some (pid_line h)"
      by (auto simp: vault_alone_def)
    with vault_starts(2) have "pid \<noteq> h" by auto
    with vault_starts(6) h show False
      using check_finds_holder [OF laws, of "machine_for v1" f h vault_name pid w w' m]
      by (simp add: vault_starts(4,5) or_drop_Ok machine_for_def pid_file_new_def)
  qed
  with alone vault_starts(1,3,5) files show ?thesis by (auto simp: vault_alone_def)
next
  case (vault_refused pid f v1 w e w' m)
  then show ?thesis
    using alone check_keeps_files [of P spec_name account_id pid w "machine_for v1"]
    by (auto simp: vault_alone_def machine_for_def)
next
  case (file_written pid w f w' m)
  with alone write_own_pid_Ok [OF file_written(3)] show ?thesis
    by (auto simp: vault_alone_def pid_file_new_def machine_for_def)
next
  case (write_failed pid w e w' m)
  then have "vm_holding v x = None" for x
    using alone unfolding vault_alone_def by (metis UnCI domI option.exhaust)
  with alone write_failed show ?thesis by (auto simp: vault_alone_def)
next
  case (vault_ends pid f w r w' m)
  then have "x \<noteq> pid \<Longrightarrow> vm_holding v x = None" for x
    using alone unfolding vault_alone_def by (metis UnCI domI option.exhaust)
  with alone vault_ends show ?thesis by (auto simp: vault_alone_def)
next
  case (vault_killed pid)
  with alone show ?thesis by (auto simp: vault_alone_def)
next
  case (other_starts pid name)
  with alone show ?thesis by (fastforce simp: vault_alone_def dom_def)
qed

lemma alone_run:
  assumes "vaults_run True P vault_name spec_name account_id v v'" "reads_pids P" "vault_alone P vault_name spec_name account_id v"
  shows "vault_alone P vault_name spec_name account_id v'"
  using assms by (induction rule: vaults_run.induct) (auto intro: alone_step)

text \<open>
  C14. At most one vault of an account runs on a machine, if no two start at the same moment: whatever
  files and processes there were, whatever calls fail, and however vaults and other programs
  start, end and are killed, the vault that holds the PID file is alone, alive, and the one that
  the file names.
\<close>

theorem one_vault_per_account:
  assumes parse: "\<forall>pid. pe_parse_pid P (decimal (unat pid)) = Ok pid"
    and start: "vm_checked v = {}" "vm_holding v = Map.empty"
    and run: "vaults_run True P vault_name spec_name account_id v v'"
    and holds: "vm_holding v' pid = Some f"
  shows "(\<forall>other. other \<noteq> pid \<longrightarrow> vm_holding v' other = None) \<and> vm_procs v' pid = Some vault_name \<and>
     vm_files v' (compute_path P spec_name account_id) = Some (pid_line pid)"
proof -
  have "vault_alone P vault_name spec_name account_id v" using start by (simp add: vault_alone_def)
  with run parse have alone: "vault_alone P vault_name spec_name account_id v'"
    by (intro alone_run [of P vault_name spec_name account_id v v']) (simp_all add: reads_pids_def)
  then have "\<forall>other. other \<noteq> pid \<longrightarrow> vm_holding v' other = None"
    using alone_unique [OF alone _ holds] by (metis option.exhaust)
  with alone holds show ?thesis by (auto simp: vault_alone_def)
qed

section \<open>What create decides\<close>

text \<open>
  When the file calls succeed, a vault is refused exactly when the PID file names a running process
  of the same program, or holds no process id, and then the files are as before; otherwise it
  starts, the file names it, and dropping the file value removes the file again.
\<close>

theorem pid_file_create_spec:
  assumes io: "pe_io P = a_ret ()" "pe_write P = a_ret n" "size (pid_line own) \<le> n"
    and own: "mc_procs m own = Some name" "mc_sys m own = Some name"
    and path: "path = compute_path P spec_name account_id"
    and run: "pid_file_create P own spec_name account_id (w, m) = (r, (w', m'))"
  shows "(case mc_files m path of
       None \<Rightarrow> is_ok r
     | Some content \<Rightarrow> (case pe_parse_pid P (strip_newline content) of
         Ok pid \<Rightarrow> if mc_procs m pid = Some name then r = Err (Se_ServiceAlreadyRunning pid) else is_ok r
       | Err e \<Rightarrow> r = Err (Se_ParseIntError e) | Panic \<Rightarrow> r = Panic)) \<and>
     (\<not> is_ok r \<longrightarrow> mc_files m' = mc_files m) \<and>
     (\<forall>f. r = Ok f \<longrightarrow> mc_files m' = (mc_files m)(path \<mapsto> pid_line own) \<and>
        mc_files (snd (snd (pid_file_drop P f (w', m')))) = (mc_files m)(path := None))"
proof -
  let ?f = "pid_file_new P spec_name account_id"
  have f: "pid_path ?f = path" by (simp add: pid_file_new_def path)
  have written: "write_own_pid P own ?f (w, m1) =
      (Ok (?f\<lparr>created_pidfile := True\<rparr>), (w, m1\<lparr>mc_files := (mc_files m1)(path \<mapsto> pid_line own)\<rparr>))" for m1
    using own_pid_written [OF io, of ?f w m1] by (simp add: f)
  have drop: "pid_file_drop P (?f\<lparr>created_pidfile := True\<rparr>) (w, m1) = (Ok (), (w, m1\<lparr>mc_files := (mc_files m1)(path := None)\<rparr>))"
    if "mc_files m1 path \<noteq> None" for m1
    using io that by (cases "mc_files m1 path") (simp_all add: pid_file_drop_def pid_file_remove_def pid_io_def action_defs state_defs f)
  have check: "\<exists>m1. mc_files m1 = mc_files m \<and> check_not_running P own ?f (w, m) =
      ((case mc_files m path of None \<Rightarrow> Ok () | Some content \<Rightarrow> (case pe_parse_pid P (strip_newline content) of
          Ok pid \<Rightarrow> if mc_procs m pid = Some name then Err (Se_ServiceAlreadyRunning pid) else Ok ()
        | Err e \<Rightarrow> Err (Se_ParseIntError e) | Panic \<Rightarrow> Panic)), (w, m1))"
  proof (cases "mc_files m path")
    case None
    then show ?thesis by (intro exI [of _ m]) (simp add: check_not_running_def action_defs state_defs f)
  next
    case (Some content)
    have read: "read_pid P ?f (w, m) = (map_err Se_ParseIntError (pe_parse_pid P (strip_newline content)), (w, m))"
      using io Some by (simp add: read_pid_def pid_io_def action_defs state_defs f)
    have names: "mc_procs m pid = Some other \<Longrightarrow> pid_name_matches_existing_client own pid (w, m\<lparr>mc_sys := (mc_sys m)(pid \<mapsto> other)\<rparr>) =
        (Ok (name = other), (w, m\<lparr>mc_sys := (mc_sys m)(pid \<mapsto> other)\<rparr>))" for pid other
      using own by (cases "pid = own") (auto simp: pid_name_matches_existing_client_def process_name_def action_defs state_defs)
    show ?thesis
    proof (cases "pe_parse_pid P (strip_newline content)")
      case (Ok pid)
      show ?thesis
      proof (cases "mc_procs m pid")
        case None
        then show ?thesis using Some Ok read
          by (intro exI [of _ m]) (simp add: check_not_running_def refresh_process_def action_defs state_defs f)
      next
        case (Some other)
        then show ?thesis using \<open>mc_files m path = Some content\<close> Ok read names [OF Some]
          by (intro exI [of _ "m\<lparr>mc_sys := (mc_sys m)(pid \<mapsto> other)\<rparr>"])
            (auto simp: check_not_running_def refresh_process_def action_defs state_defs f)
      qed
    qed (use Some read in \<open>intro exI [of _ m], simp add: check_not_running_def action_defs state_defs f\<close>)+
  qed
  then obtain m1 where m1: "mc_files m1 = mc_files m" and check: "check_not_running P own ?f (w, m) =
      ((case mc_files m path of None \<Rightarrow> Ok () | Some content \<Rightarrow> (case pe_parse_pid P (strip_newline content) of
          Ok pid \<Rightarrow> if mc_procs m pid = Some name then Err (Se_ServiceAlreadyRunning pid) else Ok ()
        | Err e \<Rightarrow> Err (Se_ParseIntError e) | Panic \<Rightarrow> Panic)), (w, m1))" (is "_ = (?c, _)")
    by blast
  have started: "r = Ok (?f\<lparr>created_pidfile := True\<rparr>) \<and> w' = w \<and> m' = m1\<lparr>mc_files := (mc_files m1)(path \<mapsto> pid_line own)\<rparr>"
    if "?c = Ok ()"
    using run that check written [of m1] by (simp add: pid_file_create_def Let_def or_drop_def new_file_drop a_bind_def a_match_def a_ret_def)
  have failed: "r = Err e \<and> m' = m1" if "?c = Err e" for e
    using run that check by (simp add: pid_file_create_def Let_def or_drop_def new_file_drop action_defs)
  have panicked: "r = Panic \<and> m' = m1" if "?c = Panic"
    using run that check by (simp add: pid_file_create_def Let_def or_drop_def new_file_drop action_defs)
  show ?thesis
  proof (cases ?c)
    case (Ok u)
    then have "?c = Ok ()" by simp
    from started [OF this] drop [of m'] m1
    have "r = Ok (?f\<lparr>created_pidfile := True\<rparr>)" "mc_files m' = (mc_files m)(path \<mapsto> pid_line own)"
      "mc_files (snd (snd (pid_file_drop P (?f\<lparr>created_pidfile := True\<rparr>) (w', m')))) = (mc_files m)(path := None)" by auto
    with Ok show ?thesis by (auto split: option.splits result.splits if_splits)
  next
    case (Err e)
    from failed [OF Err] Err m1 show ?thesis by (auto split: option.splits result.splits if_splits)
  next
    case Panic
    from panicked [OF Panic] Panic m1 show ?thesis by (auto split: option.splits result.splits if_splits)
  qed
qed

section \<open>Examples\<close>

text \<open>File calls that succeed, and a reader of decimal numbers.\<close>

definition digits_value :: "string \<Rightarrow> nat" where
  "digits_value s = foldl (\<lambda>n c. 10 * n + (of_char c - 48)) 0 s"

definition demo_pid_env :: "unit pid_env" where
  "demo_pid_env = \<lparr>pe_temp_dir = ''t'', pe_show_account = (\<lambda>_. ''a''), pe_parse_pid = (\<lambda>s. Ok (of_nat (digits_value s))),
     pe_io = a_ret (), pe_write = a_ret 100\<rparr>"

lemma digits_value_decimal: "digits_value (decimal n) = n"
proof (induction n rule: decimal.induct)
  case (1 n)
  have digit: "of_char (char_of (48 + n mod 10)) - 48 = n mod 10" for n :: nat
    by (simp add: of_char_of) 
  show ?case
    using 1 digit [of n] by (subst decimal.simps) (auto simp: digits_value_def)
qed

lemma demo_parse: "\<forall>pid. pe_parse_pid demo_pid_env (decimal (unat pid)) = Ok pid"
  by (simp add: demo_pid_env_def digits_value_decimal)

text \<open>A machine where nothing runs, and vaults that start on it.\<close>

definition empty_machine :: vault_machine where
  "empty_machine = \<lparr>vm_files = Map.empty, vm_procs = Map.empty, vm_checked = {}, vm_holding = Map.empty\<rparr>"

abbreviation demo_path :: string where "demo_path \<equiv> ''t/s_a.pid''"

definition demo_held :: pid_file where "demo_held = \<lparr>pid_path = demo_path, created_pidfile = True\<rparr>"

lemma demo_path: "compute_path demo_pid_env ''s'' a = demo_path"
  by (simp add: compute_path_def demo_pid_env_def path_join_def)

lemmas pid_eval = or_drop_def check_not_running_def demo_path pid_file_new_def machine_for_def action_defs state_defs
  write_own_pid_def set_pid_def write_pid_def pid_io_def

lemma demo_starts:
  assumes "vm_procs v pid = None" "one_by_one \<Longrightarrow> vm_checked v = {}" "vm_files v demo_path = None"
  shows "vault_step one_by_one demo_pid_env ''vault'' ''s'' a v
     (v\<lparr>vm_procs := (vm_procs v)(pid \<mapsto> ''vault''), vm_checked := insert pid (vm_checked v)\<rparr>)"
proof -
  let ?v = "v\<lparr>vm_procs := (vm_procs v)(pid \<mapsto> ''vault'')\<rparr>"
  have "or_drop demo_pid_env (pid_file_new demo_pid_env ''s'' a) (check_not_running demo_pid_env pid (pid_file_new demo_pid_env ''s'' a))
      ((), machine_for ?v) = (Ok (), ((), machine_for ?v))"
    using assms(3) by (simp add: pid_eval)
  from vault_starts [OF assms(1,2) refl refl this] show ?thesis by (simp add: machine_for_def)
qed

lemma demo_writes:
  assumes "pid \<in> vm_checked v" "size (pid_line pid) \<le> 100"
  shows "vault_step one_by_one demo_pid_env ''vault'' ''s'' a v
     (v\<lparr>vm_files := (vm_files v)(demo_path \<mapsto> pid_line pid), vm_checked := vm_checked v - {pid}, vm_holding := (vm_holding v)(pid \<mapsto> demo_held)\<rparr>)"
proof -
  have "write_own_pid demo_pid_env pid (pid_file_new demo_pid_env ''s'' a) ((), machine_for v) =
      (Ok demo_held, ((), (machine_for v)\<lparr>mc_files := (vm_files v)(demo_path \<mapsto> pid_line pid)\<rparr>))"
    using own_pid_written [of demo_pid_env 100 pid "pid_file_new demo_pid_env ''s'' a" "()" "machine_for v"] assms(2)
    by (simp add: demo_held_def pid_file_new_def demo_path machine_for_def) (simp add: demo_pid_env_def)
  from file_written [OF assms(1) this] show ?thesis by simp
qed

lemma pid_lines: "pid_line 1 = ''1'' @ [CHR 0x0A]" "pid_line 2 = ''2'' @ [CHR 0x0A]"
  by code_simp+

definition demo_running :: vault_machine where
  "demo_running = \<lparr>vm_files = [demo_path \<mapsto> pid_line 1], vm_procs = [1 \<mapsto> ''vault''], vm_checked = {}, vm_holding = [1 \<mapsto> demo_held]\<rparr>"

lemma demo_vault_runs: "vaults_run True demo_pid_env ''vault'' ''s'' a empty_machine demo_running"
proof -
  have start: "vault_step True demo_pid_env ''vault'' ''s'' a empty_machine
      (empty_machine\<lparr>vm_procs := [1 \<mapsto> ''vault''], vm_checked := {1}\<rparr>)"
    using demo_starts [of empty_machine 1 True a] by (simp add: empty_machine_def)
  have "vault_step True demo_pid_env ''vault'' ''s'' a (empty_machine\<lparr>vm_procs := [1 \<mapsto> ''vault''], vm_checked := {1}\<rparr>) demo_running"
    using demo_writes [of 1 "empty_machine\<lparr>vm_procs := [1 \<mapsto> ''vault''], vm_checked := {1}\<rparr>" True a]
    by (simp add: empty_machine_def demo_running_def pid_lines)
  with run_step [OF run_step [OF run_none start]] show ?thesis .
qed

lemma one_vault_per_account_witness:
  "vm_procs demo_running 1 = Some ''vault'' \<and> vm_holding demo_running 2 = None"
  using one_vault_per_account [OF demo_parse _ _ demo_vault_runs, of 1 demo_held] by (simp add: empty_machine_def demo_running_def)

lemma pid_file_create_spec_witness:
  "\<exists>r w' m'. pid_file_create demo_pid_env 2 ''s'' [] ((), \<lparr>mc_files = [demo_path \<mapsto> pid_line 1], mc_procs = [1 \<mapsto> ''vault'', 2 \<mapsto> ''vault''],
      mc_sys = [1 \<mapsto> ''vault'', 2 \<mapsto> ''vault'']\<rparr>) = (r, (w', m')) \<and> r = Err (Se_ServiceAlreadyRunning 1)"
proof -
  let ?m = "\<lparr>mc_files = [demo_path \<mapsto> pid_line 1], mc_procs = [1 \<mapsto> ''vault'', 2 \<mapsto> ''vault''], mc_sys = [1 \<mapsto> ''vault'', 2 \<mapsto> ''vault'']\<rparr>"
  obtain r w' m' where run: "pid_file_create demo_pid_env 2 ''s'' [] ((), ?m) = (r, (w', m'))" by (metis surj_pair)
  have io: "pe_io demo_pid_env = a_ret ()" "pe_write demo_pid_env = a_ret 100" "size (pid_line 2) \<le> 100"
    by (simp_all add: demo_pid_env_def pid_lines)
  have parse: "pe_parse_pid demo_pid_env (strip_newline (pid_line 1)) = Ok 1"
    unfolding strip_pid_line using demo_parse by blast
  from pid_file_create_spec [OF io _ _ demo_path [symmetric] run, of "''vault''"] parse
  have "r = Err (Se_ServiceAlreadyRunning 1)" by simp
  with run show ?thesis by blast
qed

text \<open>
  C36. The check and the write of the PID file are two steps: two vaults that start at the same moment
  both find no file, and both run; the file names the second one.
\<close>

theorem simultaneous_vaults_both_run:
  "\<exists>v. vaults_run False demo_pid_env ''vault'' ''s'' a empty_machine v \<and>
     vm_procs v = [1 \<mapsto> ''vault'', 2 \<mapsto> ''vault''] \<and> vm_holding v = [1 \<mapsto> demo_held, 2 \<mapsto> demo_held] \<and>
     vm_files v = [demo_path \<mapsto> pid_line 2]"
proof -
  let ?v1 = "empty_machine\<lparr>vm_procs := [1 \<mapsto> ''vault''], vm_checked := {1}\<rparr>"
  let ?v2 = "empty_machine\<lparr>vm_procs := [1 \<mapsto> ''vault'', 2 \<mapsto> ''vault''], vm_checked := {1, 2}\<rparr>"
  let ?v3 = "?v2\<lparr>vm_files := [demo_path \<mapsto> pid_line 1], vm_checked := {2}, vm_holding := [1 \<mapsto> demo_held]\<rparr>"
  let ?v4 = "?v3\<lparr>vm_files := [demo_path \<mapsto> pid_line 2], vm_checked := {}, vm_holding := [1 \<mapsto> demo_held, 2 \<mapsto> demo_held]\<rparr>"
  let ?step = "vault_step False demo_pid_env ''vault'' ''s'' a"
  have s1: "?step empty_machine ?v1" using demo_starts [of empty_machine 1 False a] by (simp add: empty_machine_def)
  have s2: "?step ?v1 ?v2" using demo_starts [of ?v1 2 False a] by (simp add: empty_machine_def insert_commute)
  have s3: "?step ?v2 ?v3" using demo_writes [of 1 ?v2 False a] by (simp add: empty_machine_def pid_lines insert_Diff_if)
  have s4: "?step ?v3 ?v4" using demo_writes [of 2 ?v3 False a] by (simp add: empty_machine_def pid_lines)
  from run_step [OF run_step [OF run_step [OF run_step [OF run_none s1] s2] s3] s4]
  show ?thesis by (intro exI [of _ ?v4] conjI) (simp_all add: empty_machine_def)
qed

end
