(* ===== verification/Service.thy ===== *)
theory Service
  imports Assets BtcApi ActionLogic
begin

text \<open>
  Supervision of the tasks of a client: a task that completes shuts the others down
  (\<open>service/src/lib.rs\<close>, and \<open>run_and_monitor_tasks\<close> of \<open>vault/src/system.rs\<close>), and the connection
  manager starts the service again. The tasks run concurrently: a step relation on their states, in
  which a signal may also come from elsewhere (a submission that timed out in \<open>runtime/src/rpc.rs\<close>).
\<close>

section \<open>Tasks\<close>

datatype 'r termination_status = Cancelled | Completed 'r

text \<open>
  \<open>wait_or_shutdown\<close>: the result of a task, and whether it sends the shutdown signal.
\<close>

definition wait_or_shutdown :: "(unit, 'e) result termination_status \<Rightarrow> (unit, 'e) result \<times> bool" where
  "wait_or_shutdown status = (case status of Cancelled \<Rightarrow> (Ok (), False) | Completed res \<Rightarrow> (res, True))"

text \<open>
  A task that was spawned subscribes to the shutdown signal when it is first polled, and learns of
  those signals only that are sent later (\<open>Subscribed True\<close>). A panic in a task (\<open>Completed Panic\<close>)
  is caught by the runtime; what would have been sent after it is not sent.
\<close>

datatype 'e task_state = Spawned | Subscribed bool | Ended "(unit, 'e) result termination_status"

fun notify :: "'e task_state \<Rightarrow> 'e task_state" where
  "notify (Subscribed b) = Subscribed True"
| "notify Spawned = Spawned"
| "notify (Ended e) = Ended e"

inductive task_step :: "'e task_state list \<Rightarrow> 'e task_state list \<Rightarrow> bool" where
  task_polled: "i < length ts \<Longrightarrow> ts ! i = Spawned \<Longrightarrow> task_step ts (ts[i := Subscribed False])"
| task_cancelled: "i < length ts \<Longrightarrow> ts ! i = Subscribed True \<Longrightarrow> task_step ts (ts[i := Ended Cancelled])"
| task_completes: "i < length ts \<Longrightarrow> ts ! i = Subscribed b \<Longrightarrow> res \<noteq> Panic \<Longrightarrow>
     task_step ts (map notify (ts[i := Ended (Completed res)]))"
| task_panics: "i < length ts \<Longrightarrow> ts ! i = Subscribed b \<Longrightarrow> task_step ts (ts[i := Ended (Completed Panic)])"

inductive_cases task_stepE: "task_step ts ts'"

text \<open>
  The signal has senders beside the monitored tasks: a submission of a transaction that has timed out
  (\<open>with_unique_signer\<close>, whichever task it is made for, before that task goes on), and the listener for
  error events, a task that \<open>run_service\<close> spawns and does not monitor. A run is a sequence of \<open>n\<close>
  steps of the tasks with such signals anywhere between them; the first argument says whether there
  was one.
\<close>

inductive tasks_run :: "bool \<Rightarrow> nat \<Rightarrow> 'e task_state list \<Rightarrow> 'e task_state list \<Rightarrow> bool" where
  run_refl: "tasks_run False 0 ts ts"
| run_next: "tasks_run s n ts ts1 \<Longrightarrow> task_step ts1 ts2 \<Longrightarrow> tasks_run s (Suc n) ts ts2"
| run_signal: "tasks_run s n ts ts1 \<Longrightarrow> tasks_run True n ts (map notify ts1)"

section \<open>Monitoring\<close>

datatype 'f service_task = Optional bool 'f | Essential 'f

definition maybe_run :: "bool \<Rightarrow> 'f \<Rightarrow> 'f service_task" where "maybe_run should_run task = Optional should_run task"
definition run_essential :: "'f \<Rightarrow> 'f service_task" where "run_essential task = Essential task"

text \<open>The tasks that are spawned.\<close>

definition enabled_tasks :: "(string \<times> 'f service_task) list \<Rightarrow> (string \<times> 'f) list" where
  "enabled_tasks items = filter_map (\<lambda>(name, task). case task of
      Optional should_run t \<Rightarrow> if should_run then Some (name, t) else None
    | Essential t \<Rightarrow> Some (name, t)) items"

fun is_err :: "('a, 'e) result \<Rightarrow> bool" where
  "is_err (Err e) = True"
| "is_err (Ok a) = False"
| "is_err Panic = False"

text \<open>
  The result of \<open>run_and_monitor_tasks\<close> once the task of the metrics and all others have ended; a
  panic is a \<open>JoinError\<close>, which \<open>find\<close> passes over.
\<close>

definition monitor_result :: "(unit, 'e) result \<Rightarrow> (unit, 'e) result list \<Rightarrow> (unit, 'e) result" where
  "monitor_result metrics results = (case metrics of
      Err err \<Rightarrow> Err err
    | _ \<Rightarrow> (case find is_err results of Some res \<Rightarrow> res | None \<Rightarrow> Ok ()))"

definition ended :: "'e task_state \<Rightarrow> bool" where
  "ended t = (case t of Ended _ \<Rightarrow> True | _ \<Rightarrow> False)"

definition task_result :: "'e task_state \<Rightarrow> (unit, 'e) result" where
  "task_result t = (case t of Ended e \<Rightarrow> fst (wait_or_shutdown e) | _ \<Rightarrow> Ok ())"

text \<open>The metrics task is the first of the list.\<close>

definition run_and_monitor_tasks :: "'e task_state list \<Rightarrow> (unit, 'e) result option" where
  "run_and_monitor_tasks ts =
     (if list_all ended ts then (case map task_result ts of
        [] \<Rightarrow> None | metrics # results \<Rightarrow> Some (monitor_result metrics results)) else None)"

section \<open>The connection manager\<close>

datatype restart_policy = Never | Always

definition restart_policy_from_str :: "string \<Rightarrow> (restart_policy, string) result" where
  "restart_policy_from_str code =
     (if code = ''never'' then Ok Never else if code = ''always'' then Ok Always
      else Err ''Could not parse input as RestartPolicy'')"

text \<open>
  The Bitcoin client of the wallet with the given name, the connection to the parachain with its
  retries, the service, and the restart counter.
\<close>

record 'w connection_env =
  cm_wallet_name :: "string option"
  cm_new_client :: "string \<Rightarrow> ('w, network, bitcoin_error) action"
  cm_connect :: "('w, unit, runtime_error) action"
  cm_service :: "('w, unit, service_error) action"
  cm_restart_policy :: restart_policy
  cm_count_restart :: "'w \<Rightarrow> 'w"

definition wallet_prefix :: "'w connection_env \<Rightarrow> string" where
  "wallet_prefix C = (case cm_wallet_name C of Some name \<Rightarrow> name | None \<Rightarrow> ''vault'')"

text \<open>The wallet of a vault, as its constructor names it.\<close>

definition vault_wallet_name ::
  "token_info \<Rightarrow> asset_registry option \<Rightarrow> string \<Rightarrow> vault_id \<Rightarrow> (string, bitcoin_error) result" where
  "vault_wallet_name T g prefix vid =
     rbind (map_err (\<lambda>_. Be_FailedToConstructWalletName) (currency_symbol T g (collateral_currency vid))) (\<lambda>collateral.
     rbind (map_err (\<lambda>_. Be_FailedToConstructWalletName) (currency_symbol T g (wrapped_currency vid))) (\<lambda>wrapped.
     Ok (prefix @ ''-'' @ collateral @ ''-'' @ wrapped)))"

definition connection_round :: "'w connection_env \<Rightarrow> ('w, unit + unit, service_error) action" where
  "connection_round C =
     a_bind (a_map_err Se_BitcoinError (cm_new_client C (wallet_prefix C @ ''-master''))) (\<lambda>_.
     a_bind (a_map_err Se_RuntimeError (cm_connect C)) (\<lambda>_.
     a_bind (a_ignore (cm_service C)) (\<lambda>_.
     case cm_restart_policy C of
       Never \<Rightarrow> a_err Se_ClientShutdown
     | Always \<Rightarrow> (\<lambda>w. (Ok (Inl ()), cm_count_restart C w)))))"

definition connection_start :: "'w connection_env \<Rightarrow> nat \<Rightarrow> ('w, unit option, service_error) action" where
  "connection_start C n = a_loop (\<lambda>_. connection_round C) n ()"

section \<open>The main program of the vault\<close>

text \<open>\<open>try_write_file\<close>: \<open>io\<close> decides whether the write succeeds; the standard output is kept too.\<close>

record output_files =
  of_files :: "string \<rightharpoonup> bytes"
  of_stdout :: bytes

definition try_write_file ::
  "('w, unit, ext_error) action \<Rightarrow> string option \<Rightarrow> bytes \<Rightarrow> ('w \<times> output_files, unit, service_error) action" where
  "try_write_file io output data = (case output of
      Some path \<Rightarrow> a_bind get_state (\<lambda>s.
        if of_files s path \<noteq> None then a_err Se_FileAlreadyExists
        else a_bind (on_world (a_map_err Se_IoError io)) (\<lambda>_.
          modify_state (\<lambda>s. s\<lparr>of_files := (of_files s)(path \<mapsto> data)\<rparr>)))
    | None \<Rightarrow> a_bind (on_world (a_map_err Se_IoError io)) (\<lambda>_. modify_state (\<lambda>s. s\<lparr>of_stdout := of_stdout s @ data\<rparr>)))"

text \<open>What \<open>catch_signals\<close> selects: the main task has ended, or a signal has come.\<close>

datatype 'e main_event = Task_ended "(unit, 'e) result" | Signal_caught "u32 option"

fun catch_signals :: "service_error main_event \<Rightarrow> (unit, service_error) result" where
  "catch_signals (Task_ended Panic) = Err (Se_TokioError ''task panicked'')"
| "catch_signals (Task_ended (Ok u)) = Ok u"
| "catch_signals (Task_ended (Err e)) = Err e"
| "catch_signals (Signal_caught signal_option) = Ok ()"

section \<open>Shutting down\<close>

lemma ended_iff: "ended t \<longleftrightarrow> (\<exists>e. t = Ended e)"
  by (cases t) (simp_all add: ended_def)

definition running_tasks :: "'e task_state list \<Rightarrow> nat" where "running_tasks ts = length (filter (\<lambda>t. \<not> ended t) ts)"

definition signalled :: "'e task_state list \<Rightarrow> bool" where
  "signalled ts \<longleftrightarrow> (\<exists>res. Ended (Completed res) \<in> set ts \<and> res \<noteq> Panic)"

text \<open>Nobody is told to end before a task has completed, unless a signal came from elsewhere.\<close>

definition cancelled_after_signal :: "bool \<Rightarrow> 'e task_state list \<Rightarrow> bool" where
  "cancelled_after_signal s ts \<longleftrightarrow> (Ended Cancelled \<in> set ts \<or> Subscribed True \<in> set ts \<longrightarrow> s \<or> signalled ts)"

text \<open>Everybody has subscribed, and is told to end once a task has completed.\<close>

definition all_told :: "'e task_state list \<Rightarrow> bool" where
  "all_told ts \<longleftrightarrow> Spawned \<notin> set ts \<and> (signalled ts \<longrightarrow> Subscribed False \<notin> set ts)"

lemma notify_eq [simp]:
  "notify t = Ended e \<longleftrightarrow> t = Ended e"
  "Ended e = notify t \<longleftrightarrow> t = Ended e"
  "notify t = Spawned \<longleftrightarrow> t = Spawned"
  "Spawned = notify t \<longleftrightarrow> t = Spawned"
  "notify t \<noteq> Subscribed False"
  "Subscribed False \<noteq> notify t"
  by (cases t; auto)+

lemma notify_image [simp]:
  "Ended e \<in> notify ` S \<longleftrightarrow> Ended e \<in> S"
  "Spawned \<in> notify ` S \<longleftrightarrow> Spawned \<in> S"
  "Subscribed False \<notin> notify ` S"
  by (auto simp: image_iff)

lemma set_task_update: "i < length ts \<Longrightarrow> ts ! i \<noteq> y \<Longrightarrow> y \<in> set (ts[i := x]) \<longleftrightarrow> y = x \<or> y \<in> set ts"
  by (metis in_set_conv_nth length_list_update nth_list_update_eq nth_list_update_neq set_update_memI)

lemma ended_updated:
  "i < length ts \<Longrightarrow> \<not> ended (ts ! i) \<Longrightarrow> Ended e \<in> set (ts[i := x]) \<longleftrightarrow> x = Ended e \<or> Ended e \<in> set ts"
  by (subst set_task_update) (auto simp: ended_iff)

lemma set_task_update_sub: "y \<in> set (ts[i := x]) \<Longrightarrow> y = x \<or> y \<in> set ts"
  by (meson insertE set_update_subset_insert subsetD)

lemma step_signalled: "task_step ts ts' \<Longrightarrow> signalled ts \<Longrightarrow> signalled ts'"
  by (erule task_stepE) (auto simp: signalled_def ended_updated ended_iff)

lemma completes_signalled: "i < length ts \<Longrightarrow> res \<noteq> Panic \<Longrightarrow> signalled (map notify (ts[i := Ended (Completed res)]))"
  unfolding signalled_def by (intro exI [of _ res]) (simp add: set_update_memI)

lemma step_cancelled:
  assumes step: "task_step ts ts'" and inv: "cancelled_after_signal s ts"
  shows "cancelled_after_signal s ts'"
proof (cases "s \<or> signalled ts")
  case True
  with step_signalled [OF step] show ?thesis by (auto simp: cancelled_after_signal_def)
next
  case False
  with inv have "Ended Cancelled \<notin> set ts" "Subscribed True \<notin> set ts" by (auto simp: cancelled_after_signal_def)
  with step show ?thesis
    by (elim task_stepE) (auto simp: cancelled_after_signal_def completes_signalled dest!: set_task_update_sub dest: nth_mem)
qed

lemma step_told:
  assumes step: "task_step ts ts'" and inv: "all_told ts"
  shows "all_told ts'"
proof -
  have "Spawned \<notin> set ts" using inv by (simp add: all_told_def)
  with step inv show ?thesis
    by (elim task_stepE) (auto simp: all_told_def signalled_def ended_updated ended_iff dest!: set_task_update_sub dest: nth_mem)
qed

lemma notify_signalled [simp]: "signalled (map notify ts) \<longleftrightarrow> signalled ts"
  by (simp add: signalled_def)

lemma notify_told: "all_told ts \<Longrightarrow> all_told (map notify ts)"
  by (auto simp: all_told_def)

lemma running_notify [simp]: "running_tasks (map notify ts) = running_tasks ts"
  by (induction ts) (auto simp: running_tasks_def ended_iff)

lemma running_update: "i < length ts \<Longrightarrow> \<not> ended (ts ! i) \<Longrightarrow> running_tasks ts = Suc (running_tasks (ts[i := Ended e]))"
proof (induction ts arbitrary: i)
  case (Cons t ts)
  then show ?case by (cases i) (auto simp: running_tasks_def ended_iff)
qed simp

lemma step_running:
  assumes step: "task_step ts ts'" and inv: "all_told ts"
  shows "running_tasks ts = Suc (running_tasks ts')"
proof -
  have "Spawned \<notin> set ts" using inv by (simp add: all_told_def)
  with step show ?thesis
    by (elim task_stepE) (auto simp: running_update ended_iff dest: nth_mem)
qed

lemma run_told:
  assumes "tasks_run s n ts ts'" "all_told ts"
  shows "all_told ts' \<and> running_tasks ts = n + running_tasks ts'"
  using assms by (induction rule: tasks_run.induct) (auto dest: step_told step_running notify_told)

lemma run_signalled: "tasks_run s n ts ts' \<Longrightarrow> signalled ts \<Longrightarrow> signalled ts'"
  by (induction rule: tasks_run.induct) (auto dest: step_signalled)

lemma run_cancelled: "tasks_run s n ts ts' \<Longrightarrow> cancelled_after_signal False ts \<Longrightarrow> cancelled_after_signal s ts'"
  by (induction rule: tasks_run.induct) (auto intro: step_cancelled simp: cancelled_after_signal_def [of True])

lemma step_length: "task_step ts ts' \<Longrightarrow> length ts' = length ts"
  by (elim task_stepE) auto

lemma run_length: "tasks_run s n ts ts' \<Longrightarrow> length ts' = length ts"
  by (induction rule: tasks_run.induct) (auto dest: step_length)

section \<open>The result\<close>

lemma task_result_Err: "task_result t = Err e \<longleftrightarrow> t = Ended (Completed (Err e))"
  by (auto simp: task_result_def wait_or_shutdown_def split: task_state.splits termination_status.splits)

lemma monitor_Err: "monitor_result m rs = Err e \<Longrightarrow> Err e \<in> set (m # rs)"
  by (auto simp: monitor_result_def find_Some_iff split: result.splits option.splits dest: nth_mem)

lemma monitor_finds: "Err e \<in> set (m # rs) \<Longrightarrow> \<exists>e'. monitor_result m rs = Err e'"
  by (auto simp: monitor_result_def find_None_iff find_Some_iff split: result.splits option.splits elim!: is_err.elims)

section \<open>Properties\<close>

text \<open>
  C18. No task is shut down without a cause: from tasks that have just been spawned, whatever the order
  they run in and whatever signals come from elsewhere (\<open>s\<close>: a submission has timed out, or the listener
  for error events has ended), a task is cancelled, or told to be, only after another one has completed
  or after such a signal; and when all have ended \<open>run_and_monitor_tasks\<close> fails exactly if a task has
  completed with an error, with the error of such a task, so that a shutdown by such a signal alone is
  no error.
\<close>

theorem shutdown_needs_completion:
  fixes ts :: "'e task_state list"
  assumes run: "tasks_run s n (replicate k Spawned) ts"
  shows "(Ended Cancelled \<in> set ts \<or> Subscribed True \<in> set ts \<longrightarrow> s \<or> (\<exists>res. Ended (Completed res) \<in> set ts \<and> res \<noteq> Panic)) \<and>
     (run_and_monitor_tasks ts = Some (Err e) \<longrightarrow> Ended (Completed (Err e)) \<in> set ts) \<and>
     (run_and_monitor_tasks ts = Some r \<and> Ended (Completed (Err e)) \<in> set ts \<longrightarrow> (\<exists>e'. r = Err e'))"
proof (intro conjI impI)
  have "cancelled_after_signal False (replicate k Spawned :: 'e task_state list)" by (simp add: cancelled_after_signal_def)
  with run have "cancelled_after_signal s ts" by (rule run_cancelled)
  then show "Ended Cancelled \<in> set ts \<or> Subscribed True \<in> set ts \<Longrightarrow> s \<or> (\<exists>res. Ended (Completed res) \<in> set ts \<and> res \<noteq> Panic)"
    by (simp add: cancelled_after_signal_def signalled_def)
next
  assume "run_and_monitor_tasks ts = Some (Err e)"
  then obtain m rs where "map task_result ts = m # rs" "monitor_result m rs = Err e"
    by (auto simp: run_and_monitor_tasks_def split: if_splits list.splits)
  with monitor_Err have "Err e \<in> set (map task_result ts)" by metis
  then show "Ended (Completed (Err e)) \<in> set ts" by (auto simp: task_result_Err dest: sym)
next
  assume r: "run_and_monitor_tasks ts = Some r \<and> Ended (Completed (Err e)) \<in> set ts"
  then obtain m rs where res: "map task_result ts = m # rs" "r = monitor_result m rs"
    by (auto simp: run_and_monitor_tasks_def split: if_splits list.splits)
  from r have "task_result (Ended (Completed (Err e))) \<in> set (map task_result ts)" by simp
  moreover have "task_result (Ended (Completed (Err e))) = Err e" by (simp add: task_result_Err)
  ultimately have "Err e \<in> set (map task_result ts)" by simp
  with monitor_finds res show "\<exists>e'. r = Err e'" by metis
qed

text \<open>
  C17. When all tasks have subscribed to the shutdown signal, the first that completes ends them all,
  whatever other signals there are: each of the others has been told, nothing but their ends can
  happen, as many steps as there are running tasks; until then one of them can be cancelled, and
  after that \<open>run_and_monitor_tasks\<close> returns.
\<close>

theorem shutdown_reaches_all:
  fixes ts :: "'e task_state list"
  assumes run: "tasks_run s n (replicate k (Subscribed False)) ts"
    and completed: "Ended (Completed res) \<in> set ts" "res \<noteq> Panic"
    and later: "tasks_run s' m ts ts'"
  shows "(\<forall>t \<in> set ts. t = Subscribed True \<or> (\<exists>e. t = Ended e)) \<and> m \<le> running_tasks ts \<and>
     (m < running_tasks ts \<longrightarrow> (\<exists>i. task_step ts' (ts'[i := Ended Cancelled]))) \<and>
     (m = running_tasks ts \<longrightarrow> run_and_monitor_tasks ts' \<noteq> None)"
proof -
  have "all_told (replicate k (Subscribed False) :: 'e task_state list)" by (auto simp: all_told_def signalled_def)
  with run_told [OF run] have told: "all_told ts" by simp
  with run_told [OF later] have told': "all_told ts'" and count: "running_tasks ts = m + running_tasks ts'" by simp_all
  have "signalled ts" using completed by (auto simp: signalled_def)
  moreover from run_signalled [OF later this] have "signalled ts'" .
  ultimately have ends: "t = Subscribed True \<or> ended t" if "t \<in> set ts \<or> t \<in> set ts'" for t
    using told told' that by (cases t) (auto simp: all_told_def ended_iff, (metis (full_types))+)
  have "\<exists>i. task_step ts' (ts'[i := Ended Cancelled])" if "m < running_tasks ts"
  proof -
    from that count have "filter (\<lambda>t. \<not> ended t) ts' \<noteq> []" by (auto simp: running_tasks_def)
    then obtain i where "i < length ts'" "\<not> ended (ts' ! i)" by (auto simp: filter_empty_conv in_set_conv_nth)
    with ends [of "ts' ! i"] show ?thesis by (auto intro: task_cancelled)
  qed
  moreover have "run_and_monitor_tasks ts' \<noteq> None" if "m = running_tasks ts"
  proof -
    from that count have "list_all ended ts'" by (auto simp: running_tasks_def filter_empty_conv list_all_iff)
    moreover have "ts' \<noteq> []" using run_length [OF later] completed(1) by auto
    ultimately show ?thesis by (auto simp: run_and_monitor_tasks_def split: list.splits)
  qed
  ultimately show ?thesis using ends count by (auto simp: ended_iff)
qed

text \<open>Two tasks, of which the second fails.\<close>

lemma demo_shutdown: "tasks_run False 1 (replicate 2 (Subscribed False)) [Subscribed True, Ended (Completed (Err Se_ClientShutdown))]"
proof -
  have "task_step [Subscribed False, Subscribed False] (map notify ([Subscribed False, Subscribed False][1 := Ended (Completed (Err Se_ClientShutdown))]))"
    by (rule task_completes [where b = False]) simp_all
  with run_next [OF run_refl this] show ?thesis by (simp add: numeral_2_eq_2)
qed

lemma shutdown_reaches_all_witness:
  "\<exists>i. task_step [Subscribed True, Ended (Completed (Err Se_ClientShutdown))]
     ([Subscribed True, Ended (Completed (Err Se_ClientShutdown))][i := Ended Cancelled])"
  using shutdown_reaches_all [OF demo_shutdown _ _ run_refl, of "Err Se_ClientShutdown"]
  by (simp add: running_tasks_def ended_iff)

lemma demo_spawned: "tasks_run False 2 (replicate 2 Spawned) [Ended (Completed (Err Se_ClientShutdown)), Spawned]"
proof -
  have "task_step [Spawned, Spawned] ([Spawned, Spawned][0 := Subscribed False])" by (rule task_polled) simp_all
  moreover have "task_step [Subscribed False, Spawned] (map notify ([Subscribed False, Spawned][0 := Ended (Completed (Err Se_ClientShutdown))]))"
    by (rule task_completes [where b = False]) simp_all
  ultimately show ?thesis using run_next [OF run_next [OF run_refl]] by (simp add: numeral_2_eq_2)
qed

text \<open>A task that is cancelled although none has completed: a submission has timed out.\<close>

lemma demo_timeout: "tasks_run True 2 (replicate 2 Spawned) [Ended Cancelled, Spawned :: service_error task_state]"
proof -
  have "task_step [Spawned, Spawned] ([Spawned, Spawned][0 := Subscribed False])" by (rule task_polled) simp_all
  from run_signal [OF run_next [OF run_refl this]] have "tasks_run True 1 [Spawned, Spawned] [Subscribed True, Spawned]" by simp
  moreover have "task_step [Subscribed True, Spawned] ([Subscribed True, Spawned][0 := Ended Cancelled])"
    by (rule task_cancelled) simp_all
  ultimately show ?thesis using run_next by (fastforce simp: numeral_2_eq_2)
qed

lemma shutdown_needs_completion_witness:
  "(\<exists>ts. tasks_run False 2 (replicate 2 Spawned) ts \<and> Subscribed True \<notin> set ts \<and> Ended (Completed (Err Se_ClientShutdown)) \<in> set ts \<and>
     run_and_monitor_tasks ts \<noteq> Some (Ok ())) \<and>
   (\<exists>ts. tasks_run True 2 (replicate 2 Spawned) ts \<and> Ended Cancelled \<in> set ts \<and>
     run_and_monitor_tasks ts \<noteq> Some (Err Se_ClientShutdown))"
proof
  show "\<exists>ts. tasks_run False 2 (replicate 2 Spawned) ts \<and> Subscribed True \<notin> set ts \<and> Ended (Completed (Err Se_ClientShutdown)) \<in> set ts \<and>
     run_and_monitor_tasks ts \<noteq> Some (Ok ())"
    using demo_spawned shutdown_needs_completion [OF demo_spawned] by fastforce
  show "\<exists>ts. tasks_run True 2 (replicate 2 Spawned) ts \<and> Ended Cancelled \<in> set ts \<and>
     run_and_monitor_tasks ts \<noteq> Some (Err Se_ClientShutdown)"
    using demo_timeout shutdown_needs_completion [OF demo_timeout] by fastforce
qed

text \<open>
  C37. Two ways for a service to go on with a task missing. A task that fails before another one is first
  polled is not noticed by that one, which waits for the next signal; and a task that panics tells
  nobody, and when the others have ended well the result is no error.
\<close>

theorem missed_shutdown:
  "(\<exists>n ts. tasks_run False n [Spawned, Spawned] ts \<and> ts = [Ended (Completed (Err Se_ClientShutdown)), Subscribed False] \<and>
      {ts'. task_step ts ts'} \<subseteq> {ts'. \<exists>res. ts' ! 1 = Ended (Completed res)}) \<and>
   (\<exists>n. tasks_run False n [Subscribed False, Subscribed False] [Ended (Completed Panic), Subscribed False :: service_error task_state] \<and>
      run_and_monitor_tasks [Ended (Completed (Ok ())), Ended (Completed Panic) :: service_error task_state] = Some (Ok ()))"
proof (intro conjI)
  let ?ts = "[Ended (Completed (Err Se_ClientShutdown)), Subscribed False]"
  have "task_step [Ended (Completed (Err Se_ClientShutdown)), Spawned] ([Ended (Completed (Err Se_ClientShutdown)), Spawned][1 := Subscribed False])"
    by (rule task_polled) simp_all
  with run_next [OF demo_spawned this] have run: "tasks_run False 3 [Spawned, Spawned] ?ts" by (simp add: numeral_3_eq_3 numeral_2_eq_2)
  have "\<exists>res. ts' ! 1 = Ended (Completed res)" if "task_step ?ts ts'" for ts'
    using that by (elim task_stepE) (auto simp: less_Suc_eq numeral_2_eq_2)
  with run show "\<exists>n ts. tasks_run False n [Spawned, Spawned] ts \<and> ts = ?ts \<and> {ts'. task_step ts ts'} \<subseteq> {ts'. \<exists>res. ts' ! 1 = Ended (Completed res)}"
    by blast
  have "task_step [Subscribed False, Subscribed False] ([Subscribed False, Subscribed False][0 := Ended (Completed Panic)])"
    by (rule task_panics [where b = False]) simp_all
  with run_next [OF run_refl this] show "\<exists>n. tasks_run False n [Subscribed False, Subscribed False] [Ended (Completed Panic), Subscribed False :: service_error task_state] \<and>
      run_and_monitor_tasks [Ended (Completed (Ok ())), Ended (Completed Panic) :: service_error task_state] = Some (Ok ())"
    by (auto simp: run_and_monitor_tasks_def ended_iff task_result_def wait_or_shutdown_def monitor_result_def)
qed

text \<open>
  The connection manager never returns well: with the policy \<open>Always\<close> it ends only when it cannot
  connect to Bitcoin or to the parachain, however the service ends; with \<open>Never\<close> it ends after the
  first run of the service, with \<open>ClientShutdown\<close> even if that succeeded.
\<close>

theorem connection_start_fails:
  assumes run: "connection_start C n w = (r, w')" and rounds: "0 < n"
  shows "(r = Ok x \<longrightarrow> x = None \<and> cm_restart_policy C = Always) \<and>
     (r = Err e \<longrightarrow> cm_restart_policy C = Never \<and> e = Se_ClientShutdown \<or>
        (\<exists>b w1 w2. e = Se_BitcoinError b \<and> cm_new_client C (wallet_prefix C @ ''-master'') w1 = (Err b, w2)) \<or>
        (\<exists>x w1 w2. e = Se_RuntimeError x \<and> cm_connect C w1 = (Err x, w2)))"
proof -
  let ?E = "\<lambda>e. cm_restart_policy C = Never \<and> e = Se_ClientShutdown \<or>
        (\<exists>b w1 w2. e = Se_BitcoinError b \<and> cm_new_client C (wallet_prefix C @ ''-master'') w1 = (Err b, w2)) \<or>
        (\<exists>x w1 w2. e = Se_RuntimeError x \<and> cm_connect C w1 = (Err x, w2))"
  have calls: "triple (\<lambda>_. True) (\<lambda>_. True) (a_map_err Se_BitcoinError (cm_new_client C (wallet_prefix C @ ''-master''))) (\<lambda>_ _. True) (\<lambda>e _. ?E e)"
    "triple (\<lambda>_. True) (\<lambda>_. True) (a_map_err Se_RuntimeError (cm_connect C)) (\<lambda>_ _. True) (\<lambda>e _. ?E e)"
    by (rule triple_map_err, rule tripleI; auto)+
  have step: "triple (\<lambda>_. True) (\<lambda>_. True) (connection_round C) (\<lambda>x _. cm_restart_policy C = Always \<and> x = Inl ()) (\<lambda>e _. ?E e)"
    unfolding connection_round_def
    by (rule triple_bind [OF calls(1)], rule triple_bind [OF calls(2)], rule triple_bind [where R = "\<lambda>_ _. True"],
        rule triple_ignore, rule tripleI; (simp split: restart_policy.split)?)
      (auto simp: triple_def a_err_def split: restart_policy.split)
  have loop: "triple (\<lambda>_. True) (\<lambda>_. cm_restart_policy C = Always) (a_loop (\<lambda>_. connection_round C) m ())
      (\<lambda>x _. x = None \<and> cm_restart_policy C = Always) (\<lambda>e _. ?E e)" for m
    by (rule triple_loop [where I = "\<lambda>_ _. cm_restart_policy C = Always"])
      (rule triple_conseq [OF step], auto split: sum.splits)
  obtain m where n: "n = Suc m" using rounds by (cases n) auto
  have "triple (\<lambda>_. True) (\<lambda>_. True) (connection_start C n) (\<lambda>x _. x = None \<and> cm_restart_policy C = Always) (\<lambda>e _. ?E e)"
    unfolding connection_start_def n a_loop.simps
  proof (rule triple_bind [OF step])
    fix x :: "unit + unit"
    show "triple (\<lambda>_. True) (\<lambda>_. cm_restart_policy C = Always \<and> x = Inl ())
        (case x of Inl s \<Rightarrow> a_loop (\<lambda>_. connection_round C) m s | Inr r \<Rightarrow> a_ret (Some r))
        (\<lambda>x _. x = None \<and> cm_restart_policy C = Always) (\<lambda>e _. ?E e)"
    proof (cases x)
      case (Inl u)
      show ?thesis unfolding Inl sum.case by (cases u) (simp only:, rule triple_pre [OF loop], simp)
    qed (simp add: triple_def)
  qed
  from tripleD [OF this _ run] show ?thesis by auto
qed

definition demo_connection :: "restart_policy \<Rightarrow> nat connection_env" where
  "demo_connection policy = \<lparr>cm_wallet_name = None, cm_new_client = (\<lambda>_ w. (if w = 2 then Err (Be_FailedToConstructWalletName) else Ok Regtest, w)),
     cm_connect = a_ret (), cm_service = a_ret (), cm_restart_policy = policy, cm_count_restart = Suc\<rparr>"

lemma connection_start_fails_witness:
  "\<exists>b w1 w2. Be_FailedToConstructWalletName = b \<and> cm_new_client (demo_connection Always) ''vault-master'' w1 = (Err b, w2)"
proof -
  have run: "connection_start (demo_connection Always) 3 0 = (Err (Se_BitcoinError Be_FailedToConstructWalletName), 2)"
    by (simp add: connection_start_def connection_round_def demo_connection_def numeral_3_eq_3 action_defs a_ignore_def)
  show ?thesis
    using connection_start_fails [OF run] by (simp add: demo_connection_def wallet_prefix_def)
qed

end
