(* ===== verification/Vaults.thy ===== *)
theory Vaults
  imports Issue Execution Faucet Pallets Process
begin

text \<open>
  The vaults of an account: the manager of their Bitcoin wallets and the registration at start-up
  (\<open>vault/src/system.rs\<close>), and the handlers of redeem and replace events (\<open>redeem.rs\<close>, \<open>replace.rs\<close>)
  and of new blocks. The parachain calls are the record \<open>system_calls\<close>, whose model is in
  \<open>Pallets\<close>.
\<close>

record 'w system_calls =
  sc_self :: account_id
  sc_native_currency_id :: currency_id
  sc_wrapped_currency_id :: currency_id
  sc_get_public_key :: "('w, bytes option, runtime_error) action"
  sc_register_public_key :: "bytes \<Rightarrow> ('w, unit, runtime_error) action"
  sc_get_vaults_by_account_id :: "account_id \<Rightarrow> ('w, vault_id list, runtime_error) action"
  sc_get_vault :: "vault_id \<Rightarrow> ('w, vault, runtime_error) action"
  sc_register_vault :: "vault_id \<Rightarrow> u128 \<Rightarrow> ('w, unit, runtime_error) action"
  sc_get_free_balance :: "currency_id \<Rightarrow> ('w, u128, runtime_error) action"
  sc_get_required_collateral_for_wrapped :: "u128 \<Rightarrow> currency_id \<Rightarrow> ('w, u128, runtime_error) action"
  sc_get_required_collateral_for_vault :: "vault_id \<Rightarrow> ('w, u128, runtime_error) action"
  sc_get_vault_total_collateral :: "vault_id \<Rightarrow> ('w, u128, runtime_error) action"
  sc_accept_replace :: "vault_id \<Rightarrow> vault_id \<Rightarrow> u128 \<Rightarrow> u128 \<Rightarrow> btc_address \<Rightarrow> ('w, unit, runtime_error) action"
  sc_get_redeem_request :: "H256 \<Rightarrow> ('w, vault_id redeem_request, runtime_error) action"
  sc_get_replace_request :: "H256 \<Rightarrow> ('w, vault_id replace_request, runtime_error) action"
  sc_get_rpc_properties :: "('w, string \<rightharpoonup> string option, runtime_error) action"
  sc_get_bitcoin_confirmations :: "('w, u32, runtime_error) action"
  sc_get_current_chain_height :: "('w, u32, runtime_error) action"
  sc_sleep :: "nat \<Rightarrow> 'w \<Rightarrow> 'w"

definition sc_is_this_vault :: "'w system_calls \<Rightarrow> vault_id \<Rightarrow> bool" where
  "sc_is_this_vault S v \<longleftrightarrow> account v = sc_self S"

definition is_vault_registered :: "'w system_calls \<Rightarrow> vault_id \<Rightarrow> ('w, bool, vault_error) action" where
  "is_vault_registered S vid =
     a_match (sc_get_vault S vid) (\<lambda>_. a_ret True)
       (\<lambda>err. if err = Re_VaultNotFound then a_ret False else a_err (Ve_RuntimeError err))"

section \<open>The manager of the vaults\<close>

text \<open>
  \<open>VaultIdManager\<close>: the wallet of each vault by its id; the order of the list stands for the
  iteration order of the hash map. The constructor of wallets, the master wallet, the libraries
  and the calls of the issue handling are its environment.
\<close>

type_synonym 'w vault_manager = "(vault_id \<times> 'w btc_api) list"

record 'w manager_env =
  me_oc :: bool
  me_lib :: script_lib
  me_sha256 :: "bytes \<Rightarrow> bytes"
  me_valid_key :: "bytes \<Rightarrow> bool"
  me_constructor :: "vault_id \<Rightarrow> ('w btc_api, bitcoin_error) result"
  me_master_wallet :: "'w btc_api"
  me_issues :: "'w issue_calls"
  me_initialize_metrics :: "vault_id \<Rightarrow> 'w \<Rightarrow> 'w"

text \<open>The derivation key is copied to the master wallet, if only the vault's has it, and from there back.\<close>

definition copy_derivation_key :: "'w manager_env \<Rightarrow> 'w btc_api \<Rightarrow> bytes \<Rightarrow> ('w, unit, vault_error) action" where
  "copy_derivation_key M btc_rpc public_key =
     a_bind (a_match (b_dump_derivation_key btc_rpc public_key)
       (\<lambda>private_key. on_bitcoin (b_import_derivation_key (me_master_wallet M) private_key)) (\<lambda>_. a_ret ())) (\<lambda>_.
     a_match (b_dump_derivation_key (me_master_wallet M) public_key)
       (\<lambda>private_key. on_bitcoin (b_import_derivation_key btc_rpc private_key))
       (\<lambda>err. a_err (Ve_BitcoinError err)))"

definition prepare_wallet :: "'w manager_env \<Rightarrow> 'w system_calls \<Rightarrow> vault_id \<Rightarrow> 'w btc_api \<Rightarrow> ('w, unit, vault_error) action" where
  "prepare_wallet M S vid btc_rpc =
     a_bind (a_map_err Ve_WalletInitializationFailure (b_create_or_load_wallet btc_rpc)) (\<lambda>_.
     a_bind (on_runtime (sc_get_public_key S)) (\<lambda>key.
     a_bind (a_lift (ok_or (Ve_BitcoinError Be_MissingPublicKey) key)) (\<lambda>derivation_key.
     a_bind (if me_valid_key M derivation_key then a_ret () else a_err (Ve_BitcoinError (Be_KeyError ''invalid public key''))) (\<lambda>_.
     a_bind (copy_derivation_key M btc_rpc derivation_key) (\<lambda>_.
     a_bind (add_keys_from_past_issue_request (me_oc M) (me_lib M) (me_sha256 M) (me_valid_key M) btc_rpc (me_issues M) (sc_self S) vid) (\<lambda>_.
     \<lambda>w. (Ok (), me_initialize_metrics M vid w)))))))"

definition add_vault_id :: "'w manager_env \<Rightarrow> 'w system_calls \<Rightarrow> vault_id \<Rightarrow> ('w \<times> 'w vault_manager, unit, vault_error) action" where
  "add_vault_id M S vid =
     a_bind (a_lift (map_err Ve_BitcoinError (me_constructor M vid))) (\<lambda>btc_rpc.
     a_bind (on_world (prepare_wallet M S vid btc_rpc)) (\<lambda>_.
     modify_state (AList.update vid btc_rpc)))"

fun fetch_all :: "'w manager_env \<Rightarrow> 'w system_calls \<Rightarrow> vault_id list \<Rightarrow> ('w \<times> 'w vault_manager, unit, vault_error) action" where
  "fetch_all M S [] = a_ret ()"
| "fetch_all M S (vid # vids) =
     a_bind (a_match (on_world (is_vault_registered S vid))
       (\<lambda>_. add_vault_id M S vid)
       (\<lambda>x. if x = Ve_RuntimeError Re_VaultLiquidated then a_ret () else a_err x)) (\<lambda>_. fetch_all M S vids)"

definition fetch_vault_ids :: "'w manager_env \<Rightarrow> 'w system_calls \<Rightarrow> ('w \<times> 'w vault_manager, unit, vault_error) action" where
  "fetch_vault_ids M S =
     a_bind (on_world (on_runtime (sc_get_vaults_by_account_id S (sc_self S)))) (fetch_all M S)"

text \<open>The handler of \<open>RegisterVault\<close>.\<close>

definition on_register_vault :: "'w manager_env \<Rightarrow> 'w system_calls \<Rightarrow> vault_id \<Rightarrow> ('w \<times> 'w vault_manager, unit, service_error) action" where
  "on_register_vault M S vid = (if sc_is_this_vault S vid then a_ignore (add_vault_id M S vid) else a_ret ())"

definition get_bitcoin_rpc :: "'w vault_manager \<Rightarrow> vault_id \<Rightarrow> 'w btc_api option" where
  "get_bitcoin_rpc m vid = map_of m vid"

definition get_vault_ids :: "'w vault_manager \<Rightarrow> vault_id list" where "get_vault_ids m = map fst m"

definition get_vault_btc_rpcs :: "'w vault_manager \<Rightarrow> (vault_id \<times> 'w btc_api) list" where "get_vault_btc_rpcs m = m"

section \<open>Registration at start-up\<close>

definition split_at_eq :: "string \<Rightarrow> (string \<times> string) option" where
  "split_at_eq s = (case dropWhile (\<lambda>c. c \<noteq> CHR ''='') s of
      [] \<Rightarrow> None | _ # v \<Rightarrow> Some (takeWhile (\<lambda>c. c \<noteq> CHR ''='') s, v))"

definition contains_str :: "string \<Rightarrow> string \<Rightarrow> bool" where
  "contains_str part s \<longleftrightarrow> (\<exists>i \<in> set [0..<Suc (size s)]. take (size part) (drop i s) = part)"

definition parse_collateral_and_amount ::
  "(string \<Rightarrow> (u128, string) result) \<Rightarrow> string \<Rightarrow> (string \<times> u128 option, string) result" where
  "parse_collateral_and_amount parse s = (case split_at_eq s of
      None \<Rightarrow> Err (''invalid CurrencyId=amount: no `=` found in `'' @ s @ ''`'')
    | Some (name, v) \<Rightarrow>
        if contains_str ''faucet'' v then Ok (name, None)
        else rbind (parse v) (\<lambda>amount. Ok (name, Some amount)))"

definition vault_of_currency :: "'w system_calls \<Rightarrow> currency_id \<Rightarrow> vault_id" where
  "vault_of_currency S coll = vault_id_new (sc_self S) coll (sc_wrapped_currency_id S)"

text \<open>A missing property, and a property that is no string, read as the empty one, are no errors.\<close>

fun network_name :: "network \<Rightarrow> string" where
  "network_name Bitcoin = ''mainnet''"
| "network_name Testnet = ''testnet''"
| "network_name Regtest = ''regtest''"
| "network_name Signet = ''signet''"

definition validate_bitcoin_network :: "'w system_calls \<Rightarrow> network \<Rightarrow> ('w, unit, vault_error) action" where
  "validate_bitcoin_network S net =
     a_bind (a_match (sc_get_rpc_properties S) a_ret (\<lambda>_. a_ret Map.empty)) (\<lambda>system_properties.
     case system_properties ''bitcoinNetwork'' of
       None \<Rightarrow> a_ret ()
     | Some property \<Rightarrow>
         let parachain_network = (case property of Some s \<Rightarrow> s | None \<Rightarrow> [])
         in if contains_str (network_name net) parachain_network then a_ret ()
            else a_err (Ve_RuntimeError (Re_BitcoinNetworkMismatch parachain_network (network_name net))))"

definition maybe_register_public_key ::
  "'w faucet_client \<Rightarrow> 'w system_calls \<Rightarrow> 'w btc_api \<Rightarrow> string option \<Rightarrow> ('w, unit, vault_error) action" where
  "maybe_register_public_key F S master faucet_url =
     a_bind (case faucet_url of
         Some url \<Rightarrow> client_fund_account F url (vault_of_currency S (sc_native_currency_id S))
       | None \<Rightarrow> a_ret ()) (\<lambda>_.
     a_bind (on_runtime (sc_get_public_key S)) (\<lambda>key.
     if key = None then
       a_bind (on_bitcoin (b_get_new_public_key master)) (\<lambda>public_key. on_runtime (sc_register_public_key S public_key))
     else a_ret ()))"

definition maybe_register_vault ::
  "'w faucet_client \<Rightarrow> (token_symbol \<Rightarrow> u128) \<Rightarrow> 'w system_calls \<Rightarrow> string option \<Rightarrow> currency_id \<Rightarrow> u128 option
    \<Rightarrow> ('w, unit, vault_error) future" where
  "maybe_register_vault F one S faucet_url coll maybe_collateral_amount =
     (let vid = vault_of_currency S coll in
      f_match
        (\<lambda>registered. if registered then f_ret ()
          else (case maybe_collateral_amount of
              Some amount \<Rightarrow>
                f_bind (f_call (on_runtime (sc_get_free_balance S (collateral_currency vid)))) (\<lambda>free_balance.
                f_call (on_runtime (sc_register_vault S vid (if amount > free_balance then free_balance else amount))))
            | None \<Rightarrow> (case faucet_url of
                Some url \<Rightarrow> fund_and_register F one url vid
              | None \<Rightarrow> f_ret ())))
        (\<lambda>x. if x = Ve_RuntimeError Re_VaultLiquidated then f_ret () else f_err x)
        (f_call (is_vault_registered S vid)))"

definition CHAIN_HEIGHT_POLLING_INTERVAL :: nat where "CHAIN_HEIGHT_POLLING_INTERVAL = 500"

text \<open>The first \<open>n\<close> polls; \<open>None\<close> when the height is still the one at the start.\<close>

definition height_poll :: "'w system_calls \<Rightarrow> u32 \<Rightarrow> unit \<Rightarrow> ('w, unit + u32, vault_error) action" where
  "height_poll S startup_height u =
     a_bind (on_runtime (sc_get_current_chain_height S)) (\<lambda>height.
     if startup_height = height then (\<lambda>w. (Ok (Inl ()), sc_sleep S CHAIN_HEIGHT_POLLING_INTERVAL w))
     else a_ret (Inr startup_height))"

definition await_parachain_block :: "'w system_calls \<Rightarrow> nat \<Rightarrow> ('w, u32 option, vault_error) action" where
  "await_parachain_block S n =
     a_bind (on_runtime (sc_get_current_chain_height S)) (\<lambda>startup_height. a_loop (height_poll S startup_height) n ())"

text \<open>\<open>run_service\<close> up to the tasks; \<open>auto_register\<close> are the symbols and amounts of the command line.\<close>

record 'w vault_config =
  vc_auto_register :: "(string \<times> u128 option) list"
  vc_faucet_url :: "string option"
  vc_btc_confirmations :: "u32 option"

definition parse_auto_register ::
  "token_info \<Rightarrow> asset_registry option \<Rightarrow> (string \<times> u128 option) list \<Rightarrow> ((currency_id \<times> u128 option) list, vault_error) result" where
  "parse_auto_register T g entries =
     collect (map (\<lambda>(symbol, amount). rbind (map_err Ve_RuntimeError (try_from_symbol T g symbol)) (\<lambda>c. Ok (c, amount))) entries)"

text \<open>
  The registrations of the entries run concurrently; \<open>order\<close> is the order in which their calls are made.
  All of them end before the first error is returned.
\<close>

definition register_all ::
  "nat list \<Rightarrow> 'w faucet_client \<Rightarrow> (token_symbol \<Rightarrow> u128) \<Rightarrow> 'w system_calls \<Rightarrow> string option \<Rightarrow> (currency_id \<times> u128 option) list
    \<Rightarrow> ('w, unit list, vault_error) action" where
  "register_all order F one S faucet_url entries =
     a_bind (join_futures order (map (\<lambda>(c, amount). maybe_register_vault F one S faucet_url c amount) entries))
       (\<lambda>rs. a_lift (collect rs))"

definition start_service ::
  "nat list \<Rightarrow> token_info \<Rightarrow> asset_registry option \<Rightarrow> 'w faucet_client \<Rightarrow> (token_symbol \<Rightarrow> u128) \<Rightarrow> 'w manager_env \<Rightarrow> 'w system_calls
    \<Rightarrow> 'w vault_config \<Rightarrow> nat \<Rightarrow> ('w \<times> 'w vault_manager, u32 \<times> u32 option, vault_error) action" where
  "start_service order T g F one M S c n =
     a_bind (on_world (validate_bitcoin_network S (b_network (me_master_wallet M)))) (\<lambda>_.
     a_bind (a_lift (parse_auto_register T g (vc_auto_register c))) (\<lambda>parsed_auto_register.
     a_bind (if list_ex (\<lambda>(_, amount). amount = None) parsed_auto_register \<and> vc_faucet_url c = None
       then a_err Ve_FaucetUrlNotSet else a_ret ()) (\<lambda>_.
     a_bind (on_world (case vc_btc_confirmations c of Some x \<Rightarrow> a_ret x | None \<Rightarrow> on_runtime (sc_get_bitcoin_confirmations S))) (\<lambda>num_confirmations.
     a_bind (on_world (maybe_register_public_key F S (me_master_wallet M) (vc_faucet_url c))) (\<lambda>_.
     a_bind (on_world (register_all order F one S (vc_faucet_url c) parsed_auto_register)) (\<lambda>_.
     a_bind (fetch_vault_ids M S) (\<lambda>_.
     a_bind (on_world (await_parachain_block S n)) (\<lambda>startup_height.
     a_ret (num_confirmations, startup_height)))))))))"

section \<open>Redeem\<close>

text \<open>
  The body of the task that is spawned for a redeem or replace request; its result is logged.
  The handlers return the tasks they spawn, each with the wallet of its vault.
\<close>

datatype vault_task = Redeem_task H256 | Replace_task H256

definition task_body ::
  "script_lib \<Rightarrow> 'w system_calls \<Rightarrow> 'w exec_calls \<Rightarrow> 'w btc_api \<Rightarrow> (int option \<Rightarrow> u128 option \<Rightarrow> ('w, unit, service_error) action)
    \<Rightarrow> u32 \<Rightarrow> u128 \<Rightarrow> bool \<Rightarrow> nat \<Rightarrow> vault_task \<Rightarrow> ('w, unit option, vault_error) action" where
  "task_body L S C B update_metrics num_confirmations payment_margin auto_rbf n task =
     a_bind (case task of
         Redeem_task i \<Rightarrow> a_bind (on_runtime (sc_get_redeem_request S i)) (\<lambda>r. a_lift (from_redeem_request i r payment_margin))
       | Replace_task i \<Rightarrow> a_bind (on_runtime (sc_get_replace_request S i)) (\<lambda>r. a_lift (from_replace_request i r payment_margin)))
       (\<lambda>request. pay_and_execute L C B update_metrics num_confirmations auto_rbf n request)"

definition on_request_redeem ::
  "'w vault_manager \<Rightarrow> ('w, unit, service_error) action \<Rightarrow> vault_id \<Rightarrow> H256 \<Rightarrow> ('w, ('w btc_api \<times> vault_task) option, service_error) action" where
  "on_request_redeem manager publish vid redeem_id = (case map_of manager vid of
      None \<Rightarrow> a_ret None
    | Some btc_rpc \<Rightarrow> a_bind (a_ignore publish) (\<lambda>_. a_ret (Some (btc_rpc, Redeem_task redeem_id))))"

section \<open>Replace\<close>

definition on_accept_replace ::
  "'w vault_manager \<Rightarrow> ('w, unit, service_error) action \<Rightarrow> vault_id \<Rightarrow> H256 \<Rightarrow> ('w, ('w btc_api \<times> vault_task) option, service_error) action" where
  "on_accept_replace manager publish old_vault_id replace_id = (case map_of manager old_vault_id of
      None \<Rightarrow> a_ret None
    | Some btc_rpc \<Rightarrow> a_bind (a_ignore publish) (\<lambda>_. a_ret (Some (btc_rpc, Replace_task replace_id))))"

record request_replace_event =
  rr_old_vault_id :: vault_id
  rr_amount :: u128

text \<open>\<open>try_join3\<close>, from left to right.\<close>

definition handle_replace_request ::
  "'w system_calls \<Rightarrow> 'w btc_api \<Rightarrow> request_replace_event \<Rightarrow> vault_id \<Rightarrow> ('w, unit, vault_error) action" where
  "handle_replace_request S btc_rpc event vid =
     a_bind (on_runtime (sc_get_required_collateral_for_wrapped S (rr_amount event) (collateral_currency vid))) (\<lambda>required.
     a_bind (on_runtime (sc_get_vault_total_collateral S vid)) (\<lambda>current.
     a_bind (on_runtime (sc_get_required_collateral_for_vault S vid)) (\<lambda>used.
     if current < saturating_add required used then a_err Ve_InsufficientFunds
     else a_bind (on_bitcoin (b_get_new_address btc_rpc)) (\<lambda>address.
          a_bind (a_lift (map_err (\<lambda>e. Ve_BitcoinError (Be_ConversionError e)) (from_address address))) (\<lambda>btc_address.
          on_runtime (sc_accept_replace S vid (rr_old_vault_id event) (rr_amount event) 0 btc_address))))))"

text \<open>The vaults are asked one after the other, until one of them accepts; the channel gets \<open>Opened\<close>.\<close>

fun try_accept ::
  "'w system_calls \<Rightarrow> request_replace_event \<Rightarrow> (vault_id \<times> 'w btc_api) list \<Rightarrow> ('w \<times> event list, unit, service_error) action" where
  "try_accept S event [] = a_ret ()"
| "try_accept S event ((vid, btc_rpc) # rest) =
     a_match (on_world (handle_replace_request S btc_rpc event vid))
       (\<lambda>_. modify_state (\<lambda>channel. channel @ [Opened])) (\<lambda>_. try_accept S event rest)"

definition on_request_replace ::
  "'w system_calls \<Rightarrow> 'w vault_manager \<Rightarrow> bool \<Rightarrow> request_replace_event \<Rightarrow> ('w \<times> event list, unit, service_error) action" where
  "on_request_replace S manager accept_replace_requests event =
     (if sc_is_this_vault S (rr_old_vault_id event) then a_ret ()
      else if accept_replace_requests then try_accept S event (get_vault_btc_rpcs manager)
      else a_ret ())"

definition on_execute_replace :: "'w system_calls \<Rightarrow> vault_id \<Rightarrow> H256 \<Rightarrow> ('w \<times> event list, unit, service_error) action" where
  "on_execute_replace S new_vault_id replace_id =
     (if account new_vault_id = sc_self S then modify_state (\<lambda>channel. channel @ [Executed replace_id]) else a_ret ())"

section \<open>Blocks\<close>

text \<open>The events go to the channel of the issues, then to that of the replaces.\<close>

definition on_active_block :: "u32 \<Rightarrow> ('w \<times> (event list \<times> event list), unit, service_error) action" where
  "on_active_block height = modify_state (\<lambda>(issue_tx, replace_tx). (issue_tx @ [ParachainBlock height], replace_tx @ [ParachainBlock height]))"

definition on_main_chain_header :: "u32 \<Rightarrow> ('w \<times> (event list \<times> event list), unit, service_error) action" where
  "on_main_chain_header height = modify_state (\<lambda>(issue_tx, replace_tx). (issue_tx @ [BitcoinBlock height], replace_tx @ [BitcoinBlock height]))"

end
