(* ===== verification/VaultsFacts.thy ===== *)
theory VaultsFacts
  imports Vaults ExecutionFacts
begin

text \<open>
  What the handlers of the vaults guarantee: a redeem event leads to at most one payment, that of
  the request on the parachain; a replace request is accepted by at most one vault, and only with
  the collateral for it; and after the start the manager knows every vault of the account.
\<close>

section \<open>Recording\<close>

definition lift_system :: "'w system_calls \<Rightarrow> ('w \<times> 's) system_calls" where
  "lift_system S = \<lparr>sc_self = sc_self S, sc_native_currency_id = sc_native_currency_id S,
     sc_wrapped_currency_id = sc_wrapped_currency_id S,
     sc_get_public_key = on_world (sc_get_public_key S),
     sc_register_public_key = (\<lambda>k. on_world (sc_register_public_key S k)),
     sc_get_vaults_by_account_id = (\<lambda>a. on_world (sc_get_vaults_by_account_id S a)),
     sc_get_vault = (\<lambda>v. on_world (sc_get_vault S v)),
     sc_register_vault = (\<lambda>v a. on_world (sc_register_vault S v a)),
     sc_get_free_balance = (\<lambda>c. on_world (sc_get_free_balance S c)),
     sc_get_required_collateral_for_wrapped = (\<lambda>a c. on_world (sc_get_required_collateral_for_wrapped S a c)),
     sc_get_required_collateral_for_vault = (\<lambda>v. on_world (sc_get_required_collateral_for_vault S v)),
     sc_get_vault_total_collateral = (\<lambda>v. on_world (sc_get_vault_total_collateral S v)),
     sc_accept_replace = (\<lambda>v old a c addr. on_world (sc_accept_replace S v old a c addr)),
     sc_get_redeem_request = (\<lambda>i. on_world (sc_get_redeem_request S i)),
     sc_get_replace_request = (\<lambda>i. on_world (sc_get_replace_request S i)),
     sc_get_rpc_properties = on_world (sc_get_rpc_properties S),
     sc_get_bitcoin_confirmations = on_world (sc_get_bitcoin_confirmations S),
     sc_get_current_chain_height = on_world (sc_get_current_chain_height S),
     sc_sleep = (\<lambda>t (w, s). (sc_sleep S t w, s))\<rparr>"

text \<open>The acceptances asked of the parachain, and whether they succeeded.\<close>

datatype accept_call = Accept vault_id vault_id u128 u128 btc_address bool

primrec accepted :: "accept_call \<Rightarrow> bool" where "accepted (Accept v old a c addr succeeded) = succeeded"

definition logged_system :: "'w system_calls \<Rightarrow> ('w \<times> accept_call list) system_calls" where
  "logged_system S = (lift_system S)\<lparr>sc_accept_replace := (\<lambda>v old a c addr.
     log_result (\<lambda>r. [Accept v old a c addr (is_ok r)]) (sc_accept_replace S v old a c addr))\<rparr>"

lemma logged_system_simps [simp]:
  "sc_self (logged_system S) = sc_self S"
  "sc_get_required_collateral_for_wrapped (logged_system S) = (\<lambda>a c. on_world (sc_get_required_collateral_for_wrapped S a c))"
  "sc_get_required_collateral_for_vault (logged_system S) = (\<lambda>v. on_world (sc_get_required_collateral_for_vault S v))"
  "sc_get_vault_total_collateral (logged_system S) = (\<lambda>v. on_world (sc_get_vault_total_collateral S v))"
  "sc_accept_replace (logged_system S) = (\<lambda>v old a c addr.
     log_result (\<lambda>r. [Accept v old a c addr (is_ok r)]) (sc_accept_replace S v old a c addr))"
  by (simp_all add: logged_system_def lift_system_def)

section \<open>Redeem\<close>

lemma a_bind_fail:
  "(\<forall>a. r \<noteq> Ok a) \<Longrightarrow> \<exists>m. a_bind (a_bind m0 (\<lambda>x. a_bind (a_lift r) (g x))) f = a_bind m0 (\<lambda>_. a_lift m)"
  by (rule exI [of _ "case r of Err e \<Rightarrow> Err e | _ \<Rightarrow> Panic"], rule ext) (auto simp: action_defs split: prod.splits result.splits)

text \<open>Without an address to pay to, nothing is asked of the wallet.\<close>

lemma no_address:
  assumes run: "pay_and_execute L (logged_exec C) (logged_wallet B) (lifted_metrics update) nc rbf n rq (w, []) = (r, (w', log))"
    and addr: "\<forall>a. to_btc_address L (logged_wallet B) rq \<noteq> Ok a"
  shows "log = []"
proof -
  let ?I = "on_log (\<lambda>l. l = ([] :: act list))"
  have fee: "keeps ?I (get_fee_rate (logged_exec C))"
    by (auto simp: get_fee_rate_def intro!: keeps_intro)
  have deadline: "keeps ?I (case rq_deadline rq of
         Some deadline \<Rightarrow> a_bind (deadline_expired (logged_exec C) (logged_wallet B) deadline)
           (\<lambda>expired. if expired then a_err Ve_DeadlineExpired else a_ret ())
       | None \<Rightarrow> a_ret ())"
    by (auto simp: deadline_expired_def intro!: keeps_intro split: option.splits)
  have submit: "keeps ?I (a_bind (transfer_btc L (logged_exec C) (logged_wallet B) nc rbf n rq) f)" for f :: "transaction_metadata option \<Rightarrow> _"
  proof -
    have "\<exists>m. a_bind (transfer_btc L (logged_exec C) (logged_wallet B) nc rbf n rq) f = a_bind (get_fee_rate (logged_exec C)) (\<lambda>_. a_lift m)"
      unfolding transfer_btc_def by (rule a_bind_fail [OF addr])
    then obtain m where eq: "a_bind (transfer_btc L (logged_exec C) (logged_wallet B) nc rbf n rq) f = a_bind (get_fee_rate (logged_exec C)) (\<lambda>_. a_lift m)"
      by blast
    show ?thesis unfolding eq by (intro keeps_intro fee)
  qed
  have "keeps ?I (pay_and_execute L (logged_exec C) (logged_wallet B) (lifted_metrics update) nc rbf n rq)"
    unfolding pay_and_execute_def by (rule keeps_bind [OF deadline submit])
  from keepsD [OF this _ run] show ?thesis by simp
qed

text \<open>
  C4. A redeem event leads to at most one payment: of the task that is spawned for it, of any length, the
  wallet is asked for the amount of the redeem request that the parachain holds under this id, to
  its address and with the id as its reference, once, and only while one of the deadlines of
  the request is not reached.
\<close>

theorem redeem_event_paid_once:
  assumes run: "task_body L (lift_system S) (logged_exec C) (logged_wallet B) (\<lambda>fee budget. on_world (update fee budget))
      nc margin rbf n (Redeem_task i) (w, []) = (r, (w', log))"
    and paid: "log \<noteq> []"
  shows "\<exists>redeem w1 addr rate t rest. sc_get_redeem_request S i w = (Ok redeem, w1) \<and>
     to_address L (rd_btc_address redeem) (b_network B) = Ok addr \<and>
     log = Create addr (ucast (rd_amount_btc redeem)) rate (Some i) t # rest \<and> filter is_create rest = [] \<and>
     (\<exists>h w2. xc_get_current_active_block_number C w1 = (Ok h, w2) \<and>
       (unat h + unat margin div 12000 < unat (rd_opentime redeem) + unat (rd_period redeem) \<or>
        (\<exists>c w3. b_get_block_count B w2 = (Ok c, w3) \<and>
           unat c + (unat margin div 12000 + 49) div 50 < unat (rd_btc_height redeem) + (unat (rd_period redeem) + 49) div 50)))"
proof -
  obtain x w1 where x: "sc_get_redeem_request S i w = (x, w1)" by (metis surj_pair)
  from run paid x obtain redeem where redeem: "x = Ok redeem"
    by (cases x) (auto simp: task_body_def lift_system_def on_runtime_def action_defs on_world_def)
  from run paid x redeem obtain rq where rq: "from_redeem_request i redeem margin = Ok rq"
    by (cases "from_redeem_request i redeem margin") (auto simp: task_body_def lift_system_def on_runtime_def action_defs on_world_def)
  with run x redeem have pay: "pay_and_execute L (logged_exec C) (logged_wallet B) (lifted_metrics update) nc rbf n rq (w1, []) = (r, (w', log))"
    by (simp add: task_body_def lift_system_def on_runtime_def action_defs on_world_def)
  from rq obtain d where cd: "calculate_deadline (rd_opentime redeem) (rd_btc_height redeem) (rd_period redeem) margin = Ok d"
    and d: "rq_deadline rq = Some d" and eqs: "rq_amount rq = rd_amount_btc redeem" "rq_hash rq = i" "rq_btc_address rq = rd_btc_address redeem"
    by (auto simp: from_redeem_request_def)
  from no_address [OF pay] paid obtain addr where addr: "to_btc_address L (logged_wallet B) rq = Ok addr" by auto
  have "\<exists>rate t rest. log = Create addr (ucast (rd_amount_btc redeem)) rate (Some i) t # rest \<and> filter is_create rest = []"
    using request_run_forms [OF pay_run [OF addr pay]] request_run_creates [OF pay_run [OF addr pay]] paid eqs by auto
  moreover have "to_address L (rd_btc_address redeem) (b_network B) = Ok addr"
    using addr eqs by (simp add: to_btc_address_def)
  moreover have "\<exists>h w2. xc_get_current_active_block_number C w1 = (Ok h, w2) \<and>
       (unat h + unat margin div 12000 < unat (rd_opentime redeem) + unat (rd_period redeem) \<or>
        (\<exists>c w3. b_get_block_count B w2 = (Ok c, w3) \<and>
           unat c + (unat margin div 12000 + 49) div 50 < unat (rd_btc_height redeem) + (unat (rd_period redeem) + 49) div 50))"
    using calculate_deadline_Ok [OF cd] pay_before_deadline [OF pay paid d]
    by (fastforce simp: before_deadline_def word_less_nat_alt unat_ucast_up)
  ultimately show ?thesis using x redeem by blast
qed

section \<open>Replace\<close>

text \<open>The collateral that was read covered what was needed.\<close>

definition can_back :: "'w system_calls \<Rightarrow> request_replace_event \<Rightarrow> vault_id \<Rightarrow> bool" where
  "can_back S event v \<longleftrightarrow> (\<exists>required current used.
     may_return (sc_get_required_collateral_for_wrapped S (rr_amount event) (collateral_currency v)) required \<and>
     may_return (sc_get_vault_total_collateral S v) current \<and>
     may_return (sc_get_required_collateral_for_vault S v) used \<and>
     min (unat required + unat used) (2 ^ 128 - 1) \<le> unat current)"

definition backed_call :: "'w system_calls \<Rightarrow> request_replace_event \<Rightarrow> (vault_id \<times> 'w btc_api) list \<Rightarrow> accept_call \<Rightarrow> bool" where
  "backed_call S event m c \<longleftrightarrow> (\<exists>v B addr address ok. (v, B) \<in> set m \<and> can_back S event v \<and>
     may_return (b_get_new_address B) address \<and> from_address address = Ok addr \<and>
     c = Accept v (rr_old_vault_id event) (rr_amount event) 0 addr ok)"

definition no_acceptance :: "'w system_calls \<Rightarrow> request_replace_event \<Rightarrow> (vault_id \<times> 'w btc_api) list \<Rightarrow> accept_call list \<Rightarrow> bool" where
  "no_acceptance S event m log \<longleftrightarrow> (\<forall>c \<in> set log. backed_call S event m c \<and> \<not> accepted c)"

definition one_acceptance :: "'w system_calls \<Rightarrow> request_replace_event \<Rightarrow> (vault_id \<times> 'w btc_api) list \<Rightarrow> accept_call list \<Rightarrow> bool" where
  "one_acceptance S event m log \<longleftrightarrow> (\<exists>pre c. log = pre @ [c] \<and> no_acceptance S event m pre \<and> backed_call S event m c \<and> accepted c)"

lemma accept_logged:
  assumes backed: "(v, B) \<in> set m" "can_back S event v" and address: "may_return (b_get_new_address B) address" "from_address address = Ok addr"
  shows "triple (\<lambda>ws. no_acceptance S event m (snd ws)) (\<lambda>ws. no_acceptance S event m (snd ws))
     (log_result (\<lambda>r. [Accept v (rr_old_vault_id event) (rr_amount event) 0 addr (is_ok r)])
        (sc_accept_replace S v (rr_old_vault_id event) (rr_amount event) 0 addr))
     (\<lambda>_ ws. one_acceptance S event m (snd ws)) (\<lambda>_ ws. no_acceptance S event m (snd ws))"
proof -
  have "backed_call S event m (Accept v (rr_old_vault_id event) (rr_amount event) 0 addr b)" for b
    using assms unfolding backed_call_def by blast
  then show ?thesis
    by (intro triple_log) (auto simp: no_acceptance_def one_acceptance_def)
qed

text \<open>A call that is only read from keeps what is said of the log.\<close>

abbreviation keeping :: "('s \<Rightarrow> bool) \<Rightarrow> ('w \<times> 's, 'a, 'e) action \<Rightarrow> ('a \<Rightarrow> 's \<Rightarrow> bool) \<Rightarrow> bool" where
  "keeping N m Q \<equiv> triple (\<lambda>ws. N (snd ws)) (\<lambda>ws. N (snd ws)) m (\<lambda>a ws. Q a (snd ws)) (\<lambda>_ ws. N (snd ws))"

lemma runtime_bind: "(\<And>a. may_return m a \<Longrightarrow> keeping N (f a) Q) \<Longrightarrow> keeping N (a_bind (on_runtime (on_world m)) f) Q"
  by (rule triple_bind [where R = "\<lambda>a ws. may_return m a \<and> N (snd ws)"], rule triple_runtime, rule triple_reads)
    (auto intro: triple_conj_fact)

lemma bitcoin_bind: "(\<And>a. may_return m a \<Longrightarrow> keeping N (f a) Q) \<Longrightarrow> keeping N (a_bind (on_bitcoin (on_world m)) f) Q"
  by (rule triple_bind [where R = "\<lambda>a ws. may_return m a \<and> N (snd ws)"], rule triple_bitcoin, rule triple_reads)
    (auto intro: triple_conj_fact)

lemma lift_bind: "(\<And>a. x = Ok a \<Longrightarrow> keeping N (f a) Q) \<Longrightarrow> keeping N (a_bind (a_lift x) f) Q"
  by (cases x) (auto simp: triple_def action_defs)

lemma replace_handled:
  assumes v: "(v, B) \<in> set m"
  shows "keeping (no_acceptance S event m) (handle_replace_request (logged_system S) (lift_btc B) event v)
     (\<lambda>_. one_acceptance S event m)"
  unfolding handle_replace_request_def logged_system_simps
proof (intro runtime_bind triple_if triple_err)
  fix required current used
  assume "may_return (sc_get_required_collateral_for_wrapped S (rr_amount event) (collateral_currency v)) required"
    "may_return (sc_get_vault_total_collateral S v) current" "may_return (sc_get_required_collateral_for_vault S v) used"
    "\<not> current < saturating_add required used"
  then have "can_back S event v"
    unfolding can_back_def by (auto simp: not_less word_le_nat_alt unat_saturating_add)
  then show "keeping (no_acceptance S event m) (a_bind (on_bitcoin (b_get_new_address (lift_btc B))) (\<lambda>address.
      a_bind (a_lift (map_err (\<lambda>e. Ve_BitcoinError (Be_ConversionError e)) (from_address address))) (\<lambda>btc_address.
      on_runtime (log_result (\<lambda>r. [Accept v (rr_old_vault_id event) (rr_amount event) 0 btc_address (is_ok r)])
        (sc_accept_replace S v (rr_old_vault_id event) (rr_amount event) 0 btc_address)))))
      (\<lambda>_. one_acceptance S event m)"
    by (simp add: lift_btc_def, intro bitcoin_bind lift_bind triple_runtime accept_logged [OF v]) simp_all
qed simp_all

lemma tried:
  assumes "set ms \<subseteq> set m" "no_acceptance S event m l"
    and "try_accept (logged_system S) event (map (\<lambda>(v, B). (v, lift_btc B)) ms) ((w, l), ch) = (r, ((w', l'), ch'))"
  shows "no_acceptance S event m l' \<and> ch' = ch \<or> one_acceptance S event m l' \<and> ch' = ch @ [Opened]"
  using assms
proof (induction ms arbitrary: w l)
  case Nil
  then show ?case by (simp add: a_ret_def)
next
  case (Cons x ms)
  obtain v B where x: "x = (v, B)" by fastforce
  obtain res w1 l1 where h: "handle_replace_request (logged_system S) (lift_btc B) event v (w, l) = (res, (w1, l1))"
    by (metis surj_pair)
  have v: "(v, B) \<in> set m" using Cons.prems(1) x by simp
  note outcome = tripleD [OF replace_handled [OF v] _ h]
  show ?case
  proof (cases res)
    case (Ok u)
    with Cons.prems(2,3) h x outcome(1) [OF _ Ok] show ?thesis
      by (simp add: a_match_def on_world_def modify_state_def)
  next
    case (Err e)
    with Cons.prems(2) outcome(2) have "no_acceptance S event m l1" by simp
    with Cons.IH [of l1 w1] Cons.prems h x Err show ?thesis by (simp add: a_match_def on_world_def)
  next
    case Panic
    with Cons.prems(2,3) h x outcome(3) [OF _ Panic] show ?thesis by (simp add: a_match_def on_world_def)
  qed
qed

text \<open>
  C5. A replace request is accepted by at most one of our vaults, and only with the collateral for it: what
  is asked of the parachain are acceptances, each for a vault of ours, of the requested amount, with
  no further collateral and a new address of that vault's wallet, after the parachain reported
  that its collateral covers the request beside what it backs already; all but the last one failed;
  the channel is told exactly when the last one succeeded; and a request of our own is never answered.
\<close>

theorem replace_accepted_once:
  assumes run: "on_request_replace (logged_system S) (map (\<lambda>(v, B). (v, lift_btc B)) m) accept event ((w, []), []) = (r, ((w', log), channel))"
  shows "(\<forall>c \<in> set log. \<exists>v B addr address ok. (v, B) \<in> set m \<and> can_back S event v \<and>
        may_return (b_get_new_address B) address \<and> from_address address = Ok addr \<and>
        c = Accept v (rr_old_vault_id event) (rr_amount event) 0 addr ok) \<and>
     (\<forall>c \<in> set (butlast log). \<not> accepted c) \<and>
     channel = (if log \<noteq> [] \<and> accepted (last log) then [Opened] else []) \<and>
     (account (rr_old_vault_id event) = sc_self S \<or> \<not> accept \<longrightarrow> log = [])"
proof (cases "account (rr_old_vault_id event) = sc_self S \<or> \<not> accept")
  case True
  with run show ?thesis by (auto simp: on_request_replace_def sc_is_this_vault_def a_ret_def split: if_splits)
next
  case False
  have "no_acceptance S event m []" by (simp add: no_acceptance_def)
  moreover have "try_accept (logged_system S) event (map (\<lambda>(v, B). (v, lift_btc B)) m) ((w, []), []) = (r, ((w', log), channel))"
    using run False by (simp add: on_request_replace_def sc_is_this_vault_def get_vault_btc_rpcs_def)
  ultimately have "no_acceptance S event m log \<and> channel = [] \<or> one_acceptance S event m log \<and> channel = [Opened]"
    using tried [OF order_refl] by fastforce
  then have "(\<forall>c \<in> set log. backed_call S event m c) \<and> (\<forall>c \<in> set (butlast log). \<not> accepted c) \<and>
      channel = (if log \<noteq> [] \<and> accepted (last log) then [Opened] else [])"
    by (auto simp: no_acceptance_def one_acceptance_def dest: in_set_butlastD last_in_set)
  with False show ?thesis unfolding backed_call_def by blast
qed

section \<open>An account with one vault\<close>

definition demo_vault :: vault_id where "demo_vault = vault_id_new [5] (Token KSM) (Token KBTC)"

text \<open>A wallet that has an address and a public key, and a parachain that lets the vault do all it asks.\<close>

definition manager_wallet :: "nat btc_api" where
  "manager_wallet = demo_wallet\<lparr>b_get_new_address := a_ret demo_address\<rparr>"

definition demo_system :: "nat system_calls" where
  "demo_system = \<lparr>sc_self = [5], sc_native_currency_id = Token KINT, sc_wrapped_currency_id = Token KBTC,
     sc_get_public_key = a_ret (Some [3]), sc_register_public_key = (\<lambda>k. a_ret ()),
     sc_get_vaults_by_account_id = (\<lambda>a. a_ret [demo_vault]),
     sc_get_vault = (\<lambda>v. a_err Re_VaultNotFound), sc_register_vault = (\<lambda>v a. a_ret ()),
     sc_get_free_balance = (\<lambda>c. a_ret 50),
     sc_get_required_collateral_for_wrapped = (\<lambda>a c. a_ret 10), sc_get_required_collateral_for_vault = (\<lambda>v. a_ret 20),
     sc_get_vault_total_collateral = (\<lambda>v. a_ret 30), sc_accept_replace = (\<lambda>v old a c addr. a_ret ()),
     sc_get_redeem_request = (\<lambda>i. a_ret demo_redeem), sc_get_replace_request = (\<lambda>i. a_err Re_VaultNotFound),
     sc_get_rpc_properties = a_ret Map.empty, sc_get_bitcoin_confirmations = a_ret 6,
     sc_get_current_chain_height = (\<lambda>w. (Ok (word_of_nat w), Suc w)), sc_sleep = (\<lambda>t w. w)\<rparr>"

lemma demo_task:
  "task_body std_lib (lift_system demo_system) (logged_exec demo_exec) (logged_wallet demo_wallet) (\<lambda>fee budget. on_world (a_ret ()))
     6 120000 True (Suc (Suc n)) (Redeem_task [7]) (0, []) = (Ok (Some ()), (2, [Create demo_address 1005 1 (Some [7]) (Some [8]),
       Bump [8] demo_address 3 (Some [9]), Submit Redeem [7] [1] [2]]))"
proof -
  have "sc_get_redeem_request (lift_system demo_system) [7] (0, [] :: act list) = (Ok demo_redeem, (0, []))"
    by (simp add: lift_system_def demo_system_def action_defs on_world_def)
  then show ?thesis
    unfolding task_body_def
    by (simp add: a_bind_def a_match_def on_runtime_def a_map_err_def a_lift_def demo_redeem_request demo_pays)
qed

lemma redeem_event_paid_once_witness:
  "\<exists>rest. [Create demo_address 1005 1 (Some [7]) (Some [8]), Bump [8] demo_address 3 (Some [9]), Submit Redeem [7] [1] [2]] =
     Create demo_address 1005 1 (Some [7]) (Some [8]) # rest \<and> filter is_create rest = []"
  using redeem_event_paid_once [OF demo_task [of 1]] by auto

definition demo_replace :: request_replace_event where
  "demo_replace = \<lparr>rr_old_vault_id = vault_id_new [6] (Token KSM) (Token KBTC), rr_amount = 7\<rparr>"

lemma demo_accepts:
  "on_request_replace (logged_system demo_system) (map (\<lambda>(v, B). (v, lift_btc B)) [(demo_vault, manager_wallet), (demo_vault, manager_wallet)])
     True demo_replace ((0, []), []) =
   (Ok (), ((0, [Accept demo_vault (rr_old_vault_id demo_replace) 7 0 (P2PKH (replicate 20 1)) True]), [Opened]))"
  by (simp add: on_request_replace_def sc_is_this_vault_def demo_replace_def get_vault_btc_rpcs_def handle_replace_request_def
      demo_system_def on_runtime_def on_bitcoin_def action_defs on_world_def log_result_def saturating_add_def lift_btc_def
      manager_wallet_def demo_wallet_def demo_btc_api_def from_address_def demo_address_def modify_state_def vault_id_new_def)

lemma replace_accepted_once_witness:
  "can_back demo_system demo_replace demo_vault"
  using replace_accepted_once [OF demo_accepts] by auto

end
