(* ===== verification/VaultStart.thy ===== *)
theory VaultStart
  imports VaultsFacts
begin

text \<open>
  What the start of the service leaves behind: the calls that it makes are recorded, of the wallet
  of each vault, of the public key of the account and of the registrations, which run concurrently
  under any order of their calls (\<open>Futures\<close>).
\<close>

section \<open>Recording\<close>

datatype start_call = Loaded vault_id | Imported vault_id bytes | Key_registered bytes | Registered vault_id u128

text \<open>A call that is recorded when it succeeds.\<close>

definition log_ok :: "'l \<Rightarrow> ('w, 'a, 'e) action \<Rightarrow> ('w \<times> 'l list, 'a, 'e) action" where
  "log_ok x = log_result (\<lambda>r. if is_ok r then [x] else [])"

lemma log_ok_Ok: "log_ok x m (w, l) = (Ok a, ws) \<longleftrightarrow> (\<exists>w'. m w = (Ok a, w') \<and> ws = (w', l @ [x]))"
  by (auto simp: log_ok_def log_result_def split: prod.splits result.splits)

definition logged_vault_wallet :: "vault_id \<Rightarrow> 'w btc_api \<Rightarrow> ('w \<times> start_call list) btc_api" where
  "logged_vault_wallet v B = (lift_btc B)\<lparr>b_create_or_load_wallet := log_ok (Loaded v) (b_create_or_load_wallet B),
     b_import_derivation_key := (\<lambda>k. log_ok (Imported v k) (b_import_derivation_key B k))\<rparr>"

definition lift_issues :: "'w issue_calls \<Rightarrow> ('w \<times> 's) issue_calls" where
  "lift_issues C = \<lparr>ic_get_all_active_issues = on_world (ic_get_all_active_issues C),
     ic_get_vault_issue_requests = (\<lambda>a. on_world (ic_get_vault_issue_requests C a)),
     ic_get_issue_request = (\<lambda>i. on_world (ic_get_issue_request C i)),
     ic_wait_for_block_in_relay = (\<lambda>h n. on_world (ic_wait_for_block_in_relay C h n)),
     ic_delay = (\<lambda>i. on_world (ic_delay C i)),
     ic_execute_issue = (\<lambda>i p t. on_world (ic_execute_issue C i p t))\<rparr>"

definition logged_env :: "'w manager_env \<Rightarrow> ('w \<times> start_call list) manager_env" where
  "logged_env M = \<lparr>me_oc = me_oc M, me_lib = me_lib M, me_sha256 = me_sha256 M, me_valid_key = me_valid_key M,
     me_constructor = (\<lambda>v. rbind (me_constructor M v) (\<lambda>B. Ok (logged_vault_wallet v B))),
     me_master_wallet = lift_btc (me_master_wallet M), me_issues = lift_issues (me_issues M),
     me_initialize_metrics = (\<lambda>v (w, l). (me_initialize_metrics M v w, l))\<rparr>"

definition start_system :: "'w system_calls \<Rightarrow> ('w \<times> start_call list) system_calls" where
  "start_system S = (lift_system S)\<lparr>
     sc_register_public_key := (\<lambda>k. log_ok (Key_registered k) (sc_register_public_key S k)),
     sc_register_vault := (\<lambda>v a. log_ok (Registered v a) (sc_register_vault S v a))\<rparr>"

definition logged_faucet :: "'w faucet_client \<Rightarrow> ('w \<times> start_call list) faucet_client" where
  "logged_faucet F = \<lparr>ft_connect = (\<lambda>u. on_world (ft_connect F u)), ft_call_method = (\<lambda>m p. on_world (ft_call_method F m p)),
     ft_hex_encode = ft_hex_encode F, ft_hex_decode = ft_hex_decode F, ft_decode_u128 = ft_decode_u128 F,
     ft_register_vault = (\<lambda>v a. log_ok (Registered v a) (ft_register_vault F v a)),
     ft_deposit_collateral = (\<lambda>v a. on_world (ft_deposit_collateral F v a))\<rparr>"

lemmas start_recorders = logged_vault_wallet_def lift_issues_def logged_env_def start_system_def lift_system_def logged_faucet_def

section \<open>Calls that succeed\<close>

lemma a_map_err_Ok: "a_map_err h m w = (Ok a, w') \<longleftrightarrow> m w = (Ok a, w')"
  by (auto simp: a_map_err_def split: prod.splits result.splits)

lemma a_map_err_world: "a_map_err h (on_world m) = on_world (a_map_err h m)"
  by (rule ext) (auto simp: a_map_err_def on_world_def split: prod.splits)

lemma may_return_map_err [simp]: "may_return (a_map_err h m) a \<longleftrightarrow> may_return m a"
  by (simp add: may_return_def a_map_err_Ok)

lemma a_lift_Ok: "a_lift r w = (Ok a, w') \<longleftrightarrow> r = Ok a \<and> w' = w"
  by (auto simp: a_lift_def)

lemma ok_or_Ok: "ok_or e x = Ok a \<longleftrightarrow> x = Some a"
  by (cases x) auto

text \<open>An action that keeps whatever is said of the log leaves it as it was.\<close>

lemma unlogged:
  assumes "\<And>I. keeps (on_log I) m" and "m (w, l) = (r, (w', l'))"
  shows "l' = l"
  using keepsD [OF assms(1) [of "\<lambda>l'. l' = l"] _ assms(2)] by simp

lemma keeps_past_keys [keeps_intro]:
  "keeps (on_log I) (add_keys_from_past_issue_request oc L sha valid (logged_vault_wallet v B) (lift_issues C) self v)"
proof -
  have "keeps (on_log I) (add_deposit_keys sha valid (logged_vault_wallet v B) rs)" for rs
    by (induction rs) (auto simp: add_new_deposit_key_def logged_vault_wallet_def intro!: keeps_intro)
  then show ?thesis
    by (auto simp: add_keys_from_past_issue_request_def logged_vault_wallet_def lift_issues_def Let_def intro!: keeps_intro)
qed

lemma keeps_funding [keeps_intro]:
  "keeps (on_log I) (get_funding (logged_faucet F) v)" "keeps (on_log I) (client_fund_account (logged_faucet F) url v)"
  "keeps (on_log I) (get_faucet_allowance (logged_faucet F) t)"
  by (auto simp: client_fund_account_def get_funding_def get_faucet_allowance_def logged_faucet_def Let_def intro!: keeps_intro)

lemma keeps_registered [keeps_intro]: "keeps (on_log I) (is_vault_registered (start_system S) v)"
  by (auto simp: is_vault_registered_def start_system_def lift_system_def intro!: keeps_intro)

lemma keeps_await [keeps_intro]: "keeps (on_log I) (await_parachain_block (start_system S) n)"
proof -
  have "keeps (on_log I) (height_poll (start_system S) h u)" for h u
    by (auto simp: height_poll_def start_system_def lift_system_def intro!: keeps_intro intro: keepsI)
  then show ?thesis
    unfolding await_parachain_block_def by (intro keeps_intro) (simp add: start_system_def lift_system_def keeps_intro)
qed

section \<open>The manager\<close>

definition liquidated :: "'w system_calls \<Rightarrow> vault_id \<Rightarrow> bool" where
  "liquidated S v \<longleftrightarrow> (\<exists>w w'. sc_get_vault S v w = (Err Re_VaultLiquidated, w'))"

text \<open>The calls for a vault that is taken in: the wallet is loaded, then the key of the account goes to it.\<close>

definition wallet_calls :: "'w manager_env \<Rightarrow> 'w system_calls \<Rightarrow> vault_id \<Rightarrow> start_call list \<Rightarrow> bool" where
  "wallet_calls M S v calls \<longleftrightarrow> (\<exists>key private_key. may_return (sc_get_public_key S) (Some key) \<and> me_valid_key M key \<and>
     may_return (b_dump_derivation_key (me_master_wallet M) key) private_key \<and>
     calls = [Loaded v, Imported v private_key])"

lemma wallet_prepared:
  assumes "prepare_wallet (logged_env M) (start_system S) v (logged_vault_wallet v B) (w, l) = (Ok (), (w', l'))"
  shows "\<exists>calls. l' = l @ calls \<and> wallet_calls M S v calls"
proof -
  let ?B = "logged_vault_wallet v B"
  from assms obtain w1 l1 key w2 l2 w3 l3 w4 l4 where
    load: "b_create_or_load_wallet ?B (w, l) = (Ok (), (w1, l1))"
    and key: "sc_get_public_key (start_system S) (w1, l1) = (Ok (Some key), (w2, l2))" "me_valid_key M key"
    and copy: "copy_derivation_key (logged_env M) ?B key (w2, l2) = (Ok (), (w3, l3))"
    and past: "add_keys_from_past_issue_request (me_oc M) (me_lib M) (me_sha256 M) (me_valid_key M) ?B (lift_issues (me_issues M)) (sc_self S) v (w3, l3) = (Ok (), (w4, l4))"
    and "l' = l4"
    by (auto simp: prepare_wallet_def a_bind_eq_Ok a_map_err_Ok a_lift_Ok ok_or_Ok a_ret_def a_err_def logged_env_def
        start_system_def lift_system_def split: if_splits)
  moreover have "l4 = l3" by (rule unlogged [OF keeps_past_keys past])
  moreover have "l1 = l @ [Loaded v]" using load by (auto simp: logged_vault_wallet_def log_ok_Ok)
  moreover have "l2 = l1 \<and> may_return (sc_get_public_key S) (Some key)"
    using key by (auto simp: start_system_def lift_system_def on_world_state may_return_def)
  moreover have "\<exists>k. l3 = l2 @ [Imported v k] \<and> may_return (b_dump_derivation_key (me_master_wallet M) key) k"
    using copy by (auto simp: copy_derivation_key_def a_bind_eq_Ok a_match_eq_Ok on_bitcoin_Ok a_ret_def a_err_def
        logged_vault_wallet_def logged_env_def log_ok_Ok on_world_state may_return_def)
  ultimately show ?thesis using key unfolding wallet_calls_def by auto
qed

text \<open>What the manager knows of a vault, and the calls that were made for it.\<close>

definition managed :: "'w manager_env \<Rightarrow> ('w \<times> start_call list) vault_manager \<Rightarrow> vault_id \<Rightarrow> bool" where
  "managed M m v \<longleftrightarrow> (\<exists>B. me_constructor M v = Ok B \<and> get_bitcoin_rpc m v = Some (logged_vault_wallet v B))"

lemma managed_update: "me_constructor M v = Ok B \<Longrightarrow> managed M m x \<or> x = v \<Longrightarrow> managed M (AList.update v (logged_vault_wallet v B) m) x"
  by (auto simp: managed_def get_bitcoin_rpc_def update_conv')

lemma vault_added:
  assumes "add_vault_id (logged_env M) (start_system S) v ((w, l), m) = (Ok (), ((w', l'), m'))"
  shows "\<exists>B calls. me_constructor M v = Ok B \<and> m' = AList.update v (logged_vault_wallet v B) m \<and> l' = l @ calls \<and> wallet_calls M S v calls"
proof -
  from assms obtain B where B: "me_constructor M v = Ok B" and m': "m' = AList.update v (logged_vault_wallet v B) m"
    and "prepare_wallet (logged_env M) (start_system S) v (logged_vault_wallet v B) (w, l) = (Ok (), (w', l'))"
    by (cases "me_constructor M v") (auto simp: add_vault_id_def a_bind_eq_Ok a_lift_Ok on_world_state modify_state_def logged_env_def)
  from wallet_prepared [OF this(3)] B m' show ?thesis by blast
qed

text \<open>The part of the log that belongs to a vault of the account.\<close>

definition fetch_calls :: "'w manager_env \<Rightarrow> 'w system_calls \<Rightarrow> vault_id \<Rightarrow> start_call list \<Rightarrow> bool" where
  "fetch_calls M S v calls \<longleftrightarrow> calls = [] \<and> liquidated S v \<or> wallet_calls M S v calls"

lemma registered_liquidated:
  "is_vault_registered (start_system S) v ws = (Err (Ve_RuntimeError Re_VaultLiquidated), ws') \<Longrightarrow> liquidated S v"
  by (cases ws; cases ws') (auto simp: is_vault_registered_def liquidated_def start_system_def lift_system_def on_world_def action_defs
      split: prod.splits result.splits if_splits)

lemma all_fetched:
  assumes "fetch_all (logged_env M) (start_system S) vids ((w, l), m) = (Ok (), ((w', l'), m'))"
  shows "\<exists>parts. l' = l @ concat parts \<and> list_all2 (fetch_calls M S) vids parts \<and>
     (\<forall>v. managed M m v \<or> (\<exists>i < length vids. vids ! i = v \<and> parts ! i \<noteq> []) \<longrightarrow> managed M m' v) \<and>
     (\<forall>v. v \<notin> set vids \<longrightarrow> get_bitcoin_rpc m' v = get_bitcoin_rpc m v)"
  using assms
proof (induction vids arbitrary: w l m)
  case (Cons v vids)
  then obtain w1 l1 m1 where step: "a_match (on_world (is_vault_registered (start_system S) v)) (\<lambda>_. add_vault_id (logged_env M) (start_system S) v)
       (\<lambda>x. if x = Ve_RuntimeError Re_VaultLiquidated then a_ret () else a_err x) ((w, l), m) = (Ok (), ((w1, l1), m1))"
    and rest: "fetch_all (logged_env M) (start_system S) vids ((w1, l1), m1) = (Ok (), ((w', l'), m'))"
    by (auto simp: a_bind_eq_Ok)
  have same: "is_vault_registered (start_system S) v (w, l) = (r, (w2, l2)) \<Longrightarrow> l2 = l" for r w2 l2
    by (rule unlogged [OF keeps_registered])
  obtain calls where l1: "l1 = l @ calls" and calls: "fetch_calls M S v calls"
    and m1: "\<And>x. managed M m x \<or> calls \<noteq> [] \<and> x = v \<Longrightarrow> managed M m1 x" "\<And>x. x \<noteq> v \<Longrightarrow> get_bitcoin_rpc m1 x = get_bitcoin_rpc m x"
  proof (cases "\<exists>ws. is_vault_registered (start_system S) v (w, l) = (Err (Ve_RuntimeError Re_VaultLiquidated), ws)")
    case True
    with step same show thesis
      by (intro that [of "[]"]) (auto simp: fetch_calls_def a_match_eq_Ok on_world_state a_ret_def dest: registered_liquidated)
  next
    case False
    with step obtain r w2 l2 where reg: "is_vault_registered (start_system S) v (w, l) = (r, (w2, l2))"
      and add: "add_vault_id (logged_env M) (start_system S) v ((w2, l2), m) = (Ok (), ((w1, l1), m1))"
      by (auto simp: a_match_eq_Ok on_world_state a_ret_def a_err_def split: if_splits)
    from vault_added [OF add] obtain B cs where B: "me_constructor M v = Ok B" "m1 = AList.update v (logged_vault_wallet v B) m"
      "l1 = l2 @ cs" "wallet_calls M S v cs" by blast
    with same [OF reg] show thesis
      by (intro that [of cs]) (auto simp: fetch_calls_def get_bitcoin_rpc_def update_conv' intro: managed_update)
  qed
  from Cons.IH [OF rest] obtain parts where parts: "l' = l1 @ concat parts" "list_all2 (fetch_calls M S) vids parts"
    "\<And>x. managed M m1 x \<or> (\<exists>i < length vids. vids ! i = x \<and> parts ! i \<noteq> []) \<Longrightarrow> managed M m' x"
    "\<And>x. x \<notin> set vids \<Longrightarrow> get_bitcoin_rpc m' x = get_bitcoin_rpc m1 x" by blast
  have "managed M m' x" if x: "managed M m x \<or> (\<exists>i < length (v # vids). (v # vids) ! i = x \<and> (calls # parts) ! i \<noteq> [])" for x
  proof (cases "managed M m x \<or> calls \<noteq> [] \<and> x = v")
    case False
    with x obtain i where "i < length (v # vids)" "(v # vids) ! i = x" "(calls # parts) ! i \<noteq> []" by blast
    with False have "\<exists>j < length vids. vids ! j = x \<and> parts ! j \<noteq> []" by (cases i) auto
    then show ?thesis by (blast intro: parts(3))
  qed (blast intro: parts(3) m1(1))
  with l1 calls m1 parts show ?case by (intro exI [of _ "calls # parts"]) auto
qed (auto simp: a_ret_def intro: exI [of _ "[]"])

text \<open>
  C16. After a successful \<open>fetch_vault_ids\<close> the manager knows every vault of the account that is not
  liquidated, under the wallet that its constructor made. The calls go vault by vault in the order of the
  parachain: for each, its wallet is loaded and then the key is imported that the master wallet has
  for the public key of the account; a liquidated vault is skipped. What the manager knew of
  other vaults is unchanged.
\<close>

theorem vaults_fetched:
  assumes run: "fetch_vault_ids (logged_env M) (start_system S) ((w, []), m) = (Ok (), ((w', log), m'))"
  shows "\<exists>vids w1 parts. sc_get_vaults_by_account_id S (sc_self S) w = (Ok vids, w1) \<and> log = concat parts \<and>
     list_all2 (\<lambda>v calls. calls = [] \<and> (\<exists>w2 w3. sc_get_vault S v w2 = (Err Re_VaultLiquidated, w3)) \<or>
        (\<exists>B key k. me_constructor M v = Ok B \<and> get_bitcoin_rpc m' v = Some (logged_vault_wallet v B) \<and>
           may_return (sc_get_public_key S) (Some key) \<and> may_return (b_dump_derivation_key (me_master_wallet M) key) k \<and>
           calls = [Loaded v, Imported v k])) vids parts \<and>
     (\<forall>v. v \<notin> set vids \<longrightarrow> get_bitcoin_rpc m' v = get_bitcoin_rpc m v)"
proof -
  from run obtain vids w1 where vids: "sc_get_vaults_by_account_id S (sc_self S) w = (Ok vids, w1)"
    and all: "fetch_all (logged_env M) (start_system S) vids ((w1, []), m) = (Ok (), ((w', log), m'))"
    by (auto simp: fetch_vault_ids_def a_bind_eq_Ok on_world_state start_system_def lift_system_def)
  from all_fetched [OF all] obtain parts where parts: "log = concat parts" "list_all2 (fetch_calls M S) vids parts"
    and known: "\<And>v. (\<exists>i < length vids. vids ! i = v \<and> parts ! i \<noteq> []) \<Longrightarrow> managed M m' v"
    and others: "\<forall>v. v \<notin> set vids \<longrightarrow> get_bitcoin_rpc m' v = get_bitcoin_rpc m v" by auto
  from parts(2) have "list_all2 (\<lambda>v calls. calls = [] \<and> liquidated S v \<or> managed M m' v \<and> wallet_calls M S v calls) vids parts"
    using known by (auto simp: list_all2_conv_all_nth fetch_calls_def wallet_calls_def) fastforce+
  then have "list_all2 (\<lambda>v calls. calls = [] \<and> (\<exists>w2 w3. sc_get_vault S v w2 = (Err Re_VaultLiquidated, w3)) \<or>
        (\<exists>B key k. me_constructor M v = Ok B \<and> get_bitcoin_rpc m' v = Some (logged_vault_wallet v B) \<and>
           may_return (sc_get_public_key S) (Some key) \<and> may_return (b_dump_derivation_key (me_master_wallet M) key) k \<and>
           calls = [Loaded v, Imported v k])) vids parts"
    by (rule list_all2_mono) (auto simp: liquidated_def managed_def wallet_calls_def)
  with vids parts(1) others show ?thesis by blast
qed

section \<open>The start\<close>

text \<open>
  What is called for an entry of the command line: nothing, when the parachain has the vault or says that
  it is liquidated; its registration, when the parachain has no such vault. The collateral is then the
  amount, or the free balance where that is less; without an amount, it is what the faucet allows a user,
  in units of the currency, less the fees.
\<close>

definition entry_calls ::
  "'w faucet_client \<Rightarrow> (token_symbol \<Rightarrow> u128) \<Rightarrow> 'w system_calls \<Rightarrow> currency_id \<Rightarrow> u128 option \<Rightarrow> start_call list \<Rightarrow> bool" where
  "entry_calls F one S coll amount calls \<longleftrightarrow> (let v = vault_of_currency S coll in
     calls = [] \<and> (liquidated S v \<or> (\<exists>vt. may_return (sc_get_vault S v) vt)) \<or>
     (\<exists>a. calls = [Registered v a] \<and> (\<exists>w w'. sc_get_vault S v w = (Err Re_VaultNotFound, w')) \<and>
        (case amount of
           Some b \<Rightarrow> \<exists>free. may_return (sc_get_free_balance S coll) free \<and> a = min b free
         | None \<Rightarrow> \<exists>allowance t. may_return (get_faucet_allowance F ''user_allowance'') allowance \<and> currency_inner coll = Ok t \<and>
             unat a + unat TX_FEES = unat allowance * unat (one t))))"

lemma vault_of_currency_start [simp]: "vault_of_currency (start_system S) coll = vault_of_currency S coll"
  by (simp add: vault_of_currency_def start_system_def lift_system_def)

lemma collateral_of_currency [simp]: "collateral_currency (vault_of_currency S coll) = coll"
  by (simp add: vault_of_currency_def vault_id_new_def collateral_currency_def)

lemma min_of_if: "(if a > free then free else a) = min a free" for a free :: u128
  by (auto simp: min_def)

lemma registered_found: "is_vault_registered (start_system S) v ws = (Ok True, ws') \<Longrightarrow> \<exists>vt. may_return (sc_get_vault S v) vt"
  by (cases ws; cases ws') (auto simp: is_vault_registered_def may_return_def start_system_def lift_system_def on_world_def action_defs
      split: prod.splits result.splits if_splits)

lemma registered_not_found:
  "is_vault_registered (start_system S) v ws = (Ok False, ws') \<Longrightarrow> \<exists>w w'. sc_get_vault S v w = (Err Re_VaultNotFound, w')"
  by (cases ws; cases ws') (auto simp: is_vault_registered_def start_system_def lift_system_def on_world_def action_defs
      split: prod.splits result.splits if_splits)

lemma registration_collateral_Ok:
  "registration_collateral u d = Ok a \<Longrightarrow> unat a + unat TX_FEES = unat u * unat d"
  by (auto simp: registration_collateral_def ok_or_Ok checked_mul_Some checked_sub_Some)

lemma allowance_logged: "get_faucet_allowance (logged_faucet F) t = on_world (get_faucet_allowance F t)"
  by (rule ext) (auto simp: get_faucet_allowance_def logged_faucet_def action_defs on_world_def split: prod.splits result.splits)

lemma registration_logged: "ft_register_vault (logged_faucet F) v a = log_ok (Registered v a) (ft_register_vault F v a)"
  by (simp add: logged_faucet_def)

lemma balance_logged: "sc_get_free_balance (start_system S) c = on_world (sc_get_free_balance S c)"
  by (simp add: start_system_def lift_system_def)

lemma system_registration_logged: "sc_register_vault (start_system S) v a = log_ok (Registered v a) (sc_register_vault S v a)"
  by (simp add: start_system_def)

text \<open>The rules for the steps of a registration: one that records nothing, one that records itself, one that computes.\<close>

lemma logs_step:
  assumes "\<And>I. keeps (on_log I) m" and "\<And>a. logs (f a) P" "\<And>e. P [] (Err e)" "P [] Panic"
  shows "logs (f_bind (f_call m) f) P"
  by (rule logs_bind, rule logs_silent) (use assms in \<open>auto split: result.splits\<close>)

lemma logs_reads:
  assumes "\<And>a. may_return m a \<Longrightarrow> logs (f a) P" "\<And>e. P [] (Err e)" "P [] Panic"
  shows "logs (f_bind (f_call (on_world m)) f) P"
proof (rule logs_bind, rule logs_silent)
  fix ws r ws'
  assume "on_world m ws = (r, ws')"
  then obtain w w' where "m w = (r, w')" by (cases ws; cases ws') (auto simp: on_world_state)
  then show "case r of Ok a \<Rightarrow> logs (f a) (\<lambda>cs. P ([] @ cs)) | Err e \<Rightarrow> P [] (Err e) | Panic \<Rightarrow> P [] Panic"
    using assms by (cases r) (auto simp: may_return_def)
qed (rule keeps_intro)

lemma logs_records:
  assumes "\<And>a. P [x] (Ok a)" "\<And>e. P [] (Err e)" "P [] Panic"
  shows "logs (f_call (a_map_err h (log_ok x m))) P"
proof (rule logs_call)
  fix w l r w' l'
  assume "a_map_err h (log_ok x m) (w, l) = (r, (w', l'))"
  then show "\<exists>new. l' = l @ new \<and> P new r"
    using assms by (auto simp: a_map_err_def log_ok_def log_result_def split: prod.splits if_splits elim: is_ok.elims)
qed

lemma logs_computes:
  assumes "\<And>a. r = Ok a \<Longrightarrow> logs (f a) P" "\<And>e. P [] (Err e)" "P [] Panic"
  shows "logs (f_bind (f_lift r) f) P"
  by (rule logs_bind) (use assms in \<open>auto split: result.splits\<close>)

lemma logs_records_then:
  assumes "\<And>a. logs (f a) (\<lambda>cs. P (x # cs))" "\<And>e. P [] (Err e)" "P [] Panic"
  shows "logs (f_bind (f_call (a_map_err h (log_ok x m))) f) P"
  by (rule logs_bind, rule logs_records) (use assms in auto)

text \<open>What a future of the start records when it succeeds.\<close>

abbreviation records :: "('w \<times> 'l list, 'a, 'e) future \<Rightarrow> ('l list \<Rightarrow> bool) \<Rightarrow> bool" where
  "records t Q \<equiv> logs t (\<lambda>calls r. \<forall>u. r = Ok u \<longrightarrow> Q calls)"

lemma faucet_registration:
  "records (fund_and_register (logged_faucet F) one url v) (\<lambda>calls.
     \<exists>a allowance t. calls = [Registered v a] \<and> may_return (get_faucet_allowance F ''user_allowance'') allowance \<and>
        currency_inner (collateral_currency v) = Ok t \<and> unat a + unat TX_FEES = unat allowance * unat (one t))"
proof -
  have connect: "keeps (on_log I) (a_map_err Ve_RpcError (ft_connect (logged_faucet F) url))"
    and deposit: "keeps (on_log I) (deposit_collateral (logged_faucet F) v b)" for I b
    by (auto simp: logged_faucet_def deposit_collateral_def intro!: keeps_intro)
  show ?thesis
    unfolding fund_and_register_def Let_def allowance_logged registration_logged on_runtime_def
    by (rule logs_step, rule connect, rule logs_step, rule keeps_intro, rule keeps_intro, rule logs_reads, rule logs_computes,
        rule logs_records_then, rule logs_step, rule keeps_intro, rule logs_reads, rule logs_computes, rule logs_silent, rule deposit)
      (auto dest: registration_collateral_Ok)
qed

lemma entry_registered:
  assumes faucet: "amount = None \<longrightarrow> url \<noteq> None"
  shows "records (maybe_register_vault (logged_faucet F) one (start_system S) url coll amount) (entry_calls F one S coll amount)"
  unfolding maybe_register_vault_def Let_def min_of_if vault_of_currency_start collateral_of_currency
proof (rule logs_match, rule logs_silent, rule keeps_intro)
  let ?v = "vault_of_currency S coll"
  fix ws r ws'
  assume reg: "is_vault_registered (start_system S) ?v ws = (r, ws')"
  let ?register = "case amount of
       Some b \<Rightarrow> f_bind (f_call (on_runtime (sc_get_free_balance (start_system S) coll)))
         (\<lambda>free. f_call (on_runtime (sc_register_vault (start_system S) ?v (min b free))))
     | None \<Rightarrow> (case url of Some url \<Rightarrow> fund_and_register (logged_faucet F) one url ?v | None \<Rightarrow> f_ret ())"
  have register: "records ?register (entry_calls F one S coll amount)" if "r = Ok False"
  proof -
    from reg that obtain w w' where missing: "sc_get_vault S ?v w = (Err Re_VaultNotFound, w')" using registered_not_found by metis
    show ?thesis
    proof (cases amount)
      case None
      have "entry_calls F one S coll None calls" if "\<exists>a allowance t. calls = [Registered ?v a] \<and>
          may_return (get_faucet_allowance F ''user_allowance'') allowance \<and>
          currency_inner (collateral_currency ?v) = Ok t \<and> unat a + unat TX_FEES = unat allowance * unat (one t)" for calls
        using that missing unfolding entry_calls_def Let_def option.case collateral_of_currency by blast
      moreover from None faucet obtain u where "url = Some u" by auto
      ultimately show ?thesis using None by (auto intro!: logs_mono [OF faucet_registration])
    next
      case (Some b)
      have "entry_calls F one S coll (Some b) [Registered ?v (min b free)]" if "may_return (sc_get_free_balance S coll) free" for free
        using that missing unfolding entry_calls_def Let_def option.case by blast
      with Some show ?thesis
        unfolding on_runtime_def balance_logged system_registration_logged a_map_err_world by (auto intro!: logs_reads logs_records)
    qed
  qed
  have there: "liquidated S ?v \<or> (\<exists>vt. may_return (sc_get_vault S ?v) vt)"
    if "r = Ok True \<or> r = Err (Ve_RuntimeError Re_VaultLiquidated)"
    using that reg by (auto dest: registered_found registered_liquidated)
  show "case r of
       Ok a \<Rightarrow> logs (if a then f_ret () else ?register) (\<lambda>cs r. \<forall>u. r = Ok u \<longrightarrow> entry_calls F one S coll amount ([] @ cs))
     | Err e \<Rightarrow> logs (if e = Ve_RuntimeError Re_VaultLiquidated then f_ret () else f_err e) (\<lambda>cs r. \<forall>u. r = Ok u \<longrightarrow> entry_calls F one S coll amount ([] @ cs))
     | Panic \<Rightarrow> \<forall>u. Panic = Ok u \<longrightarrow> entry_calls F one S coll amount []"
  proof (cases r)
    case (Ok a)
    with register there show ?thesis by (cases a) (auto simp: entry_calls_def [of F one S coll amount "[]"] Let_def)
  next
    case (Err e)
    with there show ?thesis by (auto simp: entry_calls_def Let_def)
  qed simp
qed

lemma entries_registered:
  assumes "register_all order (logged_faucet F) one (start_system S) url entries (w, l) = (Ok us, (w', l'))"
    and "\<forall>(c, amount) \<in> set entries. amount = None \<longrightarrow> url \<noteq> None"
  shows "\<exists>calls parts. l' = l @ calls \<and> interleaved parts calls \<and> list_all2 (\<lambda>(c, amount). entry_calls F one S c amount) entries parts"
proof -
  let ?ts = "map (\<lambda>(c, amount). maybe_register_vault (logged_faucet F) one (start_system S) url c amount) entries"
  from assms(1) obtain rs where join: "join_futures order ?ts (w, l) = (Ok rs :: ((unit, vault_error) result list, vault_error) result, (w', l'))"
    and "rs = map Ok us" by (auto simp: register_all_def a_bind_eq_Ok a_lift_Ok collect_eq_Ok)
  have "records (?ts ! i) (\<lambda>calls. case entries ! i of (c, amount) \<Rightarrow> entry_calls F one S c amount calls)" if "i < length ?ts" for i
  proof -
    obtain c amount where e: "entries ! i = (c, amount)" by fastforce
    with that assms(2) nth_mem [of i entries] have "amount = None \<longrightarrow> url \<noteq> None" by fastforce
    from entry_registered [OF this] that e show ?thesis by simp
  qed
  from logs_joined [OF join this] obtain calls parts where "l' = l @ calls" "interleaved parts calls" "length parts = length entries"
    "\<And>i u. i < length entries \<Longrightarrow> rs ! i = Ok u \<Longrightarrow> (case entries ! i of (c, amount) \<Rightarrow> entry_calls F one S c amount (parts ! i))" by auto
  moreover have "length rs = length entries" using joined_length [OF join] by simp
  ultimately show ?thesis using \<open>rs = map Ok us\<close>
    by (intro exI [of _ calls] exI [of _ parts]) (fastforce simp: list_all2_conv_all_nth)
qed

text \<open>The registration of the public key.\<close>

definition key_calls :: "'w manager_env \<Rightarrow> 'w system_calls \<Rightarrow> start_call list \<Rightarrow> bool" where
  "key_calls M S calls \<longleftrightarrow> calls = [] \<and> (\<exists>key. may_return (sc_get_public_key S) (Some key)) \<or>
     (\<exists>key. calls = [Key_registered key] \<and> may_return (sc_get_public_key S) None \<and>
        may_return (b_get_new_public_key (me_master_wallet M)) key)"

lemma key_registered:
  assumes "maybe_register_public_key (logged_faucet F) (start_system S) (lift_btc (me_master_wallet M)) url (w, l) = (Ok u, (w', l'))"
  shows "\<exists>calls. l' = l @ calls \<and> key_calls M S calls"
proof -
  from assms obtain w1 l1 k w2 l2 where
    fund: "(case url of Some u \<Rightarrow> client_fund_account (logged_faucet F) u (vault_of_currency S (sc_native_currency_id (start_system S))) | None \<Rightarrow> a_ret ()) (w, l)
       = (Ok (), (w1, l1))"
    and get: "sc_get_public_key (start_system S) (w1, l1) = (Ok k, (w2, l2))"
    and new: "(if k = None then a_bind (on_bitcoin (b_get_new_public_key (lift_btc (me_master_wallet M))))
       (\<lambda>key. on_runtime (sc_register_public_key (start_system S) key)) else a_ret ()) (w2, l2) = (Ok (), (w', l'))"
    unfolding maybe_register_public_key_def vault_of_currency_start by (auto simp: a_bind_eq_Ok)
  have "l1 = l" by (rule unlogged [where m = "case url of Some u \<Rightarrow> _ u | None \<Rightarrow> _", OF _ fund]) (auto intro!: keeps_intro)
  moreover have "l2 = l1 \<and> may_return (sc_get_public_key S) k"
    using get by (auto simp: start_system_def lift_system_def on_world_state may_return_def)
  ultimately show ?thesis
    using new by (cases k) (auto simp: key_calls_def a_bind_eq_Ok on_bitcoin_Ok on_world_state start_system_def lift_system_def log_ok_Ok
        may_return_def a_ret_def)
qed

text \<open>
  C15. What a successful start asks of the parachain and of the wallets, and nothing else of the sort: first
  the public key of the account, new from the master wallet, is registered, if the parachain has none;
  then the vaults of the entries of the command line, all at the same time and with their calls in
  any order: for each entry exactly one registration when the parachain has no such vault, and none
  when it has it or has liquidated it. It is with the amount or the free balance where that is less;
  an entry without an amount needs a faucet, and its collateral is the faucet's allowance less the
  fees. After all of these come the wallets of the vaults of the account.
\<close>

theorem service_started:
  assumes run: "start_service order T g (logged_faucet F) one (logged_env M) (start_system S) c n ((w, []), m) = (Ok (conf, height), ((w', log), m'))"
  shows "\<exists>entries vids keys registrations parts wallets. log = keys @ registrations @ concat wallets \<and>
     parse_auto_register T g (vc_auto_register c) = Ok entries \<and> (vc_faucet_url c = None \<longrightarrow> None \<notin> snd ` set entries) \<and>
     may_return (sc_get_vaults_by_account_id S (sc_self S)) vids \<and>
     key_calls M S keys \<and>
     interleaved parts registrations \<and> list_all2 (\<lambda>(coll, amount). entry_calls F one S coll amount) entries parts \<and>
     list_all2 (fetch_calls M S) vids wallets"
proof -
  from run obtain entries w0 l0 w1 l1 w2 l2 w3 l3 us w4 l4 m4 where
    net: "validate_bitcoin_network (start_system S) (b_network (me_master_wallet M)) (w, []) = (Ok (), (w0, l0))"
    and entries: "parse_auto_register T g (vc_auto_register c) = Ok entries"
    and faucet: "\<not> (list_ex (\<lambda>(_, amount). amount = None) entries \<and> vc_faucet_url c = None)"
    and conf: "(case vc_btc_confirmations c of Some x \<Rightarrow> a_ret x | None \<Rightarrow> on_runtime (sc_get_bitcoin_confirmations (start_system S))) (w0, l0) = (Ok conf, (w1, l1))"
    and key: "maybe_register_public_key (logged_faucet F) (start_system S) (lift_btc (me_master_wallet M)) (vc_faucet_url c) (w1, l1) = (Ok (), (w2, l2))"
    and reg: "register_all order (logged_faucet F) one (start_system S) (vc_faucet_url c) entries (w2, l2) = (Ok us, (w3, l3))"
    and fetch: "fetch_vault_ids (logged_env M) (start_system S) ((w3, l3), m) = (Ok (), ((w4, l4), m'))"
    and await: "await_parachain_block (start_system S) n (w4, l4) = (Ok height, (w', log))"
    by (auto simp: start_service_def a_bind_eq_Ok a_lift_Ok a_ret_def a_err_def on_world_state logged_env_def split: if_splits)
  have "l0 = []" by (rule unlogged [where m = "validate_bitcoin_network (start_system S) _", OF _ net]) (auto simp: validate_bitcoin_network_def start_system_def lift_system_def Let_def intro!: keeps_intro)
  moreover have "l1 = l0" by (rule unlogged [where m = "case vc_btc_confirmations c of Some x \<Rightarrow> _ x | None \<Rightarrow> _", OF _ conf]) (auto simp: start_system_def lift_system_def intro!: keeps_intro)
  moreover have "log = l4" by (rule unlogged [OF keeps_await await])
  moreover obtain keys where "l2 = l1 @ keys" "key_calls M S keys" using key_registered [OF key] by blast
  moreover have "\<forall>(c', amount) \<in> set entries. amount = None \<longrightarrow> vc_faucet_url c \<noteq> None" using faucet by (fastforce simp: list_ex_iff)
  from entries_registered [OF reg this] obtain registrations parts where "l3 = l2 @ registrations" "interleaved parts registrations"
    "list_all2 (\<lambda>(coll, amount). entry_calls F one S coll amount) entries parts" by blast
  moreover from fetch obtain vids w5 where "may_return (sc_get_vaults_by_account_id S (sc_self S)) vids"
    and all: "fetch_all (logged_env M) (start_system S) vids ((w5, l3), m) = (Ok (), ((w4, l4), m'))"
    by (auto simp: fetch_vault_ids_def a_bind_eq_Ok on_world_state start_system_def lift_system_def may_return_def)
  moreover from all_fetched [OF all] obtain wallets where "l4 = l3 @ concat wallets" "list_all2 (fetch_calls M S) vids wallets" by blast
  moreover have "vc_faucet_url c = None \<longrightarrow> None \<notin> snd ` set entries" using faucet by (force simp: list_ex_iff)
  ultimately show ?thesis using entries
    by (intro exI [of _ entries] exI [of _ vids] exI [of _ keys] exI [of _ registrations] exI [of _ parts] exI [of _ wallets]) simp
qed

section \<open>A start with one vault\<close>

definition demo_env :: "nat manager_env" where
  "demo_env = \<lparr>me_oc = True, me_lib = std_lib, me_sha256 = id, me_valid_key = (\<lambda>k. True),
     me_constructor = (\<lambda>v. Ok manager_wallet), me_master_wallet = manager_wallet,
     me_issues = \<lparr>ic_get_all_active_issues = a_ret [], ic_get_vault_issue_requests = (\<lambda>a. a_ret []),
       ic_get_issue_request = (\<lambda>i. a_err Re_VaultNotFound), ic_wait_for_block_in_relay = (\<lambda>h c. a_ret ()),
       ic_delay = (\<lambda>h. a_ret ()), ic_execute_issue = (\<lambda>h p t. a_ret ())\<rparr>,
     me_initialize_metrics = (\<lambda>v w. w)\<rparr>"

lemma demo_fetch:
  "fetch_vault_ids (logged_env demo_env) (start_system demo_system) ((w, l), []) =
     (Ok (), ((w, l @ [Loaded demo_vault, Imported demo_vault []]), [(demo_vault, logged_vault_wallet demo_vault manager_wallet)]))"
  by (simp add: fetch_vault_ids_def is_vault_registered_def add_vault_id_def prepare_wallet_def copy_derivation_key_def
      add_keys_from_past_issue_request_def demo_env_def demo_system_def on_runtime_def on_bitcoin_def action_defs on_world_def
      manager_wallet_def demo_wallet_def demo_btc_api_def modify_state_def start_recorders log_ok_def log_result_def)

lemma vaults_fetched_witness:
  "get_bitcoin_rpc [(demo_vault, logged_vault_wallet demo_vault manager_wallet)] demo_vault = Some (logged_vault_wallet demo_vault manager_wallet)"
  using vaults_fetched [OF demo_fetch [of 0 "[]", simplified]] by (auto simp: demo_system_def demo_env_def action_defs list_all2_Cons1)

definition demo_start :: "nat vault_config" where
  "demo_start = \<lparr>vc_auto_register = [(''ksm'', Some 100), (''dot'', Some 20)], vc_faucet_url = None, vc_btc_confirmations = Some 6\<rparr>"

definition demo_faucet :: "nat faucet_client" where
  "demo_faucet = \<lparr>ft_connect = (\<lambda>u. a_ret ()), ft_call_method = (\<lambda>m p. a_ret []), ft_hex_encode = (\<lambda>r. []),
     ft_hex_decode = (\<lambda>s. Ok []), ft_decode_u128 = (\<lambda>b. Ok 0), ft_register_vault = (\<lambda>v a. a_ret ()),
     ft_deposit_collateral = (\<lambda>v a. a_ret ())\<rparr>"

lemma demo_symbols: "tk_symbol demo_tokens KSM = ''KSM''" "tk_symbol demo_tokens DOT = ''DOT''"
  by (simp_all add: demo_tokens_def)

lemma demo_entries:
  "parse_auto_register demo_tokens None (vc_auto_register demo_start) = Ok [(Token KSM, Some 100), (Token DOT, Some 20)]"
proof -
  have "to_uppercase table ''ksm'' = tk_symbol demo_tokens KSM" "to_uppercase table ''dot'' = tk_symbol demo_tokens DOT" for table
    unfolding demo_symbols by (simp_all add: to_uppercase_ascii ascii_upper_def is_ascii_def) code_simp+
  then show ?thesis
    by (simp add: parse_auto_register_def demo_start_def try_from_symbol_def demo_tokens_def)
qed

text \<open>The calls of the second entry come between those of the first.\<close>

lemma demo_service:
  "start_service [0, 1, 1, 1, 0] demo_tokens None (logged_faucet demo_faucet) (\<lambda>_. 1) (logged_env demo_env) (start_system demo_system) demo_start 1 ((0, []), []) =
     (Ok (6, Some 0), ((2, [Registered (vault_of_currency demo_system (Token DOT)) 20, Registered (vault_of_currency demo_system (Token KSM)) 50, Loaded demo_vault, Imported demo_vault []]),
        [(demo_vault, logged_vault_wallet demo_vault manager_wallet)]))"
proof -
  have network: "validate_bitcoin_network (start_system demo_system) net w = (Ok (), w)" for net w
    by (cases w) (simp add: validate_bitcoin_network_def start_recorders demo_system_def action_defs on_world_def)
  have key: "maybe_register_public_key (logged_faucet demo_faucet) (start_system demo_system) B (vc_faucet_url demo_start) w = (Ok (), w)" for B w
    by (cases w) (simp add: maybe_register_public_key_def start_recorders demo_system_def demo_start_def on_runtime_def action_defs on_world_def)
  have reg: "register_all [0, 1, 1, 1, 0] F one (start_system demo_system) (vc_faucet_url demo_start)
      [(Token KSM, Some 100), (Token DOT, Some 20)] (w, l) =
      (Ok [(), ()], (w, l @ [Registered (vault_of_currency demo_system (Token DOT)) 20, Registered (vault_of_currency demo_system (Token KSM)) 50]))" for F one w l
    unfolding register_all_def maybe_register_vault_def Let_def min_of_if vault_of_currency_start collateral_of_currency
    by (simp add: is_vault_registered_def start_recorders demo_system_def on_runtime_def action_defs on_world_def log_ok_def log_result_def
        join_futures_def settle_def f_call_def f_bind_def f_ret_def)
  have block: "await_parachain_block (start_system demo_system) 1 (0, l) = (Ok (Some 0), (2, l))" for l
    by (simp add: await_parachain_block_def height_poll_def start_recorders demo_system_def on_runtime_def action_defs on_world_def)
  have "vc_btc_confirmations demo_start = Some 6" by (simp add: demo_start_def)
  with network key reg block show ?thesis
    unfolding start_service_def by (simp add: a_bind_def a_match_def on_world_def a_lift_def a_ret_def demo_entries demo_fetch)
qed

lemma service_started_witness:
  "\<exists>registrations parts wallets. [Registered (vault_of_currency demo_system (Token DOT)) 20,
      Registered (vault_of_currency demo_system (Token KSM)) 50, Loaded demo_vault, Imported demo_vault []] = registrations @ concat wallets \<and>
     interleaved parts registrations \<and>
     list_all2 (\<lambda>(coll, amount). entry_calls demo_faucet (\<lambda>_. 1) demo_system coll amount) [(Token KSM, Some 100), (Token DOT, Some 20)] parts"
proof -
  from service_started [OF demo_service] obtain keys registrations parts wallets where
    "[Registered (vault_of_currency demo_system (Token DOT)) 20, Registered (vault_of_currency demo_system (Token KSM)) 50,
      Loaded demo_vault, Imported demo_vault []] = keys @ registrations @ concat wallets" "interleaved parts registrations"
    "list_all2 (\<lambda>(coll, amount). entry_calls demo_faucet (\<lambda>_. 1) demo_system coll amount) [(Token KSM, Some 100), (Token DOT, Some 20)] parts"
    "key_calls demo_env demo_system keys"
    by (auto simp: demo_entries)
  then show ?thesis by (intro exI [of _ registrations] exI [of _ parts] exI [of _ wallets]) (auto simp: key_calls_def)
qed

end
