(* ===== verification/Metrics.thy ===== *)
theory Metrics
  imports Vaults
begin

text \<open>
  The metrics of the vaults (\<open>vault/src/metrics.rs\<close>): the gauges that are published, and the trackers of
  fees and of the budget for them that are kept beside. The registry of the gauges and the trackers
  are the state \<open>metrics_state\<close>; floating point numbers are the type \<open>'f\<close> with its operations in
  \<open>metric_lib\<close>. The requests of a vault that is taken in read its wallet and the parachain.
\<close>

section \<open>The state\<close>

text \<open>
  A gauge is found by its label, which is made of the symbols of the two currencies of the vault, so
  that vaults with the same label share it; the trackers belong to the vault.
\<close>

record 'f vault_gauges =
  locked_collateral :: 'f
  collateralization :: 'f
  required_collateral :: 'f
  remaining_time_to_redeem_hours :: 'f
  btc_upperbound :: 'f
  btc_lowerbound :: 'f
  btc_actual :: 'f
  issues_open :: 'f
  issues_completed :: 'f
  issues_expired :: 'f
  redeems_open :: 'f
  redeems_completed :: 'f
  redeems_expired :: 'f
  average_btc_fee :: 'f
  fee_budget_surplus :: 'f
  utxo_count :: int

record fee_trackers =
  fee_total :: u64
  fee_count :: u64
  surplus :: int

record 'f metrics_state =
  ms_native_currency_balance :: 'f
  ms_gauges :: "string \<Rightarrow> 'f vault_gauges"
  ms_trackers :: "vault_id \<Rightarrow> fee_trackers"

record 'f metric_lib =
  ml_tokens :: token_info
  ml_one :: "token_symbol \<Rightarrow> u128"
  ml_of_int :: "int \<Rightarrow> 'f"
  ml_div :: "'f \<Rightarrow> 'f \<Rightarrow> 'f"
  ml_of_fixed :: "u128 \<Rightarrow> 'f"
  ml_to_btc :: "u64 \<Rightarrow> 'f"
  ml_secs :: "u128 \<Rightarrow> 'f"

text \<open>The parachain calls and the sleep; their model is in \<open>Pallets\<close>.\<close>

record 'w metric_calls =
  mc_self :: account_id
  mc_native_currency_id :: currency_id
  mc_get_vault_total_collateral :: "vault_id \<Rightarrow> ('w, u128, runtime_error) action"
  mc_get_required_collateral_for_vault :: "vault_id \<Rightarrow> ('w, u128, runtime_error) action"
  mc_get_collateralization_from_vault :: "vault_id \<Rightarrow> bool \<Rightarrow> ('w, u128, runtime_error) action"
  mc_get_vault :: "vault_id \<Rightarrow> ('w, vault, runtime_error) action"
  mc_get_free_balance :: "currency_id \<Rightarrow> ('w, u128, runtime_error) action"
  mc_get_vault_issue_requests :: "account_id \<Rightarrow> ('w, (H256 \<times> vault_id issue_request) list, runtime_error) action"
  mc_get_vault_redeem_requests :: "account_id \<Rightarrow> ('w, (H256 \<times> vault_id redeem_request) list, runtime_error) action"
  mc_get_old_vault_replace_requests :: "account_id \<Rightarrow> ('w, (H256 \<times> vault_id replace_request) list, runtime_error) action"
  mc_get_redeem_period :: "('w, u32, runtime_error) action"
  mc_get_current_active_block_number :: "('w, u32, runtime_error) action"
  mc_sleep :: "nat \<Rightarrow> 'w \<Rightarrow> 'w"

type_synonym ('w, 'f, 'a) metric_action = "('w \<times> 'f metrics_state, 'a, service_error) action"

definition symbol_or_empty :: "'f metric_lib \<Rightarrow> currency_id \<Rightarrow> string" where
  "symbol_or_empty K c = (case currency_inner c of Ok t \<Rightarrow> tk_symbol (ml_tokens K) t | _ \<Rightarrow> [])"

definition metric_label :: "'f metric_lib \<Rightarrow> vault_id \<Rightarrow> string" where
  "metric_label K v = symbol_or_empty K (collateral_currency v) @ ''_'' @ symbol_or_empty K (wrapped_currency v)"

definition set_gauge :: "'f metric_lib \<Rightarrow> vault_id \<Rightarrow> ('f vault_gauges \<Rightarrow> 'f vault_gauges) \<Rightarrow> ('w, 'f, unit) metric_action" where
  "set_gauge K v f = modify_state (\<lambda>R. R\<lparr>ms_gauges := (ms_gauges R)(metric_label K v := f (ms_gauges R (metric_label K v)))\<rparr>)"

definition set_trackers :: "vault_id \<Rightarrow> (fee_trackers \<Rightarrow> fee_trackers) \<Rightarrow> ('w, 'f, unit) metric_action" where
  "set_trackers v f = modify_state (\<lambda>R. R\<lparr>ms_trackers := (ms_trackers R)(v := f (ms_trackers R v))\<rparr>)"

text \<open>\<open>if let Ok(x) = ..\<close> on a call\<close>

definition if_ok :: "('w, 'a, 'e) action \<Rightarrow> ('a \<Rightarrow> ('w, 'f, unit) metric_action) \<Rightarrow> ('w, 'f, unit) metric_action" where
  "if_ok m f = a_match (on_world m) f (\<lambda>_. a_ret ())"

definition for_each :: "('a \<Rightarrow> ('w, unit, 'e) action) \<Rightarrow> 'a list \<Rightarrow> ('w, unit, 'e) action" where
  "for_each f xs = a_bind (a_mapM f xs) (\<lambda>_. a_ret ())"

text \<open>An \<open>i64\<close> as an integer.\<close>

definition in_i64 :: "int \<Rightarrow> bool" where "in_i64 x \<longleftrightarrow> - (2 ^ 63) \<le> x \<and> x < 2 ^ 63"
definition i64_sat :: "int \<Rightarrow> int" where "i64_sat x = max (- (2 ^ 63)) (min (2 ^ 63 - 1) x)"

text \<open>\<open>abs\<close>: the least number has no absolute value.\<close>

definition i64_abs :: "bool \<Rightarrow> int \<Rightarrow> (int, 'e) result" where
  "i64_abs oc x = (if x = - (2 ^ 63) then if oc then Panic else Ok x else Ok \<bar>x\<bar>)"

definition i64_of_u128 :: "u128 \<Rightarrow> int option" where
  "i64_of_u128 x = (if in_i64 (uint x) then Some (uint x) else None)"

section \<open>Publishing\<close>

definition one_of :: "'f metric_lib \<Rightarrow> currency_id \<Rightarrow> ('f, service_error) result" where
  "one_of K c = rbind (map_err Se_RuntimeError (currency_inner c)) (\<lambda>t. Ok (ml_of_int K (uint (ml_one K t))))"

definition raw_value_as_currency :: "'f metric_lib \<Rightarrow> u128 \<Rightarrow> currency_id \<Rightarrow> ('f, service_error) result" where
  "raw_value_as_currency K value c = rbind (one_of K c) (\<lambda>scaling_factor. Ok (ml_div K (ml_of_int K (uint value)) scaling_factor))"

definition publish_locked_collateral :: "'f metric_lib \<Rightarrow> 'w metric_calls \<Rightarrow> vault_id \<Rightarrow> ('w, 'f, unit) metric_action" where
  "publish_locked_collateral K C v = if_ok (mc_get_vault_total_collateral C v) (\<lambda>actual_collateral.
     a_bind (a_lift (raw_value_as_currency K actual_collateral (collateral_currency v))) (\<lambda>x.
     set_gauge K v (locked_collateral_update (\<lambda>_. x))))"

definition publish_required_collateral :: "'f metric_lib \<Rightarrow> 'w metric_calls \<Rightarrow> vault_id \<Rightarrow> ('w, 'f, unit) metric_action" where
  "publish_required_collateral K C v = if_ok (mc_get_required_collateral_for_vault C v) (\<lambda>required.
     a_bind (a_lift (raw_value_as_currency K required (collateral_currency v))) (\<lambda>x.
     set_gauge K v (required_collateral_update (\<lambda>_. x))))"

definition publish_collateralization :: "'f metric_lib \<Rightarrow> 'w metric_calls \<Rightarrow> vault_id \<Rightarrow> ('w, 'f, unit) metric_action" where
  "publish_collateralization K C v =
     a_bind (a_match (on_world (mc_get_collateralization_from_vault C v False)) a_ret (\<lambda>_. a_ret 0)) (\<lambda>x.
     set_gauge K v (collateralization_update (\<lambda>_. ml_of_fixed K x)))"

definition publish_fee_budget_surplus :: "'f metric_lib \<Rightarrow> vault_id \<Rightarrow> ('w, 'f, unit) metric_action" where
  "publish_fee_budget_surplus K v =
     a_bind get_state (\<lambda>R. a_bind (a_lift (one_of K (wrapped_currency v))) (\<lambda>one.
     set_gauge K v (fee_budget_surplus_update (\<lambda>_. ml_div K (ml_of_int K (surplus (ms_trackers R v))) one))))"

definition average_fee :: "'f metric_lib \<Rightarrow> fee_trackers \<Rightarrow> 'f" where
  "average_fee K t = (if fee_count t > 0 then ml_div K (ml_of_int K (uint (fee_total t))) (ml_of_int K (uint (fee_count t)))
     else ml_of_int K 0)"

definition publish_average_bitcoin_fee :: "'f metric_lib \<Rightarrow> vault_id \<Rightarrow> ('w, 'f, unit) metric_action" where
  "publish_average_bitcoin_fee K v =
     a_bind get_state (\<lambda>R. set_gauge K v (average_btc_fee_update (\<lambda>_. average_fee K (ms_trackers R v))))"

definition publish_bitcoin_balance :: "'f metric_lib \<Rightarrow> vault_id \<Rightarrow> 'w btc_api \<Rightarrow> ('w, 'f, unit) metric_action" where
  "publish_bitcoin_balance K v B = if_ok (b_get_balance B None) (\<lambda>x. set_gauge K v (btc_actual_update (\<lambda>_. ml_to_btc K x)))"

definition publish_native_currency_balance :: "'f metric_lib \<Rightarrow> 'w metric_calls \<Rightarrow> ('w, 'f, unit) metric_action" where
  "publish_native_currency_balance K C = if_ok (mc_get_free_balance C (mc_native_currency_id C)) (\<lambda>balance.
     a_bind (a_lift (raw_value_as_currency K balance (mc_native_currency_id C))) (\<lambda>x.
     modify_state (ms_native_currency_balance_update (\<lambda>_. x))))"

definition publish_utxo_count :: "'f metric_lib \<Rightarrow> vault_id \<Rightarrow> 'w btc_api \<Rightarrow> ('w, 'f, unit) metric_action" where
  "publish_utxo_count K v B = if_ok (b_get_utxo_count B) (\<lambda>count.
     if in_i64 (int count) then set_gauge K v (utxo_count_update (\<lambda>_. int count)) else a_ret ())"

definition publish_expected_bitcoin_balance :: "'f metric_lib \<Rightarrow> 'w metric_calls \<Rightarrow> vault_id \<Rightarrow> ('w, 'f, unit) metric_action" where
  "publish_expected_bitcoin_balance K C v = if_ok (mc_get_vault C v) (\<lambda>vt.
     let lowerbound = saturating_sub (v_issued_tokens vt) (v_to_be_redeemed_tokens vt);
         upperbound = saturating_add (v_issued_tokens vt) (v_to_be_issued_tokens vt)
     in a_bind (a_lift (one_of K (wrapped_currency v))) (\<lambda>scaling_factor.
        a_bind (set_gauge K v (btc_lowerbound_update (\<lambda>_. ml_div K (ml_of_int K (uint lowerbound)) scaling_factor))) (\<lambda>_.
        set_gauge K v (btc_upperbound_update (\<lambda>_. ml_div K (ml_of_int K (uint upperbound)) scaling_factor)))))"

section \<open>Fees\<close>

definition add_fee :: "int \<Rightarrow> fee_trackers \<Rightarrow> fee_trackers" where
  "add_fee amount t = t\<lparr>fee_total := saturating_add (fee_total t) (word_of_int \<bar>amount\<bar>), fee_count := saturating_add (fee_count t) 1\<rparr>"

definition update_bitcoin_metrics ::
  "'f metric_lib \<Rightarrow> bool \<Rightarrow> vault_id \<Rightarrow> 'w btc_api \<Rightarrow> int option \<Rightarrow> u128 option \<Rightarrow> ('w, 'f, unit) metric_action" where
  "update_bitcoin_metrics K oc v B new_fee_entry fee_budget =
     a_bind (case new_fee_entry of
         None \<Rightarrow> a_ret ()
       | Some amount \<Rightarrow>
           a_bind (set_trackers v (add_fee amount)) (\<lambda>_.
           a_bind (publish_average_bitcoin_fee K v) (\<lambda>_.
           a_bind (case i64_of_u128 (case fee_budget of Some x \<Rightarrow> x | None \<Rightarrow> 0) of
               None \<Rightarrow> a_ret ()
             | Some budget \<Rightarrow> a_bind (a_lift (i64_abs oc amount)) (\<lambda>x.
                 set_trackers v (\<lambda>t. t\<lparr>surplus := i64_sat (surplus t + i64_sat (budget - x))\<rparr>))) (\<lambda>_.
           publish_fee_budget_surplus K v)))) (\<lambda>_.
     publish_bitcoin_balance K v B)"

text \<open>The budgets by the id of the request; of two with the same id the last one counts.\<close>

definition fee_budgets :: "(H256 \<times> vault_id redeem_request) list \<Rightarrow> (H256 \<times> vault_id replace_request) list \<Rightarrow> H256 \<rightharpoonup> u128" where
  "fee_budgets redeem_requests replace_requests =
     map_of (rev (map (\<lambda>(i, redeem). (i, rd_transfer_fee_btc redeem)) redeem_requests @ map (\<lambda>(i, _). (i, 0)) replace_requests))"

definition tx_surplus :: "bool \<Rightarrow> (H256 \<rightharpoonup> u128) \<Rightarrow> list_transaction \<Rightarrow> transaction \<Rightarrow> (int option, 'e) result" where
  "tx_surplus oc budgets tx transaction =
     (case Option.bind (Option.bind (get_op_return transaction) budgets) i64_of_u128 of
        None \<Rightarrow> Ok None
      | Some budget \<Rightarrow> (case lt_fee tx of
            None \<Rightarrow> Ok None
          | Some fee \<Rightarrow> rbind (i64_abs oc fee) (\<lambda>x. Ok (if in_i64 (budget - x) then Some (budget - x) else None))))"

fun fold_surplus ::
  "bool \<Rightarrow> 'w btc_api \<Rightarrow> (H256 \<rightharpoonup> u128) \<Rightarrow> list_transaction list \<Rightarrow> int \<Rightarrow> ('w, int, service_error) action" where
  "fold_surplus oc B budgets [] acc = a_ret acc"
| "fold_surplus oc B budgets (tx # txs) acc =
     a_bind (a_match (b_get_transaction B (lt_txid tx) (lt_blockhash tx)) (\<lambda>t. a_lift (tx_surplus oc budgets tx t)) (\<lambda>_. a_ret None)) (\<lambda>x.
     fold_surplus oc B budgets txs (case x of Some s \<Rightarrow> i64_sat (acc + s) | None \<Rightarrow> acc))"

definition initialize_fee_budget_surplus ::
  "'f metric_lib \<Rightarrow> bool \<Rightarrow> 'w metric_calls \<Rightarrow> vault_id \<Rightarrow> 'w btc_api \<Rightarrow> list_transaction list \<Rightarrow> ('w, 'f, unit) metric_action" where
  "initialize_fee_budget_surplus K oc C v B bitcoin_transactions =
     if_ok (a_bind (mc_get_vault_redeem_requests C (account v)) (\<lambda>redeems.
       a_bind (mc_get_old_vault_replace_requests C (account v)) (\<lambda>replaces. a_ret (redeems, replaces)))) (\<lambda>(redeems, replaces).
     a_bind (on_world (fold_surplus oc B (fee_budgets redeems replaces) bitcoin_transactions 0)) (\<lambda>s.
     a_bind (set_trackers v (\<lambda>t. t\<lparr>surplus := s\<rparr>)) (\<lambda>_.
     publish_fee_budget_surplus K v)))"

definition fees_of :: "list_transaction list \<Rightarrow> u64 list" where
  "fees_of txs = filter_map (\<lambda>tx. map_option (\<lambda>amount. word_of_int \<bar>amount\<bar>) (lt_fee tx)) txs"

text \<open>The joined calls of \<open>initialize_values\<close> from left to right; their results are dropped.\<close>

definition initialize_values ::
  "'f metric_lib \<Rightarrow> bool \<Rightarrow> 'w metric_calls \<Rightarrow> vault_id \<Rightarrow> 'w btc_api \<Rightarrow> ('w, 'f, unit) metric_action" where
  "initialize_values K oc C v B =
     a_bind (a_match (on_world (b_list_transactions B None)) (\<lambda>x. a_ret (filter lt_is_send x)) (\<lambda>_. a_ret [])) (\<lambda>bitcoin_transactions.
     a_bind (a_lift (rbind (plain_sum oc 0 (fees_of bitcoin_transactions)) (\<lambda>total.
       rbind (plain_sum oc 0 (map (\<lambda>_. 1) (fees_of bitcoin_transactions))) (\<lambda>count. Ok (total, count))))) (\<lambda>(total, count).
     a_bind (set_trackers v (\<lambda>t. t\<lparr>fee_total := total, fee_count := count\<rparr>)) (\<lambda>_.
     a_bind (publish_utxo_count K v B) (\<lambda>_.
     a_bind (publish_bitcoin_balance K v B) (\<lambda>_.
     a_bind (a_ignore (initialize_fee_budget_surplus K oc C v B bitcoin_transactions)) (\<lambda>_.
     a_bind (publish_average_bitcoin_fee K v) (\<lambda>_.
     a_bind (a_ignore (publish_expected_bitcoin_balance K C v)) (\<lambda>_.
     a_bind (a_ignore (publish_locked_collateral K C v)) (\<lambda>_.
     a_bind (a_ignore (publish_required_collateral K C v)) (\<lambda>_.
     publish_collateralization K C v))))))))))"

section \<open>Requests\<close>

text \<open>The entries of the manager are the vaults and their wallets.\<close>

definition publish_issue_count :: "'f metric_lib \<Rightarrow> 'w metric_calls \<Rightarrow> (vault_id \<times> 'w btc_api) list \<Rightarrow> ('w, 'f, unit) metric_action" where
  "publish_issue_count K C entries = if_ok (mc_get_vault_issue_requests C (mc_self C)) (\<lambda>issues.
     for_each (\<lambda>(v, _).
       let relevant_issues = map (\<lambda>(_, issue). is_status issue) (filter (\<lambda>(_, issue). is_vault issue = v) issues);
           count = (\<lambda>s. ml_of_int K (int (size (filter (\<lambda>status. status = s) relevant_issues))))
       in set_gauge K v (\<lambda>m. m\<lparr>issues_open := count Is_Pending, issues_completed := count Is_Completed, issues_expired := count Is_Cancelled\<rparr>))
     entries)"

fun is_expired :: "redeem_status \<Rightarrow> bool" where
  "is_expired (Rd_Reimbursed b) = True"
| "is_expired Rd_Retried = True"
| "is_expired s = False"

definition publish_redeem_count ::
  "'f metric_lib \<Rightarrow> (vault_id \<times> 'w btc_api) list \<Rightarrow> (H256 \<times> vault_id redeem_request) list \<Rightarrow> ('w, 'f, unit) metric_action" where
  "publish_redeem_count K entries redeems =
     for_each (\<lambda>(v, _).
       let relevant_redeems = map (\<lambda>(_, redeem). rd_status redeem) (filter (\<lambda>(_, redeem). rd_vault redeem = v) redeems);
           count = (\<lambda>p. ml_of_int K (int (size (filter p relevant_redeems))))
       in set_gauge K v (\<lambda>m. m\<lparr>redeems_open := count (\<lambda>s. s = Rd_Pending), redeems_completed := count (\<lambda>s. s = Rd_Completed),
            redeems_expired := count is_expired\<rparr>))
     entries"

definition least_remaining :: "u128 list \<Rightarrow> u128 option" where
  "least_remaining ts = (case ts of [] \<Rightarrow> None | _ \<Rightarrow> Some (Min (set ts)))"

definition publish_time_to_first_deadline ::
  "'f metric_lib \<Rightarrow> 'w metric_calls \<Rightarrow> (vault_id \<times> 'w btc_api) list \<Rightarrow> (H256 \<times> vault_id redeem_request) list \<Rightarrow> ('w, 'f, unit) metric_action" where
  "publish_time_to_first_deadline K C entries redeems =
     for_each (\<lambda>(v, B).
       if_ok (a_bind (on_runtime (mc_get_redeem_period C)) (\<lambda>redeem_period.
           a_bind (on_runtime (mc_get_current_active_block_number C)) (\<lambda>para_height.
           a_bind (on_bitcoin (b_get_block_count B)) (\<lambda>bitcoin_height. a_ret (redeem_period, para_height, bitcoin_height)))))
         (\<lambda>(redeem_period, para_height, bitcoin_height).
           let remaining_time = least_remaining (filter_map
                 (\<lambda>(_, redeem). calculate_remaining_time redeem_period redeem para_height bitcoin_height)
                 (filter (\<lambda>(_, redeem). rd_vault redeem = v \<and> rd_status redeem = Rd_Pending) redeems));
               remaining_time = (case remaining_time of Some t \<Rightarrow> t | None \<Rightarrow> ucast MILLISECS_PER_BLOCK * ucast redeem_period)
           in set_gauge K v (remaining_time_to_redeem_hours_update (\<lambda>_. ml_div K (ml_secs K remaining_time) (ml_of_int K 3600)))))
     entries"

text \<open>The handler of \<open>FeedValues\<close>.\<close>

definition on_feed_values ::
  "'f metric_lib \<Rightarrow> 'w metric_calls \<Rightarrow> (vault_id \<times> 'w btc_api) list \<Rightarrow> (oracle_key \<times> u128) list \<Rightarrow> ('w, 'f, unit) metric_action" where
  "on_feed_values K C entries event_values =
     for_each (\<lambda>currency_id.
       for_each (\<lambda>(v, _).
         a_bind (a_ignore (publish_locked_collateral K C v)) (\<lambda>_.
         a_bind (a_ignore (publish_required_collateral K C v)) (\<lambda>_.
         publish_collateralization K C v)))
       (filter (\<lambda>(v, _). collateral_currency v = currency_id) entries))
     (filter_map (\<lambda>(key, _). case key of ExchangeRate c \<Rightarrow> Some c | _ \<Rightarrow> None) event_values)"

text \<open>\<open>SLEEP_DURATION\<close> in milliseconds; a round of \<open>poll_metrics\<close>, and its first \<open>n\<close> rounds.\<close>

definition SLEEP_DURATION :: nat where "SLEEP_DURATION = 300000"

definition poll_round :: "'f metric_lib \<Rightarrow> 'w metric_calls \<Rightarrow> (vault_id \<times> 'w btc_api) list \<Rightarrow> ('w, 'f, unit) metric_action" where
  "poll_round K C entries =
     a_bind (publish_native_currency_balance K C) (\<lambda>_.
     a_bind (publish_issue_count K C entries) (\<lambda>_.
     a_bind (if_ok (mc_get_vault_redeem_requests C (mc_self C)) (\<lambda>redeems.
         a_bind (publish_redeem_count K entries redeems) (\<lambda>_.
         publish_time_to_first_deadline K C entries redeems))) (\<lambda>_.
     a_bind (for_each (\<lambda>(v, B). publish_utxo_count K v B) entries) (\<lambda>_.
     \<lambda>(w, R). (Ok (), (mc_sleep C SLEEP_DURATION w, R))))))"

definition poll_metrics :: "'f metric_lib \<Rightarrow> 'w metric_calls \<Rightarrow> (vault_id \<times> 'w btc_api) list \<Rightarrow> nat \<Rightarrow> ('w, 'f, unit option) metric_action" where
  "poll_metrics K C entries n = a_loop (\<lambda>_. a_bind (poll_round K C entries) (\<lambda>_. a_ret (Inl ()))) n ()"

end
