(* ===== verification/MetricsFacts.thy ===== *)
theory MetricsFacts
  imports Metrics ExecutionFacts
begin

text \<open>
  What is published: by what the fees that are tracked differ from those a later start reads off the
  wallet, and that each request of a vault is counted once, unless two vaults share their gauges.
\<close>

section \<open>The trackers\<close>

lemma keeps_set_gauge [keeps_intro]: "keeps (on_log (\<lambda>R. ms_trackers R = T)) (set_gauge K v f)"
  unfolding set_gauge_def by (rule keeps_modify) simp

lemma keeps_if_ok [keeps_intro]: "(\<And>a. keeps (on_log I) (f a)) \<Longrightarrow> keeps (on_log I) (if_ok m f)"
  unfolding if_ok_def by (intro keeps_intro)

lemma keeps_published [keeps_intro]:
  "keeps (on_log (\<lambda>R. ms_trackers R = T)) (publish_fee_budget_surplus K v)"
  "keeps (on_log (\<lambda>R. ms_trackers R = T)) (publish_average_bitcoin_fee K v)"
  "keeps (on_log (\<lambda>R. ms_trackers R = T)) (publish_bitcoin_balance K v B)"
  "keeps (on_log (\<lambda>R. ms_trackers R = T)) (publish_utxo_count K v B)"
  "keeps (on_log (\<lambda>R. ms_trackers R = T)) (publish_locked_collateral K C v)"
  "keeps (on_log (\<lambda>R. ms_trackers R = T)) (publish_required_collateral K C v)"
  "keeps (on_log (\<lambda>R. ms_trackers R = T)) (publish_collateralization K C v)"
  "keeps (on_log (\<lambda>R. ms_trackers R = T)) (publish_expected_bitcoin_balance K C v)"
  unfolding publish_fee_budget_surplus_def publish_average_bitcoin_fee_def publish_bitcoin_balance_def publish_utxo_count_def
    publish_locked_collateral_def publish_required_collateral_def publish_collateralization_def
    publish_expected_bitcoin_balance_def Let_def
  by (intro keeps_intro keeps_get_state)+

text \<open>The effect of a payment on the trackers, and that of the whole list of the wallet.\<close>

definition tracked :: "int \<Rightarrow> int \<Rightarrow> fee_trackers \<Rightarrow> fee_trackers" where
  "tracked fee budget t = (add_fee fee t)\<lparr>surplus := i64_sat (surplus t + i64_sat (budget - \<bar>fee\<bar>))\<rparr>"

lemma surplus_add_fee [simp]: "surplus (add_fee fee t) = surplus t"
  by (simp add: add_fee_def)

lemma update_tracks:
  assumes fee: "\<bar>fee\<bar> < 2 ^ 63" and budget: "i64_of_u128 (case fee_budget of Some x \<Rightarrow> x | None \<Rightarrow> 0) = Some b"
    and run: "a_ignore (update_bitcoin_metrics K oc v B (Some fee) fee_budget) (w, R) = (r, (w', R'))"
  shows "ms_trackers R' = (ms_trackers R)(v := tracked fee b (ms_trackers R v))"
proof -
  let ?T = "(ms_trackers R)(v := tracked fee b (ms_trackers R v))"
  have abs: "i64_abs oc fee = Ok \<bar>fee\<bar>" using fee by (auto simp: i64_abs_def)
  obtain R1 where T: "ms_trackers R1 = ?T" and eq: "update_bitcoin_metrics K oc v B (Some fee) fee_budget (w, R) =
      a_bind (publish_fee_budget_surplus K v) (\<lambda>_. publish_bitcoin_balance K v B) (w, R1)"
    by (rule that [of "R\<lparr>ms_gauges := (ms_gauges R)(metric_label K v := (ms_gauges R (metric_label K v))
          \<lparr>average_btc_fee := average_fee K (add_fee fee (ms_trackers R v))\<rparr>), ms_trackers := ?T\<rparr>"])
      (simp_all add: update_bitcoin_metrics_def budget abs publish_average_bitcoin_fee_def set_gauge_def set_trackers_def
        get_state_def modify_state_def a_bind_def a_match_def a_lift_def tracked_def)
  have keep: "keeps (on_log (\<lambda>R. ms_trackers R = ?T)) (a_bind (publish_fee_budget_surplus K v) (\<lambda>_. publish_bitcoin_balance K v B))"
    by (intro keeps_intro)
  obtain r1 w1 R2 where res: "update_bitcoin_metrics K oc v B (Some fee) fee_budget (w, R) = (r1, (w1, R2))" by (metis surj_pair)
  from keepsD [OF keep _ res [unfolded eq]] T have "ms_trackers R2 = ?T" by simp
  with run res show ?thesis by (cases r1) (auto simp: a_ignore_def a_match_def a_ret_def)
qed

text \<open>
  What the wallet lists: the entries, and the transactions that it finds for them.
\<close>

definition wallet_lists :: "'w btc_api \<Rightarrow> list_transaction list \<Rightarrow> (list_transaction \<rightharpoonup> transaction) \<Rightarrow> bool" where
  "wallet_lists B txs look \<longleftrightarrow> b_list_transactions B None = a_ret txs \<and>
     (\<forall>tx. \<exists>e. b_get_transaction B (lt_txid tx) (lt_blockhash tx) = (case look tx of Some t \<Rightarrow> a_ret t | None \<Rightarrow> a_err e))"

definition budget_of :: "(H256 \<rightharpoonup> u128) \<Rightarrow> (list_transaction \<rightharpoonup> transaction) \<Rightarrow> list_transaction \<Rightarrow> u128 option" where
  "budget_of budgets look tx = Option.bind (Option.bind (look tx) get_op_return) budgets"

text \<open>The fee of an entry, its surplus, and a bound on all that is added up for it.\<close>

definition fee_of :: "list_transaction \<Rightarrow> int" where
  "fee_of tx = (case lt_fee tx of Some fee \<Rightarrow> \<bar>fee\<bar> | None \<Rightarrow> 0)"

definition gain_of :: "(H256 \<rightharpoonup> u128) \<Rightarrow> (list_transaction \<rightharpoonup> transaction) \<Rightarrow> list_transaction \<Rightarrow> int" where
  "gain_of budgets look tx = (case (budget_of budgets look tx, lt_fee tx) of
     (Some b, Some fee) \<Rightarrow> uint b - \<bar>fee\<bar> | _ \<Rightarrow> 0)"

definition amounts_of :: "(H256 \<rightharpoonup> u128) \<Rightarrow> (list_transaction \<rightharpoonup> transaction) \<Rightarrow> list_transaction \<Rightarrow> int" where
  "amounts_of budgets look tx = fee_of tx + (case budget_of budgets look tx of Some b \<Rightarrow> uint b | None \<Rightarrow> 0)"

lemma fee_of_nonneg: "0 \<le> fee_of tx"
  by (simp add: fee_of_def split: option.split)

lemma amounts_bounds:
  "fee_of tx \<le> amounts_of budgets look tx" "\<bar>gain_of budgets look tx\<bar> \<le> amounts_of budgets look tx"
  "budget_of budgets look tx = Some b \<Longrightarrow> uint b \<le> amounts_of budgets look tx"
  using uint_ge_0 [of "the (budget_of budgets look tx)"]
  by (auto simp: amounts_of_def gain_of_def fee_of_def abs_le_iff split: option.split)

lemma amounts_nonneg: "0 \<le> amounts_of budgets look tx"
  using amounts_bounds(1) fee_of_nonneg by (rule order_trans [rotated])

lemma i64_sat_id: "\<bar>x\<bar> < 2 ^ 63 \<Longrightarrow> i64_sat x = x"
  by (auto simp: i64_sat_def)

lemma in_i64_id: "\<bar>x\<bar> < 2 ^ 63 \<Longrightarrow> in_i64 x"
  by (auto simp: in_i64_def)

lemma tx_surplus_gain:
  assumes bound: "amounts_of budgets look tx < 2 ^ 63" and t: "look tx = Some t"
  shows "\<exists>x. (tx_surplus oc budgets tx t :: (int option, 'e) result) = Ok x \<and> (case x of Some s \<Rightarrow> s | None \<Rightarrow> 0) = gain_of budgets look tx"
proof (cases "budget_of budgets look tx")
  case None
  with t have "Option.bind (get_op_return t) budgets = None" by (simp add: budget_of_def)
  with None show ?thesis by (simp add: tx_surplus_def gain_of_def)
next
  case (Some b)
  with t have b: "Option.bind (get_op_return t) budgets = Some b" by (simp add: budget_of_def)
  from amounts_bounds(3) [OF Some] bound have "in_i64 (uint b)" by (intro in_i64_id) simp
  then have "i64_of_u128 b = Some (uint b)" by (simp add: i64_of_u128_def)
  moreover have "\<bar>gain_of budgets look tx\<bar> < 2 ^ 63" "fee_of tx < 2 ^ 63"
    using amounts_bounds(1,2) bound by (meson order_le_less_trans)+
  ultimately show ?thesis using b Some
    by (auto simp: tx_surplus_def gain_of_def i64_abs_def fee_of_def in_i64_id split: option.splits)
qed

lemma fold_surplus_sum:
  assumes "wallet_lists B all look" and "\<bar>acc\<bar> + (\<Sum>tx\<leftarrow>txs. amounts_of budgets look tx) < 2 ^ 63"
  shows "fold_surplus oc B budgets txs acc w = (Ok (acc + (\<Sum>tx\<leftarrow>txs. gain_of budgets look tx)), w)"
  using assms(2)
proof (induction txs arbitrary: acc)
  case (Cons tx txs)
  have rest: "0 \<le> (\<Sum>tx\<leftarrow>txs. amounts_of budgets look tx)" by (rule sum_list_nonneg) (auto intro: amounts_nonneg)
  with Cons.prems have bound: "amounts_of budgets look tx < 2 ^ 63" by simp
  have next_bound: "\<bar>acc + gain_of budgets look tx\<bar> + (\<Sum>tx\<leftarrow>txs. amounts_of budgets look tx) < 2 ^ 63"
    using Cons.prems amounts_bounds(2) [of budgets look tx] by simp
  with rest have sat: "i64_sat (acc + gain_of budgets look tx) = acc + gain_of budgets look tx" by (intro i64_sat_id) linarith
  obtain e where call: "b_get_transaction B (lt_txid tx) (lt_blockhash tx) = (case look tx of Some t \<Rightarrow> a_ret t | None \<Rightarrow> a_err e)"
    using assms(1) unfolding wallet_lists_def by blast
  show ?case
  proof (cases "look tx")
    case None
    then have "gain_of budgets look tx = 0" by (simp add: gain_of_def budget_of_def)
    with None call Cons.IH [OF next_bound] show ?thesis by (simp add: action_defs)
  next
    case (Some t)
    obtain x where x: "(tx_surplus oc budgets tx t :: (int option, service_error) result) = Ok x"
      and gain: "(case x of Some s \<Rightarrow> s | None \<Rightarrow> 0) = gain_of budgets look tx"
      using tx_surplus_gain [OF bound Some] by blast
    have acc: "(case x of Some s \<Rightarrow> i64_sat (acc + s) | None \<Rightarrow> acc) = acc + gain_of budgets look tx"
      using gain sat by (cases x) simp_all
    show ?thesis using Some call x acc Cons.IH [OF next_bound] by (simp add: action_defs)
  qed
qed (simp add: a_ret_def)

text \<open>The trackers that belong to a list.\<close>

definition has_fee :: "list_transaction \<Rightarrow> bool" where "has_fee tx \<longleftrightarrow> lt_is_send tx \<and> lt_fee tx \<noteq> None"

definition trackers_of :: "(H256 \<rightharpoonup> u128) \<Rightarrow> (list_transaction \<rightharpoonup> transaction) \<Rightarrow> list_transaction list \<Rightarrow> fee_trackers" where
  "trackers_of budgets look txs = \<lparr>fee_total = word_of_int (\<Sum>tx\<leftarrow>filter lt_is_send txs. fee_of tx),
     fee_count = word_of_nat (size (filter has_fee txs)), surplus = (\<Sum>tx\<leftarrow>filter lt_is_send txs. gain_of budgets look tx)\<rparr>"

definition amounts_fit :: "(H256 \<rightharpoonup> u128) \<Rightarrow> (list_transaction \<rightharpoonup> transaction) \<Rightarrow> list_transaction list \<Rightarrow> bool" where
  "amounts_fit budgets look txs \<longleftrightarrow> (\<Sum>tx\<leftarrow>filter lt_is_send txs. amounts_of budgets look tx) < 2 ^ 63 \<and> size txs < 2 ^ 63"

lemma sums_bounds:
  "0 \<le> (\<Sum>tx\<leftarrow>txs. fee_of tx)" "(\<Sum>tx\<leftarrow>txs. fee_of tx) \<le> (\<Sum>tx\<leftarrow>txs. amounts_of budgets look tx)"
  "\<bar>\<Sum>tx\<leftarrow>txs. gain_of budgets look tx\<bar> \<le> (\<Sum>tx\<leftarrow>txs. amounts_of budgets look tx)"
proof (induction txs)
  case (Cons tx txs)
  case 1
  with Cons fee_of_nonneg [of tx] show ?case by simp
next
  case (Cons tx txs)
  case 2
  with Cons amounts_bounds(1) [of tx budgets look] show ?case by simp
next
  case (Cons tx txs)
  case 3
  with Cons amounts_bounds(2) [of budgets look tx] show ?case by simp
qed simp_all

lemma amounts_fit_append: "amounts_fit budgets look (txs @ new) \<Longrightarrow> amounts_fit budgets look txs"
proof -
  assume "amounts_fit budgets look (txs @ new)"
  moreover have "0 \<le> (\<Sum>tx\<leftarrow>filter lt_is_send new. amounts_of budgets look tx)"
    by (rule sum_list_nonneg) (auto intro: amounts_nonneg)
  ultimately show ?thesis by (simp add: amounts_fit_def)
qed

lemma fee_of_le_sum: "tx \<in> set txs \<Longrightarrow> fee_of tx \<le> (\<Sum>tx\<leftarrow>txs. fee_of tx)"
proof (induction txs)
  case (Cons x txs)
  with fee_of_nonneg [of x] sums_bounds(1) [of txs] show ?case by auto
qed simp

lemma fees_exact:
  assumes "\<And>tx. tx \<in> set txs \<Longrightarrow> fee_of tx < 2 ^ 63"
  shows "sum_list (map unat (fees_of txs)) = nat (\<Sum>tx\<leftarrow>txs. fee_of tx)"
  using assms
proof (induction txs)
  case (Cons tx txs)
  have "0 \<le> (\<Sum>tx\<leftarrow>txs. fee_of tx)" by (rule sums_bounds)
  moreover have "fee_of tx < 2 ^ 64" using Cons.prems [of tx] by simp
  moreover have "sum_list (map unat (fees_of txs)) = nat (\<Sum>tx\<leftarrow>txs. fee_of tx)" by (rule Cons.IH, rule Cons.prems) simp
  ultimately show ?case using fee_of_nonneg [of tx]
    by (cases "lt_fee tx") (simp_all add: fees_of_def fee_of_def nat_add_distrib unsigned_of_int take_bit_int_eq_self)
qed (simp add: fees_of_def)

lemma size_fees_of: "size (fees_of (filter lt_is_send txs)) = size (filter has_fee txs)"
  by (induction txs) (auto simp: fees_of_def has_fee_def split: option.split)

lemma totals_exact:
  assumes fit: "amounts_fit budgets look txs"
  shows "(plain_sum oc 0 (fees_of (filter lt_is_send txs)) :: (u64, 'e) result) = Ok (fee_total (trackers_of budgets look txs))"
    and "(plain_sum oc 0 (map (\<lambda>_. 1) (fees_of (filter lt_is_send txs))) :: (u64, 'e) result) = Ok (fee_count (trackers_of budgets look txs))"
proof -
  let ?sent = "filter lt_is_send txs"
  have total: "(\<Sum>tx\<leftarrow>?sent. fee_of tx) < 2 ^ 63"
    using fit sums_bounds(2) unfolding amounts_fit_def by (meson order_le_less_trans)
  have "fee_of tx < 2 ^ 63" if "tx \<in> set ?sent" for tx
    using fee_of_le_sum [OF that] total by (rule order_le_less_trans)
  then have sum: "sum_list (map unat (fees_of ?sent)) = nat (\<Sum>tx\<leftarrow>?sent. fee_of tx)" by (rule fees_exact)
  obtain s where s: "(plain_sum oc 0 (fees_of ?sent) :: (u64, 'e) result) = Ok s" "unat s = nat (\<Sum>tx\<leftarrow>?sent. fee_of tx)"
    using plain_sum_exact [of 0 "fees_of ?sent" oc] sum total by (auto simp: nat_less_iff sums_bounds)
  moreover have "uint s = (\<Sum>tx\<leftarrow>?sent. fee_of tx)" using s(2) sums_bounds(1) [of ?sent] by (metis nat_0_le uint_nat)
  ultimately show "(plain_sum oc 0 (fees_of ?sent) :: (u64, 'e) result) = Ok (fee_total (trackers_of budgets look txs))"
    by (metis fee_trackers.select_convs(1) trackers_of_def word_of_int_uint)
  have "size (filter has_fee txs) < 2 ^ 63"
    using fit length_filter_le [of has_fee txs] unfolding amounts_fit_def by linarith
  then obtain c where c: "(plain_sum oc 0 (map (\<lambda>_. 1) (fees_of ?sent)) :: (u64, 'e) result) = Ok c" "unat c = size (filter has_fee txs)"
    using plain_sum_exact [of 0 "map (\<lambda>_. 1 :: u64) (fees_of ?sent)" oc] size_fees_of [of txs] by (auto simp: sum_list_triv o_def)
  then show "(plain_sum oc 0 (map (\<lambda>_. 1) (fees_of ?sent)) :: (u64, 'e) result) = Ok (fee_count (trackers_of budgets look txs))"
    by (simp add: trackers_of_def c(2) [symmetric])
qed

text \<open>The start reads the trackers off the list; a payment moves them on as its entry would.\<close>

lemma trackers_kept:
  assumes "\<And>T. keeps (on_log (\<lambda>R. ms_trackers R = T)) m" and "m (w, R) = (r, (w', R'))"
  shows "ms_trackers R' = ms_trackers R"
  using keepsD [OF assms(1) [of "ms_trackers R"] _ assms(2)] by simp

lemmas published_kept = keeps_published [THEN trackers_kept] keeps_published [THEN keeps_wrapped(2), THEN trackers_kept]

lemma surplus_tracks:
  assumes sum: "\<And>w. fold_surplus oc B (fee_budgets redeems replaces) txs 0 w = (Ok s, w)"
    and calls: "mc_get_vault_redeem_requests C (account v) = a_ret redeems" "mc_get_old_vault_replace_requests C (account v) = a_ret replaces"
    and run: "a_ignore (initialize_fee_budget_surplus K oc C v B txs) (w, R) = (r, (w', R'))"
  shows "ms_trackers R' = (ms_trackers R)(v := (ms_trackers R v)\<lparr>surplus := s\<rparr>)"
proof -
  let ?R = "R\<lparr>ms_trackers := (ms_trackers R)(v := (ms_trackers R v)\<lparr>surplus := s\<rparr>)\<rparr>"
  have "initialize_fee_budget_surplus K oc C v B txs (w, R) = publish_fee_budget_surplus K v (w, ?R)"
    by (simp add: initialize_fee_budget_surplus_def if_ok_def calls a_bind_def a_match_def a_ret_def on_world_def sum
        set_trackers_def modify_state_def)
  moreover obtain r1 w1 R1 where res: "publish_fee_budget_surplus K v (w, ?R) = (r1, (w1, R1))" by (metis surj_pair)
  ultimately have "R' = R1" using run by (cases r1) (auto simp: a_ignore_def a_match_def a_ret_def)
  with published_kept(1) [OF res] show ?thesis by simp
qed

lemma init_tracks:
  assumes lists: "wallet_lists B txs look" and fit: "amounts_fit (fee_budgets redeems replaces) look txs"
    and calls: "mc_get_vault_redeem_requests C (account v) = a_ret redeems" "mc_get_old_vault_replace_requests C (account v) = a_ret replaces"
    and run: "initialize_values K oc C v B (w, R) = (Ok (), (w', R'))"
  shows "ms_trackers R' v = trackers_of (fee_budgets redeems replaces) look txs"
proof -
  let ?t = "trackers_of (fee_budgets redeems replaces) look txs"
  have list: "b_list_transactions B None = a_ret txs" using lists by (simp add: wallet_lists_def)
  have sum: "fold_surplus oc B (fee_budgets redeems replaces) (filter lt_is_send txs) 0 w = (Ok (surplus ?t), w)" for w
    using fold_surplus_sum [OF lists, where acc = 0 and txs = "filter lt_is_send txs" and budgets = "fee_budgets redeems replaces" and oc = oc and w = w] fit
    by (simp add: amounts_fit_def trackers_of_def)
  have "ms_trackers R' = (ms_trackers R)(v := (ms_trackers R v)\<lparr>fee_total := fee_total ?t, fee_count := fee_count ?t, surplus := surplus ?t\<rparr>)"
    using run
    by (auto simp: initialize_values_def list totals_exact [OF fit] a_bind_eq_Ok a_match_eq_Ok on_world_state a_ret_def a_lift_def
        set_trackers_def modify_state_def dest!: published_kept surplus_tracks [OF sum calls])
  then show ?thesis by simp
qed

lemma saturating_add_int:
  "0 \<le> a \<Longrightarrow> 0 \<le> b \<Longrightarrow> a + b < 2 ^ 64 \<Longrightarrow> saturating_add (word_of_int a) (word_of_int b :: u64) = word_of_int (a + b)"
  by (simp add: saturating_add_def unsigned_of_int take_bit_int_eq_self nat_add_distrib [symmetric] nat_less_iff)

lemma for_each_Cons: "for_each f (x # xs) w = (Ok u, w') \<longleftrightarrow> (\<exists>w1. f x w = (Ok (), w1) \<and> for_each f xs w1 = (Ok (), w'))"
  by (auto simp: for_each_def a_bind_eq_Ok a_ret_def)

lemma for_each_Nil [simp]: "for_each f [] w = (Ok (), w)"
  by (simp add: for_each_def action_defs)

text \<open>The trackers as numbers: the sum of the fees, how many there were, and the surplus.\<close>

definition tracks :: "fee_trackers \<Rightarrow> int \<Rightarrow> nat \<Rightarrow> int \<Rightarrow> bool" where
  "tracks t fees number s \<longleftrightarrow> uint (fee_total t) = fees \<and> unat (fee_count t) = number \<and> surplus t = s"

lemma trackers_of_tracks:
  assumes "amounts_fit budgets look txs"
  shows "tracks (trackers_of budgets look txs) (\<Sum>tx\<leftarrow>filter lt_is_send txs. fee_of tx) (size (filter has_fee txs))
     (\<Sum>tx\<leftarrow>filter lt_is_send txs. gain_of budgets look tx)"
proof -
  have "(\<Sum>tx\<leftarrow>filter lt_is_send txs. fee_of tx) < 2 ^ 63"
    using assms sums_bounds(2) unfolding amounts_fit_def by (meson order_le_less_trans)
  moreover have "size (filter has_fee txs) < 2 ^ 63"
    using assms length_filter_le [of has_fee txs] unfolding amounts_fit_def by linarith
  ultimately show ?thesis
    by (simp add: tracks_def trackers_of_def unsigned_of_int take_bit_int_eq_self sums_bounds unsigned_of_nat take_bit_nat_eq_self)
qed

text \<open>A payment: the fee the wallet reports for its transaction, and the budget of the request.\<close>

definition budget_paid :: "int \<times> u128 option \<Rightarrow> int" where
  "budget_paid payment = uint (case snd payment of Some b \<Rightarrow> b | None \<Rightarrow> 0)"

lemma budget_paid_nonneg: "0 \<le> budget_paid payment"
  by (simp add: budget_paid_def)

lemma paid_bounds:
  "0 \<le> (\<Sum>x\<leftarrow>payments. \<bar>fst x\<bar>)"
  "(\<Sum>x\<leftarrow>payments. \<bar>fst x\<bar>) \<le> (\<Sum>x\<leftarrow>payments. \<bar>fst x\<bar> + budget_paid x)"
  "\<bar>\<Sum>x\<leftarrow>payments. budget_paid x - \<bar>fst x\<bar>\<bar> \<le> (\<Sum>x\<leftarrow>payments. \<bar>fst x\<bar> + budget_paid x)"
proof (induction payments)
  case (Cons x payments)
  {
    case 1
    with Cons show ?case by simp
  next
    case 2
    with Cons budget_paid_nonneg [of x] show ?case by simp
  next
    case 3
    with Cons budget_paid_nonneg [of x] show ?case by simp
  }
qed simp_all

lemma tracked_tracks:
  assumes t: "tracks t fees number s" and fits: "\<bar>fee\<bar> < 2 ^ 63" "0 \<le> fees" "fees + \<bar>fee\<bar> < 2 ^ 63"
    "number + 1 < 2 ^ 63" "\<bar>b - \<bar>fee\<bar>\<bar> < 2 ^ 63" "\<bar>s + (b - \<bar>fee\<bar>)\<bar> < 2 ^ 63"
  shows "tracks (tracked fee b t) (fees + \<bar>fee\<bar>) (Suc number) (s + (b - \<bar>fee\<bar>))"
proof -
  have old: "fee_total t = word_of_int fees" "fee_count t = word_of_int (int number)"
    using t by (auto simp: tracks_def)
  have "saturating_add (fee_total t) (word_of_int \<bar>fee\<bar>) = word_of_int (fees + \<bar>fee\<bar>)"
    unfolding old using fits(2,3) by (intro saturating_add_int) auto
  then have "uint (saturating_add (fee_total t) (word_of_int \<bar>fee\<bar>)) = fees + \<bar>fee\<bar>"
    using fits(2,3) by (simp only: unsigned_of_int) (simp add: take_bit_int_eq_self)
  moreover have "saturating_add (fee_count t) (word_of_int 1) = word_of_int (int number + 1)"
    unfolding old using fits(4) by (intro saturating_add_int) auto
  then have "uint (saturating_add (fee_count t) 1) = int (Suc number)"
    using fits(4) by (simp only: unsigned_of_int word_of_int_1 [symmetric]) (simp add: take_bit_int_eq_self)
  then have "unat (saturating_add (fee_count t) 1) = Suc number" by (metis nat_int unat_eq_nat_uint)
  ultimately show ?thesis
    using t fits(5,6) by (simp add: tracked_def add_fee_def tracks_def i64_sat_id)
qed

lemma payments_track:
  assumes "tracks (ms_trackers R v) fees number s" and "0 \<le> fees"
    and "fees + (\<Sum>x\<leftarrow>payments. \<bar>fst x\<bar> + budget_paid x) < 2 ^ 63" and "\<bar>s\<bar> + (\<Sum>x\<leftarrow>payments. \<bar>fst x\<bar> + budget_paid x) < 2 ^ 63"
    and "number + size payments < 2 ^ 63"
    and "for_each (\<lambda>(fee, budget). a_ignore (update_bitcoin_metrics K oc v B (Some fee) budget)) payments (w, R) = (Ok () :: (unit, 'e) result, (w', R'))"
  shows "tracks (ms_trackers R' v) (fees + (\<Sum>x\<leftarrow>payments. \<bar>fst x\<bar>)) (number + size payments)
     (s + (\<Sum>x\<leftarrow>payments. budget_paid x - \<bar>fst x\<bar>))"
  using assms
proof (induction payments arbitrary: fees number s w R)
  case (Cons payment payments)
  obtain fee budget where payment: "payment = (fee, budget)" by fastforce
  let ?b = "case budget of Some b \<Rightarrow> b | None \<Rightarrow> 0"
  have b: "budget_paid payment = uint ?b" by (simp add: payment budget_paid_def)
  from Cons.prems(6) payment obtain w1 R1 where
    step: "a_ignore (update_bitcoin_metrics K oc v B (Some fee) budget) (w, R) = (Ok () :: (unit, 'e) result, (w1, R1))"
    and more: "for_each (\<lambda>(fee, budget). a_ignore (update_bitcoin_metrics K oc v B (Some fee) budget)) payments (w1, R1) = (Ok () :: (unit, 'e) result, (w', R'))"
    by (auto simp: for_each_Cons)
  let ?rest = "\<Sum>x\<leftarrow>payments. \<bar>fst x\<bar> + budget_paid x"
  have rest: "0 \<le> ?rest" using paid_bounds [of payments] by linarith
  have all: "fees + (\<bar>fee\<bar> + uint ?b) + ?rest < 2 ^ 63" "\<bar>s\<bar> + (\<bar>fee\<bar> + uint ?b) + ?rest < 2 ^ 63"
    using Cons.prems(3,4) b by (simp_all add: payment)
  have nonneg: "0 \<le> uint ?b" by simp
  have small: "\<bar>fee\<bar> < 2 ^ 63" "\<bar>uint ?b\<bar> < 2 ^ 63" using all rest nonneg Cons.prems(2) by linarith+
  then have "i64_of_u128 ?b = Some (uint ?b)" by (simp add: i64_of_u128_def in_i64_id)
  from update_tracks [OF small(1) this step]
  have R1: "ms_trackers R1 v = tracked fee (uint ?b) (ms_trackers R v)" by simp
  have gain: "\<bar>uint ?b - \<bar>fee\<bar>\<bar> \<le> uint ?b + \<bar>fee\<bar>" "\<bar>s + (uint ?b - \<bar>fee\<bar>)\<bar> \<le> \<bar>s\<bar> + (uint ?b + \<bar>fee\<bar>)"
    using nonneg by (simp_all add: abs_if)
  have "tracks (ms_trackers R1 v) (fees + \<bar>fee\<bar>) (Suc number) (s + (uint ?b - \<bar>fee\<bar>))"
    unfolding R1
  proof (rule tracked_tracks [OF Cons.prems(1) small(1) Cons.prems(2)])
    show "\<bar>uint ?b - \<bar>fee\<bar>\<bar> < 2 ^ 63" "\<bar>s + (uint ?b - \<bar>fee\<bar>)\<bar> < 2 ^ 63" using gain all rest Cons.prems(2) by linarith+
    show "number + 1 < 2 ^ 63" using Cons.prems(5) by simp
  qed (use all rest nonneg in linarith)+
  moreover have "0 \<le> fees + \<bar>fee\<bar>" "fees + \<bar>fee\<bar> + ?rest < 2 ^ 63" "\<bar>s + (uint ?b - \<bar>fee\<bar>)\<bar> + ?rest < 2 ^ 63"
    using gain all nonneg Cons.prems(2) by linarith+
  moreover have "Suc number + size payments < 2 ^ 63" using Cons.prems(5) by simp
  ultimately show ?case using Cons.IH [where fees = "fees + \<bar>fee\<bar>" and number = "Suc number" and s = "s + (uint ?b - \<bar>fee\<bar>)", OF _ _ _ _ _ more] b
    by (simp add: payment algebra_simps)
qed simp

lemma gains_kept:
  assumes "\<forall>tx \<in> set txs. budget_of budgets' look' tx = budget_of budgets look tx"
  shows "(\<Sum>tx\<leftarrow>filter lt_is_send txs. gain_of budgets' look' tx) = (\<Sum>tx\<leftarrow>filter lt_is_send txs. gain_of budgets look tx)"
  using assms by (intro arg_cong [of _ _ sum_list] map_cong) (simp_all add: gain_of_def)

text \<open>
  C23. What becomes of the tracked fees when a vault is started again. At the first start the wallet lists
  \<open>txs\<close>; then come the payments, each with its fee and budget; at the second start the wallet lists
  \<open>new\<close> beside \<open>txs\<close>, and the requests may be others, with the same budgets for \<open>txs\<close>. Each
  payment is tracked once. The second start counts each new entry of the category \<open>Send\<close> once instead, so
  that the total of the fees, their number and the surplus change by exactly the difference between these
  entries and the payments: nothing changes if the wallet lists each payment once, but it does if it
  lists a payment once for each of its outputs, as Bitcoin Core does, or lists nothing, as the light
  client does. The amounts are such that no sum reaches the bounds of the trackers.
\<close>

theorem trackers_after_restart:
  assumes wallet: "wallet_lists B txs look" and later: "wallet_lists B' (txs @ new) look'"
    and requests: "mc_get_vault_redeem_requests C (account v) = a_ret redeems" "mc_get_old_vault_replace_requests C (account v) = a_ret replaces"
    and requests': "mc_get_vault_redeem_requests C' (account v) = a_ret redeems'" "mc_get_old_vault_replace_requests C' (account v) = a_ret replaces'"
    and old: "\<forall>tx \<in> set txs. budget_of (fee_budgets redeems' replaces') look' tx = budget_of (fee_budgets redeems replaces) look tx"
    and fit: "amounts_fit (fee_budgets redeems replaces) look txs" "amounts_fit (fee_budgets redeems' replaces') look' (txs @ new)"
    and paid_fit: "(\<Sum>tx\<leftarrow>filter lt_is_send txs. amounts_of (fee_budgets redeems replaces) look tx) + (\<Sum>x\<leftarrow>payments. \<bar>fst x\<bar> + budget_paid x) < 2 ^ 63"
      "size txs + size payments < 2 ^ 63"
    and started: "initialize_values K oc C v B (w, R) = (Ok (), (w1, R1))"
    and paid: "for_each (\<lambda>(fee, budget). a_ignore (update_bitcoin_metrics K oc v B (Some fee) budget)) payments (w1, R1) = (Ok (), (w2, R2))"
    and restarted: "initialize_values K oc C' v B' (w3, R3) = (Ok (), (w4, R4))"
  shows "uint (fee_total (ms_trackers R4 v)) - uint (fee_total (ms_trackers R2 v)) =
      (\<Sum>tx\<leftarrow>filter lt_is_send new. fee_of tx) - (\<Sum>x\<leftarrow>payments. \<bar>fst x\<bar>) \<and>
    int (unat (fee_count (ms_trackers R4 v))) - int (unat (fee_count (ms_trackers R2 v))) =
      int (size (filter has_fee new)) - int (size payments) \<and>
    surplus (ms_trackers R4 v) - surplus (ms_trackers R2 v) =
      (\<Sum>tx\<leftarrow>filter lt_is_send new. gain_of (fee_budgets redeems' replaces') look' tx) - (\<Sum>x\<leftarrow>payments. budget_paid x - \<bar>fst x\<bar>)"
proof -
  let ?b = "fee_budgets redeems replaces" and ?sent = "filter lt_is_send txs"
  have first: "tracks (ms_trackers R1 v) (\<Sum>tx\<leftarrow>?sent. fee_of tx) (size (filter has_fee txs)) (\<Sum>tx\<leftarrow>?sent. gain_of ?b look tx)"
    unfolding init_tracks [OF wallet fit(1) requests started] by (rule trackers_of_tracks [OF fit(1)])
  have "size (filter has_fee txs) + size payments < 2 ^ 63"
    using paid_fit(2) length_filter_le [of has_fee txs] by linarith
  from payments_track [OF first _ _ _ this paid] paid_fit(1) sums_bounds [where txs = ?sent]
    sums_bounds(2,3) [where txs = ?sent and budgets = ?b and look = look]
  have "tracks (ms_trackers R2 v) ((\<Sum>tx\<leftarrow>?sent. fee_of tx) + (\<Sum>x\<leftarrow>payments. \<bar>fst x\<bar>)) (size (filter has_fee txs) + size payments)
     ((\<Sum>tx\<leftarrow>?sent. gain_of ?b look tx) + (\<Sum>x\<leftarrow>payments. budget_paid x - \<bar>fst x\<bar>))"
    by (meson add_right_mono order_le_less_trans)
  moreover have "tracks (ms_trackers R4 v) (\<Sum>tx\<leftarrow>filter lt_is_send (txs @ new). fee_of tx) (size (filter has_fee (txs @ new)))
     (\<Sum>tx\<leftarrow>filter lt_is_send (txs @ new). gain_of (fee_budgets redeems' replaces') look' tx)"
    unfolding init_tracks [OF later fit(2) requests' restarted] by (rule trackers_of_tracks [OF fit(2)])
  ultimately show ?thesis using gains_kept [OF old] by (simp add: tracks_def)
qed

text \<open>A redeem request with a budget of 9 satoshis, and its payment, which cost 4.\<close>

definition demo_id :: H256 where "demo_id = replicate 32 7"

definition demo_fee_vault :: vault_id where "demo_fee_vault = vault_id_new [5] (Token KSM) (Token KBTC)"

definition demo_payment :: transaction where
  "demo_payment = \<lparr>tx_version = 2, lock_time = 0, tx_input = [], tx_output = [\<lparr>out_value = 0, script_pubkey = 0x6a # 32 # demo_id\<rparr>]\<rparr>"

definition demo_listed :: list_transaction where
  "demo_listed = \<lparr>lt_txid = [8], lt_blockhash = None, lt_fee = Some (-4), lt_is_send = True\<rparr>"

definition demo_budgets :: "(H256 \<times> vault_id redeem_request) list" where "demo_budgets = [(demo_id, demo_redeem)]"

definition demo_metric_lib :: "int metric_lib" where
  "demo_metric_lib = \<lparr>ml_tokens = demo_tokens, ml_one = (\<lambda>t. 1), ml_of_int = id, ml_div = (div), ml_of_fixed = uint, ml_to_btc = uint, ml_secs = uint\<rparr>"

definition demo_metric_calls :: "unit metric_calls" where
  "demo_metric_calls = \<lparr>mc_self = [5], mc_native_currency_id = Token KINT,
     mc_get_vault_total_collateral = (\<lambda>v. a_ret 1), mc_get_required_collateral_for_vault = (\<lambda>v. a_ret 1),
     mc_get_collateralization_from_vault = (\<lambda>v b. a_ret 1), mc_get_vault = (\<lambda>v. a_err Re_VaultNotFound),
     mc_get_free_balance = (\<lambda>c. a_ret 1), mc_get_vault_issue_requests = (\<lambda>a. a_ret []),
     mc_get_vault_redeem_requests = (\<lambda>a. a_ret demo_budgets), mc_get_old_vault_replace_requests = (\<lambda>a. a_ret []),
     mc_get_redeem_period = a_ret 5, mc_get_current_active_block_number = a_ret 5, mc_sleep = (\<lambda>t w. w)\<rparr>"

definition demo_list_wallet :: "list_transaction list \<Rightarrow> unit btc_api" where
  "demo_list_wallet txs = demo_btc_api\<lparr>b_list_transactions := (\<lambda>n. a_ret txs),
     b_get_transaction := (\<lambda>t h. if t = [8] then a_ret demo_payment else a_err Be_ConnectionRefused)\<rparr>"

definition demo_look :: "list_transaction \<rightharpoonup> transaction" where
  "demo_look tx = (if lt_txid tx = [8] then Some demo_payment else None)"

definition no_gauges :: "int vault_gauges" where
  "no_gauges = \<lparr>locked_collateral = 0, collateralization = 0, required_collateral = 0, remaining_time_to_redeem_hours = 0,
     btc_upperbound = 0, btc_lowerbound = 0, btc_actual = 0, issues_open = 0, issues_completed = 0, issues_expired = 0,
     redeems_open = 0, redeems_completed = 0, redeems_expired = 0, average_btc_fee = 0, fee_budget_surplus = 0, utxo_count = 0\<rparr>"

definition no_metrics :: "int metrics_state" where
  "no_metrics = \<lparr>ms_native_currency_balance = 0, ms_gauges = (\<lambda>l. no_gauges), ms_trackers = (\<lambda>v. \<lparr>fee_total = 0, fee_count = 0, surplus = 0\<rparr>)\<rparr>"

abbreviation demo_initialize :: "list_transaction list \<Rightarrow> unit \<times> int metrics_state \<Rightarrow> (unit, service_error) result \<times> unit \<times> int metrics_state" where
  "demo_initialize txs \<equiv> initialize_values demo_metric_lib True demo_metric_calls demo_fee_vault (demo_list_wallet txs)"

abbreviation demo_pay :: "unit \<times> int metrics_state \<Rightarrow> (unit, service_error) result \<times> unit \<times> int metrics_state" where
  "demo_pay \<equiv> for_each (\<lambda>(fee, budget). a_ignore (update_bitcoin_metrics demo_metric_lib True demo_fee_vault (demo_list_wallet []) (Some fee) budget)) [(-4, Some 9)]"

lemma demo_lists: "wallet_lists (demo_list_wallet txs) txs demo_look"
  by (auto simp: wallet_lists_def demo_list_wallet_def demo_look_def)

lemma demo_found: "get_op_return demo_payment = Some demo_id"
  by (simp add: get_op_return_def get_op_return_bytes_def op_return_arr_def demo_payment_def demo_id_def)

lemma demo_fee_budget: "budget_of (fee_budgets demo_budgets []) demo_look demo_listed = Some 9"
  by (simp add: budget_of_def demo_look_def demo_listed_def demo_found fee_budgets_def demo_budgets_def demo_redeem_def)

lemma demo_fit: "amounts_fit (fee_budgets demo_budgets []) demo_look [demo_listed]"
  using demo_fee_budget by (simp add: amounts_fit_def amounts_of_def fee_of_def demo_listed_def)

lemma demo_initialized:
  assumes fit: "amounts_fit (fee_budgets demo_budgets []) demo_look txs"
  shows "fst (demo_initialize txs ((), R)) = Ok ()"
proof -
  have list: "b_list_transactions (demo_list_wallet txs) None = a_ret txs" "b_get_balance (demo_list_wallet txs) None = a_ret 0"
    "b_get_utxo_count (demo_list_wallet txs) = a_ret 0"
    by (simp_all add: demo_list_wallet_def demo_btc_api_def)
  have sum: "fold_surplus True (demo_list_wallet txs) (fee_budgets demo_budgets []) (filter lt_is_send txs) 0 w =
      (Ok (\<Sum>tx\<leftarrow>filter lt_is_send txs. gain_of (fee_budgets demo_budgets []) demo_look tx), w)" for w
    using fold_surplus_sum [OF demo_lists, where acc = 0 and txs = "filter lt_is_send txs" and budgets = "fee_budgets demo_budgets []"] fit
    by (simp add: amounts_fit_def)
  have calls: "mc_get_vault_redeem_requests demo_metric_calls a = a_ret demo_budgets" "mc_get_old_vault_replace_requests demo_metric_calls a = a_ret []"
    "mc_get_vault demo_metric_calls v = a_err Re_VaultNotFound" "mc_get_vault_total_collateral demo_metric_calls v = a_ret 1"
    "mc_get_required_collateral_for_vault demo_metric_calls v = a_ret 1" "mc_get_collateralization_from_vault demo_metric_calls v b = a_ret 1" for a v b
    by (simp_all add: demo_metric_calls_def)
  have one: "one_of demo_metric_lib (wrapped_currency demo_fee_vault) = Ok 1" "one_of demo_metric_lib (collateral_currency demo_fee_vault) = Ok 1"
    by (simp_all add: one_of_def currency_inner_def demo_fee_vault_def vault_id_new_def wrapped_currency_def collateral_currency_def demo_metric_lib_def)
  show ?thesis
    by (simp add: initialize_values_def initialize_fee_budget_surplus_def publish_utxo_count_def publish_bitcoin_balance_def
        publish_average_bitcoin_fee_def publish_expected_bitcoin_balance_def publish_locked_collateral_def
        publish_required_collateral_def publish_collateralization_def publish_fee_budget_surplus_def raw_value_as_currency_def
        if_ok_def set_gauge_def set_trackers_def get_state_def modify_state_def a_ignore_def on_world_def action_defs
        list sum calls one totals_exact [OF fit] in_i64_def)
qed

lemma demo_pays_fee: "fst (demo_pay ((), R)) = Ok ()"
proof -
  have "b_get_balance (demo_list_wallet []) None = a_ret 0" by (simp add: demo_list_wallet_def demo_btc_api_def)
  moreover have "one_of demo_metric_lib (wrapped_currency demo_fee_vault) = Ok 1"
    by (simp add: one_of_def currency_inner_def demo_fee_vault_def vault_id_new_def wrapped_currency_def demo_metric_lib_def)
  ultimately show ?thesis
    by (simp add: for_each_def update_bitcoin_metrics_def publish_bitcoin_balance_def publish_average_bitcoin_fee_def
        publish_fee_budget_surplus_def if_ok_def set_gauge_def set_trackers_def get_state_def modify_state_def a_ignore_def on_world_def
        action_defs i64_abs_def split: option.splits)
qed

lemma unit_world: "fst x = r \<Longrightarrow> \<exists>R. x = (r, ((), R))"
  by (cases x) auto

text \<open>
  Bitcoin Core lists the payment twice, for the output to the recipient and for the \<open>OP_RETURN\<close>, each time
  with the fee: after the restart its fee and its surplus are counted twice.
\<close>

lemma trackers_after_restart_witness:
  "uint (fee_total (ms_trackers (snd (snd (demo_initialize [demo_listed, demo_listed] ((), no_metrics)))) demo_fee_vault)) -
     uint (fee_total (ms_trackers (snd (snd (demo_pay (snd (demo_initialize [] ((), no_metrics)))))) demo_fee_vault)) = 4 \<and>
   surplus (ms_trackers (snd (snd (demo_initialize [demo_listed, demo_listed] ((), no_metrics)))) demo_fee_vault) -
     surplus (ms_trackers (snd (snd (demo_pay (snd (demo_initialize [] ((), no_metrics)))))) demo_fee_vault) = 5"
proof -
  have fit: "amounts_fit (fee_budgets demo_budgets []) demo_look ([] @ [demo_listed, demo_listed])"
    "amounts_fit (fee_budgets demo_budgets []) demo_look []"
    using demo_fee_budget by (simp_all add: amounts_fit_def amounts_of_def fee_of_def demo_listed_def)
  have calls: "mc_get_vault_redeem_requests demo_metric_calls (account demo_fee_vault) = a_ret demo_budgets"
    "mc_get_old_vault_replace_requests demo_metric_calls (account demo_fee_vault) = a_ret []"
    by (simp_all add: demo_metric_calls_def)
  note starts = demo_initialized [OF fit(2), of no_metrics] demo_initialized [OF fit(1) [simplified], of no_metrics]
  obtain R1 where run1: "demo_initialize [] ((), no_metrics) = (Ok (), ((), R1))"
    using unit_world [OF starts(1)] by blast
  obtain R2 where run2: "demo_pay ((), R1) = (Ok (), ((), R2))"
    using unit_world [OF demo_pays_fee] by blast
  obtain R3 where run3: "demo_initialize [demo_listed, demo_listed] ((), no_metrics) = (Ok (), ((), R3))"
    using unit_world [OF starts(2)] by blast
  have later: "wallet_lists (demo_list_wallet [demo_listed, demo_listed]) ([] @ [demo_listed, demo_listed]) demo_look"
    by (simp add: demo_lists)
  have listed: "lt_is_send demo_listed" "fee_of demo_listed = 4" "gain_of (fee_budgets demo_budgets []) demo_look demo_listed = 5"
    using demo_fee_budget by (simp_all add: demo_listed_def fee_of_def gain_of_def)
  show ?thesis
    unfolding run1 snd_conv run2 run3
    using trackers_after_restart [OF demo_lists later calls calls _ fit(2,1) _ _ run1 run2 run3] listed
    by (simp add: budget_paid_def)
qed

section \<open>Requests\<close>

lemma set_gauges:
  assumes "distinct (map (\<lambda>(v, B). metric_label K v) entries)"
  shows "\<exists>G. for_each (\<lambda>(v, B). set_gauge K v (f v)) entries (w, R) = (Ok (), (w, R\<lparr>ms_gauges := G\<rparr>)) \<and>
     (\<forall>(v, B) \<in> set entries. G (metric_label K v) = f v (ms_gauges R (metric_label K v))) \<and>
     (\<forall>l. (\<forall>(v, B) \<in> set entries. metric_label K v \<noteq> l) \<longrightarrow> G l = ms_gauges R l)"
  using assms
proof (induction entries arbitrary: R)
  case Nil
  show ?case by (intro exI [of _ "ms_gauges R"]) simp
next
  case (Cons e entries)
  obtain v B where e: "e = (v, B)" by fastforce
  let ?R = "R\<lparr>ms_gauges := (ms_gauges R)(metric_label K v := f v (ms_gauges R (metric_label K v)))\<rparr>"
  from Cons.IH [of ?R] Cons.prems obtain G where G: "for_each (\<lambda>(v, B). set_gauge K v (f v)) entries (w, ?R) = (Ok (), (w, ?R\<lparr>ms_gauges := G\<rparr>))"
    "\<forall>(v, B) \<in> set entries. G (metric_label K v) = f v (ms_gauges ?R (metric_label K v))"
    "\<forall>l. (\<forall>(v, B) \<in> set entries. metric_label K v \<noteq> l) \<longrightarrow> G l = ms_gauges ?R l" by auto
  have other: "metric_label K v' \<noteq> metric_label K v" if "(v', B') \<in> set entries" for v' B'
    using Cons.prems e that by force
  have "for_each (\<lambda>(v, B). set_gauge K v (f v)) (e # entries) (w, R) = (Ok (), (w, R\<lparr>ms_gauges := G\<rparr>))"
    using G(1) e by (simp add: for_each_Cons set_gauge_def modify_state_def)
  moreover have "G (metric_label K v) = f v (ms_gauges R (metric_label K v))" using G(3) other by fastforce
  moreover have "G (metric_label K v') = f v' (ms_gauges R (metric_label K v'))" if "(v', B') \<in> set entries" for v' B'
    using G(2) other [OF that] that by fastforce
  ultimately show ?case using G(3) e by (intro exI [of _ G]) auto
qed

text \<open>The number of the redeem requests of a vault with a status.\<close>

definition requests_with :: "(H256 \<times> vault_id redeem_request) list \<Rightarrow> vault_id \<Rightarrow> (redeem_status \<Rightarrow> bool) \<Rightarrow> nat" where
  "requests_with redeems v p = card {i. i < size redeems \<and> rd_vault (snd (redeems ! i)) = v \<and> p (rd_status (snd (redeems ! i)))}"

lemma requests_with_filter:
  "size (filter p (map (\<lambda>(_, redeem). rd_status redeem) (filter (\<lambda>(_, redeem). rd_vault redeem = v) redeems))) = requests_with redeems v p"
  unfolding requests_with_def length_filter_conv_card [of "\<lambda>r. rd_vault (snd r) = v \<and> p (rd_status (snd r))", symmetric]
  by (simp add: filter_map o_def split_def conj_commute)

text \<open>No two statuses are counted together, and none is left out.\<close>

lemma requests_counted_once:
  "requests_with redeems v (\<lambda>s. s = Rd_Pending) + requests_with redeems v (\<lambda>s. s = Rd_Completed) + requests_with redeems v is_expired =
     requests_with redeems v (\<lambda>_. True)"
proof -
  have "is_expired s \<longleftrightarrow> s \<noteq> Rd_Pending \<and> s \<noteq> Rd_Completed" for s by (cases s) simp_all
  then show ?thesis
    unfolding requests_with_filter [symmetric] by (induction redeems) auto
qed

definition count_gauges :: "'f metric_lib \<Rightarrow> (H256 \<times> vault_id redeem_request) list \<Rightarrow> vault_id \<Rightarrow> 'f vault_gauges \<Rightarrow> 'f vault_gauges" where
  "count_gauges K redeems v m = m\<lparr>redeems_open := ml_of_int K (int (requests_with redeems v (\<lambda>s. s = Rd_Pending))),
     redeems_completed := ml_of_int K (int (requests_with redeems v (\<lambda>s. s = Rd_Completed))),
     redeems_expired := ml_of_int K (int (requests_with redeems v is_expired))\<rparr>"

lemma redeem_gauges:
  "publish_redeem_count K entries redeems = for_each (\<lambda>(v, B). set_gauge K v (count_gauges K redeems v)) entries"
  unfolding publish_redeem_count_def count_gauges_def Let_def requests_with_filter ..

text \<open>When no two vaults have the same label, the gauges of a vault are its counts.\<close>

lemma redeems_counted:
  assumes "distinct (map (\<lambda>(v, B). metric_label K v) entries)" and "(v, B) \<in> set entries"
    and "publish_redeem_count K entries redeems (w, R) = (r, (w', R'))"
  shows "r = Ok () \<and> ms_gauges R' (metric_label K v) = count_gauges K redeems v (ms_gauges R (metric_label K v))"
  using set_gauges [OF assms(1), of "count_gauges K redeems" w R] assms(2,3) by (auto simp: redeem_gauges)

text \<open>
  C38. Vaults of one account whose collateral is a foreign asset share their gauges, because the label has
  no symbol for a foreign asset: after the redeem requests are counted, the gauges of the first of two such
  vaults show the counts of the second, whatever its own are.
\<close>

theorem foreign_vaults_share_gauges:
  "\<exists>R'. publish_redeem_count K [(vault_id_new a (ForeignAsset i) c, B), (vault_id_new a (ForeignAsset j) c, B')] redeems (w, R) = (Ok (), (w, R')) \<and>
     redeems_open (ms_gauges R' (metric_label K (vault_id_new a (ForeignAsset i) c))) =
       ml_of_int K (int (requests_with redeems (vault_id_new a (ForeignAsset j) c) (\<lambda>s. s = Rd_Pending)))"
proof -
  have label: "metric_label K (vault_id_new a (ForeignAsset i) c) = metric_label K (vault_id_new a (ForeignAsset j) c)"
    by (simp add: metric_label_def symbol_or_empty_def currency_inner_def collateral_currency_def wrapped_currency_def vault_id_new_def)
  show ?thesis
    by (simp add: redeem_gauges for_each_def action_defs set_gauge_def modify_state_def label count_gauges_def)
qed

end
