(* ===== verification/Spec2Isabelle.thy ===== *)
theory Spec2Isabelle
  imports Prelude Errors BtcTypes Requests Cancellation IssueMap Assets Retry Parachain Pallets Submission Events BtcApi BlockStream Issue BitcoinCore CoreFacts ActionLogic Futures Execution ExecutionFacts Relay RelayFacts Electrs Wallet WalletFacts Light Faucet FaucetFacts Oracle OracleFacts Runner RunnerFacts Process Service Vaults VaultsFacts VaultStart Metrics MetricsFacts
begin

text \<open>
  Verification development of the interBTC clients: the vault (\<open>vault/\<close>), which holds bitcoin for the
  wrapped tokens of a parachain and pays them out again, with the relayer that brings the Bitcoin
  headers to the parachain; the faucet, the oracle and the runner; and the crates they share, the
  Bitcoin clients (\<open>bitcoin/\<close>), the parachain client (\<open>runtime/\<close>) and the supervision of services
  (\<open>service/\<close>). Paths are those below \<open>src/\<close>. The code is Rust with asynchronous tasks; the model
  is a shallow embedding of its functions.

  \<^bold>\<open>How the code is translated.\<close> An operation with effects is an action: a function from a world to a
  result and a new world (\<open>Prelude\<close>). The result is \<open>Ok\<close>, \<open>Err\<close> with a constructor of the error type
  of the source, or \<open>Panic\<close>. The world is a type parameter: what a node, a server, the operating
  system or a library does is a record of actions on it, so that each theorem holds for every
  behaviour of the outside. A machine integer is a word; \<open>oc\<close> says whether the build checks plain
  arithmetic for overflow, and statements hold for both. A state of the client beside the world is
  paired with it (\<open>on_world\<close>, \<open>get_state\<close>, \<open>modify_state\<close>). Reads that are joined run from left to
  right; the registrations that \<open>join_all\<close> runs at the start are futures whose calls come in any
  order (\<open>Futures\<close>), and where the interleaving of tasks is the subject they are a step relation. The
  signer of extrinsics, which the tasks share, belongs to a call of \<open>with_unique_signer\<close> while it runs:
  what is said of nonces is said of one call's own submissions. A hash map
  whose order the code sees is an association list. To say which calls an operation makes, it
  runs on calls that are recorded beside the world (\<open>log_result\<close> in \<open>ActionLogic\<close>).

  \<^bold>\<open>The shared crates.\<close>
  \<open>Errors\<close>: the error types of all crates (\<open>*/src/error.rs\<close>) and their classification.
  \<open>BtcTypes\<close>: addresses (\<open>runtime/src/addr.rs\<close>) and the inspection of transactions (\<open>TransactionExt\<close> of
  \<open>bitcoin/src/lib.rs\<close>). \<open>Assets\<close>: currencies, vault ids and the registry of foreign assets
  (\<open>runtime/src/types.rs\<close>, \<open>assets.rs\<close>). \<open>Retry\<close>: \<open>runtime/src/retry.rs\<close>, with the waits of a backoff as
  a finite list; its locale \<open>retried\<close> is the contract of a call that is repeated, and is
  interpreted for extrinsics, wallet calls and executions. \<open>Parachain\<close>, \<open>Pallets\<close>, \<open>Submission\<close>,
  \<open>Events\<close>: \<open>runtime/src/rpc.rs\<close>, namely the signer and its nonce, every operation of the pallet traits,
  what submission guarantees, and the event loop as a step relation; \<open>Events\<close> also has
  \<open>vault/src/delay.rs\<close>. \<open>BtcApi\<close> is the trait \<open>BitcoinCoreApi\<close> as a record; \<open>BitcoinCore\<close> implements it on
  a node, with \<open>CoreFacts\<close> on its polls, fee bumps and the lock around funding; \<open>BlockStream\<close> has the
  streams of \<open>bitcoin/src/iter.rs\<close>. \<open>Electrs\<close>, \<open>Wallet\<close>, \<open>Light\<close> with \<open>WalletFacts\<close> are the electrs client and
  the light client with its own wallet (\<open>bitcoin/src/electrs\<close>, \<open>bitcoin/src/light\<close>). \<open>Service\<close>: the
  shutdown signal, the monitoring of tasks and the connection manager (\<open>service/src/lib.rs\<close>,
  \<open>run_and_monitor_tasks\<close>, parts of \<open>vault/src/main.rs\<close>). \<open>ActionLogic\<close>: pre- and postconditions of
  actions, the locale \<open>polling\<close> of loops that poll, and recorded calls. \<open>Futures\<close>: futures as data, with one
  step for each call they await, joined under an arbitrary order of the steps, and what they record.

  \<^bold>\<open>The vault.\<close> \<open>Requests\<close>: requests and their deadlines (first part of \<open>execution.rs\<close>). \<open>Execution\<close>,
  \<open>ExecutionFacts\<close>: paying, bumping the fee while a payment waits, executing, and the open requests at
  start-up (rest of \<open>execution.rs\<close>). \<open>IssueMap\<close>, \<open>Issue\<close>: the watched issues (\<open>types.rs\<close>) and their
  handling (\<open>issue.rs\<close>). \<open>Cancellation\<close>: the scheduler of \<open>cancellation.rs\<close>. \<open>Relay\<close>, \<open>RelayFacts\<close>: \<open>relay/\<close>.
  \<open>Vaults\<close>, \<open>VaultsFacts\<close>, \<open>VaultStart\<close>: the manager of the vaults and the start (\<open>system.rs\<close>) and the
  handlers of redeem and replace events (\<open>redeem.rs\<close>, \<open>replace.rs\<close>). \<open>Process\<close>: the PID file (\<open>process.rs\<close>).
  \<open>Metrics\<close>, \<open>MetricsFacts\<close>: \<open>metrics.rs\<close>. A vault starts by \<open>start_service\<close>, which registers it, loads its
  wallets (\<open>prepare_wallet\<close>, which calls \<open>Issue\<close>), and hands over to tasks: event handlers (run by the
  loop of \<open>Events\<close>) send block and request events to the schedulers of \<open>Cancellation\<close>, spawn
  payments (\<open>task_body\<close>, which calls \<open>Execution\<close>), and watch issues; \<open>Service\<close> ends all when one ends.

  \<^bold>\<open>The other clients.\<close> \<open>Faucet\<close>, \<open>FaucetFacts\<close>: \<open>faucet/src/http.rs\<close> and the vault's side of it
  (\<open>vault/src/faucet.rs\<close>). \<open>Oracle\<close>, \<open>OracleFacts\<close>: \<open>oracle/src/\<close>. \<open>Runner\<close>, \<open>RunnerFacts\<close>:
  \<open>runner/src/runner.rs\<close>.

  \<^bold>\<open>What is proved.\<close> Payments: a request, an event and the start ask for at most one payment each,
  before the deadline, of the right amount to the right address (\<open>ExecutionFacts\<close>, \<open>VaultsFacts\<close>,
  \<open>Requests\<close>). Bitcoin transactions: what the light wallet selects, funds and signs, that fee bumps keep
  the payment, and that two transactions of one wallet share an input only when one replaces the other (\<open>WalletFacts\<close>, \<open>Light\<close>,
  \<open>CoreFacts\<close>). Issues: an issue is executed only when it is paid, and is then no longer watched
  (\<open>Issue\<close>). The parachain: nonces (\<open>Submission\<close>), order of events (\<open>Events\<close>), headers in order
  (\<open>RelayFacts\<close>), cancellation of expired requests only (\<open>Cancellation\<close>), replacements only with collateral
  (\<open>VaultsFacts\<close>). The start and the life of a service: the calls of the start, with
  one registration for each vault that is missing, in any order of the concurrent calls (\<open>VaultStart\<close>), one vault of an account on a machine (\<open>Process\<close>), shutdown of all tasks (\<open>Service\<close>), one
  client process and verified binaries (\<open>RunnerFacts\<close>). Accounts: the faucet refines a ledger of
  grants (\<open>FaucetFacts\<close>), the oracle reports fair prices up to rounding, at the right scale, along routes that lead
  from the base to the quote (\<open>OracleFacts\<close>), and a restart changes the fees that are tracked by exactly what
  the wallet lists more or less than was paid (\<open>MetricsFacts\<close>). The theorems that end with a counterexample show
  where the code falls short: a wrong price along an accepted route, bytes that are run unverified, two
  vaults that start at once, tasks that miss a shutdown, and gauges that vaults share.

  \<^bold>\<open>Loops and fuel.\<close> A loop with a bound of its own is recursion over its data (blocks, requests,
  waits, inputs). The loops that the code leaves open take the number of rounds: polls of a node
  and of the chain height, rounds of the relayer, the oracle, the runner, the connection manager and
  the metrics, wake-ups of a payment that waits, items of a stream, pages of a history. They
  return \<open>None\<close>, or the prefix, when the rounds are used up; safety properties hold for every
  number of rounds, and where the code returns it is proved that enough rounds exist
  (\<open>reverse_stream_complete\<close>, \<open>history_complete\<close>, and the lemma \<open>wait_for_block_spec\<close>).

  \<^bold>\<open>Not modelled.\<close> The command line and the constructors from it (\<open>*/src/cli.rs\<close>, the \<open>main\<close>
  functions), which only hand values to the parser library and to the code modelled here; the
  list of tasks in \<open>run_service\<close>; logging; the HTTP servers and the Prometheus encoding; the task metrics
  of tokio; \<open>refund.rs\<close>, which no module declares; test support (\<open>runtime/src/integration\<close>, mocks) and
  tests. Of third-party code only what the clients ask of it appears, as parameters: script and signature
  code (\<open>script_lib\<close>, \<open>wallet_lib\<close>), JSON and HTTP (\<open>oracle_lib\<close>, \<open>faucet_lib\<close>), the subxt client and the
  metadata of the parachain (\<open>node\<close>), the RPC client of a node (\<open>core_rpc\<close>), floating point numbers
  (\<open>metric_lib\<close>, \<open>oracle_lib\<close>), the case tables of Unicode (\<open>token_info\<close>) and the operating system
  (\<open>runner_os\<close>, \<open>pid_env\<close>). Where a theorem needs a law of them, it is a hypothesis, and a witness shows
  that it can hold.
\<close>

end
